(* ===== verification/Prelude.thy ===== *)
theory Prelude
  imports Complex_Main "HOL-Library.Multiset"
begin

text \<open>
  Prelude of the development: the collections of rewrite rules the component theories share,
  the stable sort behind \<^verbatim>\<open>Array.prototype.sort\<close> with its laws stated once as a locale over a
  comparator, and decimal printing and reading of natural numbers.
\<close>

named_theorems api_simps \<open>unfolding of the functions of lib/api.ts down to the requests they send\<close>
named_theorems view_simps \<open>unfolding of rendered views\<close>

section \<open>The stable sort of the source's list views\<close>

text \<open>
  \<^verbatim>\<open>xs.sort(cmp)\<close> is stable (ECMAScript 2019) and calls the comparator; \<open>gt a b\<close> says that
  \<^verbatim>\<open>cmp(a, b)\<close> is a positive number. A comparison that is zero or \<^verbatim>\<open>NaN\<close> keeps the order. For a
  consistent comparator the result is determined, so insertion sort models every engine.
\<close>

fun js_insert :: "('a \<Rightarrow> 'a \<Rightarrow> bool) \<Rightarrow> 'a \<Rightarrow> 'a list \<Rightarrow> 'a list" where
  "js_insert gt x [] = [x]"
| "js_insert gt x (y # ys) = (if gt x y then y # js_insert gt x ys else x # y # ys)"

fun js_sort :: "('a \<Rightarrow> 'a \<Rightarrow> bool) \<Rightarrow> 'a list \<Rightarrow> 'a list" where
  "js_sort gt [] = []"
| "js_sort gt (x # xs) = js_insert gt x (js_sort gt xs)"

lemma mset_js_insert [simp]: "mset (js_insert gt x xs) = add_mset x (mset xs)"
  by (induction xs) auto

lemma mset_js_sort [simp]: "mset (js_sort gt xs) = mset xs"
  by (induction xs) auto

lemma set_js_insert [simp]: "set (js_insert gt x xs) = insert x (set xs)"
  by (induction xs) auto

lemma set_js_sort [simp]: "set (js_sort gt xs) = set xs"
  by (induction xs) auto

lemma length_js_sort [simp]: "length (js_sort gt xs) = length xs"
  by (metis mset_js_sort size_mset)

lemma distinct_js_sort [simp]: "distinct (map f (js_sort gt xs)) = distinct (map f xs)"
  by (rule mset_eq_imp_distinct_iff) simp

lemma js_sort_never: "(\<And>x y. \<not> gt x y) \<Longrightarrow> js_sort gt xs = xs"
proof (induction xs)
  case (Cons x xs)
  from Cons.prems have "js_insert gt x ys = x # ys" for ys by (cases ys) simp_all
  with Cons.IH [OF Cons.prems] show ?case by (simp only: js_sort.simps)
qed simp

text \<open>
  The contract of a comparator: \<open>gt\<close> is asymmetric and its complement is transitive, that is,
  "not greater" is a total preorder. It is what \<^verbatim>\<open>sort\<close> requires of a consistent comparator.
\<close>

locale js_comparator =
  fixes gt :: "'a \<Rightarrow> 'a \<Rightarrow> bool"
  assumes gt_asym: "gt x y \<Longrightarrow> \<not> gt y x"
    and ngt_trans: "\<not> gt x y \<Longrightarrow> \<not> gt y z \<Longrightarrow> \<not> gt x z"
begin

lemma insert_ordered:
  "sorted_wrt (\<lambda>a b. \<not> gt a b) xs \<Longrightarrow> sorted_wrt (\<lambda>a b. \<not> gt a b) (js_insert gt x xs)"
proof (induction xs)
  case (Cons y ys)
  show ?case
  proof (cases "gt x y")
    case True
    then have "\<not> gt y x" by (rule gt_asym)
    with True Cons show ?thesis by simp
  next
    case False
    with Cons.prems have "\<forall>z \<in> set ys. \<not> gt x z" by (auto dest: ngt_trans)
    with False Cons.prems show ?thesis by simp
  qed
qed simp

lemma sort_ordered: "sorted_wrt (\<lambda>a b. \<not> gt a b) (js_sort gt xs)"
  by (induction xs) (auto intro: insert_ordered)

lemma filter_insert:
  assumes "sorted_wrt (\<lambda>a b. \<not> gt a b) ys"
  shows "filter (\<lambda>z. \<not> gt c z \<and> \<not> gt z c) (js_insert gt x ys) =
    filter (\<lambda>z. \<not> gt c z \<and> \<not> gt z c) (x # ys)"
  using assms
proof (induction ys)
  case (Cons y ys)
  show ?case
  proof (cases "gt x y")
    case True
    then have "\<not> (\<not> gt c x \<and> \<not> gt x c \<and> \<not> gt c y \<and> \<not> gt y c)"
      using ngt_trans by blast
    with True Cons show ?thesis by auto
  qed simp
qed simp

lemma sort_stable:
  "filter (\<lambda>z. \<not> gt c z \<and> \<not> gt z c) (js_sort gt xs) = filter (\<lambda>z. \<not> gt c z \<and> \<not> gt z c) xs"
proof (induction xs)
  case (Cons x xs)
  then show ?case using filter_insert [OF sort_ordered] by simp
qed simp

lemma ngt_refl: "\<not> gt x x"
  using gt_asym by blast

end

lemma js_comparator_flip: "js_comparator gt \<Longrightarrow> js_comparator (\<lambda>a b. gt b a)"
  unfolding js_comparator_def by blast

lemma js_comparator_const: "js_comparator (\<lambda>a b. False)"
  by unfold_locales auto

lemma js_comparator_key: "js_comparator (\<lambda>a b. (f b :: 'b :: linorder) < f a)"
  by unfold_locales auto

lemma js_comparator_on: "js_comparator gt \<Longrightarrow> js_comparator (\<lambda>a b. gt (f a) (f b))"
  unfolding js_comparator_def by blast

section \<open>Lists\<close>

definition indexed :: "'a list \<Rightarrow> (nat \<times> 'a) list" where
  "indexed xs = zip [0..<length xs] xs"

lemma length_indexed [simp]: "length (indexed xs) = length xs"
  by (simp add: indexed_def)

lemma map_snd_indexed [simp]: "map snd (indexed xs) = xs"
  by (simp add: indexed_def)

lemma map_fst_indexed [simp]: "map fst (indexed xs) = [0..<length xs]"
  by (simp add: indexed_def)

lemma map_indexed_fst: "map (\<lambda>p. f (fst p)) (indexed xs) = map f [0..<length xs]"
  unfolding map_fst_indexed [symmetric] map_map by (simp add: comp_def)

lemma map_indexed_snd: "map (\<lambda>p. f (snd p)) (indexed xs) = map f xs"
  by (subst (2) map_snd_indexed [symmetric]) (simp add: comp_def del: map_snd_indexed)

lemma in_set_indexed: "(i, x) \<in> set (indexed xs) \<longleftrightarrow> i < length xs \<and> xs ! i = x"
  by (force simp: indexed_def in_set_zip)

lemma nth_indexed [simp]: "i < length xs \<Longrightarrow> indexed xs ! i = (i, xs ! i)"
  by (simp add: indexed_def)

lemma map_snd_filter_indexed [simp]: "map snd (filter (\<lambda>p. P (snd p)) (indexed xs)) = filter P xs"
  using filter_map [of P snd "indexed xs"] by (simp add: comp_def)

lemma indexed_Nil [simp]: "indexed [] = []"
  by (simp add: indexed_def)

lemma map_of_rev_distinct:
  assumes "distinct (map fst xs)"
  shows "map_of (rev xs) k = map_of xs k"
proof -
  from assms have "distinct (map fst (rev xs))" by (simp add: rev_map [symmetric])
  with assms have "map_of (rev xs) k = Some v \<longleftrightarrow> map_of xs k = Some v" for v
    by (simp only: map_of_eq_Some_iff set_rev)
  then show ?thesis by (cases "map_of xs k"; cases "map_of (rev xs) k") auto
qed

lemma map_of_map_upd:
  "k \<in> fst ` set xs \<Longrightarrow> map_of (map (\<lambda>(a, b). (a, if a = k then v else b)) xs) k = Some v"
  "k' \<noteq> k \<Longrightarrow> map_of (map (\<lambda>(a, b). (a, if a = k then v else b)) xs) k' = map_of xs k'"
  by (induction xs) (auto split: if_splits)

section \<open>Decimal numbers\<close>

definition is_digit :: "char \<Rightarrow> bool" where
  "is_digit c \<longleftrightarrow> 48 \<le> (of_char c :: nat) \<and> (of_char c :: nat) \<le> 57"

definition digit_val :: "char \<Rightarrow> nat" where
  "digit_val c = of_char c - 48"

definition digit_char :: "nat \<Rightarrow> char" where
  "digit_char d = char_of (48 + d)"

fun show_nat :: "nat \<Rightarrow> string" where
  "show_nat n = (if n < 10 then [digit_char n] else show_nat (n div 10) @ [digit_char (n mod 10)])"

declare show_nat.simps [simp del]

definition digits_val :: "string \<Rightarrow> nat" where
  "digits_val s = foldl (\<lambda>a c. 10 * a + digit_val c) 0 s"

lemma of_char_digit_char [simp]: "d < 10 \<Longrightarrow> of_char (digit_char d) = (48 + d :: nat)"
  by (simp add: digit_char_def)

lemma digit_val_char [simp]: "d < 10 \<Longrightarrow> digit_val (digit_char d) = d"
  by (simp add: digit_val_def)

lemma is_digit_char [simp]: "d < 10 \<Longrightarrow> is_digit (digit_char d)"
  by (simp add: is_digit_def)

lemma show_nat_nonempty [simp]: "show_nat n \<noteq> []"
  by (subst show_nat.simps) simp

lemma show_nat_digits: "c \<in> set (show_nat n) \<Longrightarrow> is_digit c"
proof (induction n rule: show_nat.induct)
  case (1 n)
  then show ?case by (subst (asm) (2) show_nat.simps) (auto split: if_splits)
qed

lemma digits_val_snoc [simp]: "digits_val (s @ [c]) = 10 * digits_val s + digit_val c"
  by (simp add: digits_val_def)

lemma digits_val_Nil [simp]: "digits_val [] = 0"
  by (simp add: digits_val_def)

lemma digits_val_single [simp]: "digits_val [c] = digit_val c"
  by (simp add: digits_val_def)

lemma digits_val_show [simp]: "digits_val (show_nat n) = n"
proof (induction n rule: show_nat.induct)
  case (1 n)
  then show ?case by (subst show_nat.simps) auto
qed

lemma show_nat_inj [simp]: "show_nat m = show_nat n \<longleftrightarrow> m = n"
  by (metis digits_val_show)

lemma show_nat_hd_digit: "is_digit (hd (show_nat n))"
  by (rule show_nat_digits [of _ n]) simp

definition show_int :: "int \<Rightarrow> string" where
  "show_int i = (if i < 0 then CHR ''-'' # show_nat (nat (- i)) else show_nat (nat i))"

lemma show_int_nat [simp]: "show_int (int n) = show_nat n"
  by (simp add: show_int_def)

end
