(* ===== verification/JSString.thy ===== *)
theory JSString
  imports Prelude "HOL-Library.Sublist"
begin

text \<open>
  The string operations of JavaScript that the web interface uses. A string is a list of code
  units; the model keeps to the code units below 256 (the type \<^typ>\<open>char\<close>), which covers ASCII
  and Latin-1. Numbers are exact: \<open>Fin r\<close> is the rational \<open>r\<close>, so that integers up to
  \<open>2 ^ 53\<close>, which are all the source computes with, agree with IEEE doubles; \<open>NaN\<close> and the
  two infinities are values of their own.
\<close>

section \<open>Characters and strings\<close>

definition is_ws :: "char \<Rightarrow> bool" where
  \<comment> \<open>The class \<^verbatim>\<open>\s\<close> of regular expressions, which is also what \<^verbatim>\<open>trim\<close> removes.\<close>
  "is_ws c \<longleftrightarrow> (let n = (of_char c :: nat) in (9 \<le> n \<and> n \<le> 13) \<or> n = 32 \<or> n = 160)"

definition js_trim_start :: "string \<Rightarrow> string" where
  "js_trim_start s = dropWhile is_ws s"

definition js_trim :: "string \<Rightarrow> string" where
  "js_trim s = rev (dropWhile is_ws (rev (dropWhile is_ws s)))"

fun js_includes :: "string \<Rightarrow> string \<Rightarrow> bool" where
  "js_includes [] t = (t = [])"
| "js_includes (c # s) t = (prefix t (c # s) \<or> js_includes s t)"

fun js_split :: "char \<Rightarrow> string \<Rightarrow> string list" where
  \<comment> \<open>\<^verbatim>\<open>s.split(d)\<close> for a separator of one character: the empty string gives one empty part.\<close>
  "js_split d [] = [[]]"
| "js_split d (c # s) =
     (if c = d then [] # js_split d s
      else (case js_split d s of [] \<Rightarrow> [[c]] | p # ps \<Rightarrow> (c # p) # ps))"

definition startsWith :: "string \<Rightarrow> string \<Rightarrow> bool" where
  "startsWith s p \<longleftrightarrow> take (length p) s = p"

fun js_join :: "string \<Rightarrow> string list \<Rightarrow> string" where
  "js_join sep [] = []"
| "js_join sep [x] = x"
| "js_join sep (x # y # zs) = x @ sep @ js_join sep (y # zs)"

definition lower_char :: "char \<Rightarrow> char" where
  "lower_char c = (let n = (of_char c :: nat) in
     if (65 \<le> n \<and> n \<le> 90) \<or> (192 \<le> n \<and> n \<le> 222 \<and> n \<noteq> 215) then char_of (n + 32) else c)"

definition js_toLowerCase :: "string \<Rightarrow> string" where
  "js_toLowerCase s = map lower_char s"

definition upper_char :: "char \<Rightarrow> string" where
  \<comment> \<open>The sharp s is the one Latin-1 letter whose upper case has two letters.\<close>
  "upper_char c = (let n = (of_char c :: nat) in
     if n = 223 then ''SS''
     else if (97 \<le> n \<and> n \<le> 122) \<or> (224 \<le> n \<and> n \<le> 254 \<and> n \<noteq> 247) then [char_of (n - 32)] else [c])"

definition js_capitalize :: "string \<Rightarrow> string" where
  \<comment> \<open>\<^verbatim>\<open>s.charAt(0).toUpperCase() + s.slice(1)\<close>\<close>
  "js_capitalize s = (case s of [] \<Rightarrow> [] | c # r \<Rightarrow> upper_char c @ r)"

subsection \<open>Facts\<close>

lemma is_digit_not_ws [simp]: "is_digit c \<Longrightarrow> \<not> is_ws c"
  by (auto simp: is_digit_def is_ws_def Let_def)

lemma js_split_nonempty [simp]: "js_split d s \<noteq> []"
  by (cases s) (auto split: list.splits)

lemma js_split_no_sep: "d \<notin> set s \<Longrightarrow> js_split d s = [s]"
  by (induction s) auto

lemma js_split_append: "d \<notin> set s \<Longrightarrow> js_split d (s @ d # t) = s # js_split d t"
  by (induction s) (auto split: list.splits)

lemma js_split_length: "length (js_split d s) = Suc (count_list s d)"
  by (induction s) (auto split: list.splits simp: Suc_length_conv)

lemma js_includes_iff: "js_includes s t \<longleftrightarrow> (\<exists>u v. s = u @ t @ v)"
proof (induction s)
  case (Cons c s)
  show ?case
  proof
    assume "js_includes (c # s) t"
    then consider "prefix t (c # s)" | "js_includes s t" by auto
    then show "\<exists>u v. c # s = u @ t @ v"
    proof cases
      case 1
      then obtain v where "c # s = t @ v" by (auto simp: prefix_def)
      then have "c # s = [] @ t @ v" by simp
      then show ?thesis by blast
    next
      case 2
      with Cons.IH obtain u v where "s = u @ t @ v" by blast
      then have "c # s = (c # u) @ t @ v" by simp
      then show ?thesis by blast
    qed
  next
    assume "\<exists>u v. c # s = u @ t @ v"
    then obtain u v where eq: "c # s = u @ t @ v" by blast
    show "js_includes (c # s) t"
    proof (cases u)
      case Nil
      with eq have "prefix t (c # s)" by (simp add: prefix_def)
      then show ?thesis by simp
    next
      case (Cons a u')
      with eq have "s = u' @ t @ v" by simp
      with Cons.IH show ?thesis by auto
    qed
  qed
qed simp

lemma js_includes_Nil [simp]: "js_includes s []"
  by (cases s) auto

lemma js_includes_char: "js_includes s [c] \<longleftrightarrow> c \<in> set s"
  by (auto simp: js_includes_iff in_set_conv_decomp)

lemma js_trim_no_ws: "(\<And>c. c \<in> set s \<Longrightarrow> \<not> is_ws c) \<Longrightarrow> js_trim s = s"
proof -
  assume *: "\<And>c. c \<in> set s \<Longrightarrow> \<not> is_ws c"
  have id: "dropWhile is_ws t = t" if "\<And>c. c \<in> set t \<Longrightarrow> \<not> is_ws c" for t
    using that by (cases t) auto
  have "dropWhile is_ws s = s" and "dropWhile is_ws (rev s) = rev s"
    by (rule id, simp add: *)+
  then show ?thesis by (simp add: js_trim_def)
qed

lemma js_trim_digits [simp]: "js_trim (show_nat n) = show_nat n"
  by (rule js_trim_no_ws) (auto dest: show_nat_digits)

lemma all_dropWhile: "(\<forall>c \<in> set (dropWhile P s). P c) \<longleftrightarrow> (\<forall>c \<in> set s. P c)"
  by (induction s) auto

lemma js_trim_empty_iff: "js_trim s = [] \<longleftrightarrow> (\<forall>c \<in> set s. is_ws c)"
  by (simp add: js_trim_def dropWhile_eq_Nil_conv all_dropWhile)

section \<open>Numbers\<close>

datatype jsnum = NaN | PosInf | NegInf | Fin rat

fun js_ge :: "jsnum \<Rightarrow> jsnum \<Rightarrow> bool" where
  "js_ge NaN _ = False"
| "js_ge _ NaN = False"
| "js_ge PosInf _ = True"
| "js_ge _ NegInf = True"
| "js_ge NegInf _ = False"
| "js_ge _ PosInf = False"
| "js_ge (Fin a) (Fin b) = (b \<le> a)"

fun js_gt :: "jsnum \<Rightarrow> jsnum \<Rightarrow> bool" where
  "js_gt NaN _ = False"
| "js_gt _ NaN = False"
| "js_gt _ PosInf = False"
| "js_gt PosInf _ = True"
| "js_gt NegInf _ = False"
| "js_gt _ NegInf = True"
| "js_gt (Fin a) (Fin b) = (b < a)"

fun js_neg :: "jsnum \<Rightarrow> jsnum" where
  "js_neg NaN = NaN"
| "js_neg PosInf = NegInf"
| "js_neg NegInf = PosInf"
| "js_neg (Fin a) = Fin (- a)"

fun js_add :: "jsnum \<Rightarrow> jsnum \<Rightarrow> jsnum" where
  "js_add NaN _ = NaN"
| "js_add _ NaN = NaN"
| "js_add PosInf NegInf = NaN"
| "js_add NegInf PosInf = NaN"
| "js_add PosInf _ = PosInf"
| "js_add NegInf _ = NegInf"
| "js_add _ PosInf = PosInf"
| "js_add _ NegInf = NegInf"
| "js_add (Fin a) (Fin b) = Fin (a + b)"

definition js_sub :: "jsnum \<Rightarrow> jsnum \<Rightarrow> jsnum" where
  "js_sub a b = js_add a (js_neg b)"

definition num_of_nat :: "nat \<Rightarrow> jsnum" where
  "num_of_nat n = Fin (of_nat n)"

lemma js_sub_Fin [simp]: "js_sub (Fin a) (Fin b) = Fin (a - b)"
  by (simp add: js_sub_def)

lemma js_add_NaN [simp]: "js_add a NaN = NaN"
  by (cases a) auto

lemma js_sub_NaN [simp]: "js_sub NaN b = NaN" "js_sub a NaN = NaN"
  by (auto simp: js_sub_def)

lemma js_gt_NaN [simp]: "\<not> js_gt a NaN"
  by (cases a) auto

subsection \<open>Printing\<close>

fun frac_digits :: "nat \<Rightarrow> rat \<Rightarrow> string" where
  "frac_digits 0 r = []"
| "frac_digits (Suc n) r =
     (if r = 0 then [] else digit_char (nat \<lfloor>10 * r\<rfloor>) # frac_digits n (10 * r - of_int \<lfloor>10 * r\<rfloor>))"

fun show_num :: "jsnum \<Rightarrow> string" where
  "show_num NaN = ''NaN''"
| "show_num PosInf = ''Infinity''"
| "show_num NegInf = ''-Infinity''"
| "show_num (Fin r) =
     (if of_int \<lfloor>r\<rfloor> = r then show_int \<lfloor>r\<rfloor>
      else (if r < 0 then ''-'' else []) @ show_nat (nat \<lfloor>\<bar>r\<bar>\<rfloor>) @ ''.'' @
        frac_digits 17 (\<bar>r\<bar> - of_int \<lfloor>\<bar>r\<bar>\<rfloor>))"

lemma show_num_nat [simp]: "show_num (num_of_nat n) = show_nat n"
  by (simp add: num_of_nat_def)

subsection \<open>parseInt\<close>

definition hex_val :: "char \<Rightarrow> nat option" where
  "hex_val c = (let n = (of_char c :: nat) in
     if 48 \<le> n \<and> n \<le> 57 then Some (n - 48)
     else if 65 \<le> n \<and> n \<le> 70 then Some (n - 55)
     else if 97 \<le> n \<and> n \<le> 102 then Some (n - 87) else None)"

definition hex_digits_val :: "string \<Rightarrow> nat" where
  "hex_digits_val s = foldl (\<lambda>a c. 16 * a + the (hex_val c)) 0 s"

definition signed :: "bool \<Rightarrow> jsnum \<Rightarrow> jsnum" where
  "signed neg x = (if neg then js_neg x else x)"

fun split_sign :: "string \<Rightarrow> bool \<times> string" where
  "split_sign [] = (False, [])"
| "split_sign (c # s) =
     (if c = CHR ''-'' then (True, s) else if c = CHR ''+'' then (False, s) else (False, c # s))"

definition hex_prefix :: "string \<Rightarrow> bool" where
  "hex_prefix s \<longleftrightarrow> take 2 s = ''0x'' \<or> take 2 s = ''0X''"

definition parseInt :: "string \<Rightarrow> jsnum" where
  \<comment> \<open>Leading white space, a sign, an optional hexadecimal prefix, then the longest run of digits;
      what follows the run is ignored, and no digit at all is \<^verbatim>\<open>NaN\<close>.\<close>
  "parseInt s = (let (neg, t) = split_sign (js_trim_start s) in
     if hex_prefix t then
       (let ds = takeWhile (\<lambda>c. hex_val c \<noteq> None) (drop 2 t) in
        if ds = [] then NaN else signed neg (Fin (of_nat (hex_digits_val ds))))
     else
       (let ds = takeWhile is_digit t in
        if ds = [] then NaN else signed neg (Fin (of_nat (digits_val ds)))))"

lemma hex_prefix_digits: "is_digit c \<Longrightarrow> \<forall>d \<in> set s. is_digit d \<Longrightarrow> \<not> hex_prefix (c # s)"
  by (cases s) (auto simp: hex_prefix_def is_digit_def)

lemma is_digit_ne [simp]: "is_digit c \<Longrightarrow> c \<noteq> CHR ''-''" "is_digit c \<Longrightarrow> c \<noteq> CHR ''+''"
  "is_digit c \<Longrightarrow> c \<noteq> CHR ''x''" "is_digit c \<Longrightarrow> c \<noteq> CHR ''X''" "is_digit c \<Longrightarrow> c \<noteq> CHR ''.''"
  "is_digit c \<Longrightarrow> c \<noteq> CHR ''e''" "is_digit c \<Longrightarrow> c \<noteq> CHR ''E''"
  by (auto simp: is_digit_def)

lemma digit_string_cases:
  assumes "ds \<noteq> []" and "\<forall>c \<in> set ds. is_digit c"
  obtains c s where "ds = c # s" and "is_digit c" and "\<forall>c \<in> set s. is_digit c"
  using assms by (cases ds) auto

lemma parseInt_digits_suffix:
  assumes ds: "ds \<noteq> []" "\<forall>c \<in> set ds. is_digit c" and r: "r = [] \<or> \<not> is_digit (hd r)"
    and x: "r = [] \<or> hd r \<noteq> CHR ''x'' \<and> hd r \<noteq> CHR ''X''"
  shows "parseInt (ds @ r) = Fin (of_nat (digits_val ds))"
proof -
  from ds obtain c s where c: "ds = c # s" "is_digit c" "\<forall>c \<in> set s. is_digit c"
    by (rule digit_string_cases)
  have "js_trim_start (ds @ r) = ds @ r" using c by (simp add: js_trim_start_def)
  moreover have "split_sign (ds @ r) = (False, ds @ r)" using c by simp
  moreover have "\<not> hex_prefix (ds @ r)"
    using c x by (cases s; cases r) (auto simp: hex_prefix_def)
  moreover have "takeWhile is_digit (ds @ r) = ds"
    using ds r by (cases r) (auto simp: takeWhile_append)
  ultimately show ?thesis using ds by (simp add: parseInt_def signed_def)
qed

lemma parseInt_show_nat [simp]: "parseInt (show_nat n) = num_of_nat n"
  using parseInt_digits_suffix [of "show_nat n" "[]"] show_nat_digits
  by (auto simp: num_of_nat_def)

lemma parseInt_not_digit:
  assumes "js_trim_start s = t" and "split_sign t = (neg, u)" and "\<not> hex_prefix u"
    and "u = [] \<or> \<not> is_digit (hd u)"
  shows "parseInt s = NaN"
  using assms by (cases u) (auto simp: parseInt_def)

subsection \<open>Number(string)\<close>

definition dec_value :: "string \<Rightarrow> string \<Rightarrow> int \<Rightarrow> rat" where
  "dec_value i f e = (let m = of_nat (digits_val (i @ f)); k = e - int (length f) in
     if 0 \<le> k then m * 10 ^ nat k else m / 10 ^ nat (- k))"

definition read_exponent :: "string \<Rightarrow> int option" where
  \<comment> \<open>What follows the digits of a decimal literal: nothing, or an exponent that ends the string.\<close>
  "read_exponent s = (case s of [] \<Rightarrow> Some 0
     | c # r \<Rightarrow> if c \<noteq> CHR ''e'' \<and> c \<noteq> CHR ''E'' then None
         else (let (neg, ds) = split_sign r in
           if ds = [] \<or> \<not> list_all is_digit ds then None
           else Some (if neg then - int (digits_val ds) else int (digits_val ds))))"

definition read_unsigned :: "string \<Rightarrow> jsnum" where
  "read_unsigned s = (if s = ''Infinity'' then PosInf else
     let i = takeWhile is_digit s; r = dropWhile is_digit s;
         (f, q) = (case r of [] \<Rightarrow> ([], [])
           | c # r' \<Rightarrow> if c = CHR ''.'' then (takeWhile is_digit r', dropWhile is_digit r') else ([], r))
     in if i = [] \<and> f = [] then NaN
        else (case read_exponent q of None \<Rightarrow> NaN | Some e \<Rightarrow> Fin (dec_value i f e)))"

definition radix_digit :: "nat \<Rightarrow> char \<Rightarrow> bool" where
  "radix_digit b c \<longleftrightarrow> (case hex_val c of None \<Rightarrow> False | Some d \<Rightarrow> d < b)"

definition read_radix :: "nat \<Rightarrow> string \<Rightarrow> jsnum" where
  "read_radix b s = (if s = [] \<or> \<not> list_all (radix_digit b) s then NaN
     else Fin (of_nat (foldl (\<lambda>a c. b * a + the (hex_val c)) 0 s)))"

definition js_Number :: "string \<Rightarrow> jsnum" where
  "js_Number s = (let t = js_trim s in
     if t = [] then Fin 0
     else if hex_prefix t then read_radix 16 (drop 2 t)
     else if take 2 t = ''0o'' \<or> take 2 t = ''0O'' then read_radix 8 (drop 2 t)
     else if take 2 t = ''0b'' \<or> take 2 t = ''0B'' then read_radix 2 (drop 2 t)
     else (let (neg, u) = split_sign t in signed neg (read_unsigned u)))"

lemma take2_digits:
  assumes "\<forall>c \<in> set s. is_digit c" and "\<not> is_digit y"
  shows "take 2 s \<noteq> [x, y]"
  using assms by (cases s; cases "tl s") auto

lemma not_digit_letters [simp]:
  "\<not> is_digit CHR ''x''" "\<not> is_digit CHR ''X''" "\<not> is_digit CHR ''o''" "\<not> is_digit CHR ''O''"
  "\<not> is_digit CHR ''b''" "\<not> is_digit CHR ''B''" "\<not> is_digit CHR ''I''" "\<not> is_digit CHR ''-''"
  "\<not> is_digit CHR ''.''" "\<not> is_digit CHR 0x09"
  by (simp_all add: is_digit_def)

lemma js_Number_digits:
  assumes ds: "ds \<noteq> []" "\<forall>c \<in> set ds. is_digit c"
  shows "js_Number ds = Fin (of_nat (digits_val ds))"
proof -
  from ds obtain c s where c: "ds = c # s" "is_digit c" "\<forall>c \<in> set s. is_digit c"
    by (rule digit_string_cases)
  have "js_trim ds = ds" using ds by (auto intro: js_trim_no_ws)
  moreover have "\<not> hex_prefix ds" using take2_digits [OF ds(2)] by (simp add: hex_prefix_def)
  moreover have "take 2 ds \<noteq> ''0o''" "take 2 ds \<noteq> ''0O''" "take 2 ds \<noteq> ''0b''" "take 2 ds \<noteq> ''0B''"
    by (rule take2_digits [OF ds(2)], simp)+
  moreover have "split_sign ds = (False, ds)" using c by simp
  moreover have "read_unsigned ds = Fin (of_nat (digits_val ds))"
  proof -
    have inf: "ds \<noteq> ''Infinity''" using c by auto
    have tw: "takeWhile is_digit ds = ds" and dw: "dropWhile is_digit ds = []" using ds by auto
    show ?thesis unfolding read_unsigned_def Let_def tw dw
      using inf ds by (simp add: read_exponent_def dec_value_def)
  qed
  ultimately show ?thesis using ds by (simp add: js_Number_def signed_def)
qed

lemma js_Number_show_nat [simp]: "js_Number (show_nat n) = num_of_nat n"
  using js_Number_digits [of "show_nat n"] show_nat_digits by (auto simp: num_of_nat_def)

lemma js_Number_Nil [simp]: "js_Number [] = Fin 0"
  by (simp add: js_Number_def js_trim_def)

end
