(* ===== verification/JSValue.thy ===== *)
theory JSValue
  imports JSString
begin

text \<open>
  The dynamically typed values the web interface works on. What the server answers is \<^verbatim>\<open>any\<close> in the
  source, so the model keeps it as a value of type \<open>jsval\<close> and gives every operator the source
  applies to it (\<^verbatim>\<open>||\<close>, \<^verbatim>\<open>?.\<close>, \<^verbatim>\<open>===\<close>, \<^verbatim>\<open>>=\<close>, template strings) the meaning the language gives it.
  An operation that can raise returns \<open>Inl e\<close>.
\<close>

section \<open>Values\<close>

datatype jsval =
    JUndef
  | JNull
  | JBool bool
  | JNum jsnum
  | JStr string
  | JArr "jsval list"
  | JObj "(string \<times> jsval) list"

abbreviation JNat :: "nat \<Rightarrow> jsval" where
  "JNat n \<equiv> JNum (num_of_nat n)"

datatype exn =
    AxiosError string jsval   \<comment> \<open>message and response of a failed request\<close>
  | NativeError string string \<comment> \<open>name and message of an error the engine raises\<close>
  | Thrown jsval              \<comment> \<open>any other value passed where an error is expected\<close>

type_synonym 'a res = "exn + 'a"

abbreviation type_error :: "string \<Rightarrow> exn" where
  "type_error m \<equiv> NativeError ''TypeError'' m"

definition rbind :: "'a res \<Rightarrow> ('a \<Rightarrow> 'b res) \<Rightarrow> 'b res" where
  "rbind m f = (case m of Inl e \<Rightarrow> Inl e | Inr x \<Rightarrow> f x)"

definition try_catch :: "'a res \<Rightarrow> (exn \<Rightarrow> 'a res) \<Rightarrow> 'a res" where
  "try_catch m h = (case m of Inl e \<Rightarrow> h e | Inr x \<Rightarrow> Inr x)"

fun rmap :: "('a \<Rightarrow> 'b res) \<Rightarrow> 'a list \<Rightarrow> 'b list res" where
  "rmap f [] = Inr []"
| "rmap f (x # xs) = rbind (f x) (\<lambda>y. rbind (rmap f xs) (\<lambda>ys. Inr (y # ys)))"

lemma rbind_simps [simp]: "rbind (Inr x) f = f x" "rbind (Inl e) f = Inl e"
  by (simp_all add: rbind_def)

lemma try_catch_simps [simp]: "try_catch (Inr x) h = Inr x" "try_catch (Inl e) h = h e"
  by (simp_all add: try_catch_def)

lemma rbind_eq_Inr [simp]: "rbind m f = Inr y \<longleftrightarrow> (\<exists>x. m = Inr x \<and> f x = Inr y)"
  by (cases m) auto

lemma rmap_Inr [simp]: "rmap (\<lambda>x. Inr (f x)) xs = Inr (map f xs)"
  by (induction xs) auto

lemma rmap_cong_Inr: "(\<And>x. x \<in> set xs \<Longrightarrow> f x = Inr (g x)) \<Longrightarrow> rmap f xs = Inr (map g xs)"
  by (induction xs) auto

lemma length_rmap: "rmap f xs = Inr ys \<Longrightarrow> length ys = length xs"
  by (induction xs arbitrary: ys) auto

lemma rmap_nth: "rmap f xs = Inr ys \<Longrightarrow> i < length xs \<Longrightarrow> f (xs ! i) = Inr (ys ! i)"
  by (induction xs arbitrary: ys i) (auto simp: nth_Cons split: nat.splits)

section \<open>Operators\<close>

fun truthy :: "jsval \<Rightarrow> bool" where
  "truthy JUndef = False"
| "truthy JNull = False"
| "truthy (JBool b) = b"
| "truthy (JNum x) = (x \<noteq> NaN \<and> x \<noteq> Fin 0)"
| "truthy (JStr s) = (s \<noteq> [])"
| "truthy (JArr xs) = True"
| "truthy (JObj kvs) = True"

definition js_or :: "jsval \<Rightarrow> jsval \<Rightarrow> jsval" where
  "js_or a b = (if truthy a then a else b)"

definition js_and :: "jsval \<Rightarrow> jsval \<Rightarrow> jsval" where
  "js_and a b = (if truthy a then b else a)"

fun nullish :: "jsval \<Rightarrow> bool" where
  "nullish JUndef = True"
| "nullish JNull = True"
| "nullish _ = False"

definition js_prop :: "jsval \<Rightarrow> string \<Rightarrow> jsval" where
  \<comment> \<open>Property of a value that has properties; a missing one is \<^verbatim>\<open>undefined\<close>.\<close>
  "js_prop v k = (case v of
       JObj kvs \<Rightarrow> (case map_of kvs k of Some x \<Rightarrow> x | None \<Rightarrow> JUndef)
     | JArr xs \<Rightarrow> (if k = ''length'' then JNat (length xs) else JUndef)
     | JStr s \<Rightarrow> (if k = ''length'' then JNat (length s) else JUndef)
     | _ \<Rightarrow> JUndef)"

fun kind_name :: "jsval \<Rightarrow> string" where
  "kind_name JUndef = ''undefined''"
| "kind_name JNull = ''null''"
| "kind_name _ = ''object''"

definition get :: "jsval \<Rightarrow> string \<Rightarrow> jsval res" where
  \<comment> \<open>\<^verbatim>\<open>v.k\<close>\<close>
  "get v k = (if nullish v
     then Inl (type_error (''Cannot read properties of '' @ kind_name v @ '' (reading '' @ [CHR 0x27] @ k @ [CHR 0x27] @ '')''))
     else Inr (js_prop v k))"

definition oget :: "jsval \<Rightarrow> string \<Rightarrow> jsval" where
  \<comment> \<open>\<^verbatim>\<open>v?.k\<close>\<close>
  "oget v k = (if nullish v then JUndef else js_prop v k)"

fun js_typeof :: "jsval \<Rightarrow> string" where
  "js_typeof JUndef = ''undefined''"
| "js_typeof (JBool _) = ''boolean''"
| "js_typeof (JNum _) = ''number''"
| "js_typeof (JStr _) = ''string''"
| "js_typeof _ = ''object''"

fun has_prop :: "string \<Rightarrow> jsval \<Rightarrow> bool" where
  \<comment> \<open>\<^verbatim>\<open>k in v\<close> for an object or an array\<close>
  "has_prop k (JObj kvs) = (k \<in> set (map fst kvs))"
| "has_prop k (JArr xs) = (k = ''length'')"
| "has_prop k _ = False"

fun is_array :: "jsval \<Rightarrow> bool" where
  "is_array (JArr _) = True"
| "is_array _ = False"

fun js_to_string :: "jsval \<Rightarrow> string" where
  "js_to_string JUndef = ''undefined''"
| "js_to_string JNull = ''null''"
| "js_to_string (JBool b) = (if b then ''true'' else ''false'')"
| "js_to_string (JNum x) = show_num x"
| "js_to_string (JStr s) = s"
| "js_to_string (JArr xs) = js_join '','' (map (\<lambda>v. if nullish v then [] else js_to_string v) xs)"
| "js_to_string (JObj kvs) = ''[object Object]''"

fun to_number :: "jsval \<Rightarrow> jsnum" where
  "to_number JUndef = NaN"
| "to_number JNull = Fin 0"
| "to_number (JBool b) = Fin (if b then 1 else 0)"
| "to_number (JNum x) = x"
| "to_number (JStr s) = js_Number s"
| "to_number v = js_Number (js_to_string v)"

definition ge0 :: "jsval \<Rightarrow> bool" where
  \<comment> \<open>\<^verbatim>\<open>v >= 0\<close>\<close>
  "ge0 v = js_ge (to_number v) (Fin 0)"

definition js_minus :: "jsval \<Rightarrow> jsval \<Rightarrow> jsnum" where
  "js_minus a b = js_sub (to_number a) (to_number b)"

fun to_primitive :: "jsval \<Rightarrow> jsval" where
  "to_primitive (JArr xs) = JStr (js_to_string (JArr xs))"
| "to_primitive (JObj kvs) = JStr (js_to_string (JObj kvs))"
| "to_primitive v = v"

definition js_plus :: "jsval \<Rightarrow> jsval \<Rightarrow> jsval" where
  \<comment> \<open>\<^verbatim>\<open>a + b\<close>: concatenation as soon as one side is a string\<close>
  "js_plus a b = (case (to_primitive a, to_primitive b) of
       (JStr s, q) \<Rightarrow> JStr (s @ js_to_string q)
     | (p, JStr t) \<Rightarrow> JStr (js_to_string p @ t)
     | (p, q) \<Rightarrow> JNum (js_add (to_number p) (to_number q)))"

fun strict_eq :: "jsval \<Rightarrow> jsval \<Rightarrow> bool" where
  \<comment> \<open>\<^verbatim>\<open>===\<close> on primitive values, the only ones the source compares; two objects are different.\<close>
  "strict_eq (JArr _) _ = False"
| "strict_eq (JObj _) _ = False"
| "strict_eq (JNum a) (JNum b) = (a = b \<and> a \<noteq> NaN)"
| "strict_eq a b = (a = b)"

definition js_length :: "jsval \<Rightarrow> jsval res" where
  "js_length v = get v ''length''"

definition as_array :: "string \<Rightarrow> jsval \<Rightarrow> jsval list res" where
  \<comment> \<open>The receiver of \<^verbatim>\<open>.map\<close>, \<^verbatim>\<open>.filter\<close>, \<^verbatim>\<open>.join\<close> and their kin, which only an array has.\<close>
  "as_array m v = (case v of JArr xs \<Rightarrow> Inr xs
     | _ \<Rightarrow> if nullish v then rbind (get v m) (\<lambda>_. Inr [])
            else Inl (type_error (m @ '' is not a function'')))"

definition iterate :: "jsval \<Rightarrow> jsval list res" where
  \<comment> \<open>\<^verbatim>\<open>for (const x of v)\<close>: arrays and strings are iterable\<close>
  "iterate v = (case v of JArr xs \<Rightarrow> Inr xs
     | JStr s \<Rightarrow> Inr (map (\<lambda>c. JStr [c]) s)
     | _ \<Rightarrow> Inl (type_error (js_to_string v @ '' is not iterable'')))"

definition js_array_join :: "string \<Rightarrow> jsval \<Rightarrow> string res" where
  "js_array_join sep v = rbind (as_array ''join'' v)
     (\<lambda>xs. Inr (js_join sep (map (\<lambda>x. if nullish x then [] else js_to_string x) xs)))"

definition js_elem :: "jsval list \<Rightarrow> nat \<Rightarrow> jsval" where
  \<comment> \<open>\<^verbatim>\<open>xs[i]\<close>: \<^verbatim>\<open>undefined\<close> out of range\<close>
  "js_elem xs i = (if i < length xs then xs ! i else JUndef)"

fun js_some :: "('a \<Rightarrow> bool res) \<Rightarrow> 'a list \<Rightarrow> bool res" where
  \<comment> \<open>\<^verbatim>\<open>xs.some(p)\<close>, which stops at the first element that satisfies the predicate\<close>
  "js_some p [] = Inr False"
| "js_some p (x # xs) = rbind (p x) (\<lambda>b. if b then Inr True else js_some p xs)"

fun js_every :: "('a \<Rightarrow> bool res) \<Rightarrow> 'a list \<Rightarrow> bool res" where
  "js_every p [] = Inr True"
| "js_every p (x # xs) = rbind (p x) (\<lambda>b. if b then js_every p xs else Inr False)"

fun js_find :: "('a \<Rightarrow> bool res) \<Rightarrow> 'a list \<Rightarrow> 'a option res" where
  "js_find p [] = Inr None"
| "js_find p (x # xs) = rbind (p x) (\<lambda>b. if b then Inr (Some x) else js_find p xs)"

lemma js_some_total: "(\<And>x. x \<in> set xs \<Longrightarrow> p x = Inr (q x)) \<Longrightarrow> js_some p xs = Inr (list_ex q xs)"
  by (induction xs) auto

lemma js_every_total: "(\<And>x. x \<in> set xs \<Longrightarrow> p x = Inr (q x)) \<Longrightarrow> js_every p xs = Inr (list_all q xs)"
  by (induction xs) auto

lemma js_find_total: "(\<And>x. x \<in> set xs \<Longrightarrow> p x = Inr (q x)) \<Longrightarrow> js_find p xs = Inr (find q xs)"
  by (induction xs) auto

definition error_string :: "exn \<Rightarrow> string" where
  \<comment> \<open>\<^verbatim>\<open>`${e}`\<close>\<close>
  "error_string e = (case e of
       AxiosError m _ \<Rightarrow> ''AxiosError: '' @ m
     | NativeError n m \<Rightarrow> n @ '': '' @ m
     | Thrown v \<Rightarrow> js_to_string v)"

subsection \<open>Facts\<close>

lemma js_or_simps [simp]:
  "js_or JUndef b = b" "js_or JNull b = b" "js_or (JStr []) b = b" "js_or (JStr (c # s)) b = JStr (c # s)"
  "js_or (JArr xs) b = JArr xs" "js_or (JObj kvs) b = JObj kvs"
  "js_or (JNum (Fin 0)) b = b" "js_or (JNum NaN) b = b" "js_or (JBool False) b = b" "js_or (JBool True) b = JBool True"
  by (simp_all add: js_or_def)

lemma truthy_js_or: "truthy b \<Longrightarrow> truthy (js_or a b)"
  by (simp add: js_or_def)

lemma js_prop_simps [simp]:
  "js_prop (JObj kvs) k = (case map_of kvs k of Some x \<Rightarrow> x | None \<Rightarrow> JUndef)"
  "js_prop (JArr xs) ''length'' = JNat (length xs)"
  "js_prop (JStr s) ''length'' = JNat (length s)"
  by (simp_all add: js_prop_def)

lemma get_simps [simp]:
  "get (JObj kvs) k = Inr (case map_of kvs k of Some x \<Rightarrow> x | None \<Rightarrow> JUndef)"
  "get (JArr xs) ''length'' = Inr (JNat (length xs))"
  "get (JStr s) ''length'' = Inr (JNat (length s))"
  by (simp_all add: get_def)

lemma get_nullish: "nullish v \<Longrightarrow> \<exists>m. get v k = Inl (type_error m)"
  by (simp add: get_def)

lemma oget_simps [simp]:
  "oget JUndef k = JUndef" "oget JNull k = JUndef"
  "oget (JObj kvs) k = (case map_of kvs k of Some x \<Rightarrow> x | None \<Rightarrow> JUndef)"
  "oget (JArr xs) ''length'' = JNat (length xs)"
  by (simp_all add: oget_def)

lemma js_length_arr [simp]: "js_length (JArr xs) = Inr (JNat (length xs))"
  by (simp add: js_length_def)

lemma as_array_arr [simp]: "as_array m (JArr xs) = Inr xs"
  by (simp add: as_array_def)

lemma iterate_arr [simp]: "iterate (JArr xs) = Inr xs"
  by (simp add: iterate_def)

lemma num_of_nat_eq [simp]: "num_of_nat m = num_of_nat n \<longleftrightarrow> m = n"
  by (simp add: num_of_nat_def)

lemma num_of_nat_zero [simp]: "num_of_nat n = Fin 0 \<longleftrightarrow> n = 0" "num_of_nat n \<noteq> NaN"
  by (simp_all add: num_of_nat_def)

lemma js_add_nat [simp]: "js_add (num_of_nat a) (num_of_nat b) = num_of_nat (a + b)"
  by (simp add: num_of_nat_def)

lemma js_plus_nat [simp]: "js_plus (JNat a) (JNat b) = JNat (a + b)"
  by (simp add: js_plus_def)

lemma js_gt_nat [simp]: "js_gt (num_of_nat a) (num_of_nat b) \<longleftrightarrow> b < a"
  by (simp add: num_of_nat_def)

lemma js_ge_nat [simp]: "js_ge (num_of_nat a) (num_of_nat b) \<longleftrightarrow> b \<le> a"
  by (simp add: num_of_nat_def)

lemma js_gt_neg_nat [simp]: "js_gt (Fin 0) (num_of_nat a) = False"
  by (simp add: num_of_nat_def)

lemma js_gt_nat_numeral [simp]: "js_gt (num_of_nat a) (Fin (numeral k)) \<longleftrightarrow> numeral k < a"
  using js_gt_nat [of a "numeral k"] by (simp add: num_of_nat_def)

lemma Fin_nat: "Fin (of_nat i) = num_of_nat i"
  by (simp add: num_of_nat_def)

lemma Fin_neg_one_nat [simp]: "Fin (-1) \<noteq> num_of_nat i"
  by (simp add: num_of_nat_def)

lemma js_gt_nat0 [simp]: "js_gt (num_of_nat a) (Fin 0) \<longleftrightarrow> 0 < a"
  by (simp add: num_of_nat_def)

lemma js_minus_nat_pos [simp]: "js_gt (js_minus (JNat a) (JNat b)) (Fin 0) \<longleftrightarrow> b < a"
  by (simp add: js_minus_def num_of_nat_def)

lemma js_or_nat [simp]: "js_or (JNat n) (JNum (Fin 0)) = JNat n"
  by (simp add: js_or_def num_of_nat_def)

lemma ge0_null: "ge0 JNull"
  by (simp add: ge0_def)

lemma ge0_undef: "\<not> ge0 JUndef"
  by (simp add: ge0_def)

end
