(* ===== verification/SlotStore.thy ===== *)
theory SlotStore
  imports JSValue
begin

text \<open>
  Slot ranges as the controller keeps and prints them, \<^verbatim>\<open>store/slot.go\<close>: the type, its textual form
  and parser, the JSON forms of ranges and migrating slots, and the operations that give a range to
  a shard, take one away and partition the slots; and the records that the store and the HTTP interface
  print as JSON, nodes (\<^verbatim>\<open>store/cluster_node.go\<close>) and shards (\<^verbatim>\<open>store/cluster_shard.go\<close>). The meaning of a list of ranges is the set of
  slots it holds. Go's \<^verbatim>\<open>int\<close> is \<open>int\<close>: every slot the code computes with lies between \<open>-1\<close> and
  \<open>16384\<close>, and the one unbounded input, the text that \<^verbatim>\<open>strconv.Atoi\<close> reads, is bounded by it to
  64 bits.
\<close>

section \<open>Ranges\<close>

record SlotRange =
  Start :: int
  Stop :: int

definition MinSlotID :: int where "MinSlotID = 0"

definition MaxSlotID :: int where "MaxSlotID = 16383"

datatype slot_error = TooManyRanges | SlotOutOfRange | StartLargerThanStop | AtoiError string

definition in_slot_bounds :: "int \<Rightarrow> int \<Rightarrow> bool" where
  "in_slot_bounds start stop \<longleftrightarrow>
     \<not> ((start < MinSlotID \<or> start > MaxSlotID) \<or> (stop < MinSlotID \<or> stop > MaxSlotID))"

definition NewSlotRange :: "int \<Rightarrow> int \<Rightarrow> slot_error + SlotRange" where
  "NewSlotRange start stop =
     (if start > stop then Inl StartLargerThanStop
      else if \<not> in_slot_bounds start stop then Inl SlotOutOfRange
      else Inr \<lparr>Start = start, Stop = stop\<rparr>)"

definition SlotRange_Equal :: "SlotRange \<Rightarrow> SlotRange \<Rightarrow> bool" where
  "SlotRange_Equal slotRange that =
     (if Start slotRange \<noteq> Start that then False else if Stop slotRange \<noteq> Stop that then False else True)"

definition HasOverlap :: "SlotRange \<Rightarrow> SlotRange \<Rightarrow> bool" where
  "HasOverlap slotRange that \<longleftrightarrow> Stop slotRange \<ge> Start that \<and> Start slotRange \<le> Stop that"

definition Contains :: "SlotRange \<Rightarrow> int \<Rightarrow> bool" where
  "Contains slotRange slot \<longleftrightarrow> slot \<ge> Start slotRange \<and> slot \<le> Stop slotRange"

definition SlotRange_String :: "SlotRange \<Rightarrow> string" where
  "SlotRange_String slotRange =
     (if Start slotRange = Stop slotRange then show_int (Start slotRange)
      else show_int (Start slotRange) @ ''-'' @ show_int (Stop slotRange))"

definition Atoi :: "string \<Rightarrow> slot_error + int" where
  \<comment> \<open>\<^verbatim>\<open>strconv.Atoi\<close>: an optional sign, then decimal digits, within 64 bits\<close>
  "Atoi s =
     (let (neg, ds) = (case s of c # cs \<Rightarrow> if c = CHR ''-'' then (True, cs) else if c = CHR ''+'' then (False, cs) else (False, s)
                       | [] \<Rightarrow> (False, []));
          n = (if neg then - int (digits_val ds) else int (digits_val ds))
      in if ds = [] \<or> \<not> list_all is_digit ds \<or> n < - (2 ^ 63) \<or> n \<ge> 2 ^ 63 then Inl (AtoiError s) else Inr n)"

definition ParseSlotRange :: "string \<Rightarrow> slot_error + SlotRange" where
  "ParseSlotRange s =
     (if length (filter (\<lambda>c. c = CHR ''-'') s) > 1 then Inl TooManyRanges
      else if CHR ''-'' \<notin> set s then
        (case Atoi s of
           Inl err \<Rightarrow> Inl err
         | Inr start \<Rightarrow> if start < MinSlotID \<or> start > MaxSlotID then Inl SlotOutOfRange
             else Inr \<lparr>Start = start, Stop = start\<rparr>)
      else
        (let index = length (takeWhile (\<lambda>c. c \<noteq> CHR ''-'') s) in
         case Atoi (take index s) of
           Inl err \<Rightarrow> Inl err
         | Inr start \<Rightarrow>
           (case Atoi (drop (Suc index) s) of
              Inl err \<Rightarrow> Inl err
            | Inr stop \<Rightarrow>
              if start > stop then Inl StartLargerThanStop
              else if \<not> in_slot_bounds start stop then Inl SlotOutOfRange
              else Inr \<lparr>Start = start, Stop = stop\<rparr>)))"

definition SlotRanges_Contains :: "SlotRange list \<Rightarrow> int \<Rightarrow> bool" where
  "SlotRanges_Contains rs slot = list_ex (\<lambda>r. Contains r slot) rs"

definition SlotRanges_HasOverlap :: "SlotRange list \<Rightarrow> SlotRange \<Rightarrow> bool" where
  "SlotRanges_HasOverlap rs r = list_ex (\<lambda>current. HasOverlap current r) rs"

section \<open>Adding, removing and partitioning\<close>

definition CanMerge :: "SlotRange \<Rightarrow> SlotRange \<Rightarrow> bool" where
  "CanMerge a b = (let (a, b) = (if Start a > Start b then (b, a) else (a, b)) in Stop a + 1 \<ge> Start b)"

definition MergeSlotRanges :: "SlotRange \<Rightarrow> SlotRange \<Rightarrow> SlotRange" where
  "MergeSlotRanges a b = \<lparr>Start = min (Start a) (Start b), Stop = max (Stop a) (Stop b)\<rparr>"

fun merge_loop :: "SlotRange list \<Rightarrow> SlotRange list \<Rightarrow> SlotRange list" where
  "merge_loop merged [] = merged"
| "merge_loop merged (interval # rest) =
     (if CanMerge (last merged) interval
      then merge_loop (butlast merged @ [MergeSlotRanges interval (last merged)]) rest
      else merge_loop (merged @ [interval]) rest)"

text \<open>\<^verbatim>\<open>sort.Slice\<close> is not stable, so ranges with one start may come in any order: the sorted slice
  is a parameter, any function that permutes and sorts.\<close>

type_synonym slice_sort = "SlotRange list \<Rightarrow> SlotRange list"

definition AddSlotToSlotRanges :: "slice_sort \<Rightarrow> SlotRange list \<Rightarrow> SlotRange \<Rightarrow> SlotRange list" where
  "AddSlotToSlotRanges sortSlice source slot =
     (if source = [] then source @ [slot]
      else (case sortSlice (source @ [slot]) of
              [] \<Rightarrow> []
            | x # xs \<Rightarrow> merge_loop [x] xs))"

definition remove_step :: "SlotRange \<Rightarrow> SlotRange \<Rightarrow> SlotRange list" where
  \<comment> \<open>What one iteration of the loop appends.\<close>
  "remove_step slot slotRange =
     (if \<not> HasOverlap slotRange slot then [slotRange]
      else (if Start slotRange < Start slot then [\<lparr>Start = Start slotRange, Stop = Start slot - 1\<rparr>] else [])
         @ (if Stop slotRange > Stop slot then [\<lparr>Start = Stop slot + 1, Stop = Stop slotRange\<rparr>] else []))"

definition RemoveSlotFromSlotRanges :: "slice_sort \<Rightarrow> SlotRange list \<Rightarrow> SlotRange \<Rightarrow> SlotRange list" where
  "RemoveSlotFromSlotRanges sortSlice source slot =
     (let source = sortSlice source in
      if \<not> SlotRanges_HasOverlap source slot then source
      else concat (map (remove_step slot) source))"

definition CalculateSlotRanges :: "nat \<Rightarrow> SlotRange list option" where
  \<comment> \<open>None is the division by zero.\<close>
  "CalculateSlotRanges n =
     (if n = 0 then None
      else (let rangeSize = (MaxSlotID + 1) div int n in
        Some (map (\<lambda>i. if i \<noteq> n - 1 then \<lparr>Start = int i * rangeSize, Stop = (int i + 1) * rangeSize - 1\<rparr>
                        else \<lparr>Start = int i * rangeSize, Stop = MaxSlotID\<rparr>) [0..<n])))"

section \<open>Meaning\<close>

definition slots_of :: "SlotRange \<Rightarrow> int set" where
  "slots_of r = {Start r..Stop r}"

definition slots :: "SlotRange list \<Rightarrow> int set" where
  "slots rs = (\<Union>r\<in>set rs. slots_of r)"

definition valid_range :: "SlotRange \<Rightarrow> bool" where
  "valid_range r \<longleftrightarrow> MinSlotID \<le> Start r \<and> Start r \<le> Stop r \<and> Stop r \<le> MaxSlotID"

abbreviation apart :: "SlotRange \<Rightarrow> SlotRange \<Rightarrow> bool" where
  "apart a b \<equiv> Stop a + 1 < Start b"

abbreviation before :: "SlotRange \<Rightarrow> SlotRange \<Rightarrow> bool" where
  "before a b \<equiv> Stop a < Start b"

definition canonical :: "SlotRange list \<Rightarrow> bool" where
  \<comment> \<open>Valid ranges in ascending order with a gap between neighbours.\<close>
  "canonical rs \<longleftrightarrow> list_all valid_range rs \<and> sorted_wrt apart rs"

lemma slots_simps [simp]:
  "slots [] = {}" "slots (r # rs) = slots_of r \<union> slots rs" "slots (rs @ qs) = slots rs \<union> slots qs"
  by (auto simp: slots_def)

lemma Contains_iff: "Contains r k \<longleftrightarrow> k \<in> slots_of r"
  by (auto simp: Contains_def slots_of_def)

lemma SlotRanges_Contains_iff: "SlotRanges_Contains rs k \<longleftrightarrow> k \<in> slots rs"
  by (auto simp: SlotRanges_Contains_def slots_def Contains_iff list_ex_iff)

lemma HasOverlap_iff:
  assumes "valid_range a" "valid_range b"
  shows "HasOverlap a b \<longleftrightarrow> slots_of a \<inter> slots_of b \<noteq> {}"
proof
  assume "HasOverlap a b"
  then have "max (Start a) (Start b) \<in> slots_of a \<inter> slots_of b"
    using assms by (auto simp: HasOverlap_def slots_of_def valid_range_def)
  then show "slots_of a \<inter> slots_of b \<noteq> {}" by blast
qed (auto simp: HasOverlap_def slots_of_def)

locale slice_sorting =
  fixes sortSlice :: slice_sort
  assumes mset_sort: "mset (sortSlice rs) = mset rs"
    and sorted_sort: "sorted (map Start (sortSlice rs))"
begin

lemma set_sort: "set (sortSlice rs) = set rs"
  by (metis mset_sort set_mset_mset)

lemma slots_sort: "slots (sortSlice rs) = slots rs"
  by (simp add: slots_def set_sort)

lemma sort_nonempty: "sortSlice (rs @ [r]) \<noteq> []"
  using mset_sort [of "rs @ [r]"] by auto

end

interpretation insertion: slice_sorting "sort_key Start"
  by unfold_locales simp_all

section \<open>Adding a range\<close>

lemma merge_last:
  assumes "valid_range l" "valid_range i" "Start l \<le> Start i" "CanMerge l i"
  shows "valid_range (MergeSlotRanges i l)" "slots_of (MergeSlotRanges i l) = slots_of l \<union> slots_of i"
    "Start (MergeSlotRanges i l) = Start l"
  using assms by (auto simp: CanMerge_def MergeSlotRanges_def valid_range_def slots_of_def)

lemma canonical_snoc: "canonical (rs @ [r]) \<longleftrightarrow> canonical rs \<and> valid_range r \<and> (\<forall>q\<in>set rs. apart q r)"
  by (auto simp: canonical_def sorted_wrt_append)

lemma canonical_apart_last:
  assumes "canonical (rs @ [l])" "apart l i" "q \<in> set (rs @ [l])"
  shows "apart q i"
  using assms by (auto simp: canonical_snoc valid_range_def)

lemma merge_loop_correct:
  assumes "canonical (rs @ [l])" "list_all valid_range qs" "sorted (map Start (l # qs))"
  shows "canonical (merge_loop (rs @ [l]) qs) \<and> slots (merge_loop (rs @ [l]) qs) = slots (rs @ [l]) \<union> slots qs"
  using assms
proof (induction qs arbitrary: rs l)
  case (Cons i qs)
  have l: "valid_range l" "valid_range i" "Start l \<le> Start i" and rest: "list_all valid_range qs" "sorted (map Start (i # qs))"
    using Cons.prems by (auto simp: canonical_snoc)
  show ?case
  proof (cases "CanMerge l i")
    case True
    note m = merge_last [OF l True]
    have "canonical (rs @ [MergeSlotRanges i l])"
      using Cons.prems(1) m by (simp add: canonical_snoc)
    moreover have "sorted (map Start (MergeSlotRanges i l # qs))"
      using Cons.prems(3) m(3) by auto
    ultimately show ?thesis
      using Cons.IH [of rs "MergeSlotRanges i l"] rest True m(2) by auto
  next
    case False
    then have "apart l i" using l by (auto simp: CanMerge_def split: if_splits)
    with Cons.prems(1) l have "canonical ((rs @ [l]) @ [i])"
      using canonical_apart_last by (subst canonical_snoc) blast
    then show ?thesis using Cons.IH [of "rs @ [l]" i] rest False by auto
  qed
qed simp

context slice_sorting
begin

lemma add_correct:
  assumes "list_all valid_range source" "valid_range slot"
  shows "canonical (AddSlotToSlotRanges sortSlice source slot)
    \<and> slots (AddSlotToSlotRanges sortSlice source slot) = slots source \<union> slots_of slot"
proof (cases "source = []")
  case True
  with assms show ?thesis by (simp add: AddSlotToSlotRanges_def canonical_def)
next
  case False
  obtain x xs where xs: "sortSlice (source @ [slot]) = x # xs"
    using sort_nonempty [of source slot] by (cases "sortSlice (source @ [slot])") auto
  have "list_all valid_range (x # xs)"
    using assms set_sort [of "source @ [slot]"] by (simp add: xs list_all_iff)
  then show ?thesis
    using merge_loop_correct [of "[]" x xs] sorted_sort [of "source @ [slot]"] slots_sort [of "source @ [slot]"] False
    by (auto simp: AddSlotToSlotRanges_def xs canonical_def)
qed

end

section \<open>Removing a range\<close>

lemma remove_step_slots:
  assumes "valid_range slot"
  shows "slots (remove_step slot r) = slots_of r - slots_of slot"
  using assms by (auto simp: remove_step_def HasOverlap_def slots_of_def valid_range_def)

lemma remove_step_within:
  assumes "valid_range slot" "valid_range r" "q \<in> set (remove_step slot r)"
  shows "valid_range q" "Start r \<le> Start q" "Stop q \<le> Stop r"
  using assms by (auto simp: remove_step_def HasOverlap_def valid_range_def split: if_splits)

lemma remove_step_sorted:
  assumes "valid_range slot"
  shows "sorted_wrt apart (remove_step slot r)"
  using assms by (auto simp: remove_step_def HasOverlap_def valid_range_def)

lemma remove_all_canonical:
  assumes "valid_range slot" "canonical rs"
  shows "canonical (concat (map (remove_step slot) rs))"
  using assms(2)
proof (induction rs)
  case (Cons r rs)
  have r: "valid_range r" and later: "\<forall>q\<in>set rs. apart r q" "list_all valid_range rs" and rs: "canonical rs"
    using Cons.prems by (auto simp: canonical_def)
  have "apart a b" if "a \<in> set (remove_step slot r)" "q \<in> set rs" "b \<in> set (remove_step slot q)" for a b q
    using remove_step_within(3) [OF assms(1) r that(1)] remove_step_within(2) [OF assms(1) _ that(3)] later that(2)
    by (fastforce simp: list_all_iff)
  then show ?case
    using Cons.IH [OF rs] remove_step_sorted [OF assms(1)] remove_step_within(1) [OF assms(1) r]
    by (auto simp: canonical_def sorted_wrt_append list_all_iff)
qed (simp add: canonical_def)

lemma slots_concat: "slots (concat rss) = (\<Union>rs\<in>set rss. slots rs)"
  by (induction rss) auto

context slice_sorting
begin

lemma remove_slots:
  assumes "list_all valid_range source" "valid_range slot"
  shows "slots (RemoveSlotFromSlotRanges sortSlice source slot) = slots source - slots_of slot"
proof (cases "SlotRanges_HasOverlap (sortSlice source) slot")
  case True
  have "slots (concat (map (remove_step slot) (sortSlice source))) = slots source - slots_of slot"
    by (auto simp: slots_concat remove_step_slots [OF assms(2)] set_sort slots_def [of source])
  with True show ?thesis by (simp add: RemoveSlotFromSlotRanges_def)
next
  case False
  have "slots_of r \<inter> slots_of slot = {}" if "r \<in> set source" for r
    using False that assms HasOverlap_iff [of r slot]
    by (auto simp: SlotRanges_HasOverlap_def list_ex_iff set_sort list_all_iff)
  then have "slots source \<inter> slots_of slot = {}" by (auto simp: slots_def)
  with False show ?thesis by (auto simp: RemoveSlotFromSlotRanges_def slots_sort)
qed

lemma sort_canonical:
  assumes "canonical source"
  shows "sortSlice source = source"
proof -
  have asc: "sorted_wrt (<) (map Start source)"
    using assms by (induction source) (auto simp: canonical_def valid_range_def)
  then have d: "distinct (map Start source)" and s: "sorted (map Start source)"
    by (auto simp: strict_sorted_iff)
  have "mset (map Start (sortSlice source)) = mset (map Start source)" by (simp add: mset_sort)
  with d have d': "distinct (map Start (sortSlice source))" by (metis mset_eq_imp_distinct_iff)
  show ?thesis
  proof (rule map_sorted_distinct_set_unique [OF _ sorted_sort d' s d])
    show "inj_on Start (set (sortSlice source) \<union> set source)" using d by (simp add: set_sort distinct_map)
  qed (rule set_sort)
qed

lemma remove_canonical:
  assumes "canonical source" "valid_range slot"
  shows "canonical (RemoveSlotFromSlotRanges sortSlice source slot)"
  using assms by (simp add: RemoveSlotFromSlotRanges_def sort_canonical remove_all_canonical)

end

section \<open>Text of ranges\<close>

lemma Atoi_show_nat: "n < 2 ^ 63 \<Longrightarrow> Atoi (show_nat n) = Inr (int n)"
proof -
  assume n: "n < 2 ^ 63"
  obtain c cs where cs: "show_nat n = c # cs" using show_nat_nonempty [of n] by (cases "show_nat n") auto
  then have "is_digit c" using show_nat_digits [of _ n] by auto
  then have "c \<noteq> CHR ''-''" "c \<noteq> CHR ''+''" by (auto simp: is_digit_ne)
  moreover have "int n < 2 ^ 63" using n by simp
  ultimately show ?thesis
    using show_nat_digits [of _ n] digits_val_show [of n] by (simp add: Atoi_def cs Let_def list_all_iff)
qed

lemma no_dash_show_nat: "CHR ''-'' \<notin> set (show_nat n)"
  using show_nat_digits [of _ n] by (auto dest: is_digit_ne)

lemma takeWhile_dash: "takeWhile (\<lambda>c. c \<noteq> CHR ''-'') (show_nat n @ CHR ''-'' # t) = show_nat n"
proof -
  have "\<forall>c\<in>set (show_nat n). c \<noteq> CHR ''-''" using no_dash_show_nat by metis
  then show ?thesis by (simp add: takeWhile_append2)
qed

lemma filter_dash: "filter (\<lambda>c. c = CHR ''-'') (show_nat n) = []"
  using no_dash_show_nat by (auto simp: filter_empty_conv)

lemma valid_range_nat:
  assumes "valid_range r"
  obtains a b where "r = \<lparr>Start = int a, Stop = int b\<rparr>" "a \<le> b" "b \<le> 16383"
proof (rule that [of "nat (Start r)" "nat (Stop r)"])
qed (use assms in \<open>auto simp: valid_range_def MinSlotID_def MaxSlotID_def\<close>)

lemma SlotRange_String_nat: "SlotRange_String \<lparr>Start = int a, Stop = int b\<rparr> =
    (if a = b then show_nat a else show_nat a @ CHR ''-'' # show_nat b)"
  by (simp add: SlotRange_String_def)

lemma ParseSlotRange_String:
  assumes "valid_range r"
  shows "ParseSlotRange (SlotRange_String r) = Inr r"
proof -
  obtain a b where r: "r = \<lparr>Start = int a, Stop = int b\<rparr>" "a \<le> b" "b \<le> 16383"
    using valid_range_nat [OF assms] .
  then have "Atoi (show_nat a) = Inr (int a)" "Atoi (show_nat b) = Inr (int b)" by (simp_all add: Atoi_show_nat)
  with r show ?thesis
    by (auto simp: ParseSlotRange_def SlotRange_String_nat no_dash_show_nat filter_dash takeWhile_dash
      in_slot_bounds_def MinSlotID_def MaxSlotID_def Let_def)
qed

lemma ParseSlotRange_valid: "ParseSlotRange s = Inr r \<Longrightarrow> valid_range r"
  by (auto simp: ParseSlotRange_def valid_range_def in_slot_bounds_def Let_def split: if_splits sum.splits)

section \<open>The partition of the slots\<close>

lemma CalculateSlotRanges_nth:
  assumes "CalculateSlotRanges n = Some rs" "i < n"
  shows "length rs = n"
    "rs ! i = \<lparr>Start = int i * (16384 div int n), Stop = (if i = n - 1 then 16383 else (int i + 1) * (16384 div int n) - 1)\<rparr>"
  using assms by (auto simp: CalculateSlotRanges_def MaxSlotID_def Let_def split: if_splits)

lemma partition_size:
  assumes "0 < n" "n \<le> 16384"
  shows "1 \<le> 16384 div int n" "int n * (16384 div int n) \<le> 16384"
proof -
  have "int n div int n \<le> 16384 div int n" using assms by (intro zdiv_mono1) auto
  then show "1 \<le> 16384 div int n" using assms by simp
  show "int n * (16384 div int n) \<le> 16384" 
    using mult_div_mod_eq [of "int n" 16384] pos_mod_sign [of "int n" 16384] assms by linarith
qed

lemma partition_mult:
  assumes "0 < n" "n \<le> 16384" "i < n"
  shows "(int i + 1) * (16384 div int n) \<le> 16384" "int i * (16384 div int n) < 16384"
proof -
  have "(int i + 1) * (16384 div int n) \<le> int n * (16384 div int n)"
    using assms partition_size(1) [OF assms(1,2)] by (intro mult_right_mono) auto
  then show "(int i + 1) * (16384 div int n) \<le> 16384" using partition_size(2) [OF assms(1,2)] by linarith
  then show "int i * (16384 div int n) < 16384"
    using partition_size(1) [OF assms(1,2)] by (simp add: algebra_simps)
qed

lemma partition_valid:
  assumes "CalculateSlotRanges n = Some rs" "n \<le> 16384" "r \<in> set rs"
  shows "valid_range r"
proof -
  have n: "0 < n" using assms(1) by (simp add: CalculateSlotRanges_def split: if_splits)
  obtain i where i: "i < n" "r = rs ! i"
    using assms CalculateSlotRanges_nth(1) [OF assms(1) n] by (metis in_set_conv_nth)
  show ?thesis
    using CalculateSlotRanges_nth(2) [OF assms(1) i(1)] partition_mult [OF n assms(2) i(1)] partition_size [OF n assms(2)]
    by (auto simp: i(2) valid_range_def MinSlotID_def MaxSlotID_def algebra_simps)
qed

lemma partition_before:
  assumes "CalculateSlotRanges n = Some rs"
  shows "sorted_wrt before rs"
proof (cases "n = 0")
  case False
  have len: "length rs = n" using CalculateSlotRanges_nth(1) [OF assms] False by blast
  have m: "(int i + 1) * (16384 div int n) \<le> int j * (16384 div int n)" if "i < j" for i j
    using that by (intro mult_right_mono) (simp_all add: div_int_pos_iff)
  show ?thesis
    unfolding sorted_wrt_iff_nth_less
  proof (intro allI impI)
    fix i j assume "i < j" "j < length rs"
    then show "before (rs ! i) (rs ! j)"
      using m [of i j] by (simp add: len CalculateSlotRanges_nth(2) [OF assms])
  qed
qed (use assms in \<open>simp add: CalculateSlotRanges_def\<close>)

lemma partition_covers:
  assumes "CalculateSlotRanges n = Some rs" "n \<le> 16384" "0 \<le> k" "k \<le> 16383"
  shows "k \<in> slots rs"
proof -
  define d where "d = 16384 div int n"
  define i where "i = min (nat (k div d)) (n - 1)"
  have n: "0 < n" using assms(1) by (simp add: CalculateSlotRanges_def split: if_splits)
  note d = partition_size [OF n assms(2), folded d_def]
  have kd: "0 \<le> k div d" using assms(3) d by (simp add: pos_imp_zdiv_nonneg_iff)
  have "i < n" using n by (simp add: i_def)
  moreover have "int i * d \<le> k"
  proof -
    have "int i \<le> int (nat (k div d))" unfolding i_def of_nat_le_iff by (rule min.cobounded1)
    also have "\<dots> = k div d" using kd by simp
    finally have "int i \<le> k div d" .
    then have "int i * d \<le> (k div d) * d" using d by (intro mult_right_mono) auto
    also have "\<dots> \<le> k" using d minus_mod_eq_div_mult [of k d, symmetric] pos_mod_sign [of d k] by linarith
    finally show ?thesis .
  qed
  moreover have "k < (int i + 1) * d" if "i \<noteq> n - 1"
  proof -
    have "int i = k div d" using that kd by (auto simp: i_def min_def split: if_splits)
    then have "(int i + 1) * d = (k div d) * d + d" by (simp add: distrib_right)
    moreover have "k mod d < d" "(k div d) * d + k mod d = k" using d by simp_all
    ultimately show ?thesis by linarith
  qed
  ultimately have "k \<in> slots_of (rs ! i)"
    using assms(4) CalculateSlotRanges_nth(2) [OF assms(1), of i] by (auto simp: slots_of_def d_def)
  then show ?thesis
    using \<open>i < n\<close> CalculateSlotRanges_nth(1) [OF assms(1)] by (auto simp: slots_def)
qed

section \<open>The wire format\<close>

record MigratingSlot =
  ms_SlotRange :: SlotRange
  ms_IsMigrating :: bool

definition SlotRange_MarshalJSON :: "SlotRange \<Rightarrow> jsval" where
  "SlotRange_MarshalJSON r = JStr (SlotRange_String r)"

definition MigratingSlot_MarshalJSON :: "MigratingSlot option \<Rightarrow> jsval" where
  \<comment> \<open>A nil pointer is \<^verbatim>\<open>null\<close>.\<close>
  "MigratingSlot_MarshalJSON m = (case m of None \<Rightarrow> JNull
     | Some s \<Rightarrow> if \<not> ms_IsMigrating s then JNull else JStr (SlotRange_String (ms_SlotRange s)))"

definition MigratingSlot_String :: "MigratingSlot option \<Rightarrow> string" where
  "MigratingSlot_String m = (case m of None \<Rightarrow> [] | Some s \<Rightarrow> SlotRange_String (ms_SlotRange s))"

definition FromSlotRange :: "SlotRange \<Rightarrow> MigratingSlot" where
  "FromSlotRange slotRange = \<lparr>ms_SlotRange = slotRange, ms_IsMigrating = True\<rparr>"

record ClusterNode =
  cn_id :: string
  cn_addr :: string
  cn_role :: string
  cn_password :: string
  cn_createdAt :: int

definition ClusterNode_MarshalJSON :: "ClusterNode \<Rightarrow> jsval" where
  \<comment> \<open>A map prints its keys in order.\<close>
  "ClusterNode_MarshalJSON n = JObj
     [(''addr'', JStr (cn_addr n)), (''created_at'', JNum (Fin (of_int (cn_createdAt n)))), (''id'', JStr (cn_id n)),
      (''password'', JStr (cn_password n)), (''role'', JStr (cn_role n))]"

definition sample_node :: ClusterNode where
  \<comment> \<open>A node for the examples.\<close>
  "sample_node = \<lparr>cn_id = ''kvrocks1'', cn_addr = ''127.0.0.1:6666'', cn_role = ''master'', cn_password = [], cn_createdAt = 0\<rparr>"

record Shard =
  shard_Nodes :: "ClusterNode list"
  shard_SlotRanges :: "SlotRange list"
  shard_TargetShardIndex :: int
  shard_MigratingSlot :: "MigratingSlot option"

definition Shard_json :: "Shard \<Rightarrow> jsval" where
  \<comment> \<open>The struct under its field tags.\<close>
  "Shard_json s = JObj
     [(''nodes'', JArr (map ClusterNode_MarshalJSON (shard_Nodes s))),
      (''slot_ranges'', JArr (map SlotRange_MarshalJSON (shard_SlotRanges s))),
      (''target_shard_index'', JNum (Fin (of_int (shard_TargetShardIndex s)))),
      (''migrating_slot'', MigratingSlot_MarshalJSON (shard_MigratingSlot s))]"

lemma get_Shard_json [simp]:
  "get (Shard_json s) ''slot_ranges'' = Inr (JArr (map SlotRange_MarshalJSON (shard_SlotRanges s)))"
  "get (Shard_json s) ''migrating_slot'' = Inr (MigratingSlot_MarshalJSON (shard_MigratingSlot s))"
  "get (Shard_json s) ''target_shard_index'' = Inr (JNum (Fin (of_int (shard_TargetShardIndex s))))"
  "get (Shard_json s) ''nodes'' = Inr (JArr (map ClusterNode_MarshalJSON (shard_Nodes s)))"
  "get (Shard_json s) ''import_slot'' = Inr JUndef"
  by (simp_all add: Shard_json_def get_def)

definition migrating_range :: "Shard \<Rightarrow> SlotRange option" where
  \<comment> \<open>The range the shard is giving away, if any.\<close>
  "migrating_range s = (case shard_MigratingSlot s of None \<Rightarrow> None
     | Some m \<Rightarrow> if ms_IsMigrating m then Some (ms_SlotRange m) else None)"

definition valid_shard :: "Shard \<Rightarrow> bool" where
  "valid_shard s \<longleftrightarrow> list_all valid_range (shard_SlotRanges s) \<and> (\<forall>r. migrating_range s = Some r \<longrightarrow> valid_range r)"

lemma migrating_json: "MigratingSlot_MarshalJSON (shard_MigratingSlot s) =
    (case migrating_range s of None \<Rightarrow> JNull | Some r \<Rightarrow> JStr (SlotRange_String r))"
  by (simp add: MigratingSlot_MarshalJSON_def migrating_range_def split: option.splits)

lemma SlotRange_String_hd:
  assumes "valid_range r"
  shows "SlotRange_String r \<noteq> []" "is_digit (hd (SlotRange_String r))"
proof -
  obtain a b where "r = \<lparr>Start = int a, Stop = int b\<rparr>" using valid_range_nat [OF assms] .
  then show "SlotRange_String r \<noteq> []" "is_digit (hd (SlotRange_String r))"
    by (simp_all add: SlotRange_String_nat show_nat_hd_digit)
qed

section \<open>Properties\<close>

text \<open>
  C17: Giving a range to a shard (\<^verbatim>\<open>AddSlotToSlotRanges\<close>) adds exactly its slots, whatever the order
  and overlaps of the ranges the shard had, and leaves the ranges canonical: valid, ascending, with
  a gap between neighbours.
\<close>
theorem add_slots_correct:
  assumes "slice_sorting sortSlice" "list_all valid_range source" "valid_range slot"
  shows "slots (AddSlotToSlotRanges sortSlice source slot) = slots source \<union> slots_of slot
    \<and> canonical (AddSlotToSlotRanges sortSlice source slot)"
  using slice_sorting.add_correct [OF assms] by blast

theorem add_slots_correct_witness:
  "slots (AddSlotToSlotRanges (sort_key Start) [\<lparr>Start = 102, Stop = 200\<rparr>, \<lparr>Start = 0, Stop = 100\<rparr>] \<lparr>Start = 101, Stop = 101\<rparr>)
     = slots [\<lparr>Start = 102, Stop = 200\<rparr>, \<lparr>Start = 0, Stop = 100\<rparr>] \<union> {101}
   \<and> AddSlotToSlotRanges (sort_key Start) [\<lparr>Start = 102, Stop = 200\<rparr>, \<lparr>Start = 0, Stop = 100\<rparr>] \<lparr>Start = 101, Stop = 101\<rparr>
     = [\<lparr>Start = 0, Stop = 200\<rparr>]"
  using add_slots_correct [OF insertion.slice_sorting_axioms,
      of "[\<lparr>Start = 102, Stop = 200\<rparr>, \<lparr>Start = 0, Stop = 100\<rparr>]" "\<lparr>Start = 101, Stop = 101\<rparr>"]
  by (simp add: valid_range_def MinSlotID_def MaxSlotID_def slots_of_def AddSlotToSlotRanges_def CanMerge_def MergeSlotRanges_def)

text \<open>
  C18: Taking a range from a shard (\<^verbatim>\<open>RemoveSlotFromSlotRanges\<close>) removes exactly its slots and keeps
  the ranges canonical, also when the range spans several of the shard's or only part of one.
\<close>
theorem remove_slots_correct:
  assumes "slice_sorting sortSlice" "canonical source" "valid_range slot"
  shows "slots (RemoveSlotFromSlotRanges sortSlice source slot) = slots source - slots_of slot
    \<and> canonical (RemoveSlotFromSlotRanges sortSlice source slot)"
  using assms slice_sorting.remove_slots [OF assms(1) _ assms(3), of source] slice_sorting.remove_canonical [OF assms]
  by (auto simp: canonical_def)

theorem remove_slots_correct_witness:
  "slots (RemoveSlotFromSlotRanges (sort_key Start) [\<lparr>Start = 0, Stop = 100\<rparr>, \<lparr>Start = 102, Stop = 200\<rparr>] \<lparr>Start = 50, Stop = 150\<rparr>)
     = slots [\<lparr>Start = 0, Stop = 100\<rparr>, \<lparr>Start = 102, Stop = 200\<rparr>] - {50..150}
   \<and> RemoveSlotFromSlotRanges (sort_key Start) [\<lparr>Start = 0, Stop = 100\<rparr>, \<lparr>Start = 102, Stop = 200\<rparr>] \<lparr>Start = 50, Stop = 150\<rparr>
     = [\<lparr>Start = 0, Stop = 49\<rparr>, \<lparr>Start = 151, Stop = 200\<rparr>]"
  using remove_slots_correct [OF insertion.slice_sorting_axioms,
      of "[\<lparr>Start = 0, Stop = 100\<rparr>, \<lparr>Start = 102, Stop = 200\<rparr>]" "\<lparr>Start = 50, Stop = 150\<rparr>"]
  by (simp add: valid_range_def canonical_def MinSlotID_def MaxSlotID_def slots_of_def RemoveSlotFromSlotRanges_def
      SlotRanges_HasOverlap_def HasOverlap_def remove_step_def)

text \<open>
  C38: For any number of shards from 1 to 16384, \<^verbatim>\<open>CalculateSlotRanges\<close> gives every shard one valid
  range, in ascending order without overlap, and together they hold every slot.
\<close>
theorem partition_slots:
  assumes "1 \<le> n" "n \<le> 16384"
  shows "\<exists>rs. CalculateSlotRanges n = Some rs \<and> length rs = n \<and> list_all valid_range rs
    \<and> sorted_wrt before rs \<and> slots rs = {0..16383}"
proof -
  obtain rs where rs: "CalculateSlotRanges n = Some rs" using assms by (auto simp: CalculateSlotRanges_def Let_def)
  have "length rs = n" using CalculateSlotRanges_nth(1) [OF rs, of 0] assms by simp
  moreover have valid: "list_all valid_range rs" using partition_valid [OF rs assms(2)] by (simp add: list_all_iff)
  moreover have "slots rs = {0..16383}"
    using partition_covers [OF rs assms(2)] valid
    by (force simp: slots_def slots_of_def list_all_iff valid_range_def MinSlotID_def MaxSlotID_def)
  ultimately show ?thesis using rs partition_before [OF rs] by blast
qed

theorem partition_slots_witness:
  "\<exists>rs. CalculateSlotRanges 3 = Some rs \<and> length rs = 3 \<and> list_all valid_range rs
    \<and> sorted_wrt before rs \<and> slots rs = {0..16383}"
  using partition_slots [of 3] by simp

text \<open>
  The slot ranges a shard can come to hold: those of the partition a cluster is created with, changed by
  adding and removing ranges that were checked or parsed.
\<close>

inductive held :: "slice_sort \<Rightarrow> SlotRange list \<Rightarrow> bool" for sortSlice where
  empty: "held sortSlice []"
| partition: "CalculateSlotRanges n = Some rs \<Longrightarrow> n \<le> 16384 \<Longrightarrow> r \<in> set rs \<Longrightarrow> held sortSlice [r]"
| add: "held sortSlice rs \<Longrightarrow> NewSlotRange start stop = Inr r \<or> ParseSlotRange s = Inr r \<Longrightarrow>
    held sortSlice (AddSlotToSlotRanges sortSlice rs r)"
| remove: "held sortSlice rs \<Longrightarrow> NewSlotRange start stop = Inr r \<or> ParseSlotRange s = Inr r \<Longrightarrow>
    held sortSlice (RemoveSlotFromSlotRanges sortSlice rs r)"

lemma NewSlotRange_valid: "NewSlotRange start stop = Inr r \<Longrightarrow> valid_range r"
  by (auto simp: NewSlotRange_def in_slot_bounds_def valid_range_def split: if_splits)

text \<open>
  C26: The slot ranges of a shard are always well formed. However ranges are added to and removed from
  what a shard got when its cluster was created, its ranges lie within the slots, ascend with gaps between
  them, and print to texts that the controller reads back.
\<close>
theorem held_ranges_well_formed:
  assumes "slice_sorting sortSlice" "held sortSlice rs"
  shows "canonical rs \<and> (\<forall>r\<in>set rs. 0 \<le> Start r \<and> Stop r \<le> 16383 \<and> ParseSlotRange (SlotRange_String r) = Inr r)"
proof -
  from assms(2) have "canonical rs"
  proof induction
    case (partition n rs r)
    then show ?case using partition_valid by (simp add: canonical_def)
  next
    case (add rs start stop r s)
    then have "valid_range r" using NewSlotRange_valid ParseSlotRange_valid by blast
    with add.IH slice_sorting.add_correct [OF assms(1)] show ?case by (simp add: canonical_def)
  next
    case (remove rs start stop r s)
    then have "valid_range r" using NewSlotRange_valid ParseSlotRange_valid by blast
    with remove.IH slice_sorting.remove_canonical [OF assms(1)] show ?case by blast
  qed (simp add: canonical_def)
  then show ?thesis using ParseSlotRange_String by (auto simp: canonical_def list_all_iff valid_range_def MinSlotID_def MaxSlotID_def)
qed

theorem held_ranges_well_formed_witness:
  "canonical (AddSlotToSlotRanges (sort_key Start) [] \<lparr>Start = 5, Stop = 9\<rparr>)"
proof -
  have "NewSlotRange 5 9 = Inr \<lparr>Start = 5, Stop = 9\<rparr>" by (simp add: NewSlotRange_def in_slot_bounds_def MinSlotID_def MaxSlotID_def)
  then have "held (sort_key Start) (AddSlotToSlotRanges (sort_key Start) [] \<lparr>Start = 5, Stop = 9\<rparr>)" by (blast intro: held.intros)
  with held_ranges_well_formed [OF insertion.slice_sorting_axioms] show ?thesis by blast
qed

text \<open>
  The parser of slot ranges accepts exactly the meaning of the printer: every valid range prints
  to a text that parses back to it, and whatever text parses, the range it gives is valid.
\<close>
theorem slot_range_round_trip:
  "(valid_range r \<longleftrightarrow> (\<exists>s. ParseSlotRange s = Inr r))
   \<and> (valid_range r \<longleftrightarrow> ParseSlotRange (SlotRange_String r) = Inr r)"
  using ParseSlotRange_String ParseSlotRange_valid by blast

end
