(* ===== verification/Nodes.thy ===== *)
theory Nodes
  imports SlotStore
begin

text \<open>
  The nodes that the controller keeps, \<^verbatim>\<open>store/cluster_node.go\<close>, with the errors of \<^verbatim>\<open>consts/errors.go\<close>. A
  call returns a value of type \<open>go\<close>: a result, an error (the sentinel it wraps, if any, with its text), or
  a panic. The random numbers and the time that a new node takes are arguments, and so are the answers of
  the Kvrocks servers, which the controller asks through a client that is not part of the repository. Their
  texts are parsed here.
\<close>

section \<open>Errors and results\<close>

datatype sentinel =
    ErrInvalidArgument | ErrNotFound | ErrForbidden | ErrAlreadyExists | ErrIndexOutOfRange | ErrShardIsSame
  | ErrSlotOutOfRange | ErrSlotNotBelongToAnyShard | ErrSlotRangeBelongsToMultipleShards | ErrNodeIsNotMaster
  | ErrOldMasterNodeNotFound | ErrShardNoReplica | ErrShardIsServicing | ErrShardSlotIsMigrating
  | ErrShardNoMatchNewMaster | ErrSlotStartAndStopEqual

fun sentinel_text :: "sentinel \<Rightarrow> string" where
  "sentinel_text ErrInvalidArgument = ''invalid argument''"
| "sentinel_text ErrNotFound = ''not found''"
| "sentinel_text ErrForbidden = ''forbidden''"
| "sentinel_text ErrAlreadyExists = ''already exists''"
| "sentinel_text ErrIndexOutOfRange = ''index out of range''"
| "sentinel_text ErrShardIsSame = ''source and target shard is same''"
| "sentinel_text ErrSlotOutOfRange = ''slot out of range''"
| "sentinel_text ErrSlotNotBelongToAnyShard = ''slot not belong to any shard''"
| "sentinel_text ErrSlotRangeBelongsToMultipleShards = ''slot range belongs to multiple shards''"
| "sentinel_text ErrNodeIsNotMaster = ''the old node is not master''"
| "sentinel_text ErrOldMasterNodeNotFound = ''old master node not found''"
| "sentinel_text ErrShardNoReplica = ''no replica in shard''"
| "sentinel_text ErrShardIsServicing = ''shard is servicing''"
| "sentinel_text ErrShardSlotIsMigrating = ''shard slot is migrating''"
| "sentinel_text ErrShardNoMatchNewMaster = ''no match new master in shard''"
| "sentinel_text ErrSlotStartAndStopEqual = ''start and stop of a range cannot be equal''"

datatype err = Err (err_is: "sentinel option") (err_text: string)

datatype 'a go = Ok 'a | Fail err | Panic

fun gbind :: "'a go \<Rightarrow> ('a \<Rightarrow> 'b go) \<Rightarrow> 'b go" where
  "gbind (Ok x) f = f x"
| "gbind (Fail e) f = Fail e"
| "gbind Panic f = Panic"

lemma gbind_eq_Ok [simp]: "gbind m f = Ok y \<longleftrightarrow> (\<exists>x. m = Ok x \<and> f x = Ok y)"
  by (cases m) auto

fun gmap :: "('a \<Rightarrow> 'b go) \<Rightarrow> 'a list \<Rightarrow> 'b list go" where
  "gmap f [] = Ok []"
| "gmap f (x # xs) = gbind (f x) (\<lambda>y. gbind (gmap f xs) (\<lambda>ys. Ok (y # ys)))"

lemma gmap_Ok: "(\<And>x. x \<in> set xs \<Longrightarrow> f x = Ok (g x)) \<Longrightarrow> gmap f xs = Ok (map g xs)"
  by (induction xs) auto

definition fail :: "sentinel \<Rightarrow> 'a go" where
  "fail s = Fail (Err (Some s) (sentinel_text s))"

definition wrap :: "string \<Rightarrow> sentinel \<Rightarrow> string \<Rightarrow> 'a go" where
  \<comment> \<open>\<^verbatim>\<open>fmt.Errorf\<close> with \<^verbatim>\<open>%w\<close>\<close>
  "wrap pre s post = Fail (Err (Some s) (pre @ sentinel_text s @ post))"

definition errors_New :: "string \<Rightarrow> 'a go" where
  "errors_New message = Fail (Err None message)"

definition in_context :: "string \<Rightarrow> 'a go \<Rightarrow> 'a go" where
  \<comment> \<open>An error passed on as \<^verbatim>\<open>fmt.Errorf("<context>: %w", err)\<close>.\<close>
  "in_context pre r = (case r of Fail e \<Rightarrow> Fail (Err (err_is e) (pre @ '': '' @ err_text e)) | _ \<Rightarrow> r)"

lemma in_context_eq_Ok [simp]: "in_context pre r = Ok x \<longleftrightarrow> r = Ok x"
  by (cases r) (simp_all add: in_context_def)

lemma in_context_Ok [simp]: "in_context pre (Ok x) = Ok x"
  by (simp add: in_context_def)

section \<open>Nodes\<close>

definition wrap64 :: "int \<Rightarrow> int" where
  \<comment> \<open>The value of a number in an \<^verbatim>\<open>int64\<close>.\<close>
  "wrap64 n = (n + 2 ^ 63) mod 2 ^ 64 - 2 ^ 63"

definition RoleMaster :: string where "RoleMaster = ''master''"

definition RoleSlave :: string where "RoleSlave = ''slave''"

definition NodeIDLen :: nat where "NodeIDLen = 40"

definition RandString :: "(nat \<Rightarrow> nat) \<Rightarrow> nat \<Rightarrow> string" where
  \<comment> \<open>The first argument is the sequence of numbers below 62 that \<^verbatim>\<open>r.Intn(62)\<close> gives.\<close>
  "RandString draw len =
     map (\<lambda>i. ''abcdefghijklmnopqrstuvwxyzABCDEFGHIJKLMNOPQRSTUVWXYZ0123456789'' ! (draw i mod 62)) [0..<len]"

definition GenerateNodeID :: "(nat \<Rightarrow> nat) \<Rightarrow> string" where
  "GenerateNodeID draw = RandString draw 40"

record spawn =
  \<comment> \<open>What a new node takes from its surroundings: random numbers and the time in seconds.\<close>
  nw_draw :: "nat \<Rightarrow> nat"
  nw_now :: int

definition NewClusterNode :: "spawn \<Rightarrow> string \<Rightarrow> string \<Rightarrow> ClusterNode" where
  "NewClusterNode sp addr password =
     \<lparr>cn_id = GenerateNodeID (nw_draw sp), cn_addr = addr, cn_role = RoleMaster, cn_password = password, cn_createdAt = wrap64 (nw_now sp)\<rparr>"

definition IsMaster :: "ClusterNode \<Rightarrow> bool" where
  "IsMaster n \<longleftrightarrow> cn_role n = RoleMaster"

definition SetRole :: "string \<Rightarrow> ClusterNode \<Rightarrow> ClusterNode" where
  "SetRole role n = n\<lparr>cn_role := role\<rparr>"

definition SetPassword :: "string \<Rightarrow> ClusterNode \<Rightarrow> ClusterNode" where
  "SetPassword password n = n\<lparr>cn_password := password\<rparr>"

subsection \<open>What a server reports\<close>

text \<open>
  The answers of the Kvrocks servers during one run: the texts of \<^verbatim>\<open>CLUSTER INFO\<close>, \<^verbatim>\<open>INFO\<close> and
  \<^verbatim>\<open>CLUSTER NODES\<close>, and whether a command is accepted.
\<close>

record kvrocks =
  kv_ClusterInfo :: "ClusterNode \<Rightarrow> string go"
  kv_Info :: "ClusterNode \<Rightarrow> string go"
  kv_ClusterNodes :: "ClusterNode \<Rightarrow> string go"
  kv_Do :: "ClusterNode \<Rightarrow> string list \<Rightarrow> unit go"

fun split_crlf :: "string \<Rightarrow> string list" where
  \<comment> \<open>\<^verbatim>\<open>strings.Split(s, "\r\n")\<close>\<close>
  "split_crlf [] = [[]]"
| "split_crlf [c] = [[c]]"
| "split_crlf (c # d # s) =
     (if of_char c = (13 :: nat) \<and> of_char d = (10 :: nat) then [] # split_crlf s
      else (case split_crlf (d # s) of l # ls \<Rightarrow> (c # l) # ls | [] \<Rightarrow> [[c]]))"

definition go_space :: "char \<Rightarrow> bool" where
  "go_space c \<longleftrightarrow> (let n = (of_char c :: nat) in (9 \<le> n \<and> n \<le> 13) \<or> n = 32 \<or> n = 133 \<or> n = 160)"

definition TrimSpace :: "string \<Rightarrow> string" where
  "TrimSpace s = rev (dropWhile go_space (rev (dropWhile go_space s)))"

definition go_quote :: "string \<Rightarrow> string" where
  \<comment> \<open>\<^verbatim>\<open>strconv.Quote\<close> on printable ASCII\<close>
  "go_quote s = [CHR 0x22] @ concat (map (\<lambda>c. if c = CHR 0x22 \<or> c = CHR 0x5C then [CHR 0x5C, c] else [c]) s) @ [CHR 0x22]"

definition num_error :: "string \<Rightarrow> string \<Rightarrow> bool \<Rightarrow> 'a go" where
  "num_error func s inRange =
     errors_New (''strconv.'' @ func @ '': parsing '' @ go_quote s @ '': '' @ (if inRange then ''invalid syntax'' else ''value out of range''))"

definition is_numeral :: "string \<Rightarrow> bool" where
  "is_numeral s \<longleftrightarrow> (let ds = (case s of c # cs \<Rightarrow> if c = CHR ''-'' \<or> c = CHR ''+'' then cs else s | [] \<Rightarrow> []) in
     ds \<noteq> [] \<and> list_all is_digit ds)"

definition ParseInt :: "string \<Rightarrow> int go" where
  \<comment> \<open>\<^verbatim>\<open>strconv.ParseInt(s, 10, 64)\<close>\<close>
  "ParseInt s = (case Atoi s of Inr n \<Rightarrow> Ok n | Inl _ \<Rightarrow> num_error ''ParseInt'' s (\<not> is_numeral s))"

definition ParseUint :: "string \<Rightarrow> nat go" where
  \<comment> \<open>\<^verbatim>\<open>strconv.ParseUint(s, 10, 64)\<close>\<close>
  "ParseUint s =
     (if s = [] \<or> \<not> list_all is_digit s then num_error ''ParseUint'' s True
      else if digits_val s \<ge> 2 ^ 64 then num_error ''ParseUint'' s False
      else Ok (digits_val s))"

definition slot_err :: "slot_error \<Rightarrow> 'a go" where
  \<comment> \<open>The errors of \<^verbatim>\<open>ParseSlotRange\<close>.\<close>
  "slot_err e = (case e of
       TooManyRanges \<Rightarrow> wrap [] ErrInvalidArgument '', cannot have more than one range''
     | SlotOutOfRange \<Rightarrow> errors_New ''slot id was out of range, should be between 0 and 16383''
     | StartLargerThanStop \<Rightarrow> errors_New ''start slot id greater than stop slot id''
     | AtoiError s \<Rightarrow> num_error ''Atoi'' s (\<not> is_numeral s))"

definition parse_range :: "string \<Rightarrow> SlotRange go" where
  "parse_range s = (case ParseSlotRange s of Inr r \<Rightarrow> Ok r | Inl e \<Rightarrow> slot_err e)"

record ClusterInfo =
  ci_CurrentEpoch :: int
  ci_MigratingSlot :: "MigratingSlot option"
  ci_MigratingState :: string

record ClusterNodeInfo =
  ni_Sequence :: nat
  ni_Role :: string

definition cluster_info_line :: "string \<Rightarrow> ClusterInfo \<Rightarrow> ClusterInfo go" where
  \<comment> \<open>One iteration of the loop of \<^verbatim>\<open>GetClusterInfo\<close>.\<close>
  "cluster_info_line line info =
     (case js_split CHR '':'' line of
        [k, v] \<Rightarrow>
          (let v = TrimSpace v; k = js_toLowerCase (TrimSpace k) in
           if k = ''cluster_current_epoch'' then gbind (ParseInt v) (\<lambda>n. Ok (info\<lparr>ci_CurrentEpoch := n\<rparr>))
           else if k = ''migrating_slot'' \<or> k = ''migrating_slot(s)''
           then gbind (parse_range v) (\<lambda>r. Ok (info\<lparr>ci_MigratingSlot := Some (FromSlotRange r)\<rparr>))
           else if k = ''migrating_state'' then Ok (info\<lparr>ci_MigratingState := v\<rparr>)
           else Ok info)
      | _ \<Rightarrow> Ok info)"

fun go_fold :: "('a \<Rightarrow> 's \<Rightarrow> 's go) \<Rightarrow> 'a list \<Rightarrow> 's \<Rightarrow> 's go" where
  "go_fold f [] s = Ok s"
| "go_fold f (x # xs) s = gbind (f x s) (go_fold f xs)"

definition GetClusterInfo :: "kvrocks \<Rightarrow> ClusterNode \<Rightarrow> ClusterInfo go" where
  "GetClusterInfo kv n =
     gbind (kv_ClusterInfo kv n) (\<lambda>infoStr.
       go_fold cluster_info_line (split_crlf infoStr) \<lparr>ci_CurrentEpoch = -1, ci_MigratingSlot = None, ci_MigratingState = []\<rparr>)"

definition node_info_line :: "string \<Rightarrow> ClusterNodeInfo \<Rightarrow> ClusterNodeInfo go" where
  "node_info_line line info =
     (case js_split CHR '':'' line of
        [k, v] \<Rightarrow>
          if k = ''sequence'' then gbind (ParseUint v) (\<lambda>n. Ok (info\<lparr>ni_Sequence := n\<rparr>))
          else if k = ''role'' then Ok (info\<lparr>ni_Role := v\<rparr>)
          else Ok info
      | _ \<Rightarrow> Ok info)"

definition GetClusterNodeInfo :: "kvrocks \<Rightarrow> ClusterNode \<Rightarrow> ClusterNodeInfo go" where
  "GetClusterNodeInfo kv n =
     gbind (kv_Info kv n) (\<lambda>infoStr. go_fold node_info_line (split_crlf infoStr) \<lparr>ni_Sequence = 0, ni_Role = []\<rparr>)"

definition GetClusterNodesString :: "kvrocks \<Rightarrow> ClusterNode \<Rightarrow> string go" where
  "GetClusterNodesString kv n =
     gbind (kv_ClusterNodes kv n) (\<lambda>s. Ok (rev (dropWhile (\<lambda>c. of_char c = (10 :: nat)) (rev s))))"

definition CheckClusterMode :: "kvrocks \<Rightarrow> ClusterNode \<Rightarrow> int go" where
  "CheckClusterMode kv n =
     (case GetClusterInfo kv n of
        Ok info \<Rightarrow> Ok (ci_CurrentEpoch info)
      | Fail e \<Rightarrow> if js_includes (err_text e) ''cluster is not initialized'' then Ok (-1)
                  else in_context ''error while checking node cluster mode'' (Fail e)
      | Panic \<Rightarrow> Panic)"

definition node_MigrateSlot :: "kvrocks \<Rightarrow> ClusterNode \<Rightarrow> SlotRange \<Rightarrow> string \<Rightarrow> unit go" where
  "node_MigrateSlot kv n slot targetNodeID =
     kv_Do kv n [''CLUSTERX'', ''MIGRATE'', SlotRange_String slot, targetNodeID]"

section \<open>Decoding JSON\<close>

text \<open>
  The part of \<^verbatim>\<open>encoding/json\<close> that the sources use: a value decoded into a field of a struct. The names of
  the fields compare without case and a later field replaces an earlier one; an absent field, here
  \<^term>\<open>JUndef\<close>, and \<^verbatim>\<open>null\<close> leave the zero value. The decoder goes on after an error and returns the first
  one; the model looks at the fields in the order of the struct.
\<close>

definition json_kind :: "jsval \<Rightarrow> string" where
  "json_kind v = (case v of JStr _ \<Rightarrow> ''string'' | JNum _ \<Rightarrow> ''number'' | JBool _ \<Rightarrow> ''bool'' | JArr _ \<Rightarrow> ''array'' | _ \<Rightarrow> ''object'')"

definition unmarshal_error :: "string \<Rightarrow> jsval \<Rightarrow> string \<Rightarrow> 'a go" where
  \<comment> \<open>The first argument is where the value goes: \<^verbatim>\<open>struct field S.f\<close> or \<^verbatim>\<open>value\<close>.\<close>
  "unmarshal_error into v typ =
     errors_New (''json: cannot unmarshal '' @ json_kind v @ '' into Go '' @ into @ '' of type '' @ typ)"

definition json_field :: "(string \<times> jsval) list \<Rightarrow> string \<Rightarrow> jsval" where
  "json_field fs k = (case List.find (\<lambda>(n, v). js_toLowerCase n = js_toLowerCase k) (rev fs) of None \<Rightarrow> JUndef | Some (n, v) \<Rightarrow> v)"

definition json_struct :: "string \<Rightarrow> jsval \<Rightarrow> (string \<times> jsval) list go" where
  \<comment> \<open>The fields of the object that is decoded into a struct.\<close>
  "json_struct typ v = (case v of JObj fs \<Rightarrow> Ok fs | JNull \<Rightarrow> Ok [] | _ \<Rightarrow> unmarshal_error ''value'' v typ)"

definition json_string :: "string \<Rightarrow> jsval \<Rightarrow> string go" where
  "json_string into v = (case v of JStr s \<Rightarrow> Ok s | JNull \<Rightarrow> Ok [] | JUndef \<Rightarrow> Ok [] | _ \<Rightarrow> unmarshal_error into v ''string'')"

definition json_bool :: "string \<Rightarrow> jsval \<Rightarrow> bool go" where
  "json_bool into v = (case v of JBool b \<Rightarrow> Ok b | JNull \<Rightarrow> Ok False | JUndef \<Rightarrow> Ok False | _ \<Rightarrow> unmarshal_error into v ''bool'')"

definition json_int :: "string \<Rightarrow> jsval \<Rightarrow> int go" where
  \<comment> \<open>A number with a fraction or beyond 64 bits is an error; JSON has no other numbers, so \<^verbatim>\<open>NaN\<close> and the
      infinities are printed as \<^verbatim>\<open>null\<close>.\<close>
  "json_int into v = (case v of
       JNum (Fin r) \<Rightarrow>
         if r = of_int \<lfloor>r\<rfloor> \<and> - (2 ^ 63) \<le> \<lfloor>r\<rfloor> \<and> \<lfloor>r\<rfloor> < 2 ^ 63 then Ok \<lfloor>r\<rfloor>
         else errors_New (''json: cannot unmarshal number '' @ show_num (Fin r) @ '' into Go '' @ into @ '' of type int'')
     | JNum _ \<Rightarrow> Ok 0 | JNull \<Rightarrow> Ok 0 | JUndef \<Rightarrow> Ok 0 | _ \<Rightarrow> unmarshal_error into v ''int'')"

definition json_list :: "(jsval \<Rightarrow> 'a go) \<Rightarrow> string \<Rightarrow> string \<Rightarrow> jsval \<Rightarrow> 'a list go" where
  "json_list dec into typ v = (case v of JArr xs \<Rightarrow> gmap dec xs | JNull \<Rightarrow> Ok [] | JUndef \<Rightarrow> Ok [] | _ \<Rightarrow> unmarshal_error into v typ)"

definition SlotRange_UnmarshalJSON :: "jsval \<Rightarrow> SlotRange go" where
  "SlotRange_UnmarshalJSON v = (case v of
       JUndef \<Rightarrow> Ok \<lparr>Start = 0, Stop = 0\<rparr>
     | _ \<Rightarrow> gbind (json_string ''value'' v) parse_range)"

definition MigratingSlot_UnmarshalJSON :: "jsval \<Rightarrow> MigratingSlot option go" where
  \<comment> \<open>Into a pointer: \<^verbatim>\<open>null\<close> and an absent field leave it nil.\<close>
  "MigratingSlot_UnmarshalJSON v = (case v of
       JUndef \<Rightarrow> Ok None
     | JNull \<Rightarrow> Ok None
     | JStr s \<Rightarrow> gbind (SlotRange_UnmarshalJSON v) (\<lambda>slotRange. Ok (Some \<lparr>ms_SlotRange = slotRange, ms_IsMigrating = True\<rparr>))
     | JNum (Fin t) \<Rightarrow>
         if t = -1 then Ok (Some \<lparr>ms_SlotRange = \<lparr>Start = 0, Stop = 0\<rparr>, ms_IsMigrating = False\<rparr>)
         else if t < of_int MinSlotID \<or> t > of_int MaxSlotID then slot_err SlotOutOfRange
         else Ok (Some \<lparr>ms_SlotRange = \<lparr>Start = \<lfloor>t\<rfloor>, Stop = \<lfloor>t\<rfloor>\<rparr>, ms_IsMigrating = True\<rparr>)
     | JNum _ \<Rightarrow> Ok None
     | JBool _ \<Rightarrow> errors_New ''invalid slot range type: bool''
     | JArr _ \<Rightarrow> errors_New ''invalid slot range type: []interface {}''
     | _ \<Rightarrow> errors_New ''invalid slot range type: map[string]interface {}'')"

definition ClusterNode_UnmarshalJSON :: "jsval \<Rightarrow> ClusterNode go" where
  "ClusterNode_UnmarshalJSON v =
     gbind (json_struct ''struct'' v) (\<lambda>fs.
     gbind (json_string ''struct field .id'' (json_field fs ''id'')) (\<lambda>i.
     gbind (json_string ''struct field .addr'' (json_field fs ''addr'')) (\<lambda>addr.
     gbind (json_string ''struct field .role'' (json_field fs ''role'')) (\<lambda>role.
     gbind (json_string ''struct field .password'' (json_field fs ''password'')) (\<lambda>password.
     gbind (json_int ''struct field .created_at'' (json_field fs ''created_at'')) (\<lambda>createdAt.
       Ok \<lparr>cn_id = i, cn_addr = addr, cn_role = role, cn_password = password, cn_createdAt = createdAt\<rparr>))))))"

section \<open>What was printed is read back\<close>

definition int64 :: "int \<Rightarrow> bool" where
  "int64 n \<longleftrightarrow> - (2 ^ 63) \<le> n \<and> n < 2 ^ 63"

lemma int64_wrap64 [simp]: "int64 (wrap64 n)"
  by (simp add: int64_def wrap64_def)

lemma wrap64_id: "int64 n \<Longrightarrow> wrap64 n = n"
  by (simp add: int64_def wrap64_def)

lemma json_int_print [simp]: "json_int into (JNum (Fin (of_int n))) = Ok n" if "int64 n"
  using that by (simp add: json_int_def int64_def errors_New_def)

lemma json_string_print [simp]: "json_string into (JStr s) = Ok s"
  by (simp add: json_string_def)

lemma parse_range_print [simp]: "valid_range r \<Longrightarrow> parse_range (SlotRange_String r) = Ok r"
  by (simp add: parse_range_def ParseSlotRange_String)

lemma SlotRange_print [simp]: "valid_range r \<Longrightarrow> SlotRange_UnmarshalJSON (SlotRange_MarshalJSON r) = Ok r"
  by (simp add: SlotRange_UnmarshalJSON_def SlotRange_MarshalJSON_def)

lemma MigratingSlot_print [simp]:
  assumes "\<And>s. m = Some s \<Longrightarrow> ms_IsMigrating s \<and> valid_range (ms_SlotRange s)"
  shows "MigratingSlot_UnmarshalJSON (MigratingSlot_MarshalJSON m) = Ok m"
  using assms by (cases m) (auto simp: MigratingSlot_UnmarshalJSON_def MigratingSlot_MarshalJSON_def SlotRange_UnmarshalJSON_def)

lemma ClusterNode_print [simp]:
  assumes "int64 (cn_createdAt n)"
  shows "ClusterNode_UnmarshalJSON (ClusterNode_MarshalJSON n) = Ok n"
proof -
  note f = json_field_def js_toLowerCase_def lower_char_def
  from assms show ?thesis
    by (simp add: ClusterNode_UnmarshalJSON_def ClusterNode_MarshalJSON_def json_struct_def f)
qed

end
