(* ===== verification/Topology.thy ===== *)
theory Topology
  imports Nodes
begin

text \<open>
  The topology that the controller keeps: shards and clusters with the operations that change them,
  \<^verbatim>\<open>store/cluster_shard.go\<close> and \<^verbatim>\<open>store/cluster.go\<close>.
\<close>

section \<open>Shards\<close>

definition NewShard :: Shard where
  "NewShard = \<lparr>shard_Nodes = [], shard_SlotRanges = [], shard_TargetShardIndex = -1, shard_MigratingSlot = None\<rparr>"

definition ClearMigrateState :: "Shard \<Rightarrow> Shard" where
  "ClearMigrateState shard = shard\<lparr>shard_MigratingSlot := None, shard_TargetShardIndex := -1\<rparr>"

definition IsMigrating :: "Shard \<Rightarrow> bool" where
  "IsMigrating shard \<longleftrightarrow>
     (case shard_MigratingSlot shard of None \<Rightarrow> False | Some m \<Rightarrow> ms_IsMigrating m) \<and> shard_TargetShardIndex shard \<noteq> -1"

definition IsServicing :: "Shard \<Rightarrow> bool" where
  "IsServicing shard =
     (if list_ex (\<lambda>r. Start r \<noteq> -1 \<or> Stop r \<noteq> -1) (shard_SlotRanges shard) then True else IsMigrating shard)"

definition addNode :: "spawn \<Rightarrow> string \<Rightarrow> string \<Rightarrow> string \<Rightarrow> Shard \<Rightarrow> (Shard \<times> ClusterNode) go" where
  "addNode nw addr role password shard =
     (if role \<noteq> RoleMaster \<and> role \<noteq> RoleSlave then wrap [] ErrInvalidArgument '': role''
      else if list_ex (\<lambda>node. cn_addr node = addr) (shard_Nodes shard) then fail ErrAlreadyExists
      else if role = RoleMaster \<and> length (shard_Nodes shard) > 0 then wrap ''master node '' ErrAlreadyExists []
      else (let node = SetRole role (NewClusterNode nw addr password) in
        Ok (shard\<lparr>shard_Nodes := shard_Nodes shard @ [node]\<rparr>, node)))"

definition GetMasterNode :: "Shard \<Rightarrow> ClusterNode option" where
  "GetMasterNode shard = List.find IsMaster (shard_Nodes shard)"

fun remove_loop :: "string \<Rightarrow> nat list \<Rightarrow> ClusterNode list \<Rightarrow> nat \<Rightarrow> bool \<Rightarrow> (ClusterNode list \<times> bool) go" where
  \<comment> \<open>The loop of \<^verbatim>\<open>removeNode\<close>, which ranges over the positions of the original slice while it moves the
      elements behind a removed one to the left in the shared array: the array, the current length and
      whether a node was found. Slicing behind the current length panics.\<close>
  "remove_loop nodeID [] arr m isFound = Ok (take m arr, isFound)"
| "remove_loop nodeID (i # is) arr m isFound =
     (if cn_id (arr ! i) \<noteq> nodeID then remove_loop nodeID is arr m isFound
      else if IsMaster (arr ! i) then wrap ''cannot remove master node: '' ErrInvalidArgument []
      else if i + 1 > m then Panic
      else remove_loop nodeID is (take i arr @ drop (i + 1) (take m arr) @ drop (m - 1) arr) (m - 1) True)"

definition removeNode :: "string \<Rightarrow> Shard \<Rightarrow> Shard go" where
  "removeNode nodeID shard =
     (let n = length (shard_Nodes shard) in
      gbind (remove_loop nodeID [0..<n] (shard_Nodes shard) n False) (\<lambda>(nodes, isFound).
        if \<not> isFound then fail ErrNotFound else Ok (shard\<lparr>shard_Nodes := nodes\<rparr>)))"

fun new_master_loop :: "kvrocks \<Rightarrow> nat \<Rightarrow> string \<Rightarrow> (nat \<times> ClusterNode) list \<Rightarrow> nat option \<Rightarrow> nat \<Rightarrow> nat option go" where
  \<comment> \<open>The loop of \<^verbatim>\<open>getNewMasterNodeIndex\<close>: None is the index \<open>-1\<close>, the last argument \<^verbatim>\<open>newestOffset\<close>.\<close>
  "new_master_loop kv masterNodeIndex preferred [] best newest = Ok best"
| "new_master_loop kv masterNodeIndex preferred ((i, node) # rest) best newest =
     (if i = masterNodeIndex then new_master_loop kv masterNodeIndex preferred rest best newest
      else (case GetClusterInfo kv node of
          Panic \<Rightarrow> Panic
        | Fail _ \<Rightarrow> new_master_loop kv masterNodeIndex preferred rest best newest
        | Ok _ \<Rightarrow> (case GetClusterNodeInfo kv node of
              Panic \<Rightarrow> Panic
            | Fail _ \<Rightarrow> new_master_loop kv masterNodeIndex preferred rest best newest
            | Ok info \<Rightarrow>
                if ni_Role info \<noteq> RoleSlave \<or> ni_Sequence info = 0
                then new_master_loop kv masterNodeIndex preferred rest best newest
                else if preferred \<noteq> [] \<and> cn_id node = preferred then Ok (Some i)
                else if ni_Sequence info \<ge> newest then new_master_loop kv masterNodeIndex preferred rest (Some i) (ni_Sequence info)
                else new_master_loop kv masterNodeIndex preferred rest best newest)))"

definition getNewMasterNodeIndex :: "kvrocks \<Rightarrow> nat \<Rightarrow> string \<Rightarrow> Shard \<Rightarrow> nat option go" where
  "getNewMasterNodeIndex kv masterNodeIndex preferredNodeID shard =
     new_master_loop kv masterNodeIndex preferredNodeID (indexed (shard_Nodes shard)) None 0"

definition master_index :: "Shard \<Rightarrow> nat option" where
  \<comment> \<open>The position of the first master; None is \<open>-1\<close>.\<close>
  "master_index shard = map_option fst (List.find (\<lambda>(i, node). IsMaster node) (indexed (shard_Nodes shard)))"

definition promoteNewMaster :: "kvrocks \<Rightarrow> string \<Rightarrow> string \<Rightarrow> Shard \<Rightarrow> (Shard \<times> string) go" where
  "promoteNewMaster kv masterNodeID preferredNodeID shard =
     (if length (shard_Nodes shard) \<le> 1 then fail ErrShardNoReplica
      else (case master_index shard of
          None \<Rightarrow> fail ErrOldMasterNodeNotFound
        | Some old \<Rightarrow>
            if masterNodeID \<noteq> [] \<and> cn_id (shard_Nodes shard ! old) \<noteq> masterNodeID then fail ErrNodeIsNotMaster
            else gbind (getNewMasterNodeIndex kv old preferredNodeID shard) (\<lambda>found. case found of
                None \<Rightarrow> fail ErrShardNoMatchNewMaster
              | Some new \<Rightarrow>
                  (let nodes = (shard_Nodes shard)[old := SetRole RoleSlave (shard_Nodes shard ! old)];
                       nodes = nodes[new := SetRole RoleMaster (nodes ! new)]
                   in Ok (shard\<lparr>shard_Nodes := nodes\<rparr>, cn_id (nodes ! new))))))"

definition Shard_HasOverlap :: "Shard \<Rightarrow> SlotRange \<Rightarrow> bool" where
  "Shard_HasOverlap shard slotRange = list_ex (\<lambda>r. HasOverlap r slotRange) (shard_SlotRanges shard)"

fun replace_colon :: "string \<Rightarrow> string" where
  \<comment> \<open>\<^verbatim>\<open>strings.Replace(s, ":", " ", 1)\<close>\<close>
  "replace_colon [] = []"
| "replace_colon (c # s) = (if c = CHR '':'' then CHR '' '' # s else c # replace_colon s)"

definition ToSlotsString :: "Shard \<Rightarrow> string go" where
  "ToSlotsString shard =
     (case master_index shard of
        None \<Rightarrow> errors_New ''missing master node''
      | Some m \<Rightarrow> Ok (concat (map (\<lambda>(i, node).
          cn_id node @ '' '' @ replace_colon (cn_addr node) @ '' '' @
          (if i = m then RoleMaster @ '' - '' @ js_join '' '' (map SlotRange_String (shard_SlotRanges shard))
           else RoleSlave @ '' '' @ cn_id (shard_Nodes shard ! m)) @ [CHR 0x0A]) (indexed (shard_Nodes shard)))))"

section \<open>Clusters\<close>

record Cluster =
  cl_Name :: string
  cl_Version :: int
  cl_Shards :: "Shard list"

definition Cluster_MarshalJSON :: "Cluster \<Rightarrow> jsval" where
  "Cluster_MarshalJSON c = JObj
     [(''version'', JNum (Fin (of_int (cl_Version c)))), (''name'', JStr (cl_Name c)),
      (''shards'', JArr (map Shard_json (cl_Shards c)))]"

definition new_shard_nodes :: "(nat \<Rightarrow> spawn) \<Rightarrow> string list \<Rightarrow> nat \<Rightarrow> nat \<Rightarrow> ClusterNode list" where
  \<comment> \<open>The inner loop of \<^verbatim>\<open>NewCluster\<close>: the nodes of shard \<open>i\<close>.\<close>
  "new_shard_nodes nw nodes replicas i = map (\<lambda>j.
     SetRole (if j \<noteq> 0 then RoleSlave else RoleMaster)
       (NewClusterNode (nw (i * replicas + j)) (nodes ! (i * replicas + j)) [])) [0..<replicas]"

definition NewCluster :: "(nat \<Rightarrow> spawn) \<Rightarrow> string \<Rightarrow> string list \<Rightarrow> int \<Rightarrow> Cluster go" where
  \<comment> \<open>\<open>nw n\<close> is what the n-th new node takes.\<close>
  "NewCluster nw name nodes replicas =
     (if length nodes = 0 then errors_New ''cluster nodes should NOT be empty''
      else if replicas < 0 then errors_New ''replicas should NOT be less than 0''
      else (let replicas = (if replicas = 0 then 1 else replicas) in
        if int (length nodes) mod replicas \<noteq> 0 then errors_New ''cluster nodes should be divisible by replicas''
        else (let r = nat replicas; shardCount = length nodes div r in
          case CalculateSlotRanges shardCount of
            None \<Rightarrow> Panic
          | Some slotRanges \<Rightarrow> Ok \<lparr>cl_Name = name, cl_Version = 1, cl_Shards = map (\<lambda>i.
              NewShard\<lparr>shard_Nodes := new_shard_nodes nw nodes r i, shard_SlotRanges := [slotRanges ! i]\<rparr>) [0..<shardCount]\<rparr>)))"

definition map_nodes :: "(ClusterNode \<Rightarrow> ClusterNode) \<Rightarrow> Cluster \<Rightarrow> Cluster" where
  "map_nodes f c = c\<lparr>cl_Shards := map (\<lambda>sh. sh\<lparr>shard_Nodes := map f (shard_Nodes sh)\<rparr>) (cl_Shards c)\<rparr>"

definition Cluster_SetPassword :: "string \<Rightarrow> Cluster \<Rightarrow> Cluster" where
  "Cluster_SetPassword password c = map_nodes (SetPassword password) c"

definition ToSlotString :: "Cluster \<Rightarrow> string go" where
  "ToSlotString c =
     gbind (gmap (\<lambda>(i, sh). in_context (''found err at shard['' @ show_nat i @ '']'') (ToSlotsString sh)) (indexed (cl_Shards c)))
       (\<lambda>ss. Ok (concat ss))"

definition shard_in_range :: "int \<Rightarrow> Cluster \<Rightarrow> bool" where
  "shard_in_range shardIndex c \<longleftrightarrow> \<not> (shardIndex < 0 \<or> shardIndex \<ge> int (length (cl_Shards c)))"

definition GetShard :: "int \<Rightarrow> Cluster \<Rightarrow> Shard go" where
  "GetShard shardIndex c =
     (if \<not> shard_in_range shardIndex c then fail ErrIndexOutOfRange else Ok (cl_Shards c ! nat shardIndex))"

definition set_shard :: "nat \<Rightarrow> Shard \<Rightarrow> Cluster \<Rightarrow> Cluster" where
  "set_shard i sh c = c\<lparr>cl_Shards := (cl_Shards c)[i := sh]\<rparr>"

definition AddNode :: "spawn \<Rightarrow> int \<Rightarrow> string \<Rightarrow> string \<Rightarrow> string \<Rightarrow> Cluster \<Rightarrow> (Cluster \<times> ClusterNode) go" where
  "AddNode nw shardIndex addr role password c =
     (if \<not> shard_in_range shardIndex c then fail ErrIndexOutOfRange
      else gbind (addNode nw addr role password (cl_Shards c ! nat shardIndex)) (\<lambda>(sh, node).
        Ok (set_shard (nat shardIndex) sh c, node)))"

definition RemoveNode :: "int \<Rightarrow> string \<Rightarrow> Cluster \<Rightarrow> Cluster go" where
  "RemoveNode shardIndex nodeID c =
     (if \<not> shard_in_range shardIndex c then fail ErrIndexOutOfRange
      else gbind (removeNode nodeID (cl_Shards c ! nat shardIndex)) (\<lambda>sh. Ok (set_shard (nat shardIndex) sh c)))"

definition PromoteNewMaster :: "kvrocks \<Rightarrow> int \<Rightarrow> string \<Rightarrow> string \<Rightarrow> Cluster \<Rightarrow> (Cluster \<times> string) go" where
  "PromoteNewMaster kv shardIdx masterNodeID preferredNodeID c =
     gbind (GetShard shardIdx c) (\<lambda>shard.
     gbind (promoteNewMaster kv masterNodeID preferredNodeID shard) (\<lambda>(shard, newMasterNodeID).
       Ok (set_shard (nat shardIdx) shard c, newMasterNodeID)))"

definition GetNodes :: "Cluster \<Rightarrow> ClusterNode list" where
  "GetNodes c = concat (map shard_Nodes (cl_Shards c))"

fun find_shard_loop :: "SlotRange \<Rightarrow> (nat \<times> SlotRange) list \<Rightarrow> nat option \<Rightarrow> nat go" where
  \<comment> \<open>The two nested loops of \<^verbatim>\<open>findShardIndexBySlot\<close>, over the ranges with the index of their shard; None
      is \<open>-1\<close>.\<close>
  "find_shard_loop slot [] None = fail ErrSlotNotBelongToAnyShard"
| "find_shard_loop slot [] (Some i) = Ok i"
| "find_shard_loop slot ((i, slotRange) # rest) found =
     (if HasOverlap slotRange slot
      then (if found \<noteq> None then fail ErrSlotRangeBelongsToMultipleShards else find_shard_loop slot rest (Some i))
      else find_shard_loop slot rest found)"

definition owned_ranges :: "Cluster \<Rightarrow> (nat \<times> SlotRange) list" where
  "owned_ranges c = concat (map (\<lambda>(i, sh). map (Pair i) (shard_SlotRanges sh)) (indexed (cl_Shards c)))"

definition findShardIndexBySlot :: "SlotRange \<Rightarrow> Cluster \<Rightarrow> nat go" where
  "findShardIndexBySlot slot c = find_shard_loop slot (owned_ranges c) None"

definition move_slots :: "slice_sort \<Rightarrow> nat \<Rightarrow> nat \<Rightarrow> SlotRange \<Rightarrow> Cluster \<Rightarrow> Cluster" where
  \<comment> \<open>\<^verbatim>\<open>RemoveSlotFromSlotRanges\<close> at the source, then \<^verbatim>\<open>AddSlotToSlotRanges\<close> at the target.\<close>
  "move_slots sortSlice source target slot c =
     (let sh = cl_Shards c ! source;
          c = set_shard source (sh\<lparr>shard_SlotRanges := RemoveSlotFromSlotRanges sortSlice (shard_SlotRanges sh) slot\<rparr>) c;
          sh = cl_Shards c ! target
      in set_shard target (sh\<lparr>shard_SlotRanges := AddSlotToSlotRanges sortSlice (shard_SlotRanges sh) slot\<rparr>) c)"

definition Cluster_MigrateSlot :: "kvrocks \<Rightarrow> slice_sort \<Rightarrow> SlotRange \<Rightarrow> int \<Rightarrow> bool \<Rightarrow> Cluster \<Rightarrow> Cluster go" where
  "Cluster_MigrateSlot kv sortSlice slot targetShardIdx slotOnly c =
     (if \<not> shard_in_range targetShardIdx c then fail ErrIndexOutOfRange
      else (let target = nat targetShardIdx in
        gbind (findShardIndexBySlot slot c) (\<lambda>source.
          if source = target then fail ErrShardIsSame
          else if slotOnly then
            Ok (move_slots sortSlice source target slot (set_shard source (ClearMigrateState (cl_Shards c ! source)) c))
          else if IsMigrating (cl_Shards c ! source) \<or> IsMigrating (cl_Shards c ! target) then fail ErrShardSlotIsMigrating
          else (case GetMasterNode (cl_Shards c ! source) of
              None \<Rightarrow> fail ErrNotFound
            | Some sourceMasterNode \<Rightarrow> (case GetMasterNode (cl_Shards c ! target) of
                None \<Rightarrow> Panic
              | Some targetMasterNode \<Rightarrow>
                  gbind (node_MigrateSlot kv sourceMasterNode slot (cn_id targetMasterNode)) (\<lambda>_.
                    Ok (set_shard source ((cl_Shards c ! source)\<lparr>shard_MigratingSlot := Some (FromSlotRange slot),
                      shard_TargetShardIndex := targetShardIdx\<rparr>) c)))))))"

subsection \<open>Adding and dropping shards\<close>

definition shard_nodes :: "(nat \<Rightarrow> spawn) \<Rightarrow> string list \<Rightarrow> string \<Rightarrow> ClusterNode list" where
  \<comment> \<open>The loop of \<^verbatim>\<open>ShardHandler.Create\<close>: the first node is the master.\<close>
  "shard_nodes nw addrs password =
     map (\<lambda>(i, addr). SetRole (if i = 0 then RoleMaster else RoleSlave) (NewClusterNode (nw i) addr password)) (indexed addrs)"

definition add_shard :: "Shard \<Rightarrow> Cluster \<Rightarrow> Cluster" where
  "add_shard sh c = c\<lparr>cl_Shards := cl_Shards c @ [sh]\<rparr>"

definition drop_shard :: "nat \<Rightarrow> Cluster \<Rightarrow> Cluster" where
  \<comment> \<open>\<^verbatim>\<open>append(cluster.Shards[:shardIdx], cluster.Shards[shardIdx+1:]...)\<close>\<close>
  "drop_shard i c = c\<lparr>cl_Shards := take i (cl_Shards c) @ drop (i + 1) (cl_Shards c)\<rparr>"

definition end_migration :: "nat \<Rightarrow> Cluster \<Rightarrow> Cluster" where
  "end_migration i c = set_shard i (ClearMigrateState (cl_Shards c ! i)) c"

definition complete_migration :: "slice_sort \<Rightarrow> nat \<Rightarrow> SlotRange \<Rightarrow> Cluster \<Rightarrow> Cluster" where
  \<comment> \<open>What \<^verbatim>\<open>tryUpdateMigrationStatus\<close> does on success with shard \<open>i\<close> of the cluster.\<close>
  "complete_migration sortSlice i slot c =
     end_migration i (move_slots sortSlice i (nat (shard_TargetShardIndex (cl_Shards c ! i))) slot c)"

subsection \<open>Commands to the nodes\<close>

text \<open>The commands that were sent, and the result.\<close>

type_synonym 'a sends = "(ClusterNode \<times> string list) list \<times> 'a go"

definition Do :: "kvrocks \<Rightarrow> ClusterNode \<Rightarrow> string list \<Rightarrow> unit sends" where
  "Do kv n args = ([(n, args)], kv_Do kv n args)"

fun and_then :: "unit sends \<Rightarrow> unit sends \<Rightarrow> unit sends" where
  "and_then (sent, Ok u) (later, r) = (sent @ later, r)"
| "and_then (sent, r) _ = (sent, r)"

definition each_node :: "(ClusterNode \<Rightarrow> unit sends) \<Rightarrow> Cluster \<Rightarrow> unit sends" where
  "each_node f c = foldr (\<lambda>n rest. and_then (f n) rest) (GetNodes c) ([], Ok ())"

definition SyncClusterInfo :: "kvrocks \<Rightarrow> Cluster \<Rightarrow> ClusterNode \<Rightarrow> unit sends" where
  "SyncClusterInfo kv c n = (case ToSlotString c of
       Fail e \<Rightarrow> ([], Fail e)
     | Panic \<Rightarrow> ([], Panic)
     | Ok clusterStr \<Rightarrow>
         and_then (Do kv n [''CLUSTERX'', ''SETNODEID'', cn_id n])
           (Do kv n [''CLUSTERX'', ''SETNODES'', clusterStr, show_int (cl_Version c)]))"

definition SyncToNodes :: "kvrocks \<Rightarrow> Cluster \<Rightarrow> unit sends" where
  "SyncToNodes kv c = each_node (SyncClusterInfo kv c) c"

definition node_Reset :: "kvrocks \<Rightarrow> ClusterNode \<Rightarrow> unit sends" where
  \<comment> \<open>The result of \<^verbatim>\<open>FLUSHALL\<close> is ignored.\<close>
  "node_Reset kv n = and_then (if IsMaster n then ([(n, [''FLUSHALL''])], Ok ()) else ([], Ok ()))
     (Do kv n [''CLUSTER'', ''RESET'', ''HARD''])"

definition Cluster_Reset :: "kvrocks \<Rightarrow> Cluster \<Rightarrow> unit sends" where
  "Cluster_Reset kv c = each_node (node_Reset kv) c"

definition SetSlot :: "kvrocks \<Rightarrow> int \<Rightarrow> string \<Rightarrow> Cluster \<Rightarrow> Cluster \<times> unit sends" where
  "SetSlot kv slot targetNodeID c =
     (let c = c\<lparr>cl_Version := wrap64 (cl_Version c + 1)\<rparr> in
      (c, each_node (\<lambda>n. Do kv n [''CLUSTERX'', ''SETSLOT'', show_int slot, ''NODE'', targetNodeID, show_int (cl_Version c)]) c))"

subsection \<open>Reading a topology\<close>

text \<open>The result of \<^verbatim>\<open>sort.Sort\<close> on the shards is a parameter, as \<^verbatim>\<open>sort\<close> is not stable.\<close>

definition Shards_Less :: "Shard \<Rightarrow> Shard \<Rightarrow> bool" where
  "Shards_Less a b =
     (if shard_SlotRanges a = [] then False
      else if shard_SlotRanges b = [] then True
      else Start (hd (shard_SlotRanges a)) < Start (hd (shard_SlotRanges b)))"

record parse_state =
  ps_clusterVer :: int
  ps_shards :: "Shard list"
  ps_slaveNodes :: "(string \<times> ClusterNode) list"

definition parse_node :: "string \<Rightarrow> parse_state \<Rightarrow> parse_state go" where
  \<comment> \<open>One iteration of the loop of \<^verbatim>\<open>ParseCluster\<close>. The map from masters to slaves is a list of pairs.\<close>
  "parse_node nodeString s =
     (let fields = js_split CHR '' '' nodeString in
      if length fields < 7 then errors_New (''require at least 7 fields, node info['' @ nodeString @ '']'')
      else (let roles = js_split CHR '','' (fields ! 2);
                role = (if CHR '','' \<in> set (fields ! 2) then roles ! 1 else fields ! 2);
                node = \<lparr>cn_id = fields ! 0, cn_addr = hd (js_split CHR ''@'' (fields ! 1)), cn_role = role, cn_password = [], cn_createdAt = 0\<rparr>
            in case ParseInt (fields ! 6) of
                Panic \<Rightarrow> Panic
              | Fail _ \<Rightarrow> errors_New (''node version error, node info['' @ go_quote nodeString @ '']'')
              | Ok ver \<Rightarrow>
                  if role = RoleMaster then
                    gbind (in_context (''parse slots error for node['' @ nodeString @ '']'') (gmap parse_range (drop 8 fields))) (\<lambda>ranges.
                      Ok (s\<lparr>ps_clusterVer := ver,
                        ps_shards := ps_shards s @ [NewShard\<lparr>shard_Nodes := [node], shard_SlotRanges := ranges\<rparr>]\<rparr>))
                  else if role = RoleSlave then
                    Ok (s\<lparr>ps_clusterVer := ver, ps_slaveNodes := ps_slaveNodes s @ [(fields ! 3, node)]\<rparr>)
                  else errors_New (''node role error, node info['' @ go_quote nodeString @ '']'')))"

definition slaves_of :: "parse_state \<Rightarrow> string \<Rightarrow> ClusterNode list" where
  "slaves_of s m = map snd (filter (\<lambda>(k, n). k = m) (ps_slaveNodes s))"

definition ParseCluster :: "(Shard list \<Rightarrow> Shard list) \<Rightarrow> string \<Rightarrow> Cluster go" where
  "ParseCluster sortShards clusterStr =
     (if clusterStr = [] then errors_New ''cluster nodes string error''
      else gbind (go_fold parse_node (js_split (CHR 0x0A) clusterStr) \<lparr>ps_clusterVer = -1, ps_shards = [], ps_slaveNodes = []\<rparr>) (\<lambda>s.
        if ps_clusterVer s = -1 then errors_New (''no cluster version, cluster info['' @ go_quote clusterStr @ '']'')
        else Ok \<lparr>cl_Name = [], cl_Version = ps_clusterVer s,
               cl_Shards = map (\<lambda>sh. sh\<lparr>shard_Nodes := shard_Nodes sh @ slaves_of s (cn_id (hd (shard_Nodes sh)))\<rparr>) (sortShards (ps_shards s))\<rparr>))"

definition Shard_UnmarshalJSON :: "jsval \<Rightarrow> Shard go" where
  "Shard_UnmarshalJSON v =
     gbind (json_struct ''struct'' v) (\<lambda>fs.
     gbind (json_list SlotRange_UnmarshalJSON ''struct field .slot_ranges'' ''[]store.SlotRange'' (json_field fs ''slot_ranges'')) (\<lambda>ranges.
     gbind (json_int ''struct field .target_shard_index'' (json_field fs ''target_shard_index'')) (\<lambda>target.
     gbind (MigratingSlot_UnmarshalJSON (json_field fs ''migrating_slot'')) (\<lambda>migrating.
     gbind (json_list ClusterNode_UnmarshalJSON ''struct field .nodes'' ''[]*store.ClusterNode'' (json_field fs ''nodes'')) (\<lambda>nodes.
       Ok \<lparr>shard_Nodes = nodes, shard_SlotRanges = ranges, shard_TargetShardIndex = target, shard_MigratingSlot = migrating\<rparr>)))))"

definition Cluster_UnmarshalJSON :: "jsval \<Rightarrow> Cluster go" where
  "Cluster_UnmarshalJSON v =
     gbind (json_struct ''struct'' v) (\<lambda>fs.
     gbind (json_int ''struct field .version'' (json_field fs ''version'')) (\<lambda>version.
     gbind (json_string ''struct field .name'' (json_field fs ''name'')) (\<lambda>name.
     gbind (json_list Shard_UnmarshalJSON ''struct field .shards'' ''[]*store.Shard'' (json_field fs ''shards'')) (\<lambda>shards.
       Ok \<lparr>cl_Name = name, cl_Version = version, cl_Shards = shards\<rparr>))))"


section \<open>Storing a topology\<close>

text \<open>What is printed as JSON is read back.\<close>

definition storable_shard :: "Shard \<Rightarrow> bool" where
  "storable_shard sh \<longleftrightarrow> list_all valid_range (shard_SlotRanges sh) \<and> int64 (shard_TargetShardIndex sh)
     \<and> (\<forall>m. shard_MigratingSlot sh = Some m \<longrightarrow> ms_IsMigrating m \<and> valid_range (ms_SlotRange m))
     \<and> list_all (\<lambda>n. int64 (cn_createdAt n)) (shard_Nodes sh)"

definition storable :: "Cluster \<Rightarrow> bool" where
  "storable c \<longleftrightarrow> int64 (cl_Version c) \<and> list_all storable_shard (cl_Shards c)"

lemma gmap_print:
  assumes "\<And>x. x \<in> set xs \<Longrightarrow> dec (enc x) = Ok x"
  shows "gmap dec (map enc xs) = Ok xs"
  using assms by (induction xs) auto

lemma Shard_print [simp]:
  assumes "storable_shard sh"
  shows "Shard_UnmarshalJSON (Shard_json sh) = Ok sh"
proof -
  note f = json_field_def js_toLowerCase_def lower_char_def
  have "gmap SlotRange_UnmarshalJSON (map SlotRange_MarshalJSON (shard_SlotRanges sh)) = Ok (shard_SlotRanges sh)"
    "gmap ClusterNode_UnmarshalJSON (map ClusterNode_MarshalJSON (shard_Nodes sh)) = Ok (shard_Nodes sh)"
    using assms by (auto intro!: gmap_print simp: storable_shard_def list_all_iff)
  with assms show ?thesis
    by (simp add: Shard_UnmarshalJSON_def Shard_json_def json_struct_def json_list_def storable_shard_def f)
qed

lemma Cluster_print [simp]:
  assumes "storable c"
  shows "Cluster_UnmarshalJSON (Cluster_MarshalJSON c) = Ok c"
proof -
  note f = json_field_def js_toLowerCase_def lower_char_def
  have "gmap Shard_UnmarshalJSON (map Shard_json (cl_Shards c)) = Ok (cl_Shards c)"
    using assms by (auto intro!: gmap_print simp: storable_def list_all_iff)
  with assms show ?thesis
    by (simp add: Cluster_UnmarshalJSON_def Cluster_MarshalJSON_def json_struct_def json_list_def storable_def f)
qed

end
