(* ===== verification/JSONText.thy ===== *)
theory JSONText
  imports JSValue
begin

text \<open>
  \<^verbatim>\<open>JSON.stringify\<close> on arrays of strings and \<^verbatim>\<open>JSON.parse\<close>, the pair through which the form dialog
  hands its array fields to the submit handlers. The parser accepts the whole JSON grammar (over
  the code units of the model); its fuel is twice the length of the input plus two, and
  \<open>JSON_parse_stringify\<close> shows that this is enough on everything \<^verbatim>\<open>JSON.stringify\<close> prints.
\<close>

section \<open>Printing\<close>

definition hex_char :: "nat \<Rightarrow> char" where
  "hex_char d = char_of (if d < 10 then 48 + d else 87 + d)"

definition escape_char :: "char \<Rightarrow> string" where
  "escape_char c = (let n = (of_char c :: nat) in
     if c = CHR 0x22 then [CHR 0x5C, CHR 0x22]
     else if c = CHR 0x5C then [CHR 0x5C, CHR 0x5C]
     else if c = CHR 0x08 then [CHR 0x5C, CHR ''b'']
     else if c = CHR 0x0C then [CHR 0x5C, CHR ''f'']
     else if c = CHR 0x0A then [CHR 0x5C, CHR ''n'']
     else if c = CHR 0x0D then [CHR 0x5C, CHR ''r'']
     else if c = CHR 0x09 then [CHR 0x5C, CHR ''t'']
     else if n < 32 then [CHR 0x5C, CHR ''u'', CHR ''0'', CHR ''0'', hex_char (n div 16), hex_char (n mod 16)]
     else [c])"

definition quote :: "string \<Rightarrow> string" where
  "quote s = CHR 0x22 # concat (map escape_char s) @ [CHR 0x22]"

definition JSON_stringify :: "string list \<Rightarrow> string" where
  "JSON_stringify xs = ''['' @ js_join '','' (map quote xs) @ '']''"

section \<open>Parsing\<close>

definition is_json_ws :: "char \<Rightarrow> bool" where
  "is_json_ws c \<longleftrightarrow> (of_char c :: nat) \<in> {9, 10, 13, 32}"

definition skip_ws :: "string \<Rightarrow> string" where
  "skip_ws s = dropWhile is_json_ws s"

definition unescape :: "char \<Rightarrow> char option" where
  "unescape e = (if e = CHR 0x22 \<or> e = CHR 0x5C \<or> e = CHR ''/'' then Some e
     else if e = CHR ''b'' then Some (CHR 0x08)
     else if e = CHR ''f'' then Some (CHR 0x0C)
     else if e = CHR ''n'' then Some (CHR 0x0A)
     else if e = CHR ''r'' then Some (CHR 0x0D)
     else if e = CHR ''t'' then Some (CHR 0x09)
     else None)"

definition hex4 :: "char \<Rightarrow> char \<Rightarrow> char \<Rightarrow> char \<Rightarrow> char option" where
  \<comment> \<open>A code unit of 256 or more is outside the strings of the model.\<close>
  "hex4 a b c d = (case (hex_val a, hex_val b, hex_val c, hex_val d) of
       (Some x, Some y, Some z, Some w) \<Rightarrow> if x = 0 \<and> y = 0 then Some (char_of (16 * z + w)) else None
     | _ \<Rightarrow> None)"

fun parse_str :: "string \<Rightarrow> (string \<times> string) option" where
  "parse_str [] = None"
| "parse_str (c # cs) =
     (if c = CHR 0x22 then Some ([], cs)
      else if c = CHR 0x5C then
        (case cs of [] \<Rightarrow> None
         | e # r \<Rightarrow>
           if e = CHR ''u'' then
             (case r of a # b # x # d # q \<Rightarrow>
                (case hex4 a b x d of None \<Rightarrow> None
                 | Some ch \<Rightarrow> map_option (\<lambda>(t, q'). (ch # t, q')) (parse_str q))
              | _ \<Rightarrow> None)
           else (case unescape e of None \<Rightarrow> None
             | Some ch \<Rightarrow> map_option (\<lambda>(t, q'). (ch # t, q')) (parse_str r)))
      else if (of_char c :: nat) < 32 then None
      else map_option (\<lambda>(t, q'). (c # t, q')) (parse_str cs))"

definition parse_exp :: "string \<Rightarrow> (int \<times> string) option" where
  "parse_exp s = (case s of [] \<Rightarrow> Some (0, [])
     | c # r \<Rightarrow> if c \<noteq> CHR ''e'' \<and> c \<noteq> CHR ''E'' then Some (0, s)
         else (let (neg, t) = split_sign r; ds = takeWhile is_digit t in
           if ds = [] then None
           else Some (if neg then - int (digits_val ds) else int (digits_val ds), dropWhile is_digit t)))"

definition parse_num :: "string \<Rightarrow> (jsval \<times> string) option" where
  "parse_num s = (let (neg, t) = (case s of [] \<Rightarrow> (False, []) | c # r \<Rightarrow> if c = CHR ''-'' then (True, r) else (False, s));
       i = takeWhile is_digit t; r = dropWhile is_digit t in
     if i = [] \<or> (1 < length i \<and> hd i = CHR ''0'') then None
     else (case (case r of [] \<Rightarrow> Some ([], [])
             | c # r' \<Rightarrow> if c \<noteq> CHR ''.'' then Some ([], r)
                 else if takeWhile is_digit r' = [] then None
                 else Some (takeWhile is_digit r', dropWhile is_digit r')) of
         None \<Rightarrow> None
       | Some (f, q) \<Rightarrow> (case parse_exp q of None \<Rightarrow> None
           | Some (e, q') \<Rightarrow> Some (JNum (signed neg (Fin (dec_value i f e))), q'))))"

definition parse_lit :: "string \<Rightarrow> (jsval \<times> string) option" where
  "parse_lit s = (if take 4 s = ''true'' then Some (JBool True, drop 4 s)
     else if take 5 s = ''false'' then Some (JBool False, drop 5 s)
     else if take 4 s = ''null'' then Some (JNull, drop 4 s)
     else parse_num s)"

definition set_key :: "string \<Rightarrow> jsval \<Rightarrow> (string \<times> jsval) list \<Rightarrow> (string \<times> jsval) list" where
  \<comment> \<open>A key given twice keeps the later value.\<close>
  "set_key k v kvs = (if k \<in> set (map fst kvs) then kvs else (k, v) # kvs)"

fun parse_val :: "nat \<Rightarrow> string \<Rightarrow> (jsval \<times> string) option"
  and parse_elems :: "nat \<Rightarrow> string \<Rightarrow> (jsval list \<times> string) option"
  and parse_members :: "nat \<Rightarrow> string \<Rightarrow> ((string \<times> jsval) list \<times> string) option" where
  "parse_val 0 s = None"
| "parse_val (Suc n) s =
     (case skip_ws s of [] \<Rightarrow> None
      | c # cs \<Rightarrow>
        if c = CHR 0x22 then map_option (\<lambda>(t, r). (JStr t, r)) (parse_str cs)
        else if c = CHR ''['' then
          (case skip_ws cs of [] \<Rightarrow> None
           | d # ds \<Rightarrow> if d = CHR '']'' then Some (JArr [], ds)
               else map_option (\<lambda>(vs, r). (JArr vs, r)) (parse_elems n cs))
        else if c = CHR ''{'' then
          (case skip_ws cs of [] \<Rightarrow> None
           | d # ds \<Rightarrow> if d = CHR ''}'' then Some (JObj [], ds)
               else map_option (\<lambda>(kvs, r). (JObj kvs, r)) (parse_members n cs))
        else parse_lit (c # cs))"
| "parse_elems 0 s = None"
| "parse_elems (Suc n) s =
     (case parse_val n s of None \<Rightarrow> None
      | Some (v, r) \<Rightarrow> (case skip_ws r of [] \<Rightarrow> None
          | d # ds \<Rightarrow> if d = CHR '']'' then Some ([v], ds)
              else if d = CHR '','' then map_option (\<lambda>(vs, q). (v # vs, q)) (parse_elems n ds)
              else None))"
| "parse_members 0 s = None"
| "parse_members (Suc n) s =
     (case skip_ws s of [] \<Rightarrow> None
      | c # cs \<Rightarrow> if c \<noteq> CHR 0x22 then None
        else (case parse_str cs of None \<Rightarrow> None
          | Some (k, r) \<Rightarrow> (case skip_ws r of [] \<Rightarrow> None
              | d # ds \<Rightarrow> if d \<noteq> CHR '':'' then None
                  else (case parse_val n ds of None \<Rightarrow> None
                    | Some (v, r') \<Rightarrow> (case skip_ws r' of [] \<Rightarrow> None
                        | e # es \<Rightarrow> if e = CHR ''}'' then Some ([(k, v)], es)
                            else if e = CHR '','' then map_option (\<lambda>(kvs, q). (set_key k v kvs, q)) (parse_members n es)
                            else None)))))"

definition JSON_parse :: "string \<Rightarrow> jsval res" where
  "JSON_parse s = (case parse_val (2 * length s + 2) s of
       Some (v, r) \<Rightarrow> if skip_ws r = [] then Inr v
         else Inl (NativeError ''SyntaxError'' ''Unexpected non-whitespace character after JSON'')
     | None \<Rightarrow> Inl (NativeError ''SyntaxError'' ''Unexpected token in JSON''))"

section \<open>Round trip\<close>

lemma hex_val_hex_char: "d < 16 \<Longrightarrow> hex_val (hex_char d) = Some d"
  by (auto simp: hex_val_def hex_char_def Let_def)

lemma char_of_eqI: "of_char c = (n :: nat) \<Longrightarrow> char_of n = c"
  by auto

lemma parse_str_control:
  assumes n: "(of_char c :: nat) < 32"
  shows "parse_str (CHR 0x5C # CHR ''u'' # CHR ''0'' # CHR ''0'' #
      hex_char (of_char c div 16) # hex_char (of_char c mod 16) # r) =
    map_option (\<lambda>(t, q). (c # t, q)) (parse_str r)"
proof -
  have z: "hex_val CHR ''0'' = Some 0" by (simp add: hex_val_def)
  have "hex4 CHR ''0'' CHR ''0'' (hex_char (of_char c div 16)) (hex_char (of_char c mod 16)) = Some c"
    using n by (simp add: hex4_def z hex_val_hex_char)
  then show ?thesis by simp
qed

lemma parse_str_escape:
  "parse_str (escape_char c @ r) = map_option (\<lambda>(t, q). (c # t, q)) (parse_str r)"
proof -
  consider "c = CHR 0x22" | "c = CHR 0x5C" | "c = CHR 0x08" | "c = CHR 0x0C" | "c = CHR 0x0A"
    | "c = CHR 0x0D" | "c = CHR 0x09"
    | "(of_char c :: nat) < 32" "c \<notin> {CHR 0x22, CHR 0x5C, CHR 0x08, CHR 0x0C, CHR 0x0A, CHR 0x0D, CHR 0x09}"
    | "\<not> (of_char c :: nat) < 32" "c \<notin> {CHR 0x22, CHR 0x5C, CHR 0x08, CHR 0x0C, CHR 0x0A, CHR 0x0D, CHR 0x09}"
    by blast
  then show ?thesis
  proof cases
    case 8
    then have "escape_char c = [CHR 0x5C, CHR ''u'', CHR ''0'', CHR ''0'',
        hex_char (of_char c div 16), hex_char (of_char c mod 16)]"
      by (simp add: escape_char_def Let_def)
    with 8 show ?thesis using parse_str_control [of c r] by (simp del: parse_str.simps)
  next
    case 9
    then have "escape_char c = [c]" and "c \<noteq> CHR 0x22" and "c \<noteq> CHR 0x5C"
      by (auto simp: escape_char_def Let_def)
    with 9(1) show ?thesis by simp
  qed (simp_all add: escape_char_def Let_def unescape_def)
qed

lemma parse_str_quote:
  "parse_str (concat (map escape_char s) @ CHR 0x22 # r) = Some (s, r)"
  by (induction s) (auto simp: parse_str_escape)

lemma skip_ws_quote [simp]: "skip_ws (CHR 0x22 # s) = CHR 0x22 # s"
  "skip_ws (CHR ''['' # s) = CHR ''['' # s" "skip_ws (CHR '']'' # s) = CHR '']'' # s"
  "skip_ws (CHR '','' # s) = CHR '','' # s" "skip_ws [] = []"
  by (simp_all add: skip_ws_def is_json_ws_def)

lemma parse_val_quote: "parse_val (Suc n) (quote s @ r) = Some (JStr s, r)"
  by (simp add: quote_def parse_str_quote)

lemma parse_elems_quotes:
  assumes "xs \<noteq> []" and "length xs < n"
  shows "parse_elems n (js_join '','' (map quote xs) @ CHR '']'' # r) = Some (map JStr xs, r)"
  using assms
proof (induction xs arbitrary: n rule: list_nonempty_induct)
  case (single x)
  then obtain m where "n = Suc (Suc m)" by (cases n; cases "n - 1") auto
  then show ?case using parse_val_quote [of m x "CHR '']'' # r"] by simp
next
  case (cons x xs)
  then obtain m where m: "n = Suc (Suc m)" "length xs < Suc m" by (cases n; cases "n - 1") auto
  from cons.hyps obtain y ys where "xs = y # ys" by (cases xs) auto
  then have "js_join '','' (map quote (x # xs)) = quote x @ CHR '','' # js_join '','' (map quote xs)"
    by simp
  then show ?case
    using m cons.IH [OF m(2)] parse_val_quote [of m x "CHR '','' # js_join '','' (map quote xs) @ CHR '']'' # r"]
    by simp
qed

lemma length_join_quotes: "length xs \<le> length (js_join '','' (map quote xs))"
  by (induction xs rule: induct_list012) (auto simp: quote_def)

lemma quote_hd: "xs \<noteq> [] \<Longrightarrow> \<exists>t. js_join '','' (map quote xs) = CHR 0x22 # t"
  by (cases xs rule: remdups_adj.cases) (auto simp: quote_def)

theorem JSON_parse_stringify [simp]: "JSON_parse (JSON_stringify xs) = Inr (JArr (map JStr xs))"
proof (cases "xs = []")
  case True
  then show ?thesis by (simp add: JSON_parse_def JSON_stringify_def eval_nat_numeral)
next
  case False
  let ?j = "js_join '','' (map quote xs)"
  have len: "length xs < Suc (2 * length (?j @ '']'') + 2)"
    using length_join_quotes [of xs] by simp
  from quote_hd [OF False] obtain t where t: "?j = CHR 0x22 # t" by blast
  have "parse_elems (Suc (2 * length (?j @ '']'') + 2)) (?j @ '']'') = Some (map JStr xs, [])"
    using parse_elems_quotes [OF False len, of "[]"] by simp
  then show ?thesis
    unfolding JSON_parse_def JSON_stringify_def using t by simp
qed

end
