(* ===== verification/Store.thy ===== *)
theory Store
  imports Topology JSONText "HOL-Library.AList"
begin

text \<open>
  The store of the controller: the keys of \<^verbatim>\<open>store/helper.go\<close>, the interface of the storage engines with the
  engine in memory (\<^verbatim>\<open>store/engine\<close>), and \<^verbatim>\<open>store/store.go\<close> over any engine, with the events of
  \<^verbatim>\<open>store/event.go\<close>. A lock guards each call on a cluster, so a call is one step. What a value holds is
  either a text or what \<^verbatim>\<open>json.Marshal\<close> prints. The contract of an engine is a locale, which the engine in
  memory satisfies; the engines over etcd, Zookeeper, Consul, PostgreSQL and Raft call services that are not
  part of the repository.
\<close>

section \<open>Keys\<close>

definition nsPrefix :: string where "nsPrefix = ''/kvrocks/metadata''"

definition appendPrefix :: "string \<Rightarrow> string" where
  "appendPrefix ns = nsPrefix @ ''/'' @ ns"

definition buildClusterPrefix :: "string \<Rightarrow> string" where
  "buildClusterPrefix ns = nsPrefix @ ''/'' @ ns @ ''/cluster''"

definition buildClusterKey :: "string \<Rightarrow> string \<Rightarrow> string" where
  "buildClusterKey ns cluster = buildClusterPrefix ns @ ''/'' @ cluster"

section \<open>Engines\<close>

datatype blob = Raw string | Json jsval

record 'e engine =
  eng_Get :: "'e \<Rightarrow> string \<Rightarrow> blob go"
  eng_Exists :: "'e \<Rightarrow> string \<Rightarrow> bool go"
  eng_Set :: "string \<Rightarrow> blob \<Rightarrow> 'e \<Rightarrow> 'e go"
  eng_Delete :: "string \<Rightarrow> 'e \<Rightarrow> 'e go"
  eng_List :: "'e \<Rightarrow> string \<Rightarrow> (string \<times> blob) list go"

definition trim_slashes :: "string \<Rightarrow> string" where
  "trim_slashes s = rev (dropWhile (\<lambda>c. c = CHR ''/'') (rev (dropWhile (\<lambda>c. c = CHR ''/'') s)))"

definition first_level :: "string \<Rightarrow> string \<Rightarrow> string" where
  \<comment> \<open>The name that the listing of a prefix gives a key.\<close>
  "first_level p k = takeWhile (\<lambda>c. c \<noteq> CHR ''/'') (trim_slashes (drop (length p) k))"

text \<open>The engine in memory: a map whose entries come in some order.\<close>

type_synonym mock = "(string \<times> blob) list"

definition Mock_Get :: "mock \<Rightarrow> string \<Rightarrow> blob go" where
  "Mock_Get m key = (case map_of m key of None \<Rightarrow> fail ErrNotFound | Some v \<Rightarrow> Ok v)"

definition Mock_Exists :: "mock \<Rightarrow> string \<Rightarrow> bool go" where
  "Mock_Exists m key = Ok (map_of m key \<noteq> None)"

definition Mock_Set :: "string \<Rightarrow> blob \<Rightarrow> mock \<Rightarrow> mock go" where
  "Mock_Set key val m = Ok (AList.update key val m)"

definition Mock_Delete :: "string \<Rightarrow> mock \<Rightarrow> mock go" where
  "Mock_Delete key m = Ok (AList.delete key m)"

fun mock_list_loop :: "string \<Rightarrow> mock \<Rightarrow> string list \<Rightarrow> (string \<times> blob) list" where
  "mock_list_loop p [] seen = []"
| "mock_list_loop p ((k, v) # rest) seen =
     (if startsWith k p
      then (let k = first_level p k in if k \<in> set seen then mock_list_loop p rest seen else (k, v) # mock_list_loop p rest (k # seen))
      else mock_list_loop p rest seen)"

definition Mock_List :: "mock \<Rightarrow> string \<Rightarrow> (string \<times> blob) list go" where
  "Mock_List m p = Ok (mock_list_loop p m [])"

definition Mock :: "mock engine" where
  "Mock = \<lparr>eng_Get = Mock_Get, eng_Exists = Mock_Exists, eng_Set = Mock_Set, eng_Delete = Mock_Delete, eng_List = Mock_List\<rparr>"

text \<open>What an engine promises: it holds a map from keys to values.\<close>

locale engine_contract =
  fixes E :: "'e engine" and content :: "'e \<Rightarrow> string \<Rightarrow> blob option"
  assumes get: "eng_Get E e k = (case content e k of None \<Rightarrow> fail ErrNotFound | Some v \<Rightarrow> Ok v)"
    and "exists": "eng_Exists E e k = Ok (content e k \<noteq> None)"
    and set: "\<exists>e'. eng_Set E k v e = Ok e' \<and> content e' = (content e)(k \<mapsto> v)"
    and delete: "\<exists>e'. eng_Delete E k e = Ok e' \<and> content e' = (content e)(k := None)"
    and list: "\<exists>es. eng_List E e p = Ok es \<and> distinct (map fst es)
      \<and> fst ` set es = first_level p ` {k. content e k \<noteq> None \<and> startsWith k p}"

lemma mock_list_loop_keys:
  "distinct (map fst (mock_list_loop p m seen)) \<and> fst ` set (mock_list_loop p m seen) = first_level p ` {k \<in> fst ` set m. startsWith k p} - set seen"
proof (induction p m seen rule: mock_list_loop.induct)
  case (2 p k v rest seen)
  then show ?case by (auto simp: Let_def)
qed simp

interpretation mock: engine_contract Mock map_of
proof
  fix e :: mock and p
  have "fst ` set e = {k. map_of e k \<noteq> None}" by (auto simp: map_of_eq_None_iff)
  then have "{k. map_of e k \<noteq> None \<and> startsWith k p} = {k \<in> fst ` set e. startsWith k p}" by auto
  then show "\<exists>es. eng_List Mock e p = Ok es \<and> distinct (map fst es)
      \<and> fst ` set es = first_level p ` {k. map_of e k \<noteq> None \<and> startsWith k p}"
    using mock_list_loop_keys [of p e "[]"] by (simp add: Mock_def Mock_List_def)
qed (simp_all add: Mock_def Mock_Get_def Mock_Exists_def Mock_Set_def Mock_Delete_def update_conv' delete_conv')

section \<open>The cluster store\<close>

datatype EventType = EventNamespace | EventCluster

datatype Command = CommandCreate | CommandUpdate | CommandRemove

record EventPayload =
  ev_Namespace :: string
  ev_Cluster :: string
  ev_Type :: EventType
  ev_Command :: Command

record 'e ClusterStore =
  \<comment> \<open>The engine, and the events in the order in which they were sent.\<close>
  cs_e :: 'e
  cs_events :: "EventPayload list"

definition EmitEvent :: "EventPayload \<Rightarrow> 'e ClusterStore \<Rightarrow> 'e ClusterStore" where
  "EmitEvent event s = s\<lparr>cs_events := cs_events s @ [event]\<rparr>"

definition namespace_event :: "string \<Rightarrow> Command \<Rightarrow> EventPayload" where
  "namespace_event ns cmd = \<lparr>ev_Namespace = ns, ev_Cluster = [], ev_Type = EventNamespace, ev_Command = cmd\<rparr>"

definition cluster_event :: "string \<Rightarrow> string \<Rightarrow> Command \<Rightarrow> EventPayload" where
  "cluster_event ns cluster cmd = \<lparr>ev_Namespace = ns, ev_Cluster = cluster, ev_Type = EventCluster, ev_Command = cmd\<rparr>"

definition ListNamespace :: "'e engine \<Rightarrow> 'e ClusterStore \<Rightarrow> string list go" where
  "ListNamespace E s = gbind (eng_List E (cs_e s) nsPrefix) (\<lambda>entries. Ok (map fst entries))"

definition ExistsNamespace :: "'e engine \<Rightarrow> 'e ClusterStore \<Rightarrow> string \<Rightarrow> bool go" where
  "ExistsNamespace E s ns = eng_Exists E (cs_e s) (appendPrefix ns)"

definition CreateNamespace :: "'e engine \<Rightarrow> string \<Rightarrow> 'e ClusterStore \<Rightarrow> 'e ClusterStore go" where
  "CreateNamespace E ns s =
     (if ExistsNamespace E s ns = Ok True then fail ErrAlreadyExists
      else gbind (eng_Set E (appendPrefix ns) (Raw ns) (cs_e s)) (\<lambda>e.
        Ok (EmitEvent (namespace_event ns CommandCreate) (s\<lparr>cs_e := e\<rparr>))))"

definition ListCluster :: "'e engine \<Rightarrow> 'e ClusterStore \<Rightarrow> string \<Rightarrow> string list go" where
  "ListCluster E s ns = gbind (eng_List E (cs_e s) (buildClusterPrefix ns)) (\<lambda>entries. Ok (map fst entries))"

definition RemoveNamespace :: "'e engine \<Rightarrow> string \<Rightarrow> 'e ClusterStore \<Rightarrow> 'e ClusterStore go" where
  "RemoveNamespace E ns s =
     (if ExistsNamespace E s ns \<noteq> Ok True then fail ErrNotFound
      else gbind (ListCluster E s ns) (\<lambda>clusters.
        if length clusters \<noteq> 0 then wrap [] ErrForbidden '': please delete clusters first''
        else gbind (eng_Delete E (appendPrefix ns) (cs_e s)) (\<lambda>e.
          Ok (EmitEvent (namespace_event ns CommandRemove) (s\<lparr>cs_e := e\<rparr>)))))"

definition existsCluster :: "'e engine \<Rightarrow> 'e ClusterStore \<Rightarrow> string \<Rightarrow> string \<Rightarrow> bool go" where
  "existsCluster E s ns cluster = eng_Exists E (cs_e s) (buildClusterKey ns cluster)"

definition unmarshal_cluster :: "blob \<Rightarrow> Cluster go" where
  \<comment> \<open>\<^verbatim>\<open>json.Unmarshal(value, &clusterInfo)\<close>; a text that is not JSON is an error.\<close>
  "unmarshal_cluster b = (case b of
       Json v \<Rightarrow> Cluster_UnmarshalJSON v
     | Raw s \<Rightarrow> (case JSON_parse s of Inr v \<Rightarrow> Cluster_UnmarshalJSON v | Inl _ \<Rightarrow> errors_New ''invalid character''))"

definition GetCluster :: "'e engine \<Rightarrow> 'e ClusterStore \<Rightarrow> string \<Rightarrow> string \<Rightarrow> Cluster go" where
  "GetCluster E s ns cluster =
     in_context ''cluster'' (gbind (eng_Get E (cs_e s) (buildClusterKey ns cluster)) unmarshal_cluster)"

definition check_version :: "'e engine \<Rightarrow> string \<Rightarrow> Cluster \<Rightarrow> 'e ClusterStore \<Rightarrow> unit go" where
  \<comment> \<open>The guard that \<^verbatim>\<open>UpdateCluster\<close> and \<^verbatim>\<open>SetCluster\<close> share.\<close>
  "check_version E ns clusterInfo s =
     gbind (GetCluster E s ns (cl_Name clusterInfo)) (\<lambda>oldCluster.
       if cl_Version oldCluster > cl_Version clusterInfo then errors_New ''the cluster has been updated by others'' else Ok ())"

definition put_cluster :: "'e engine \<Rightarrow> string \<Rightarrow> Cluster \<Rightarrow> 'e ClusterStore \<Rightarrow> 'e ClusterStore go" where
  "put_cluster E ns clusterInfo s =
     gbind (eng_Set E (buildClusterKey ns (cl_Name clusterInfo)) (Json (Cluster_MarshalJSON clusterInfo)) (cs_e s)) (\<lambda>e. Ok (s\<lparr>cs_e := e\<rparr>))"

definition UpdateCluster :: "'e engine \<Rightarrow> string \<Rightarrow> Cluster \<Rightarrow> 'e ClusterStore \<Rightarrow> ('e ClusterStore \<times> Cluster) go" where
  \<comment> \<open>With the cluster as the caller has it afterwards.\<close>
  "UpdateCluster E ns clusterInfo s =
     gbind (check_version E ns clusterInfo s) (\<lambda>_.
       let clusterInfo = clusterInfo\<lparr>cl_Version := wrap64 (cl_Version clusterInfo + 1)\<rparr> in
       gbind (put_cluster E ns clusterInfo s) (\<lambda>s.
         Ok (EmitEvent (cluster_event ns (cl_Name clusterInfo) CommandUpdate) s, clusterInfo)))"

definition SetCluster :: "'e engine \<Rightarrow> string \<Rightarrow> Cluster \<Rightarrow> 'e ClusterStore \<Rightarrow> 'e ClusterStore go" where
  "SetCluster E ns clusterInfo s = gbind (check_version E ns clusterInfo s) (\<lambda>_. put_cluster E ns clusterInfo s)"

definition CreateCluster :: "'e engine \<Rightarrow> string \<Rightarrow> Cluster \<Rightarrow> 'e ClusterStore \<Rightarrow> 'e ClusterStore go" where
  "CreateCluster E ns clusterInfo s =
     (if existsCluster E s ns (cl_Name clusterInfo) = Ok True then in_context ''cluster'' (fail ErrAlreadyExists)
      else gbind (put_cluster E ns clusterInfo s) (\<lambda>s.
        Ok (EmitEvent (cluster_event ns (cl_Name clusterInfo) CommandCreate) s)))"

definition RemoveCluster :: "'e engine \<Rightarrow> string \<Rightarrow> string \<Rightarrow> 'e ClusterStore \<Rightarrow> 'e ClusterStore go" where
  "RemoveCluster E ns cluster s =
     (if existsCluster E s ns cluster \<noteq> Ok True then fail ErrNotFound
      else gbind (eng_Delete E (buildClusterKey ns cluster) (cs_e s)) (\<lambda>e.
        Ok (EmitEvent (cluster_event ns cluster CommandRemove) (s\<lparr>cs_e := e\<rparr>))))"

definition existing_nodes :: "'e engine \<Rightarrow> 'e ClusterStore \<Rightarrow> string list \<Rightarrow> string list go" where
  \<comment> \<open>The loops of \<^verbatim>\<open>CheckNewNodes\<close>.\<close>
  "existing_nodes E s nodes =
     gbind (ListNamespace E s) (\<lambda>namespaces.
     gbind (gmap (\<lambda>ns. gbind (ListCluster E s ns) (gmap (\<lambda>cluster. gbind (GetCluster E s ns cluster) (\<lambda>c.
       Ok (filter (\<lambda>a. a \<in> set nodes) (map cn_addr (GetNodes c))))))) namespaces) (\<lambda>found.
       Ok (concat (concat found))))"

definition CheckNewNodes :: "'e engine \<Rightarrow> 'e ClusterStore \<Rightarrow> string list \<Rightarrow> unit go" where
  "CheckNewNodes E s nodes =
     gbind (existing_nodes E s nodes) (\<lambda>existingNodes.
       if length existingNodes > 0
       then wrap ''node: '' ErrAlreadyExists ('': ['' @ js_join '' '' existingNodes @ '']'')
       else Ok ())"

section \<open>Names and keys\<close>

definition plain :: "string \<Rightarrow> bool" where
  \<comment> \<open>A name that can be a segment of a path.\<close>
  "plain n \<longleftrightarrow> n \<noteq> [] \<and> CHR ''/'' \<notin> set n"

lemma split_unique: "c \<notin> set a \<Longrightarrow> c \<notin> set b \<Longrightarrow> a @ c # x = b @ c # y \<longleftrightarrow> a = b \<and> x = y"
proof (induction a arbitrary: b)
  case Nil
  then show ?case by (cases b) auto
next
  case (Cons d a)
  then show ?case by (cases b) auto
qed

lemma key_slashes: "count_list (buildClusterKey ns n) CHR ''/'' = count_list ns CHR ''/'' + count_list n CHR ''/'' + 5"
  by (simp add: buildClusterKey_def buildClusterPrefix_def nsPrefix_def)

lemma buildClusterKey_inj:
  assumes "plain ns" "plain n"
  shows "buildClusterKey ns' n' = buildClusterKey ns n \<longleftrightarrow> ns' = ns \<and> n' = n"
proof
  assume e: "buildClusterKey ns' n' = buildClusterKey ns n"
  have "count_list ns CHR ''/'' = 0" "count_list n CHR ''/'' = 0" using assms by (simp_all add: plain_def count_list_0_iff)
  then have "count_list ns' CHR ''/'' = 0" using key_slashes [of ns' n'] key_slashes [of ns n] e by simp
  then show "ns' = ns \<and> n' = n"
    using e assms split_unique [of "CHR ''/''" ns' ns] by (auto simp: count_list_0_iff plain_def buildClusterKey_def buildClusterPrefix_def)
qed simp

lemma appendPrefix_inj [simp]: "appendPrefix ns' = appendPrefix ns \<longleftrightarrow> ns' = ns"
  by (simp add: appendPrefix_def)

lemma appendPrefix_not_cluster:
  assumes "plain ns"
  shows "appendPrefix ns \<noteq> buildClusterKey ns' n"
proof
  assume "appendPrefix ns = buildClusterKey ns' n"
  then have "CHR ''/'' \<in> set ns" by (auto simp: appendPrefix_def buildClusterKey_def buildClusterPrefix_def)
  with assms show False by (simp add: plain_def)
qed

lemma cluster_not_appendPrefix:
  assumes "plain ns" "plain n"
  shows "buildClusterKey ns n = appendPrefix ns' \<longleftrightarrow> ns' = ns @ ''/cluster/'' @ n"
  by (auto simp: appendPrefix_def buildClusterKey_def buildClusterPrefix_def)

lemma trim_plain:
  assumes "s \<noteq> []" "hd s \<noteq> CHR ''/''" "last s \<noteq> CHR ''/''"
  shows "trim_slashes (CHR ''/'' # s) = s"
proof -
  have "dropWhile (\<lambda>c. c = CHR ''/'') s = s" using assms by (cases s) auto
  moreover have "dropWhile (\<lambda>c. c = CHR ''/'') (rev s) = rev s" using assms by (cases "rev s") (auto simp: last_rev hd_rev [symmetric])
  ultimately show ?thesis by (simp add: trim_slashes_def)
qed

lemma plain_ends: "plain n \<Longrightarrow> hd n \<noteq> CHR ''/'' \<and> last n \<noteq> CHR ''/''"
  unfolding plain_def by (metis hd_in_set last_in_set)

lemma takeWhile_plain: "plain n \<Longrightarrow> takeWhile (\<lambda>c. c \<noteq> CHR ''/'') n = n"
  by (auto simp: plain_def takeWhile_eq_all_conv)

lemma listed_namespace:
  assumes "plain ns" "plain n"
  shows "startsWith (appendPrefix ns) nsPrefix" "first_level nsPrefix (appendPrefix ns) = ns"
    "startsWith (buildClusterKey ns n) nsPrefix" "first_level nsPrefix (buildClusterKey ns n) = ns"
proof -
  have "trim_slashes (CHR ''/'' # ns) = ns" using assms(1) plain_ends by (intro trim_plain) (simp_all add: plain_def)
  moreover have "trim_slashes (CHR ''/'' # ns @ ''/cluster/'' @ n) = ns @ ''/cluster/'' @ n"
    using assms plain_ends by (intro trim_plain) (simp_all add: plain_def)
  ultimately show "first_level nsPrefix (appendPrefix ns) = ns" "first_level nsPrefix (buildClusterKey ns n) = ns"
    using takeWhile_plain [OF assms(1)] assms(1)
    by (simp_all add: first_level_def appendPrefix_def buildClusterKey_def buildClusterPrefix_def takeWhile_append plain_def)
qed (simp_all add: startsWith_def appendPrefix_def buildClusterKey_def buildClusterPrefix_def)

lemma listed_cluster:
  assumes "plain ns" "plain ns'" "plain n"
  shows "\<not> startsWith (appendPrefix ns') (buildClusterPrefix ns)"
    "startsWith (buildClusterKey ns' n) (buildClusterPrefix ns) \<longleftrightarrow> ns' = ns"
    "first_level (buildClusterPrefix ns) (buildClusterKey ns n) = n"
proof -
  have p: "startsWith k p \<longleftrightarrow> (\<exists>x. k = p @ x)" for k p
    unfolding startsWith_def by (metis append_eq_conv_conj append_take_drop_id)
  show "\<not> startsWith (appendPrefix ns') (buildClusterPrefix ns)"
    using assms(2) by (auto simp: p appendPrefix_def buildClusterPrefix_def plain_def)
  show "startsWith (buildClusterKey ns' n) (buildClusterPrefix ns) \<longleftrightarrow> ns' = ns"
    using assms(1,2) split_unique [of "CHR ''/''" ns' ns] by (auto simp: p buildClusterKey_def buildClusterPrefix_def plain_def)
  have "trim_slashes (CHR ''/'' # n) = n" using assms(3) plain_ends by (intro trim_plain) (simp_all add: plain_def)
  then show "first_level (buildClusterPrefix ns) (buildClusterKey ns n) = n"
    using takeWhile_plain [OF assms(3)] by (simp add: first_level_def buildClusterKey_def)
qed

section \<open>The store as a registry\<close>

text \<open>What a store is for: a set of namespaces, and clusters under a namespace and a name.\<close>

record registry =
  rg_namespaces :: "string set"
  rg_clusters :: "string \<times> string \<Rightarrow> Cluster option"

definition registry_of :: "(string \<Rightarrow> blob option) \<Rightarrow> registry" where
  "registry_of m = \<lparr>rg_namespaces = {ns. m (appendPrefix ns) \<noteq> None \<and> plain ns},
     rg_clusters = (\<lambda>(ns, n). case m (buildClusterKey ns n) of None \<Rightarrow> None
       | Some b \<Rightarrow> (case unmarshal_cluster b of Ok c \<Rightarrow> Some c | _ \<Rightarrow> None))\<rparr>"

definition tidy :: "(string \<Rightarrow> blob option) \<Rightarrow> bool" where
  "tidy m \<longleftrightarrow> (\<forall>k b. m k = Some b \<longrightarrow>
     (\<exists>ns. plain ns \<and> k = appendPrefix ns)
     \<or> (\<exists>ns c. plain ns \<and> plain (cl_Name c) \<and> k = buildClusterKey ns (cl_Name c) \<and> b = Json (Cluster_MarshalJSON c) \<and> storable c))"

definition reg_CreateNamespace :: "string \<Rightarrow> registry \<Rightarrow> registry go" where
  "reg_CreateNamespace ns R =
     (if ns \<in> rg_namespaces R then fail ErrAlreadyExists else Ok (R\<lparr>rg_namespaces := insert ns (rg_namespaces R)\<rparr>))"

definition reg_RemoveNamespace :: "string \<Rightarrow> registry \<Rightarrow> registry go" where
  "reg_RemoveNamespace ns R =
     (if ns \<notin> rg_namespaces R then fail ErrNotFound
      else if \<exists>n. rg_clusters R (ns, n) \<noteq> None then wrap [] ErrForbidden '': please delete clusters first''
      else Ok (R\<lparr>rg_namespaces := rg_namespaces R - {ns}\<rparr>))"

definition reg_GetCluster :: "registry \<Rightarrow> string \<Rightarrow> string \<Rightarrow> Cluster go" where
  "reg_GetCluster R ns n = (case rg_clusters R (ns, n) of None \<Rightarrow> wrap ''cluster: '' ErrNotFound [] | Some c \<Rightarrow> Ok c)"

definition reg_put :: "string \<Rightarrow> Cluster \<Rightarrow> registry \<Rightarrow> registry" where
  "reg_put ns c R = R\<lparr>rg_clusters := (rg_clusters R)((ns, cl_Name c) \<mapsto> c)\<rparr>"

definition reg_CreateCluster :: "string \<Rightarrow> Cluster \<Rightarrow> registry \<Rightarrow> registry go" where
  "reg_CreateCluster ns c R =
     (if rg_clusters R (ns, cl_Name c) \<noteq> None then wrap ''cluster: '' ErrAlreadyExists [] else Ok (reg_put ns c R))"

definition reg_check :: "string \<Rightarrow> Cluster \<Rightarrow> registry \<Rightarrow> unit go" where
  "reg_check ns c R = gbind (reg_GetCluster R ns (cl_Name c)) (\<lambda>old.
     if cl_Version old > cl_Version c then errors_New ''the cluster has been updated by others'' else Ok ())"

definition reg_SetCluster :: "string \<Rightarrow> Cluster \<Rightarrow> registry \<Rightarrow> registry go" where
  "reg_SetCluster ns c R = gbind (reg_check ns c R) (\<lambda>_. Ok (reg_put ns c R))"

definition reg_UpdateCluster :: "string \<Rightarrow> Cluster \<Rightarrow> registry \<Rightarrow> registry go" where
  "reg_UpdateCluster ns c R = gbind (reg_check ns c R) (\<lambda>_. Ok (reg_put ns (c\<lparr>cl_Version := wrap64 (cl_Version c + 1)\<rparr>) R))"

definition reg_RemoveCluster :: "string \<Rightarrow> string \<Rightarrow> registry \<Rightarrow> registry go" where
  "reg_RemoveCluster ns n R =
     (if rg_clusters R (ns, n) = None then fail ErrNotFound else Ok (R\<lparr>rg_clusters := (rg_clusters R)((ns, n) := None)\<rparr>))"

lemma tidy_cases:
  assumes "tidy m" "m k = Some b"
  obtains ns where "plain ns" "k = appendPrefix ns"
  | ns c where "plain ns" "plain (cl_Name c)" "k = buildClusterKey ns (cl_Name c)" "b = Json (Cluster_MarshalJSON c)" "storable c"
  using assms unfolding tidy_def by blast

lemma tidy_cluster:
  assumes "tidy m" "m (buildClusterKey ns n) = Some b"
  obtains c where "plain ns" "plain n" "cl_Name c = n" "b = Json (Cluster_MarshalJSON c)" "storable c"
  using appendPrefix_not_cluster [of _ ns n]
  by (cases rule: tidy_cases [OF assms]) (auto simp: buildClusterKey_inj that)

lemma tidy_registry:
  assumes "tidy m"
  shows "rg_clusters (registry_of m) (ns, n) = Some c \<longleftrightarrow> m (buildClusterKey ns n) = Some (Json (Cluster_MarshalJSON c)) \<and> cl_Name c = n \<and> storable c"
    "rg_clusters (registry_of m) (ns, n) = None \<longleftrightarrow> m (buildClusterKey ns n) = None"
    "rg_clusters (registry_of m) (ns, n) = Some c \<Longrightarrow> plain ns \<and> plain n"
proof (atomize (full), cases "m (buildClusterKey ns n)")
  case None
  then show "(rg_clusters (registry_of m) (ns, n) = Some c \<longleftrightarrow> m (buildClusterKey ns n) = Some (Json (Cluster_MarshalJSON c)) \<and> cl_Name c = n \<and> storable c)
    \<and> (rg_clusters (registry_of m) (ns, n) = None \<longleftrightarrow> m (buildClusterKey ns n) = None)
    \<and> (rg_clusters (registry_of m) (ns, n) = Some c \<longrightarrow> plain ns \<and> plain n)"
    by (simp add: registry_of_def)
next
  case (Some b)
  obtain c' where c': "plain ns" "plain n" "cl_Name c' = n" "b = Json (Cluster_MarshalJSON c')" "storable c'"
    using tidy_cluster [OF assms Some] .
  have inj: "Cluster_MarshalJSON c' = Cluster_MarshalJSON c \<and> storable c \<longleftrightarrow> c' = c"
    using Cluster_print [OF c'(5)] Cluster_print [of c] c'(5) by (metis go.inject(1))
  from c' show "(rg_clusters (registry_of m) (ns, n) = Some c \<longleftrightarrow> m (buildClusterKey ns n) = Some (Json (Cluster_MarshalJSON c)) \<and> cl_Name c = n \<and> storable c)
    \<and> (rg_clusters (registry_of m) (ns, n) = None \<longleftrightarrow> m (buildClusterKey ns n) = None)
    \<and> (rg_clusters (registry_of m) (ns, n) = Some c \<longrightarrow> plain ns \<and> plain n)"
    using inj by (auto simp: registry_of_def unmarshal_cluster_def Some)
qed

lemma tidy_put:
  assumes "tidy m" "plain ns" "plain (cl_Name c)" "storable c"
  shows "tidy (m(buildClusterKey ns (cl_Name c) \<mapsto> Json (Cluster_MarshalJSON c)))"
    "registry_of (m(buildClusterKey ns (cl_Name c) \<mapsto> Json (Cluster_MarshalJSON c))) = reg_put ns c (registry_of m)"
  using assms
  by (auto simp: tidy_def registry_of_def reg_put_def unmarshal_cluster_def buildClusterKey_inj appendPrefix_not_cluster fun_eq_iff)

lemma tidy_namespace:
  assumes "tidy m" "plain ns"
  shows "tidy (m(appendPrefix ns \<mapsto> b))"
    "registry_of (m(appendPrefix ns \<mapsto> b)) = (registry_of m)\<lparr>rg_namespaces := insert ns (rg_namespaces (registry_of m))\<rparr>"
    "registry_of (m(appendPrefix ns := None)) = (registry_of m)\<lparr>rg_namespaces := rg_namespaces (registry_of m) - {ns}\<rparr>"
  using assms by (auto simp: tidy_def registry_of_def appendPrefix_not_cluster [symmetric] fun_eq_iff)

lemma tidy_delete: "tidy m \<Longrightarrow> tidy (m(k := None))"
  by (simp add: tidy_def)

lemma registry_delete:
  assumes "plain ns" "plain n"
  shows "registry_of (m(buildClusterKey ns n := None)) = (registry_of m)\<lparr>rg_clusters := (rg_clusters (registry_of m))((ns, n) := None)\<rparr>"
  using assms by (auto simp: registry_of_def buildClusterKey_inj appendPrefix_not_cluster fun_eq_iff)

definition store_abs :: "('e \<Rightarrow> string \<Rightarrow> blob option) \<Rightarrow> 'e ClusterStore \<Rightarrow> registry" where
  "store_abs content s = registry_of (content (cs_e s))"

context engine_contract
begin

lemma GetCluster_reg:
  assumes "tidy (content (cs_e s))"
  shows "GetCluster E s ns n = reg_GetCluster (store_abs content s) ns n"
proof (cases "content (cs_e s) (buildClusterKey ns n)")
  case None
  then show ?thesis using tidy_registry(2) [OF assms, of ns n]
    by (simp add: GetCluster_def get reg_GetCluster_def store_abs_def in_context_def fail_def wrap_def)
next
  case (Some b)
  obtain c where c: "cl_Name c = n" "b = Json (Cluster_MarshalJSON c)" "storable c" using tidy_cluster [OF assms Some] .
  then have "rg_clusters (store_abs content s) (ns, n) = Some c" using tidy_registry(1) [OF assms] Some by (simp add: store_abs_def)
  with c show ?thesis by (simp add: GetCluster_def get Some unmarshal_cluster_def reg_GetCluster_def)
qed

lemma existsCluster_reg:
  assumes "tidy (content (cs_e s))"
  shows "existsCluster E s ns n = Ok (rg_clusters (store_abs content s) (ns, n) \<noteq> None)"
  using tidy_registry(2) [OF assms, of ns n] by (simp add: existsCluster_def "exists" store_abs_def)

lemma ExistsNamespace_reg: "plain ns \<Longrightarrow> ExistsNamespace E s ns = Ok (ns \<in> rg_namespaces (store_abs content s))"
  by (simp add: ExistsNamespace_def "exists" store_abs_def registry_of_def)

lemma ListCluster_reg:
  assumes "tidy (content (cs_e s))" "plain ns"
  shows "\<exists>names. ListCluster E s ns = Ok names \<and> distinct names \<and> set names = {n. rg_clusters (store_abs content s) (ns, n) \<noteq> None}"
proof -
  have "first_level (buildClusterPrefix ns) ` {k. content (cs_e s) k \<noteq> None \<and> startsWith k (buildClusterPrefix ns)}
      = {n. content (cs_e s) (buildClusterKey ns n) \<noteq> None}" (is "?l = ?r")
  proof
    show "?l \<subseteq> ?r"
    proof
      fix n assume "n \<in> ?l"
      then obtain k b where k: "content (cs_e s) k = Some b" "startsWith k (buildClusterPrefix ns)" "n = first_level (buildClusterPrefix ns) k" by auto
      from assms(1) k(1) show "n \<in> ?r"
        by (cases rule: tidy_cases) (use k listed_cluster [OF assms(2)] in auto)
    qed
    show "?r \<subseteq> ?l"
    proof
      fix n assume "n \<in> ?r"
      then obtain b where b: "content (cs_e s) (buildClusterKey ns n) = Some b" by auto
      then have "plain n" using tidy_cluster [OF assms(1) b] by blast
      from listed_cluster(2,3) [OF assms(2,2) this] b
      show "n \<in> ?l" by (intro image_eqI [of _ _ "buildClusterKey ns n"]) simp_all
    qed
  qed
  with list [of "cs_e s" "buildClusterPrefix ns"] tidy_registry(2) [OF assms(1), of ns] show ?thesis
    by (auto simp: ListCluster_def store_abs_def)
qed

lemma ListNamespace_reg:
  assumes "tidy (content (cs_e s))"
  shows "\<exists>names. ListNamespace E s = Ok names \<and> distinct names
    \<and> set names = rg_namespaces (store_abs content s) \<union> {ns. \<exists>n. rg_clusters (store_abs content s) (ns, n) \<noteq> None}"
proof -
  have "first_level nsPrefix ` {k. content (cs_e s) k \<noteq> None \<and> startsWith k nsPrefix}
      = {ns. plain ns \<and> content (cs_e s) (appendPrefix ns) \<noteq> None} \<union> {ns. \<exists>n. content (cs_e s) (buildClusterKey ns n) \<noteq> None}" (is "?l = ?r")
  proof
    show "?l \<subseteq> ?r"
    proof
      fix ns assume "ns \<in> ?l"
      then obtain k b where k: "content (cs_e s) k = Some b" "ns = first_level nsPrefix k" by auto
      from assms(1) k(1) show "ns \<in> ?r"
        by (cases rule: tidy_cases) (use k listed_namespace in auto)
    qed
    have "ns \<in> ?l" if "plain ns" "content (cs_e s) (appendPrefix ns) \<noteq> None" for ns
      using that listed_namespace(1,2) [of ns ns] by force
    moreover have "ns \<in> ?l" if "content (cs_e s) (buildClusterKey ns n) = Some b" for ns n b
    proof -
      have "plain ns" "plain n" using tidy_cluster [OF assms that] by blast+
      from listed_namespace(3,4) [OF this] that
      show ?thesis by (intro image_eqI [of _ _ "buildClusterKey ns n"]) simp_all
    qed
    ultimately show "?r \<subseteq> ?l" by blast
  qed
  with list [of "cs_e s" nsPrefix] tidy_registry(2) [OF assms] show ?thesis
    by (auto simp: ListNamespace_def store_abs_def registry_of_def)
qed

lemma put_reg:
  assumes "tidy (content (cs_e s))" "plain ns" "plain (cl_Name c)" "storable c"
  shows "\<exists>s'. put_cluster E ns c s = Ok s' \<and> store_abs content s' = reg_put ns c (store_abs content s) \<and> tidy (content (cs_e s'))"
  using set [of "buildClusterKey ns (cl_Name c)" "Json (Cluster_MarshalJSON c)" "cs_e s"] tidy_put [OF assms]
  by (auto simp: put_cluster_def store_abs_def)

lemma EmitEvent_simps [simp]: "cs_e (EmitEvent ev s) = cs_e s" "store_abs content (EmitEvent ev s) = store_abs content s"
  by (simp_all add: EmitEvent_def store_abs_def)

lemma check_version_reg:
  "tidy (content (cs_e s)) \<Longrightarrow> check_version E ns c s = reg_check ns c (store_abs content s)"
  by (simp add: check_version_def reg_check_def GetCluster_reg)

lemma CreateCluster_reg:
  assumes "tidy (content (cs_e s))" "plain ns" "plain (cl_Name c)" "storable c"
  shows "map_go (store_abs content) (CreateCluster E ns c s) = reg_CreateCluster ns c (store_abs content s)"
    "CreateCluster E ns c s = Ok s' \<Longrightarrow> tidy (content (cs_e s'))"
  using existsCluster_reg [OF assms(1)] put_reg [OF assms]
  by (auto simp: CreateCluster_def reg_CreateCluster_def in_context_def fail_def wrap_def split: if_splits)

lemma SetCluster_reg:
  assumes "tidy (content (cs_e s))" "plain ns" "plain (cl_Name c)" "storable c"
  shows "map_go (store_abs content) (SetCluster E ns c s) = reg_SetCluster ns c (store_abs content s)"
    "SetCluster E ns c s = Ok s' \<Longrightarrow> tidy (content (cs_e s'))"
  using put_reg [OF assms] unfolding SetCluster_def check_version_reg [OF assms(1)] reg_SetCluster_def
  by (cases "reg_check ns c (store_abs content s)"; auto)+

lemma UpdateCluster_reg:
  assumes "tidy (content (cs_e s))" "plain ns" "plain (cl_Name c)" "storable c"
  shows "map_go (\<lambda>(s, c). store_abs content s) (UpdateCluster E ns c s) = reg_UpdateCluster ns c (store_abs content s)"
    "UpdateCluster E ns c s = Ok (s', c') \<Longrightarrow> tidy (content (cs_e s')) \<and> c' = c\<lparr>cl_Version := wrap64 (cl_Version c + 1)\<rparr>
       \<and> store_abs content s' = reg_put ns c' (store_abs content s) \<and> reg_check ns c (store_abs content s) = Ok ()"
proof -
  define d where "d = c\<lparr>cl_Version := wrap64 (cl_Version c + 1)\<rparr>"
  have d: "plain (cl_Name d)" "storable d" using assms(3,4) by (simp_all add: d_def storable_def)
  note p = put_reg [OF assms(1,2) d]
  show "map_go (\<lambda>(s, c). store_abs content s) (UpdateCluster E ns c s) = reg_UpdateCluster ns c (store_abs content s)"
    "UpdateCluster E ns c s = Ok (s', c') \<Longrightarrow> tidy (content (cs_e s')) \<and> c' = c\<lparr>cl_Version := wrap64 (cl_Version c + 1)\<rparr>
       \<and> store_abs content s' = reg_put ns c' (store_abs content s) \<and> reg_check ns c (store_abs content s) = Ok ()"
    using p unfolding UpdateCluster_def check_version_reg [OF assms(1)] reg_UpdateCluster_def Let_def d_def [symmetric]
    by (cases "reg_check ns c (store_abs content s)"; auto)+
qed

lemma RemoveCluster_reg:
  assumes "tidy (content (cs_e s))" "plain ns" "plain n"
  shows "map_go (store_abs content) (RemoveCluster E ns n s) = reg_RemoveCluster ns n (store_abs content s)"
    "RemoveCluster E ns n s = Ok s' \<Longrightarrow> tidy (content (cs_e s'))"
proof -
  obtain e where "eng_Delete E (buildClusterKey ns n) (cs_e s) = Ok e" "content e = (content (cs_e s))(buildClusterKey ns n := None)"
    using delete by blast
  then show "map_go (store_abs content) (RemoveCluster E ns n s) = reg_RemoveCluster ns n (store_abs content s)"
    "RemoveCluster E ns n s = Ok s' \<Longrightarrow> tidy (content (cs_e s'))"
    using tidy_delete [OF assms(1)]
    by (auto simp: RemoveCluster_def reg_RemoveCluster_def existsCluster_reg [OF assms(1)] fail_def registry_delete [OF assms(2,3)] store_abs_def split: if_splits)
qed

lemma CreateNamespace_reg:
  assumes "tidy (content (cs_e s))" "plain ns"
  shows "map_go (store_abs content) (CreateNamespace E ns s) = reg_CreateNamespace ns (store_abs content s)"
    "CreateNamespace E ns s = Ok s' \<Longrightarrow> tidy (content (cs_e s'))"
proof -
  obtain e where "eng_Set E (appendPrefix ns) (Raw ns) (cs_e s) = Ok e" "content e = (content (cs_e s))(appendPrefix ns \<mapsto> Raw ns)"
    using set by blast
  then show "map_go (store_abs content) (CreateNamespace E ns s) = reg_CreateNamespace ns (store_abs content s)"
    "CreateNamespace E ns s = Ok s' \<Longrightarrow> tidy (content (cs_e s'))"
    using tidy_namespace(1) [OF assms]
    by (auto simp: CreateNamespace_def reg_CreateNamespace_def ExistsNamespace_reg [OF assms(2)] fail_def tidy_namespace(2) [OF assms] store_abs_def split: if_splits)
qed

lemma RemoveNamespace_reg:
  assumes "tidy (content (cs_e s))" "plain ns"
  shows "map_go (store_abs content) (RemoveNamespace E ns s) = reg_RemoveNamespace ns (store_abs content s)"
    "RemoveNamespace E ns s = Ok s' \<Longrightarrow> tidy (content (cs_e s'))"
proof -
  obtain e where e: "eng_Delete E (appendPrefix ns) (cs_e s) = Ok e" "content e = (content (cs_e s))(appendPrefix ns := None)"
    using delete by blast
  obtain names where names: "ListCluster E s ns = Ok names" "set names = {n. rg_clusters (store_abs content s) (ns, n) \<noteq> None}"
    using ListCluster_reg [OF assms] by blast
  have none: "(\<exists>n. rg_clusters (store_abs content s) (ns, n) \<noteq> None) \<longleftrightarrow> names \<noteq> []"
    using names(2) by (metis (mono_tags, lifting) empty_Collect_eq set_empty)
  have abs: "store_abs content (s\<lparr>cs_e := e\<rparr>) = (store_abs content s)\<lparr>rg_namespaces := rg_namespaces (store_abs content s) - {ns}\<rparr>"
    by (simp add: store_abs_def e(2) tidy_namespace(3) [OF assms])
  show "map_go (store_abs content) (RemoveNamespace E ns s) = reg_RemoveNamespace ns (store_abs content s)"
    unfolding RemoveNamespace_def reg_RemoveNamespace_def ExistsNamespace_reg [OF assms(2)] names(1) e(1) none
    by (simp add: fail_def wrap_def abs)
  show "RemoveNamespace E ns s = Ok s' \<Longrightarrow> tidy (content (cs_e s'))"
    unfolding RemoveNamespace_def ExistsNamespace_reg [OF assms(2)] names(1) e(1)
    using tidy_delete [OF assms(1)] by (auto simp: fail_def wrap_def e(2) split: if_splits)
qed

lemma listed_plain:
  assumes "tidy (content (cs_e s))" "ns \<in> rg_namespaces (store_abs content s) \<union> {ns. \<exists>n. rg_clusters (store_abs content s) (ns, n) \<noteq> None}"
  shows "plain ns"
proof (cases "ns \<in> rg_namespaces (store_abs content s)")
  case True
  then show ?thesis by (simp add: store_abs_def registry_of_def)
next
  case False
  then obtain n c where "rg_clusters (store_abs content s) (ns, n) = Some c" using assms(2) by blast
  then show ?thesis using tidy_registry(3) [OF assms(1)] by (simp add: store_abs_def)
qed

text \<open>New nodes are accepted exactly when no stored cluster has a node with one of the addresses.\<close>

lemma CheckNewNodes_reg:
  assumes "tidy (content (cs_e s))"
  shows "CheckNewNodes E s nodes \<noteq> Panic"
    "CheckNewNodes E s nodes = Ok () \<longleftrightarrow>
       (\<forall>ns n c. rg_clusters (store_abs content s) (ns, n) = Some c \<longrightarrow> set (map cn_addr (GetNodes c)) \<inter> set nodes = {})"
proof -
  let ?R = "rg_clusters (store_abs content s)"
  obtain nss where nss: "ListNamespace E s = Ok nss" "set nss = rg_namespaces (store_abs content s) \<union> {ns. \<exists>n. ?R (ns, n) \<noteq> None}"
    using ListNamespace_reg [OF assms] by blast
  have plain: "plain ns" if "ns \<in> set nss" for ns
    using that unfolding nss(2) by (rule listed_plain [OF assms])
  define names where "names ns = (SOME xs. ListCluster E s ns = Ok xs \<and> set xs = {n. ?R (ns, n) \<noteq> None})" for ns
  have names: "ListCluster E s ns = Ok (names ns)" "set (names ns) = {n. ?R (ns, n) \<noteq> None}" if "ns \<in> set nss" for ns
    using someI_ex [of "\<lambda>xs. ListCluster E s ns = Ok xs \<and> set xs = {n. ?R (ns, n) \<noteq> None}"] ListCluster_reg [OF assms plain [OF that]]
    unfolding names_def by blast+
  let ?found = "\<lambda>ns n. filter (\<lambda>a. a \<in> set nodes) (map cn_addr (GetNodes (the (?R (ns, n)))))"
  have "gmap (\<lambda>cluster. gbind (GetCluster E s ns cluster) (\<lambda>c. Ok (filter (\<lambda>a. a \<in> set nodes) (map cn_addr (GetNodes c))))) (names ns) =
      Ok (map (?found ns) (names ns))" if "ns \<in> set nss" for ns
    by (rule gmap_Ok) (use names(2) [OF that] in \<open>auto simp: GetCluster_reg [OF assms] reg_GetCluster_def\<close>)
  then have ex: "existing_nodes E s nodes = Ok (concat (concat (map (\<lambda>ns. map (?found ns) (names ns)) nss)))"
    using names(1) nss(1) gmap_Ok [of nss "\<lambda>ns. gbind (ListCluster E s ns) (gmap (\<lambda>cluster. gbind (GetCluster E s ns cluster) (\<lambda>c.
       Ok (filter (\<lambda>a. a \<in> set nodes) (map cn_addr (GetNodes c))))))" "\<lambda>ns. map (?found ns) (names ns)"]
    by (simp add: existing_nodes_def)
  then show "CheckNewNodes E s nodes \<noteq> Panic" by (simp add: CheckNewNodes_def wrap_def)
  have "CheckNewNodes E s nodes = Ok () \<longleftrightarrow> (\<forall>ns\<in>set nss. \<forall>n\<in>set (names ns). ?found ns n = [])"
    unfolding CheckNewNodes_def ex wrap_def by (simp add: concat_eq_Nil_conv)
  also have "\<dots> \<longleftrightarrow> (\<forall>ns n c. ?R (ns, n) = Some c \<longrightarrow> set (map cn_addr (GetNodes c)) \<inter> set nodes = {})"
  proof
    assume l: "\<forall>ns\<in>set nss. \<forall>n\<in>set (names ns). ?found ns n = []"
    show "\<forall>ns n c. ?R (ns, n) = Some c \<longrightarrow> set (map cn_addr (GetNodes c)) \<inter> set nodes = {}"
    proof (intro allI impI)
      fix ns n c assume c: "?R (ns, n) = Some c"
      then have "ns \<in> set nss" unfolding nss(2) by blast
      moreover from this c have "n \<in> set (names ns)" by (simp add: names(2))
      ultimately have "?found ns n = []" using l by blast
      with c show "set (map cn_addr (GetNodes c)) \<inter> set nodes = {}" by (auto simp: filter_empty_conv)
    qed
  next
    assume r: "\<forall>ns n c. ?R (ns, n) = Some c \<longrightarrow> set (map cn_addr (GetNodes c)) \<inter> set nodes = {}"
    show "\<forall>ns\<in>set nss. \<forall>n\<in>set (names ns). ?found ns n = []"
    proof (intro ballI)
      fix ns n assume "ns \<in> set nss" "n \<in> set (names ns)"
      then obtain c where c: "?R (ns, n) = Some c" using names(2) by auto
      then have "set (map cn_addr (GetNodes c)) \<inter> set nodes = {}" using r by blast
      with c show "?found ns n = []" by (auto simp: filter_empty_conv)
    qed
  qed
  finally show "CheckNewNodes E s nodes = Ok () \<longleftrightarrow> (\<forall>ns n c. ?R (ns, n) = Some c \<longrightarrow> set (map cn_addr (GetNodes c)) \<inter> set nodes = {})" .
qed

text \<open>Writing a changed copy of what is stored succeeds.\<close>

lemma UpdateCluster_current:
  assumes "tidy (content (cs_e s))" "GetCluster E s ns n = Ok c" "cl_Name d = cl_Name c" "cl_Version d = cl_Version c" "storable d"
  obtains s' where "UpdateCluster E ns d s = Ok (s', d\<lparr>cl_Version := wrap64 (cl_Version c + 1)\<rparr>)" "tidy (content (cs_e s'))"
    "GetCluster E s' ns n = Ok (d\<lparr>cl_Version := wrap64 (cl_Version c + 1)\<rparr>)"
proof -
  have R: "rg_clusters (store_abs content s) (ns, n) = Some c"
    using assms(2) by (auto simp: GetCluster_reg [OF assms(1)] reg_GetCluster_def wrap_def split: option.splits)
  have n: "plain ns" "plain n" "cl_Name c = n" using tidy_registry(1,3) [OF assms(1)] R by (auto simp: store_abs_def)
  note u = UpdateCluster_reg [OF assms(1) n(1) _ assms(5), unfolded assms(3) n(3), OF n(2)]
  have "\<exists>R. reg_UpdateCluster ns d (store_abs content s) = Ok R"
    by (simp add: reg_UpdateCluster_def reg_check_def reg_GetCluster_def assms(3,4) n(3) R)
  then obtain s' c' where up: "UpdateCluster E ns d s = Ok (s', c')" using u(1) by (cases "UpdateCluster E ns d s") auto
  note u' = u(2) [OF up]
  have c': "c' = d\<lparr>cl_Version := wrap64 (cl_Version c + 1)\<rparr>" using u' assms(4) by simp
  have "GetCluster E s' ns n = Ok c'"
    using u' assms(3) n(3) by (simp add: GetCluster_reg reg_GetCluster_def reg_put_def)
  with up u' show ?thesis unfolding c' by (intro that) simp_all
qed

end

text \<open>
  C3: Over any engine that keeps its contract, the store is the registry. For names without a slash,
  reading a cluster, creating and removing namespaces and clusters and writing a cluster do on the keys
  and values of the engine what they do on a set of namespaces and a map of clusters, with the same errors,
  the listings give each name once, and new nodes are refused exactly when a stored cluster has a node with
  one of their addresses.
\<close>
theorem store_refines_registry:
  assumes "engine_contract E content" "tidy (content (cs_e s))" "plain ns" "plain n" "plain (cl_Name c)" "storable c"
  shows "GetCluster E s ns n = reg_GetCluster (store_abs content s) ns n
    \<and> map_go (store_abs content) (CreateNamespace E ns s) = reg_CreateNamespace ns (store_abs content s)
    \<and> map_go (store_abs content) (RemoveNamespace E ns s) = reg_RemoveNamespace ns (store_abs content s)
    \<and> map_go (store_abs content) (CreateCluster E ns c s) = reg_CreateCluster ns c (store_abs content s)
    \<and> map_go (store_abs content) (RemoveCluster E ns n s) = reg_RemoveCluster ns n (store_abs content s)
    \<and> map_go (store_abs content) (SetCluster E ns c s) = reg_SetCluster ns c (store_abs content s)
    \<and> map_go (\<lambda>(s, c). store_abs content s) (UpdateCluster E ns c s) = reg_UpdateCluster ns c (store_abs content s)
    \<and> (\<exists>names. ListCluster E s ns = Ok names \<and> distinct names \<and> set names = {n. rg_clusters (store_abs content s) (ns, n) \<noteq> None})
    \<and> (\<exists>names. ListNamespace E s = Ok names \<and> distinct names
      \<and> set names = rg_namespaces (store_abs content s) \<union> {ns. \<exists>n. rg_clusters (store_abs content s) (ns, n) \<noteq> None})
    \<and> (CheckNewNodes E s nodes = Ok () \<longleftrightarrow>
        (\<forall>ns n c. rg_clusters (store_abs content s) (ns, n) = Some c \<longrightarrow> set (map cn_addr (GetNodes c)) \<inter> set nodes = {}))"
  by (intro conjI engine_contract.GetCluster_reg [OF assms(1,2)] engine_contract.CreateNamespace_reg(1) [OF assms(1-3)]
    engine_contract.RemoveNamespace_reg(1) [OF assms(1-3)] engine_contract.CreateCluster_reg(1) [OF assms(1-3,5,6)]
    engine_contract.RemoveCluster_reg(1) [OF assms(1-4)] engine_contract.SetCluster_reg(1) [OF assms(1-3,5,6)]
    engine_contract.UpdateCluster_reg(1) [OF assms(1-3,5,6)] engine_contract.ListCluster_reg [OF assms(1-3)]
    engine_contract.ListNamespace_reg [OF assms(1,2)] engine_contract.CheckNewNodes_reg(2) [OF assms(1,2)])

theorem store_refines_registry_witness:
  "let s = \<lparr>cs_e = [], cs_events = []\<rparr>; c = \<lparr>cl_Name = ''c'', cl_Version = 1, cl_Shards = []\<rparr>
   in map_go (store_abs map_of) (CreateCluster Mock ''n'' c s) = Ok (reg_put ''n'' c (store_abs map_of s))
     \<and> GetCluster Mock s ''n'' ''c'' = wrap ''cluster: '' ErrNotFound []"
  using store_refines_registry [OF mock.engine_contract_axioms, of "\<lparr>cs_e = [], cs_events = []\<rparr>" "''n''" "''c''"
      "\<lparr>cl_Name = ''c'', cl_Version = 1, cl_Shards = []\<rparr>"]
  by (simp add: tidy_def plain_def storable_def int64_def reg_CreateCluster_def reg_GetCluster_def store_abs_def registry_of_def)

section \<open>Concurrent writers\<close>

text \<open>
  Handlers and checkers read a cluster, change their copy and write it back. In between, others do the
  same. \<open>h i\<close> is the copy that the writer \<open>i\<close> holds, as it read it or as its last accepted write left it.
\<close>

inductive writers :: "'e engine \<Rightarrow> string \<Rightarrow> string \<Rightarrow> 'e ClusterStore \<times> (nat \<Rightarrow> Cluster option) \<Rightarrow> 'e ClusterStore \<times> (nat \<Rightarrow> Cluster option) \<Rightarrow> bool"
  for E ns n where
  read: "GetCluster E s ns n = Ok c \<Longrightarrow> writers E ns n (s, h) (s, h(i \<mapsto> c))"
| update: "h i = Some c \<Longrightarrow> cl_Name c' = cl_Name c \<Longrightarrow> cl_Version c' = cl_Version c \<Longrightarrow> storable c' \<Longrightarrow> cl_Version c < 2 ^ 63 - 1 \<Longrightarrow>
    UpdateCluster E ns c' s = Ok (s', c'') \<Longrightarrow> writers E ns n (s, h) (s', h(i \<mapsto> c''))"
| refused: "UpdateCluster E ns c' s = Fail e \<Longrightarrow> writers E ns n (s, h) (s, h(i := None))"

context engine_contract
begin

definition fresh :: "string \<Rightarrow> string \<Rightarrow> 'e ClusterStore \<times> (nat \<Rightarrow> Cluster option) \<Rightarrow> bool" where
  "fresh ns n st \<longleftrightarrow> tidy (content (cs_e (fst st))) \<and> (\<forall>i c. snd st i = Some c \<longrightarrow>
     (\<exists>cur. rg_clusters (store_abs content (fst st)) (ns, n) = Some cur \<and> cl_Name c = n
        \<and> cl_Version c \<le> cl_Version cur \<and> (cl_Version c = cl_Version cur \<longrightarrow> c = cur)))"

lemma reg_check_Ok: "reg_check ns c R = Ok () \<longleftrightarrow> (\<exists>cur. rg_clusters R (ns, cl_Name c) = Some cur \<and> cl_Version cur \<le> cl_Version c)"
  by (cases "rg_clusters R (ns, cl_Name c)") (auto simp: reg_check_def reg_GetCluster_def wrap_def errors_New_def simp del: gbind_eq_Ok)

lemma update_fresh:
  assumes "fresh ns n (s, h)" "plain ns" "plain n" "h i = Some c" "cl_Name c' = cl_Name c" "cl_Version c' = cl_Version c" "storable c'"
    and "UpdateCluster E ns c' s = Ok (s', c'')"
  shows "rg_clusters (store_abs content s) (ns, n) = Some c" "tidy (content (cs_e s'))"
    "c'' = c'\<lparr>cl_Version := wrap64 (cl_Version c + 1)\<rparr>" "rg_clusters (store_abs content s') (ns, n) = Some c''"
proof -
  obtain cur where cur: "tidy (content (cs_e s))" "rg_clusters (store_abs content s) (ns, n) = Some cur" "cl_Name c = n"
    "cl_Version c \<le> cl_Version cur" "cl_Version c = cl_Version cur \<longrightarrow> c = cur"
    using assms(1,4) by (auto simp: fresh_def)
  have "plain (cl_Name c')" using assms(3,5) cur(3) by simp
  note u = UpdateCluster_reg(2) [OF cur(1) assms(2) this assms(7,8)]
  have "reg_check ns c' (store_abs content s) = Ok ()" using u by blast
  then have "cl_Version cur \<le> cl_Version c" using cur(2,3) assms(5,6) unfolding reg_check_Ok by auto
  with cur show "rg_clusters (store_abs content s) (ns, n) = Some c" by simp
  show "tidy (content (cs_e s'))" using u by blast
  show c'': "c'' = c'\<lparr>cl_Version := wrap64 (cl_Version c + 1)\<rparr>" using u assms(6) by metis
  have "store_abs content s' = reg_put ns c'' (store_abs content s)" using u by blast
  then show "rg_clusters (store_abs content s') (ns, n) = Some c''" using assms(5) cur(3) by (simp add: reg_put_def c'')
qed

lemma writers_fresh:
  assumes "writers E ns n st st'" "fresh ns n st" "plain ns" "plain n"
  shows "fresh ns n st'"
  using assms
proof (cases rule: writers.cases)
  case (read s c h i)
  have t: "tidy (content (cs_e s))" using assms(2) read(1) by (simp add: fresh_def)
  then have "rg_clusters (store_abs content s) (ns, n) = Some c"
    using read(3) by (auto simp: GetCluster_reg reg_GetCluster_def wrap_def split: option.splits)
  with t show ?thesis using assms(2) tidy_registry(1) [OF t, of ns n c] read(1,2) by (auto simp: fresh_def store_abs_def)
next
  case (update h i c c' s s' c'')
  note u = update_fresh [OF assms(2) [unfolded update(1)] assms(3,4) update(3-6,8)]
  have "int64 (cl_Version c + 1)" using update(5,6,7) by (auto simp: storable_def int64_def)
  then have v: "cl_Version c'' = cl_Version c + 1" "cl_Name c'' = cl_Name c" unfolding u(3) using update(4) by (simp_all add: wrap64_id)
  have f: "cl_Name d = n \<and> cl_Version d \<le> cl_Version c" if hj: "h j = Some d" for j d
  proof -
    obtain cur where "rg_clusters (store_abs content s) (ns, n) = Some cur" "cl_Name d = n" "cl_Version d \<le> cl_Version cur"
      using assms(2) hj unfolding update(1) fresh_def fst_conv snd_conv by blast
    then show ?thesis using u(1) by simp
  qed
  have "cl_Name d = n \<and> cl_Version d \<le> cl_Version c'' \<and> (cl_Version d = cl_Version c'' \<longrightarrow> d = c'')"
    if d: "(h(i \<mapsto> c'')) j = Some d" for j d
  proof (cases "j = i")
    case True
    then have "d = c''" using d by simp
    then show ?thesis using v f [OF update(3)] by simp
  next
    case False
    then have "h j = Some d" using d by simp
    then show ?thesis using v f by fastforce
  qed
  with u(2,4) show ?thesis unfolding fresh_def update(2) fst_conv snd_conv by blast
next
  case (refused c' s e h i)
  then show ?thesis using assms(2) by (auto simp: fresh_def)
qed

lemma writers_all_fresh:
  assumes "(writers E ns n)\<^sup>*\<^sup>* (s0, \<lambda>_. None) st" "tidy (content (cs_e s0))" "plain ns" "plain n"
  shows "fresh ns n st"
  using assms(1) by (induction rule: rtranclp_induct) (use assms writers_fresh in \<open>auto simp: fresh_def [of _ _ "(s0, _)"]\<close>)

end

text \<open>
  C4: No update is lost. However the reads and writes of any number of writers interleave, a write is
  accepted only if the copy it starts from is what the store holds at that moment, and then the store holds
  the changed copy with the version increased by one.
\<close>
theorem no_lost_update:
  assumes "engine_contract E content" "tidy (content (cs_e s0))" "plain ns" "plain n"
    and "(writers E ns n)\<^sup>*\<^sup>* (s0, \<lambda>_. None) (s, h)" "h i = Some c"
    and "cl_Name c' = cl_Name c" "cl_Version c' = cl_Version c" "storable c'" "cl_Version c < 2 ^ 63 - 1"
    and "UpdateCluster E ns c' s = Ok (s', c'')"
  shows "GetCluster E s ns n = Ok c \<and> GetCluster E s' ns n = Ok (c'\<lparr>cl_Version := cl_Version c + 1\<rparr>)"
proof -
  note f = engine_contract.writers_all_fresh [OF assms(1,5,2-4)]
  note u = engine_contract.update_fresh [OF assms(1) f assms(3,4,6-9,11)]
  have "wrap64 (cl_Version c + 1) = cl_Version c + 1" using assms(8-10) by (intro wrap64_id) (simp add: storable_def int64_def)
  with f u show ?thesis
    by (simp add: engine_contract.GetCluster_reg [OF assms(1)] engine_contract.fresh_def [OF assms(1)] reg_GetCluster_def)
qed

definition one_cluster :: "Cluster \<Rightarrow> mock ClusterStore" where
  \<comment> \<open>A store with one cluster, for the examples.\<close>
  "one_cluster c = \<lparr>cs_e = [(appendPrefix ''n'', Raw ''n''), (buildClusterKey ''n'' (cl_Name c), Json (Cluster_MarshalJSON c))], cs_events = []\<rparr>"

lemma one_cluster_abs:
  assumes "plain (cl_Name c)" "storable c"
  shows "tidy (map_of (cs_e (one_cluster c)))" "rg_namespaces (store_abs map_of (one_cluster c)) = {''n''}"
    "rg_clusters (store_abs map_of (one_cluster c)) = [(''n'', cl_Name c) \<mapsto> c]"
proof -
  have n: "plain ''n''" by (simp add: plain_def)
  show "tidy (map_of (cs_e (one_cluster c)))" using assms n by (auto simp: tidy_def one_cluster_def)
  show "rg_namespaces (store_abs map_of (one_cluster c)) = {''n''}"
    using n assms(1) by (auto simp: store_abs_def registry_of_def one_cluster_def appendPrefix_not_cluster)
  show "rg_clusters (store_abs map_of (one_cluster c)) = [(''n'', cl_Name c) \<mapsto> c]"
    using n assms not_sym [OF appendPrefix_not_cluster [OF n]]
    by (auto simp: store_abs_def registry_of_def one_cluster_def buildClusterKey_inj [OF n assms(1)] unmarshal_cluster_def fun_eq_iff)
qed

theorem no_lost_update_witness:
  "let c = \<lparr>cl_Name = ''c'', cl_Version = 1, cl_Shards = []\<rparr>
   in \<exists>s' c''. UpdateCluster Mock ''n'' c (one_cluster c) = Ok (s', c'') \<and> GetCluster Mock s' ''n'' ''c'' = Ok (c\<lparr>cl_Version := 2\<rparr>)"
proof -
  define c where "c = \<lparr>cl_Name = ''c'', cl_Version = 1, cl_Shards = []\<rparr>"
  have p: "plain ''n''" "plain ''c''" "plain (cl_Name c)" "storable c" by (simp_all add: plain_def c_def storable_def int64_def)
  note a = one_cluster_abs [OF p(3,4)]
  have g: "GetCluster Mock (one_cluster c) ''n'' ''c'' = Ok c"
    by (simp add: mock.GetCluster_reg [OF a(1)] reg_GetCluster_def a(3)) (simp add: c_def)
  then have "writers Mock ''n'' ''c'' (one_cluster c, \<lambda>_. None) (one_cluster c, [0 \<mapsto> c])" by (rule writers.read)
  then have r: "(writers Mock ''n'' ''c'')\<^sup>*\<^sup>* (one_cluster c, \<lambda>_. None) (one_cluster c, [0 \<mapsto> c])" by simp
  have "\<exists>R. reg_UpdateCluster ''n'' c (store_abs map_of (one_cluster c)) = Ok R"
    by (simp add: reg_UpdateCluster_def reg_check_def reg_GetCluster_def a(3))
  then obtain s' c'' where u: "UpdateCluster Mock ''n'' c (one_cluster c) = Ok (s', c'')"
    using mock.UpdateCluster_reg(1) [OF a(1) p(1,3,4)] by (cases "UpdateCluster Mock ''n'' c (one_cluster c)") auto
  have "GetCluster Mock s' ''n'' ''c'' = Ok (c\<lparr>cl_Version := cl_Version c + 1\<rparr>)"
    by (rule no_lost_update [OF mock.engine_contract_axioms a(1) p(1,2) r _ refl refl p(4) _ u, THEN conjunct2]) (simp_all add: c_def)
  with u show ?thesis by (simp add: c_def Let_def)
qed

text \<open>
  A cluster that is deleted and created again starts over at version 1. A copy of the old cluster is then
  not behind it, and the write of the copy replaces the new cluster.
\<close>
theorem recreated_cluster_overwritten:
  assumes "engine_contract E content" "tidy (content (cs_e s))" "plain ns" "plain (cl_Name c)" "storable c" "1 \<le> cl_Version c"
    and "GetCluster E s ns (cl_Name c) = Ok new" "cl_Version new = 1"
  shows "\<exists>s' c'. UpdateCluster E ns c s = Ok (s', c') \<and> c' = c\<lparr>cl_Version := wrap64 (cl_Version c + 1)\<rparr>"
proof -
  have "reg_GetCluster (store_abs content s) ns (cl_Name c) = Ok new"
    using assms(7) by (simp add: engine_contract.GetCluster_reg [OF assms(1,2)])
  then have "\<exists>R. map_go (\<lambda>(s, c). store_abs content s) (UpdateCluster E ns c s) = Ok R"
    using assms(6,8) unfolding engine_contract.UpdateCluster_reg(1) [OF assms(1-5)] by (simp add: reg_UpdateCluster_def reg_check_def)
  then obtain s' c' where u: "UpdateCluster E ns c s = Ok (s', c')" by (cases "UpdateCluster E ns c s") auto
  with engine_contract.UpdateCluster_reg(2) [OF assms(1-5) u] show ?thesis by blast
qed

end
