(* ===== verification/Partition.thy ===== *)
theory Partition
  imports Topology
begin

text \<open>
  What every operation on a topology keeps: each of the 16384 slots belongs to exactly one shard, the
  ranges of a shard are canonical, a shard has exactly one master, and a range that is migrating still
  belongs to the shard that gives it away.
\<close>

section \<open>The invariant\<close>

definition owns :: "Cluster \<Rightarrow> nat \<Rightarrow> int \<Rightarrow> bool" where
  "owns c i k \<longleftrightarrow> i < length (cl_Shards c) \<and> k \<in> slots (shard_SlotRanges (cl_Shards c ! i))"

definition one_master :: "Shard \<Rightarrow> bool" where
  "one_master sh \<longleftrightarrow> length (filter IsMaster (shard_Nodes sh)) = 1"

definition migrating_owned :: "Shard \<Rightarrow> bool" where
  "migrating_owned sh \<longleftrightarrow> (\<forall>m. shard_MigratingSlot sh = Some m \<longrightarrow>
     ms_IsMigrating m \<and> valid_range (ms_SlotRange m) \<and> slots_of (ms_SlotRange m) \<subseteq> slots (shard_SlotRanges sh))"

definition wf_shard :: "Shard \<Rightarrow> bool" where
  "wf_shard sh \<longleftrightarrow> canonical (shard_SlotRanges sh) \<and> one_master sh \<and> migrating_owned sh"

definition wf_cluster :: "Cluster \<Rightarrow> bool" where
  "wf_cluster c \<longleftrightarrow> (\<forall>sh\<in>set (cl_Shards c). wf_shard sh) \<and> (\<forall>k\<in>{MinSlotID..MaxSlotID}. \<exists>!i. owns c i k)"

lemma canonical_bounds: "canonical rs \<Longrightarrow> slots rs \<subseteq> {MinSlotID..MaxSlotID}"
  by (auto simp: canonical_def slots_def slots_of_def valid_range_def list_all_iff)

lemma wf_nth: "wf_cluster c \<Longrightarrow> i < length (cl_Shards c) \<Longrightarrow> wf_shard (cl_Shards c ! i)"
  by (simp add: wf_cluster_def)

lemma owns_bounds:
  assumes "wf_cluster c" "owns c i k"
  shows "k \<in> {MinSlotID..MaxSlotID}"
  using canonical_bounds [of "shard_SlotRanges (cl_Shards c ! i)"] wf_nth [OF assms(1), of i] assms(2)
  by (auto simp: owns_def wf_shard_def)

lemma owner_unique:
  assumes "wf_cluster c" "owns c i k" "owns c j k"
  shows "i = j"
  using assms owns_bounds [OF assms(1,2)] unfolding wf_cluster_def by blast

lemma nth_update_if: "xs[i := x] ! j = (if i = j \<and> j < length xs then x else xs ! j)"
  by (cases "i < length xs") (auto simp: nth_list_update list_update_beyond)

lemma cl_Shards_set_shard [simp]: "cl_Shards (set_shard i sh c) = (cl_Shards c)[i := sh]"
  by (simp add: set_shard_def)

text \<open>A change of one shard that keeps its ranges keeps every owner.\<close>

lemma owns_same:
  assumes "shard_SlotRanges sh = shard_SlotRanges (cl_Shards c ! i)"
  shows "owns (set_shard i sh c) = owns c"
  using assms by (auto simp: owns_def fun_eq_iff nth_update_if)

lemma wf_set_shard:
  assumes "wf_cluster c" "wf_shard sh" "\<And>j k. owns (set_shard i sh c) j k = owns c j k"
  shows "wf_cluster (set_shard i sh c)"
  using assms set_update_subset_insert [of "cl_Shards c" i sh] by (auto simp: wf_cluster_def)

lemma wf_set_same:
  assumes "wf_cluster c" "wf_shard sh" "shard_SlotRanges sh = shard_SlotRanges (cl_Shards c ! i)"
  shows "wf_cluster (set_shard i sh c)"
  using wf_set_shard [OF assms(1,2)] owns_same [OF assms(3)] by simp

section \<open>Masters\<close>

lemma SetRole_simps [simp]:
  "IsMaster (SetRole RoleMaster n)" "\<not> IsMaster (SetRole RoleSlave n)" "cn_id (SetRole r n) = cn_id n" "cn_addr (SetRole r n) = cn_addr n"
  by (simp_all add: IsMaster_def SetRole_def RoleMaster_def RoleSlave_def)

lemma find_indexed:
  "map_option fst (List.find (\<lambda>(i, x). P x) (indexed xs)) = Some m \<longleftrightarrow>
     m < length xs \<and> P (xs ! m) \<and> (\<forall>j<m. \<not> P (xs ! j))"
  by (auto simp: find_Some_iff) (intro exI [of _ "xs ! m"] exI [of _ m], simp)

lemma master_index_Some:
  "master_index sh = Some m \<longleftrightarrow> m < length (shard_Nodes sh) \<and> IsMaster (shard_Nodes sh ! m) \<and> (\<forall>j<m. \<not> IsMaster (shard_Nodes sh ! j))"
  unfolding master_index_def by (rule find_indexed)

lemma one_master_iff:
  "one_master sh \<longleftrightarrow> (\<exists>m<length (shard_Nodes sh). \<forall>j<length (shard_Nodes sh). IsMaster (shard_Nodes sh ! j) \<longleftrightarrow> j = m)"
proof -
  have "one_master sh \<longleftrightarrow> (\<exists>m. {i. i < length (shard_Nodes sh) \<and> IsMaster (shard_Nodes sh ! i)} = {m})"
    unfolding one_master_def length_filter_conv_card by (simp add: card_1_singleton_iff)
  also have "\<dots> \<longleftrightarrow> (\<exists>m<length (shard_Nodes sh). \<forall>j<length (shard_Nodes sh). IsMaster (shard_Nodes sh ! j) \<longleftrightarrow> j = m)"
    by (auto simp: set_eq_iff)
  finally show ?thesis .
qed

lemma one_master_index:
  assumes "one_master sh"
  obtains m where "master_index sh = Some m" "m < length (shard_Nodes sh)"
    "\<And>j. j < length (shard_Nodes sh) \<Longrightarrow> IsMaster (shard_Nodes sh ! j) \<longleftrightarrow> j = m"
proof -
  obtain m where m: "m < length (shard_Nodes sh)" "\<And>j. j < length (shard_Nodes sh) \<Longrightarrow> IsMaster (shard_Nodes sh ! j) \<longleftrightarrow> j = m"
    using assms by (auto simp: one_master_iff)
  then show ?thesis using that [of m] by (auto simp: master_index_Some)
qed


text \<open>A node that can take over: it answers, and it is a slave that has data; with its sequence.\<close>

definition candidate :: "kvrocks \<Rightarrow> ClusterNode \<Rightarrow> nat option" where
  "candidate kv n = (case GetClusterInfo kv n of
       Ok _ \<Rightarrow> (case GetClusterNodeInfo kv n of
           Ok info \<Rightarrow> if ni_Role info \<noteq> RoleSlave \<or> ni_Sequence info = 0 then None else Some (ni_Sequence info)
         | _ \<Rightarrow> None)
     | _ \<Rightarrow> None)"

definition chosen :: "kvrocks \<Rightarrow> nat \<Rightarrow> string \<Rightarrow> (nat \<times> ClusterNode) list \<Rightarrow> nat \<Rightarrow> bool" where
  \<comment> \<open>The first candidate with the preferred id; without one, a candidate with the highest sequence.\<close>
  "chosen kv m preferred ns i \<longleftrightarrow> (\<exists>n. (i, n) \<in> set ns \<and> i \<noteq> m \<and> candidate kv n \<noteq> None
     \<and> ((preferred \<noteq> [] \<and> cn_id n = preferred)
        \<or> (\<forall>j n'. (j, n') \<in> set ns \<and> j \<noteq> m \<and> candidate kv n' \<noteq> None \<longrightarrow>
             \<not> (preferred \<noteq> [] \<and> cn_id n' = preferred) \<and> the (candidate kv n') \<le> the (candidate kv n))))"

lemma new_master_loop_step:
  "new_master_loop kv m preferred ((i, n) # rest) best newest = r \<Longrightarrow> r \<noteq> Panic \<Longrightarrow>
     r = (if i = m then new_master_loop kv m preferred rest best newest
          else (case candidate kv n of
              None \<Rightarrow> new_master_loop kv m preferred rest best newest
            | Some q \<Rightarrow> if preferred \<noteq> [] \<and> cn_id n = preferred then Ok (Some i)
                else if q \<ge> newest then new_master_loop kv m preferred rest (Some i) q
                else new_master_loop kv m preferred rest best newest))"
  by (auto simp: candidate_def split: go.splits if_splits)

lemma new_master_loop_spec:
  assumes "new_master_loop kv m preferred rest best newest = Ok r"
    and "\<And>i n. (i, n) \<in> set seen \<Longrightarrow> i \<noteq> m \<Longrightarrow> candidate kv n \<noteq> None \<Longrightarrow>
           \<not> (preferred \<noteq> [] \<and> cn_id n = preferred) \<and> the (candidate kv n) \<le> newest \<and> best \<noteq> None"
    and "\<And>i. best = Some i \<Longrightarrow> \<exists>n. (i, n) \<in> set seen \<and> i \<noteq> m \<and> candidate kv n = Some newest"
    and "best = None \<Longrightarrow> newest = 0"
  shows "case r of None \<Rightarrow> \<forall>i n. (i, n) \<in> set (seen @ rest) \<longrightarrow> i = m \<or> candidate kv n = None
    | Some i \<Rightarrow> chosen kv m preferred (seen @ rest) i"
  using assms
proof (induction rest arbitrary: seen best newest)
  case Nil
  then show ?case
  proof (cases best)
    case None
    then show ?thesis using Nil by auto
  next
    case (Some i)
    then obtain n where n: "(i, n) \<in> set seen" "i \<noteq> m" "candidate kv n = Some newest" using Nil(3) by blast
    have "\<not> (preferred \<noteq> [] \<and> cn_id n' = preferred) \<and> the (candidate kv n') \<le> newest"
      if "(j, n') \<in> set seen" "j \<noteq> m" "candidate kv n' \<noteq> None" for j n' using Nil(2) [OF that] by simp
    with n have "chosen kv m preferred (seen @ []) i" unfolding chosen_def by (intro exI [of _ n]) auto
    with Some Nil(1) show ?thesis by auto
  qed
next
  case (Cons p rest)
  obtain i n where p: "p = (i, n)" by (cases p)
  note step = new_master_loop_step [OF Cons.prems(1) [unfolded p]]
  have a: "seen @ p # rest = (seen @ [p]) @ rest" by simp
  show ?case
  proof (cases "i = m \<or> candidate kv n = None")
    case True
    then have "new_master_loop kv m preferred rest best newest = Ok r" using step by auto
    then show ?thesis unfolding a
      by (rule Cons.IH) (use True Cons.prems(2,3,4) in \<open>auto simp: p\<close>)
  next
    case False
    then obtain q where q: "candidate kv n = Some q" "i \<noteq> m" by auto
    show ?thesis
    proof (cases "preferred \<noteq> [] \<and> cn_id n = preferred")
      case True
      then show ?thesis using step q by (auto simp: chosen_def p)
    next
      case other: False
      show ?thesis
      proof (cases "q \<ge> newest")
        case True
        then have "new_master_loop kv m preferred rest (Some i) q = Ok r" using step q other by auto
        then show ?thesis unfolding a
        proof (rule Cons.IH)
          fix j n' assume "(j, n') \<in> set (seen @ [p])" "j \<noteq> m" "candidate kv n' \<noteq> None"
          then show "\<not> (preferred \<noteq> [] \<and> cn_id n' = preferred) \<and> the (candidate kv n') \<le> q \<and> Some i \<noteq> None"
            using Cons.prems(2) [of j n'] True q other by (auto simp: p)
        qed (use q in \<open>auto simp: p\<close>)
      next
        case False
        then have "new_master_loop kv m preferred rest best newest = Ok r" using step q other by auto
        then show ?thesis unfolding a
        proof (rule Cons.IH)
          fix j n' assume "(j, n') \<in> set (seen @ [p])" "j \<noteq> m" "candidate kv n' \<noteq> None"
          then show "\<not> (preferred \<noteq> [] \<and> cn_id n' = preferred) \<and> the (candidate kv n') \<le> newest \<and> best \<noteq> None"
            using Cons.prems(2) [of j n'] Cons.prems(4) False q other by (auto simp: p)
        qed (use Cons.prems(3,4) in auto)
      qed
    qed
  qed
qed


lemma promote_shape:
  assumes "promoteNewMaster kv masterNodeID preferred sh = Ok (sh', newID)"
  obtains old new where "master_index sh = Some old" "masterNodeID = [] \<or> cn_id (shard_Nodes sh ! old) = masterNodeID"
    "chosen kv old preferred (indexed (shard_Nodes sh)) new" "newID = cn_id (shard_Nodes sh ! new)"
    "sh' = sh\<lparr>shard_Nodes := (shard_Nodes sh)[old := SetRole RoleSlave (shard_Nodes sh ! old), new := SetRole RoleMaster (shard_Nodes sh ! new)]\<rparr>"
proof -
  obtain old where old: "master_index sh = Some old" "masterNodeID = [] \<or> cn_id (shard_Nodes sh ! old) = masterNodeID"
    using assms by (auto simp: promoteNewMaster_def fail_def split: if_splits option.splits)
  then obtain new where new: "new_master_loop kv old preferred (indexed (shard_Nodes sh)) None 0 = Ok (Some new)"
    and s: "sh' = sh\<lparr>shard_Nodes := (shard_Nodes sh)[old := SetRole RoleSlave (shard_Nodes sh ! old),
        new := SetRole RoleMaster ((shard_Nodes sh)[old := SetRole RoleSlave (shard_Nodes sh ! old)] ! new)]\<rparr>"
      "newID = cn_id (((shard_Nodes sh)[old := SetRole RoleSlave (shard_Nodes sh ! old),
        new := SetRole RoleMaster ((shard_Nodes sh)[old := SetRole RoleSlave (shard_Nodes sh ! old)] ! new)]) ! new)"
    using assms by (auto simp: promoteNewMaster_def getNewMasterNodeIndex_def fail_def Let_def split: if_splits option.splits)
  have c: "chosen kv old preferred (indexed (shard_Nodes sh)) new"
    using new_master_loop_spec [OF new, of "[]"] by simp
  then have "new \<noteq> old" "new < length (shard_Nodes sh)" by (auto simp: chosen_def in_set_indexed)
  with old c s show ?thesis by (intro that [of old new]) (simp_all add: nth_update_if)
qed

lemma promote_one_master:
  assumes "one_master sh" "promoteNewMaster kv masterNodeID preferred sh = Ok (sh', newID)"
  shows "one_master sh'"
proof -
  obtain old new where p: "master_index sh = Some old" "chosen kv old preferred (indexed (shard_Nodes sh)) new"
    "sh' = sh\<lparr>shard_Nodes := (shard_Nodes sh)[old := SetRole RoleSlave (shard_Nodes sh ! old), new := SetRole RoleMaster (shard_Nodes sh ! new)]\<rparr>"
    using promote_shape [OF assms(2)] by metis
  have "\<And>j. j < length (shard_Nodes sh) \<Longrightarrow> IsMaster (shard_Nodes sh ! j) \<longleftrightarrow> j = old"
    using one_master_index [OF assms(1)] p(1) by (metis option.inject)
  moreover have "new \<noteq> old" "new < length (shard_Nodes sh)" using p(2) by (auto simp: chosen_def in_set_indexed)
  ultimately show ?thesis by (auto simp: one_master_iff p(3) nth_update_if intro!: exI [of _ new])
qed

lemma remove_skip:
  assumes "\<forall>i\<in>set is. cn_id (arr ! i) \<noteq> nodeID"
  shows "remove_loop nodeID (is @ js) arr m f = remove_loop nodeID js arr m f"
  using assms by (induction "is") auto

lemma remove_loop_masters:
  assumes "remove_loop nodeID is arr m f = Ok (nodes, g)" "m \<le> length arr"
  shows "filter IsMaster nodes = filter IsMaster (take m arr)"
  using assms
proof (induction nodeID "is" arr m f rule: remove_loop.induct)
  case (2 nodeID i "is" arr m f)
  show ?case
  proof (cases "cn_id (arr ! i) = nodeID")
    case True
    with 2(3) have i: "\<not> IsMaster (arr ! i)" "i < m"
      and r: "remove_loop nodeID is (take i arr @ drop (i + 1) (take m arr) @ drop (m - 1) arr) (m - 1) True = Ok (nodes, g)"
      by (auto simp: wrap_def split: if_splits)
    have "take (m - 1) (take i arr @ drop (i + 1) (take m arr) @ drop (m - 1) arr) = take i arr @ drop (i + 1) (take m arr)"
    proof -
      have "m - Suc 0 = i" if "m - Suc 0 \<le> i" using i(2) that by linarith
      then show ?thesis using i(2) 2(4) by (auto simp: min_def)
    qed
    then have "filter IsMaster nodes = filter IsMaster (take i arr @ drop (i + 1) (take m arr))"
      using 2(2) [OF _ _ _ r] True i 2(4) by simp
    also have "\<dots> = filter IsMaster (take i arr @ arr ! i # drop (i + 1) (take m arr))" using i(1) by simp
    also have "take i arr @ arr ! i # drop (i + 1) (take m arr) = take m arr"
      using i(2) 2(4) id_take_nth_drop [of i "take m arr"] by (simp add: min_def)
    finally show ?thesis .
  qed (use 2 in auto)
qed auto


lemma removeNode_masters:
  assumes "removeNode nodeID sh = Ok sh'"
  shows "one_master sh' \<longleftrightarrow> one_master sh" "shard_SlotRanges sh' = shard_SlotRanges sh" "shard_MigratingSlot sh' = shard_MigratingSlot sh"
proof -
  obtain nodes g where "remove_loop nodeID [0..<length (shard_Nodes sh)] (shard_Nodes sh) (length (shard_Nodes sh)) False = Ok (nodes, g)"
    and s: "sh' = sh\<lparr>shard_Nodes := nodes\<rparr>"
    using assms by (auto simp: removeNode_def Let_def fail_def split: if_splits)
  then show "one_master sh' \<longleftrightarrow> one_master sh" using remove_loop_masters by (fastforce simp: one_master_def)
  show "shard_SlotRanges sh' = shard_SlotRanges sh" "shard_MigratingSlot sh' = shard_MigratingSlot sh" by (simp_all add: s)
qed

lemma removeNode_distinct:
  assumes "distinct (map cn_id (shard_Nodes sh))"
  shows "removeNode nodeID sh =
    (case List.find (\<lambda>n. cn_id n = nodeID) (shard_Nodes sh) of
       None \<Rightarrow> fail ErrNotFound
     | Some n \<Rightarrow> if IsMaster n then wrap ''cannot remove master node: '' ErrInvalidArgument []
                 else Ok (sh\<lparr>shard_Nodes := filter (\<lambda>n. cn_id n \<noteq> nodeID) (shard_Nodes sh)\<rparr>))"
proof (cases "List.find (\<lambda>n. cn_id n = nodeID) (shard_Nodes sh)")
  case None
  then have "\<forall>i\<in>set [0..<length (shard_Nodes sh)]. cn_id (shard_Nodes sh ! i) \<noteq> nodeID" by (auto simp: find_None_iff)
  with None show ?thesis
    using remove_skip [of "[0..<length (shard_Nodes sh)]" "shard_Nodes sh" nodeID "[]"] by (simp add: removeNode_def)
next
  case (Some n)
  define xs where "xs = shard_Nodes sh"
  obtain i where i: "i < length xs" "n = xs ! i" "cn_id n = nodeID"
    using Some by (auto simp: find_Some_iff xs_def)
  have others: "cn_id (xs ! j) \<noteq> nodeID" if "j < length xs" "j \<noteq> i" for j
    using assms [folded xs_def] i that nth_eq_iff_index_eq [of "map cn_id xs" j i] by auto
  have split: "[0..<length xs] = [0..<i] @ i # [Suc i..<length xs]" using i(1) upt_add_eq_append [of 0 i "length xs - i"] by (simp add: upt_conv_Cons)
  define arr where "arr = take i xs @ drop (Suc i) xs @ drop (length xs - 1) xs"
  have arr: "arr ! j = (if j < i then xs ! j else if Suc j < length xs then xs ! Suc j else xs ! j)" if "j < length xs" for j
    using that i(1) by (auto simp: arr_def nth_append min_def intro!: arg_cong [of _ _ "(!) xs"])
  have "remove_loop nodeID [0..<length xs] xs (length xs) False =
      (if IsMaster n then wrap ''cannot remove master node: '' ErrInvalidArgument [] else
         remove_loop nodeID [Suc i..<length xs] arr (length xs - 1) True)"
    unfolding split using i others by (subst remove_skip) (auto simp: arr_def)
  moreover have "remove_loop nodeID [Suc i..<length xs] arr (length xs - 1) True = Ok (take (length xs - 1) arr, True)"
    using remove_skip [of "[Suc i..<length xs]" arr nodeID "[]"] others arr by simp
  moreover have "take (length xs - 1) arr = filter (\<lambda>n. cn_id n \<noteq> nodeID) xs"
  proof -
    have "xs = take i xs @ n # drop (Suc i) xs" using i by (simp add: id_take_nth_drop)
    moreover have "cn_id (xs ! j) \<noteq> nodeID" if "j < i" for j using others [of j] i(1) that by simp
    moreover have "cn_id (xs ! (Suc i + j)) \<noteq> nodeID" if "j < length xs - Suc i" for j using others [of "Suc i + j"] that by simp
    ultimately have "xs = take i xs @ n # drop (Suc i) xs" "\<forall>x\<in>set (take i xs) \<union> set (drop (Suc i) xs). cn_id x \<noteq> nodeID"
      by (force simp: in_set_conv_nth)+
    then have "filter (\<lambda>n. cn_id n \<noteq> nodeID) xs = take i xs @ drop (Suc i) xs"
      using i(3) by (metis (mono_tags, lifting) UnCI filter.simps(2) filter_True filter_append)
    then show ?thesis using i(1) by (simp add: arr_def)
  qed
  ultimately show ?thesis using Some by (simp add: removeNode_def xs_def wrap_def)
qed


section \<open>Owners\<close>

lemma find_shard_loop_Ok:
  "find_shard_loop slot rs found = Ok i \<longleftrightarrow>
     (case found of None \<Rightarrow> \<exists>r. filter (\<lambda>p. HasOverlap (snd p) slot) rs = [(i, r)]
      | Some j \<Rightarrow> i = j \<and> filter (\<lambda>p. HasOverlap (snd p) slot) rs = [])"
proof (induction slot rs found rule: find_shard_loop.induct)
  case (3 slot j r rest found)
  then show ?case by (cases found) (auto simp: fail_def)
qed (auto simp: fail_def)

lemma in_owned_ranges: "(i, r) \<in> set (owned_ranges c) \<longleftrightarrow> i < length (cl_Shards c) \<and> r \<in> set (shard_SlotRanges (cl_Shards c ! i))"
  by (auto simp: owned_ranges_def in_set_indexed) (auto simp: in_set_indexed intro!: bexI [of _ "(i, cl_Shards c ! i)"])

lemma owns_iff: "owns c i k \<longleftrightarrow> (\<exists>r. (i, r) \<in> set (owned_ranges c) \<and> k \<in> slots_of r)"
  by (auto simp: owns_def in_owned_ranges slots_def)

lemma found_in_range:
  assumes "findShardIndexBySlot slot c = Ok i"
  shows "i < length (cl_Shards c)"
proof -
  obtain r where "filter (\<lambda>p. HasOverlap (snd p) slot) (owned_ranges c) = [(i, r)]"
    using assms by (auto simp: findShardIndexBySlot_def find_shard_loop_Ok)
  then have "(i, r) \<in> set (filter (\<lambda>p. HasOverlap (snd p) slot) (owned_ranges c))" by simp
  then show ?thesis by (simp add: in_owned_ranges)
qed

lemma found_shard_owns:
  assumes "wf_cluster c" "valid_range slot" "findShardIndexBySlot slot c = Ok i"
  shows "i < length (cl_Shards c)" "slots_of slot \<subseteq> slots (shard_SlotRanges (cl_Shards c ! i))"
proof -
  obtain r where r: "filter (\<lambda>p. HasOverlap (snd p) slot) (owned_ranges c) = [(i, r)]"
    using assms(3) by (auto simp: findShardIndexBySlot_def find_shard_loop_Ok)
  show "i < length (cl_Shards c)" using found_in_range [OF assms(3)] .
  show "slots_of slot \<subseteq> slots (shard_SlotRanges (cl_Shards c ! i))"
  proof
    fix k assume k: "k \<in> slots_of slot"
    then have "k \<in> {MinSlotID..MaxSlotID}" using assms(2) by (auto simp: slots_of_def valid_range_def)
    then obtain j where j: "owns c j k" using assms(1) unfolding wf_cluster_def by blast
    then obtain q where q: "(j, q) \<in> set (owned_ranges c)" "k \<in> slots_of q" by (auto simp: owns_iff)
    then have "HasOverlap q slot" using k by (auto simp: HasOverlap_def slots_of_def)
    then have "(j, q) \<in> set (filter (\<lambda>p. HasOverlap (snd p) slot) (owned_ranges c))" using q by simp
    then have "j = i" by (simp add: r)
    with j show "k \<in> slots (shard_SlotRanges (cl_Shards c ! i))" by (simp add: owns_def)
  qed
qed

lemma master_exists: "wf_shard sh \<Longrightarrow> \<exists>m. GetMasterNode sh = Some m"
  by (cases "GetMasterNode sh") (auto simp: wf_shard_def one_master_def GetMasterNode_def find_None_iff filter_empty_conv)

text \<open>A range of slots that one shard holds lies inside one of its ranges, because there are gaps between them.\<close>

lemma range_inside:
  assumes "canonical rs" "Start r \<le> Stop r" "slots_of r \<subseteq> slots rs"
  obtains q where "q \<in> set rs" "slots_of r \<subseteq> slots_of q"
proof -
  obtain q where q: "q \<in> set rs" "Start r \<in> slots_of q" using assms(2,3) by (auto simp: slots_def slots_of_def)
  have "Stop r \<le> Stop q"
  proof (rule ccontr)
    assume "\<not> Stop r \<le> Stop q"
    then have "Stop q + 1 \<in> slots rs" using q(2) assms(3) by (auto simp: slots_of_def)
    then obtain p where p: "p \<in> set rs" "Stop q + 1 \<in> slots_of p" by (auto simp: slots_def)
    then have "p \<noteq> q" by (auto simp: slots_of_def)
    then have "Stop p + 1 < Start q \<or> Stop q + 1 < Start p"
      using assms(1) p(1) q(1) by (auto simp: canonical_def sorted_wrt_iff_nth_less in_set_conv_nth) (metis linorder_neqE_nat)
    then show False using p(2) q assms(1) by (auto simp: slots_of_def canonical_def list_all_iff valid_range_def)
  qed
  with q show ?thesis by (intro that [of q]) (auto simp: slots_of_def)
qed

lemma canonical_disjoint:
  assumes "canonical rs" "p \<in> set rs" "q \<in> set rs" "k \<in> slots_of p" "k \<in> slots_of q"
  shows "p = q"
proof (rule ccontr)
  assume "p \<noteq> q"
  then have "Stop p + 1 < Start q \<or> Stop q + 1 < Start p"
    using assms(1-3) by (auto simp: canonical_def sorted_wrt_iff_nth_less in_set_conv_nth) (metis linorder_neqE_nat)
  then show False using assms(4,5) by (auto simp: slots_of_def)
qed

lemma canonical_distinct: "canonical rs \<Longrightarrow> distinct rs"
  by (induction rs) (auto simp: canonical_def valid_range_def)

lemma distinct_owned_ranges:
  assumes "wf_cluster c"
  shows "distinct (owned_ranges c)"
proof -
  have "distinct (concat (map (\<lambda>(i, sh). map (Pair i) (shard_SlotRanges sh)) ps))"
    if "distinct (map fst ps)" "\<forall>(i, sh)\<in>set ps. distinct (shard_SlotRanges sh)" for ps :: "(nat \<times> Shard) list"
    using that by (induction ps) (force simp: distinct_map inj_on_def)+
  moreover have "\<forall>(i, sh)\<in>set (indexed (cl_Shards c)). distinct (shard_SlotRanges sh)"
    using assms canonical_distinct by (auto simp: in_set_indexed wf_cluster_def wf_shard_def)
  ultimately show ?thesis by (simp add: owned_ranges_def indexed_def)
qed

lemma distinct_filter_single: "distinct xs \<Longrightarrow> x \<in> set xs \<Longrightarrow> (\<And>y. y \<in> set xs \<Longrightarrow> P y \<longleftrightarrow> y = x) \<Longrightarrow> filter P xs = [x]"
proof (induction xs)
  case (Cons a xs)
  show ?case
  proof (cases "a = x")
    case True
    then have "filter P xs = []" using Cons.prems by (auto simp: filter_empty_conv)
    with True Cons.prems show ?thesis by auto
  qed (use Cons in auto)
qed simp

lemma found_shard_iff:
  assumes "wf_cluster c" "valid_range slot"
  shows "findShardIndexBySlot slot c = Ok i \<longleftrightarrow> (\<forall>k\<in>slots_of slot. owns c i k)"
proof
  assume "findShardIndexBySlot slot c = Ok i"
  then show "\<forall>k\<in>slots_of slot. owns c i k" using found_shard_owns [OF assms] by (auto simp: owns_def)
next
  assume o: "\<forall>k\<in>slots_of slot. owns c i k"
  have le: "Start slot \<le> Stop slot" and st: "Start slot \<in> slots_of slot" using assms(2) by (auto simp: valid_range_def slots_of_def)
  have i: "i < length (cl_Shards c)" "slots_of slot \<subseteq> slots (shard_SlotRanges (cl_Shards c ! i))" using o st by (auto simp: owns_def)
  have can: "canonical (shard_SlotRanges (cl_Shards c ! i))" using wf_nth [OF assms(1) i(1)] by (simp add: wf_shard_def)
  obtain q where q: "q \<in> set (shard_SlotRanges (cl_Shards c ! i))" "slots_of slot \<subseteq> slots_of q" by (rule range_inside [OF can le i(2)])
  have "filter (\<lambda>p. HasOverlap (snd p) slot) (owned_ranges c) = [(i, q)]"
  proof (rule distinct_filter_single [OF distinct_owned_ranges [OF assms(1)]])
    show "(i, q) \<in> set (owned_ranges c)" using i(1) q(1) by (simp add: in_owned_ranges)
    fix y assume y: "y \<in> set (owned_ranges c)"
    obtain j p where jp: "y = (j, p)" by (cases y)
    show "HasOverlap (snd y) slot \<longleftrightarrow> y = (i, q)"
    proof
      assume "HasOverlap (snd y) slot"
      moreover have "Start p \<le> Stop p"
        using y wf_nth [OF assms(1), of j] by (auto simp: jp in_owned_ranges wf_shard_def canonical_def list_all_iff valid_range_def)
      ultimately obtain k where k: "k \<in> slots_of p" "k \<in> slots_of slot"
        using le by (auto simp: jp HasOverlap_def slots_of_def intro!: that [of "max (Start p) (Start slot)"])
      have "owns c j k" "owns c i k" using k y o by (auto simp: jp owns_iff)
      moreover have "k \<in> {MinSlotID..MaxSlotID}" using k(2) assms(2) by (auto simp: slots_of_def valid_range_def)
      ultimately have "j = i" using assms(1) unfolding wf_cluster_def by blast
      moreover have "p = q" using canonical_disjoint [OF can _ q(1) k(1)] y jp q(2) k(2) \<open>j = i\<close> by (auto simp: in_owned_ranges)
      ultimately show "y = (i, q)" by (simp add: jp)
    next
      assume "y = (i, q)"
      then show "HasOverlap (snd y) slot" using q(2) st by (auto simp: HasOverlap_def slots_of_def)
    qed
  qed
  then show "findShardIndexBySlot slot c = Ok i" by (simp add: findShardIndexBySlot_def find_shard_loop_Ok)
qed

lemma length_move_slots [simp]: "length (cl_Shards (move_slots sortSlice i j slot c)) = length (cl_Shards c)"
  by (simp add: move_slots_def Let_def)

lemma move_slots_nth:
  assumes "i < length (cl_Shards c)" "t < length (cl_Shards c)" "j < length (cl_Shards c)"
  shows "cl_Shards (move_slots sortSlice i t slot c) ! j = (cl_Shards c ! j)\<lparr>shard_SlotRanges :=
    (let removed = (if j = i then RemoveSlotFromSlotRanges sortSlice (shard_SlotRanges (cl_Shards c ! j)) slot else shard_SlotRanges (cl_Shards c ! j))
     in if j = t then AddSlotToSlotRanges sortSlice removed slot else removed)\<rparr>"
  using assms by (auto simp: move_slots_def Let_def nth_update_if)

lemma end_migration_nth:
  assumes "j < length (cl_Shards c)"
  shows "cl_Shards (end_migration i c) ! j = (if j = i then ClearMigrateState (cl_Shards c ! j) else cl_Shards c ! j)"
  using assms by (simp add: end_migration_def nth_update_if)

lemma length_end_migration [simp]: "length (cl_Shards (end_migration i c)) = length (cl_Shards c)"
  by (simp add: end_migration_def)

lemma end_move:
  assumes "i < length (cl_Shards c)" "t < length (cl_Shards c)"
  shows "end_migration i (move_slots sortSlice i t slot c) = move_slots sortSlice i t slot (end_migration i c)"
proof -
  have "cl_Shards (end_migration i (move_slots sortSlice i t slot c)) = cl_Shards (move_slots sortSlice i t slot (end_migration i c))"
    using assms by (intro nth_equalityI) (simp_all add: end_migration_nth move_slots_nth ClearMigrateState_def)
  then show ?thesis by (simp add: end_migration_def move_slots_def set_shard_def Let_def)
qed

lemma wf_end_migration:
  assumes "wf_cluster c" "i < length (cl_Shards c)"
  shows "wf_cluster (end_migration i c)"
  unfolding end_migration_def
  by (rule wf_set_same [OF assms(1)]) (use wf_nth [OF assms] in \<open>simp_all add: wf_shard_def one_master_def migrating_owned_def ClearMigrateState_def\<close>)

context slice_sorting
begin

lemma owns_move:
  assumes "wf_cluster c" "i < length (cl_Shards c)" "t < length (cl_Shards c)" "valid_range slot"
    and "slots_of slot \<subseteq> slots (shard_SlotRanges (cl_Shards c ! i))"
  shows "owns (move_slots sortSlice i t slot c) j k \<longleftrightarrow> (if k \<in> slots_of slot then j = t else owns c j k)"
proof (cases "j < length (cl_Shards c)")
  case True
  have ranges: "canonical (shard_SlotRanges (cl_Shards c ! j))" "list_all valid_range (shard_SlotRanges (cl_Shards c ! j))"
    using wf_nth [OF assms(1) True] by (simp_all add: wf_shard_def canonical_def)
  have only: "owns c j k \<longleftrightarrow> j = i" if "k \<in> slots_of slot"
    using assms that owner_unique [OF assms(1), of j k i] by (auto simp: owns_def)
  show ?thesis
    using only remove_slots [OF ranges(2) assms(4)] True
      add_correct [OF ranges(2) assms(4)] add_correct [of "RemoveSlotFromSlotRanges sortSlice (shard_SlotRanges (cl_Shards c ! j)) slot", OF _ assms(4)]
      remove_canonical [OF ranges(1) assms(4)]
    by (auto simp: owns_def move_slots_nth [OF assms(2,3)] Let_def canonical_def)
qed (use assms(3) in \<open>auto simp: owns_def\<close>)

lemma wf_move:
  assumes "wf_cluster c" "i < length (cl_Shards c)" "t < length (cl_Shards c)" "valid_range slot"
    and "slots_of slot \<subseteq> slots (shard_SlotRanges (cl_Shards c ! i))" "shard_MigratingSlot (cl_Shards c ! i) = None"
  shows "wf_cluster (move_slots sortSlice i t slot c)"
  unfolding wf_cluster_def
proof (intro conjI ballI)
  fix k assume "k \<in> {MinSlotID..MaxSlotID}"
  then show "\<exists>!j. owns (move_slots sortSlice i t slot c) j k"
    using assms(1) unfolding owns_move [OF assms(1-5)] wf_cluster_def by (cases "k \<in> slots_of slot") simp_all
next
  fix sh assume "sh \<in> set (cl_Shards (move_slots sortSlice i t slot c))"
  then obtain j where j: "j < length (cl_Shards c)" "sh = cl_Shards (move_slots sortSlice i t slot c) ! j"
    by (auto simp: in_set_conv_nth)
  have w: "wf_shard (cl_Shards c ! j)" using wf_nth [OF assms(1) j(1)] .
  then have ranges: "canonical (shard_SlotRanges (cl_Shards c ! j))" "list_all valid_range (shard_SlotRanges (cl_Shards c ! j))"
    by (simp_all add: wf_shard_def canonical_def)
  note added = add_correct [OF _ assms(4)]
  have "canonical (shard_SlotRanges sh)"
    using ranges remove_canonical [OF ranges(1) assms(4)] added
    by (auto simp: j(2) move_slots_nth [OF assms(2,3) j(1)] Let_def canonical_def)
  moreover have "slots (shard_SlotRanges (cl_Shards c ! j)) \<subseteq> slots (shard_SlotRanges sh)" if "j \<noteq> i"
    using that added [OF ranges(2)] by (auto simp: j(2) move_slots_nth [OF assms(2,3) j(1)] Let_def)
  moreover have "shard_MigratingSlot sh = shard_MigratingSlot (cl_Shards c ! j)" "shard_Nodes sh = shard_Nodes (cl_Shards c ! j)"
    by (simp_all add: j(2) move_slots_nth [OF assms(2,3) j(1)])
  ultimately show "wf_shard sh" using w assms(6)
    by (cases "j = i") (auto simp: wf_shard_def one_master_def migrating_owned_def)
qed

end


section \<open>The operations keep the invariant\<close>

lemma wf_shard_nodes:
  assumes "wf_shard sh" "one_master (sh\<lparr>shard_Nodes := nodes\<rparr>)"
  shows "wf_shard (sh\<lparr>shard_Nodes := nodes\<rparr>)"
  using assms by (simp add: wf_shard_def migrating_owned_def)

lemma addNode_masters:
  assumes "addNode nw addr role password sh = Ok (sh', n)" "one_master sh"
  shows "one_master sh'" "sh' = sh\<lparr>shard_Nodes := shard_Nodes sh @ [n]\<rparr>"
proof -
  have "shard_Nodes sh \<noteq> []" using assms(2) by (auto simp: one_master_def)
  with assms(1) have n: "n = SetRole RoleSlave (NewClusterNode nw addr password)" "sh' = sh\<lparr>shard_Nodes := shard_Nodes sh @ [n]\<rparr>"
    by (auto simp: addNode_def fail_def wrap_def Let_def split: if_splits)
  then show "one_master sh'" "sh' = sh\<lparr>shard_Nodes := shard_Nodes sh @ [n]\<rparr>" using assms(2) by (simp_all add: one_master_def)
qed

lemma in_range_nat: "shard_in_range i c \<longleftrightarrow> 0 \<le> i \<and> nat i < length (cl_Shards c)"
  by (auto simp: shard_in_range_def)

lemma wf_in_range: "wf_cluster c \<Longrightarrow> shard_in_range i c \<Longrightarrow> wf_shard (cl_Shards c ! nat i)"
  by (simp add: in_range_nat wf_nth)

lemma wf_AddNode:
  assumes "wf_cluster c" "AddNode nw i addr role password c = Ok (c', n)"
  shows "wf_cluster c'"
proof -
  obtain sh where sh: "shard_in_range i c" "addNode nw addr role password (cl_Shards c ! nat i) = Ok (sh, n)" "c' = set_shard (nat i) sh c"
    using assms(2) by (auto simp: AddNode_def fail_def split: if_splits)
  have w: "wf_shard (cl_Shards c ! nat i)" using wf_in_range [OF assms(1) sh(1)] .
  have "one_master (cl_Shards c ! nat i)" using w by (simp add: wf_shard_def)
  note a = addNode_masters [OF sh(2) this]
  show ?thesis unfolding sh(3)
    by (rule wf_set_same [OF assms(1)]) (use wf_shard_nodes [OF w] a in simp_all)
qed

lemma wf_RemoveNode:
  assumes "wf_cluster c" "RemoveNode i nodeID c = Ok c'"
  shows "wf_cluster c'"
proof -
  obtain sh where sh: "shard_in_range i c" "removeNode nodeID (cl_Shards c ! nat i) = Ok sh" "c' = set_shard (nat i) sh c"
    using assms(2) by (auto simp: RemoveNode_def fail_def split: if_splits)
  have "wf_shard (cl_Shards c ! nat i)" using wf_in_range [OF assms(1) sh(1)] .
  then show ?thesis unfolding sh(3)
    by (intro wf_set_same [OF assms(1)]) (simp_all add: wf_shard_def migrating_owned_def removeNode_masters [OF sh(2)])
qed

lemma wf_Promote:
  assumes "wf_cluster c" "PromoteNewMaster kv i masterNodeID preferred c = Ok (c', newID)"
  shows "wf_cluster c'"
proof -
  obtain sh where sh: "shard_in_range i c" "promoteNewMaster kv masterNodeID preferred (cl_Shards c ! nat i) = Ok (sh, newID)" "c' = set_shard (nat i) sh c"
    using assms(2) by (auto simp: PromoteNewMaster_def GetShard_def fail_def split: if_splits)
  have w: "wf_shard (cl_Shards c ! nat i)" using wf_in_range [OF assms(1) sh(1)] .
  obtain nodes where n: "sh = (cl_Shards c ! nat i)\<lparr>shard_Nodes := nodes\<rparr>" using promote_shape [OF sh(2)] by metis
  have "one_master sh" using promote_one_master [OF _ sh(2)] w by (simp add: wf_shard_def)
  then show ?thesis unfolding sh(3)
    using wf_shard_nodes [OF w] n by (intro wf_set_same [OF assms(1)]) simp_all
qed

lemma wf_version: "wf_cluster (c\<lparr>cl_Version := v\<rparr>) \<longleftrightarrow> wf_cluster c"
  by (simp add: wf_cluster_def owns_def)

lemma wf_password:
  assumes "wf_cluster c"
  shows "wf_cluster (Cluster_SetPassword password c)"
proof -
  have "owns (Cluster_SetPassword password c) i k = owns c i k" for i k
    by (auto simp: owns_def Cluster_SetPassword_def map_nodes_def)
  moreover have "IsMaster (SetPassword password n) = IsMaster n" for n by (simp add: IsMaster_def SetPassword_def)
  then have "wf_shard (sh\<lparr>shard_Nodes := map (SetPassword password) (shard_Nodes sh)\<rparr>)" if "wf_shard sh" for sh
    using that by (intro wf_shard_nodes) (auto simp: wf_shard_def one_master_def filter_map comp_def)
  ultimately show ?thesis using assms by (auto simp: wf_cluster_def Cluster_SetPassword_def map_nodes_def)
qed

lemma wf_add_shard:
  assumes "wf_cluster c" "wf_shard sh" "shard_SlotRanges sh = []"
  shows "wf_cluster (add_shard sh c)"
proof -
  have "owns (add_shard sh c) i k = owns c i k" for i k
    using assms(3) by (auto simp: owns_def add_shard_def nth_append)
  then show ?thesis using assms by (auto simp: wf_cluster_def add_shard_def)
qed

lemma wf_new_shard:
  assumes "addrs \<noteq> []"
  shows "wf_shard (NewShard\<lparr>shard_Nodes := shard_nodes nw addrs password\<rparr>)"
proof -
  have "one_master (NewShard\<lparr>shard_Nodes := shard_nodes nw addrs password\<rparr>)"
    using assms by (auto simp: one_master_iff shard_nodes_def intro!: exI [of _ 0])
  then show ?thesis by (simp add: wf_shard_def NewShard_def migrating_owned_def canonical_def)
qed

lemma not_servicing:
  assumes "wf_shard sh" "\<not> IsServicing sh"
  shows "shard_SlotRanges sh = []"
proof (cases "shard_SlotRanges sh")
  case (Cons r rs)
  then have "valid_range r" using assms(1) by (simp add: wf_shard_def canonical_def)
  then show ?thesis using assms(2) Cons by (simp add: IsServicing_def valid_range_def MinSlotID_def split: if_splits)
qed

lemma wf_drop_shard:
  assumes "wf_cluster c" "i < length (cl_Shards c)" "\<not> IsServicing (cl_Shards c ! i)"
  shows "wf_cluster (drop_shard i c)"
proof -
  define up where "up j = (if j < i then j else Suc j)" for j
  have nth: "cl_Shards (drop_shard i c) ! j = cl_Shards c ! up j" if "up j < length (cl_Shards c)" for j
    using that assms(2) by (auto simp: drop_shard_def up_def nth_append min_def)
  have len: "j < length (cl_Shards (drop_shard i c)) \<longleftrightarrow> up j < length (cl_Shards c)" for j
    using assms(2) by (auto simp: drop_shard_def up_def)
  have o: "owns (drop_shard i c) j k \<longleftrightarrow> owns c (up j) k" for j k
    by (auto simp: owns_def len nth)
  have "\<not> owns c i k" for k using not_servicing [OF wf_nth [OF assms(1,2)] assms(3)] by (simp add: owns_def)
  moreover have "\<exists>j. up j = n" if "n \<noteq> i" for n
    using that by (intro exI [of _ "if n < i then n else n - 1"]) (auto simp: up_def)
  moreover have "up j = up j' \<longleftrightarrow> j = j'" for j j' by (auto simp: up_def)
  ultimately have "\<exists>!j. owns (drop_shard i c) j k" if "\<exists>!n. owns c n k" for k
    unfolding o using that by metis
  moreover have "set (cl_Shards (drop_shard i c)) \<subseteq> set (cl_Shards c)"
    by (auto simp: drop_shard_def dest: in_set_takeD in_set_dropD)
  ultimately show ?thesis using assms(1) by (auto simp: wf_cluster_def)
qed


context slice_sorting
begin

lemma wf_migrate_slot_only:
  assumes "wf_cluster c" "i < length (cl_Shards c)" "t < length (cl_Shards c)" "valid_range slot"
    and "slots_of slot \<subseteq> slots (shard_SlotRanges (cl_Shards c ! i))"
  shows "wf_cluster (move_slots sortSlice i t slot (end_migration i c))"
  by (rule wf_move [OF wf_end_migration [OF assms(1,2)]])
    (use assms in \<open>simp_all add: end_migration_nth ClearMigrateState_def\<close>)

lemma migrate_owns:
  assumes "wf_cluster c" "valid_range slot" "Cluster_MigrateSlot kv sortSlice slot t True c = Ok c'"
  shows "owns c' j k \<longleftrightarrow> (if k \<in> slots_of slot then int j = t else owns c j k)"
proof -
  obtain i where i: "findShardIndexBySlot slot c = Ok i" "shard_in_range t c" "c' = move_slots sortSlice i (nat t) slot (end_migration i c)"
    using assms(3) by (auto simp: Cluster_MigrateSlot_def fail_def end_migration_def Let_def split: if_splits)
  note own = found_shard_owns [OF assms(1,2) i(1)]
  have t: "nat t < length (cl_Shards c)" "0 \<le> t" using i(2) by (simp_all add: in_range_nat)
  have "owns (end_migration i c) = owns c"
    unfolding end_migration_def by (rule owns_same) (simp add: ClearMigrateState_def)
  then show ?thesis
    using owns_move [OF wf_end_migration [OF assms(1) own(1)] _ _ assms(2), of i "nat t" j k] own t
    by (auto simp: i(3) end_migration_nth ClearMigrateState_def)
qed

lemma wf_MigrateSlot:
  assumes "wf_cluster c" "valid_range slot" "Cluster_MigrateSlot kv sortSlice slot t slotOnly c = Ok c'"
  shows "wf_cluster c'"
proof -
  obtain i where i: "findShardIndexBySlot slot c = Ok i" "shard_in_range t c"
    using assms(3) by (auto simp: Cluster_MigrateSlot_def fail_def Let_def split: if_splits)
  note own = found_shard_owns [OF assms(1,2) i(1)]
  show ?thesis
  proof (cases slotOnly)
    case True
    then have "c' = move_slots sortSlice i (nat t) slot (end_migration i c)"
      using assms(3) i by (auto simp: Cluster_MigrateSlot_def fail_def end_migration_def Let_def split: if_splits)
    then show ?thesis using wf_migrate_slot_only [OF assms(1) own(1) _ assms(2) own(2)] i(2) by (simp add: in_range_nat)
  next
    case False
    then have "c' = set_shard i ((cl_Shards c ! i)\<lparr>shard_MigratingSlot := Some (FromSlotRange slot), shard_TargetShardIndex := t\<rparr>) c"
      using assms(3) i by (auto simp: Cluster_MigrateSlot_def fail_def Let_def split: if_splits option.splits)
    then show ?thesis
      using wf_nth [OF assms(1) own(1)] own(2) assms(2)
      by (simp add: wf_set_same [OF assms(1)] wf_shard_def one_master_def migrating_owned_def FromSlotRange_def)
  qed
qed

lemma wf_complete_migration:
  assumes "wf_cluster c" "i < length (cl_Shards c)" "shard_MigratingSlot (cl_Shards c ! i) = Some m"
    and "shard_in_range (shard_TargetShardIndex (cl_Shards c ! i)) c"
  shows "wf_cluster (complete_migration sortSlice i (ms_SlotRange m) c)"
  using wf_migrate_slot_only [OF assms(1,2), of "nat (shard_TargetShardIndex (cl_Shards c ! i))" "ms_SlotRange m"] assms
    wf_nth [OF assms(1,2)]
  by (simp add: complete_migration_def end_move in_range_nat wf_shard_def migrating_owned_def)

end

lemma concat_chunks:
  assumes "r dvd length xs"
  shows "concat (map (\<lambda>i. map (\<lambda>j. xs ! (i * r + j)) [0..<r]) [0..<length xs div r]) = xs"
proof -
  have "concat (map (\<lambda>i. map (\<lambda>j. xs ! (i * r + j)) [0..<r]) [0..<n]) = take (n * r) xs" if "n * r \<le> length xs" for n
    using that
  proof (induction n)
    case (Suc n)
    have "map (\<lambda>j. xs ! (n * r + j)) [0..<r] = take r (drop (n * r) xs)"
      using Suc.prems by (intro nth_equalityI) simp_all
    moreover have "take (Suc n * r) xs = take (n * r) xs @ take r (drop (n * r) xs)"
      unfolding mult_Suc add.commute [of r] by (rule take_add)
    ultimately show ?case using Suc by simp
  qed simp
  from this [of "length xs div r"] assms show ?thesis by simp
qed

lemma NewCluster_shape:
  assumes "NewCluster nw name nodes replicas = Ok c"
  obtains r ranges where "0 < r" "r = nat (if replicas = 0 then 1 else replicas)" "r dvd length nodes" "nodes \<noteq> []" "0 \<le> replicas"
    "CalculateSlotRanges (length nodes div r) = Some ranges"
    "c = \<lparr>cl_Name = name, cl_Version = 1, cl_Shards = map (\<lambda>i. NewShard\<lparr>shard_Nodes := new_shard_nodes nw nodes r i,
        shard_SlotRanges := [ranges ! i]\<rparr>) [0..<length nodes div r]\<rparr>"
proof -
  define r where "r = nat (if replicas = 0 then 1 else replicas)"
  from assms have n: "nodes \<noteq> []" "0 \<le> replicas" "int (length nodes) mod int r = 0" "0 < r"
    by (auto simp: NewCluster_def errors_New_def Let_def r_def split: if_splits)
  then have "r dvd length nodes" by (simp flip: of_nat_mod add: mod_eq_0_iff_dvd)
  moreover obtain ranges where "CalculateSlotRanges (length nodes div r) = Some ranges"
    "c = \<lparr>cl_Name = name, cl_Version = 1, cl_Shards = map (\<lambda>i. NewShard\<lparr>shard_Nodes := new_shard_nodes nw nodes r i,
        shard_SlotRanges := [ranges ! i]\<rparr>) [0..<length nodes div r]\<rparr>"
    using assms by (auto simp: NewCluster_def errors_New_def Let_def r_def split: if_splits option.splits)
  ultimately show ?thesis using that n r_def by blast
qed

lemma wf_NewCluster:
  assumes "NewCluster nw name nodes replicas = Ok c" "length (cl_Shards c) \<le> 16384"
  shows "wf_cluster c"
proof -
  obtain r ranges where r: "0 < r" "r = nat (if replicas = 0 then 1 else replicas)" "r dvd length nodes" "nodes \<noteq> []" "0 \<le> replicas"
    "CalculateSlotRanges (length nodes div r) = Some ranges"
    and c: "c = \<lparr>cl_Name = name, cl_Version = 1, cl_Shards = map (\<lambda>i. NewShard\<lparr>shard_Nodes := new_shard_nodes nw nodes r i,
        shard_SlotRanges := [ranges ! i]\<rparr>) [0..<length nodes div r]\<rparr>"
    by (rule NewCluster_shape [OF assms(1)])
  define n where "n = length nodes div r"
  have n: "n \<le> 16384" "0 < n"
    using assms(2) r(6) by (simp_all add: c CalculateSlotRanges_def flip: n_def split: if_splits)
  have len: "length ranges = n" using CalculateSlotRanges_nth(1) [OF r(6) [folded n_def] n(2)] .
  have o: "owns c i k \<longleftrightarrow> i < n \<and> k \<in> slots_of (ranges ! i)" for i k
    by (auto simp: owns_def c n_def)
  have valid: "valid_range (ranges ! i)" if "i < n" for i
    using partition_valid [OF r(6)] n len that by (simp add: n_def)
  have "wf_shard (NewShard\<lparr>shard_Nodes := new_shard_nodes nw nodes r i, shard_SlotRanges := [ranges ! i]\<rparr>)" if "i < n" for i
    using valid [OF that] r(1) by (auto simp: wf_shard_def canonical_def NewShard_def migrating_owned_def one_master_iff new_shard_nodes_def intro!: exI [of _ 0])
  moreover have "\<exists>!i. owns c i k" if k: "k \<in> {MinSlotID..MaxSlotID}" for k
  proof -
    obtain i where i: "i < n" "k \<in> slots_of (ranges ! i)"
      using partition_covers [OF r(6), of k] n len k by (auto simp: slots_def n_def in_set_conv_nth MinSlotID_def MaxSlotID_def)
    have "j = i" if "j < n" "k \<in> slots_of (ranges ! j)" for j
      using partition_before [OF r(6)] i that len by (cases i j rule: linorder_cases) (fastforce simp: sorted_wrt_iff_nth_less slots_of_def)+
    then show ?thesis using i by (auto simp: o)
  qed
  ultimately show ?thesis by (auto simp: wf_cluster_def c n_def)
qed


section \<open>Every change of a topology\<close>

text \<open>
  The changes that the handlers and the checker make to a cluster: nodes are added and removed, a master
  is replaced, slots are migrated, a migration ends, shards are added and dropped, the password or the
  version is set. The answers of the nodes and what a new node draws differ from step to step. An import
  is not among them: it takes the topology as the nodes report it.
\<close>

inductive evolves :: "slice_sort \<Rightarrow> Cluster \<Rightarrow> Cluster \<Rightarrow> bool" for sortSlice where
  add_node: "AddNode nw i addr role password c = Ok (c', n) \<Longrightarrow> evolves sortSlice c c'"
| remove_node: "RemoveNode i nodeID c = Ok c' \<Longrightarrow> evolves sortSlice c c'"
| promote: "PromoteNewMaster kv i masterNodeID preferred c = Ok (c', newID) \<Longrightarrow> evolves sortSlice c c'"
| migrate: "valid_range slot \<Longrightarrow> Cluster_MigrateSlot kv sortSlice slot t slotOnly c = Ok c' \<Longrightarrow> evolves sortSlice c c'"
| migration_failed: "i < length (cl_Shards c) \<Longrightarrow> evolves sortSlice c (end_migration i c)"
| migration_done: "i < length (cl_Shards c) \<Longrightarrow> shard_MigratingSlot (cl_Shards c ! i) = Some m \<Longrightarrow>
    shard_in_range (shard_TargetShardIndex (cl_Shards c ! i)) c \<Longrightarrow> evolves sortSlice c (complete_migration sortSlice i (ms_SlotRange m) c)"
| new_shard: "addrs \<noteq> [] \<Longrightarrow> evolves sortSlice c (add_shard (NewShard\<lparr>shard_Nodes := shard_nodes nw addrs password\<rparr>) c)"
| old_shard: "i < length (cl_Shards c) \<Longrightarrow> \<not> IsServicing (cl_Shards c ! i) \<Longrightarrow> evolves sortSlice c (drop_shard i c)"
| password: "evolves sortSlice c (Cluster_SetPassword password c)"
| version: "evolves sortSlice c (c\<lparr>cl_Version := v\<rparr>)"

lemma evolves_wf:
  assumes "slice_sorting sortSlice" "evolves sortSlice c c'" "wf_cluster c"
  shows "wf_cluster c'"
  using assms(2,3)
proof (cases rule: evolves.cases)
  case migrate
  then show ?thesis using slice_sorting.wf_MigrateSlot [OF assms(1,3)] by blast
next
  case migration_done
  then show ?thesis using slice_sorting.wf_complete_migration [OF assms(1,3)] by simp
next
  case new_shard
  then show ?thesis using wf_add_shard [OF assms(3)] wf_new_shard by (simp add: NewShard_def)
next
  case add_node
  then show ?thesis using wf_AddNode [OF assms(3)] by blast
next
  case remove_node
  then show ?thesis using wf_RemoveNode [OF assms(3)] by blast
next
  case promote
  then show ?thesis using wf_Promote [OF assms(3)] by blast
qed (use assms(3) in \<open>simp_all add: wf_end_migration wf_drop_shard wf_password wf_version\<close>)

lemma evolves_rtranclp_wf:
  assumes "slice_sorting sortSlice" "(evolves sortSlice)\<^sup>*\<^sup>* c c'" "wf_cluster c"
  shows "wf_cluster c'"
  using assms(2,3) by (induction rule: rtranclp_induct) (auto intro: evolves_wf [OF assms(1)])

text \<open>
  C5: From the moment a cluster is created, whatever nodes and shards are added and removed, slots
  migrated and masters replaced: every one of the 16384 slots belongs to exactly one shard, the ranges of
  each shard are in order and apart from each other, and each shard has exactly one master.
\<close>
theorem topology_partitioned:
  assumes "slice_sorting sortSlice" "NewCluster nw name nodes replicas = Ok c0" "length (cl_Shards c0) \<le> 16384"
    and "(evolves sortSlice)\<^sup>*\<^sup>* c0 c"
  shows "(\<forall>k. 0 \<le> k \<and> k \<le> 16383 \<longrightarrow> (\<exists>!i. i < length (cl_Shards c) \<and> SlotRanges_Contains (shard_SlotRanges (cl_Shards c ! i)) k))
    \<and> (\<forall>sh\<in>set (cl_Shards c). canonical (shard_SlotRanges sh) \<and> length (filter IsMaster (shard_Nodes sh)) = 1)"
  using evolves_rtranclp_wf [OF assms(1,4) wf_NewCluster [OF assms(2,3)]]
  by (simp add: wf_cluster_def wf_shard_def one_master_def owns_def SlotRanges_Contains_iff MinSlotID_def MaxSlotID_def)

text \<open>Two nodes, and servers that accept every command, for the examples.\<close>

definition sample_spawn :: "nat \<Rightarrow> spawn" where
  "sample_spawn n = \<lparr>nw_draw = (\<lambda>_. n), nw_now = 0\<rparr>"

definition sample_kvrocks :: kvrocks where
  "sample_kvrocks = \<lparr>kv_ClusterInfo = (\<lambda>_. Ok ''cluster_current_epoch:1''),
     kv_Info = (\<lambda>n. Ok (''role:slave'' @ [CHR 0x0D, CHR 0x0A] @ ''sequence:7'')),
     kv_ClusterNodes = (\<lambda>_. Ok []), kv_Do = (\<lambda>_ _. Ok ())\<rparr>"

definition sample_topology :: Cluster where
  "sample_topology = \<lparr>cl_Name = ''c'', cl_Version = 1, cl_Shards =
     [NewShard\<lparr>shard_Nodes := [NewClusterNode (sample_spawn 0) ''a'' []], shard_SlotRanges := [\<lparr>Start = 0, Stop = 8191\<rparr>]\<rparr>,
      NewShard\<lparr>shard_Nodes := [NewClusterNode (sample_spawn 1) ''b'' []], shard_SlotRanges := [\<lparr>Start = 8192, Stop = 16383\<rparr>]\<rparr>]\<rparr>"

lemma sample_topology_new: "NewCluster sample_spawn ''c'' [''a'', ''b''] 1 = Ok sample_topology"
  by (simp add: NewCluster_def sample_topology_def CalculateSlotRanges_def MaxSlotID_def new_shard_nodes_def upt_rec Let_def
    SetRole_def NewClusterNode_def)

lemma sample_topology_migrate:
  "Cluster_MigrateSlot kv (sort_key Start) \<lparr>Start = 0, Stop = 99\<rparr> 1 True sample_topology =
     Ok (move_slots (sort_key Start) 0 1 \<lparr>Start = 0, Stop = 99\<rparr> (end_migration 0 sample_topology))"
  by (simp add: Cluster_MigrateSlot_def shard_in_range_def findShardIndexBySlot_def owned_ranges_def indexed_def upt_rec
    HasOverlap_def sample_topology_def NewShard_def end_migration_def)

theorem topology_partitioned_witness:
  "\<exists>c. (evolves (sort_key Start))\<^sup>*\<^sup>* sample_topology c \<and> SlotRanges_Contains (shard_SlotRanges (cl_Shards c ! 1)) 5
     \<and> (\<exists>!i. i < length (cl_Shards c) \<and> SlotRanges_Contains (shard_SlotRanges (cl_Shards c ! i)) 5)"
proof -
  define c where "c = move_slots (sort_key Start) 0 1 \<lparr>Start = 0, Stop = 99\<rparr> (end_migration 0 sample_topology)"
  have "evolves (sort_key Start) sample_topology c"
    using evolves.migrate [OF _ sample_topology_migrate] by (simp add: c_def valid_range_def MinSlotID_def MaxSlotID_def)
  then have e: "(evolves (sort_key Start))\<^sup>*\<^sup>* sample_topology c" by simp
  have "SlotRanges_Contains (shard_SlotRanges (cl_Shards c ! 1)) 5"
    by (simp add: c_def move_slots_def Let_def end_migration_def sample_topology_def NewShard_def ClearMigrateState_def
      AddSlotToSlotRanges_def CanMerge_def SlotRanges_Contains_def Contains_def)
  with e topology_partitioned [OF insertion.slice_sorting_axioms sample_topology_new _ e, THEN conjunct1, rule_format, of 5]
  show ?thesis by (auto simp: sample_topology_def)
qed

lemma NewCluster_addrs:
  assumes "NewCluster nw name nodes replicas = Ok c"
  shows "map cn_addr (GetNodes c) = nodes"
proof -
  obtain r ranges where r: "0 < r" "r = nat (if replicas = 0 then 1 else replicas)" "r dvd length nodes" "nodes \<noteq> []" "0 \<le> replicas"
    "CalculateSlotRanges (length nodes div r) = Some ranges"
    and c: "c = \<lparr>cl_Name = name, cl_Version = 1, cl_Shards = map (\<lambda>i. NewShard\<lparr>shard_Nodes := new_shard_nodes nw nodes r i,
        shard_SlotRanges := [ranges ! i]\<rparr>) [0..<length nodes div r]\<rparr>"
    by (rule NewCluster_shape [OF assms])
  have "map cn_addr (GetNodes c) = concat (map (\<lambda>i. map (\<lambda>j. nodes ! (i * r + j)) [0..<r]) [0..<length nodes div r])"
    by (simp add: GetNodes_def c new_shard_nodes_def NewClusterNode_def map_concat comp_def)
  also have "\<dots> = nodes" using r(3) by (simp add: concat_chunks)
  finally show ?thesis .
qed

lemma NewCluster_not_Panic: "NewCluster nw name nodes replicas \<noteq> Panic"
  by (auto simp: NewCluster_def errors_New_def Let_def CalculateSlotRanges_def div_eq_0_iff dest!: zmod_eq_0_iff [THEN iffD1] split: if_splits)

lemma NewCluster_accepts:
  "(\<exists>c. NewCluster nw name nodes replicas = Ok c) \<longleftrightarrow> nodes \<noteq> [] \<and> 0 \<le> replicas \<and> int (length nodes) mod max 1 replicas = 0"
proof (cases "NewCluster nw name nodes replicas")
  case (Ok c)
  then show ?thesis by (auto simp: NewCluster_def errors_New_def Let_def max_def split: if_splits option.splits)
next
  case (Fail e)
  then show ?thesis by (auto simp: NewCluster_def errors_New_def Let_def max_def split: if_splits option.splits)
qed (simp add: NewCluster_not_Panic)

text \<open>
  C15: A new cluster is refused without nodes, with a negative number of replicas, or when the replicas do
  not divide the nodes. Otherwise its shards take the nodes in order, as many per shard as there are
  replicas (one, when none are given), the first node of each shard is its master and the others are
  slaves, and no shard is migrating.
\<close>
theorem new_cluster_correct:
  "case NewCluster nw name nodes replicas of
     Ok c \<Rightarrow> nodes \<noteq> [] \<and> 0 \<le> replicas \<and> int (length nodes) mod max 1 replicas = 0
       \<and> cl_Name c = name \<and> cl_Version c = 1 \<and> map cn_addr (GetNodes c) = nodes
       \<and> (\<forall>sh\<in>set (cl_Shards c). int (length (shard_Nodes sh)) = max 1 replicas \<and> \<not> IsMigrating sh
           \<and> (\<forall>j<length (shard_Nodes sh). IsMaster (shard_Nodes sh ! j) \<longleftrightarrow> j = 0))
   | Fail e \<Rightarrow> nodes = [] \<or> replicas < 0 \<or> int (length nodes) mod max 1 replicas \<noteq> 0
   | Panic \<Rightarrow> False"
proof (cases "NewCluster nw name nodes replicas")
  case (Ok c)
  obtain r ranges where r: "0 < r" "r = nat (if replicas = 0 then 1 else replicas)" "r dvd length nodes" "nodes \<noteq> []" "0 \<le> replicas"
    "CalculateSlotRanges (length nodes div r) = Some ranges"
    and c: "c = \<lparr>cl_Name = name, cl_Version = 1, cl_Shards = map (\<lambda>i. NewShard\<lparr>shard_Nodes := new_shard_nodes nw nodes r i,
        shard_SlotRanges := [ranges ! i]\<rparr>) [0..<length nodes div r]\<rparr>"
    by (rule NewCluster_shape [OF Ok])
  have m: "max 1 replicas = int r" using r(2,5) by auto
  show ?thesis unfolding Ok m using r NewCluster_addrs [OF Ok]
    by (auto simp: c new_shard_nodes_def IsMigrating_def NewShard_def mod_eq_0_iff_dvd)
next
  case (Fail e)
  then show ?thesis using NewCluster_accepts [of nw name nodes replicas] by auto
qed (simp add: NewCluster_not_Panic)

theorem new_cluster_correct_witness:
  "map cn_addr (GetNodes sample_topology) = [''a'', ''b''] \<and> cl_Version sample_topology = 1
     \<and> IsMaster (shard_Nodes (cl_Shards sample_topology ! 0) ! 0) \<and> IsMaster (shard_Nodes (cl_Shards sample_topology ! 1) ! 0)"
proof -
  have c: "map cn_addr (GetNodes sample_topology) = [''a'', ''b'']" "cl_Version sample_topology = 1"
    "\<forall>sh\<in>set (cl_Shards sample_topology). int (length (shard_Nodes sh)) = 1
       \<and> (\<forall>j<length (shard_Nodes sh). IsMaster (shard_Nodes sh ! j) \<longleftrightarrow> j = 0)"
    using new_cluster_correct [where nw = sample_spawn and name = "''c''" and nodes = "[''a'', ''b'']" and replicas = 1] by (simp_all add: sample_topology_new)
  have m: "IsMaster (shard_Nodes sh ! 0)" if "sh \<in> set (cl_Shards sample_topology)" for sh
  proof -
    have "int (length (shard_Nodes sh)) = 1" "\<forall>j<length (shard_Nodes sh). IsMaster (shard_Nodes sh ! j) \<longleftrightarrow> j = 0"
      using c(3) that by blast+
    then show ?thesis by simp
  qed
  have "IsMaster (shard_Nodes (cl_Shards sample_topology ! 0) ! 0)" "IsMaster (shard_Nodes (cl_Shards sample_topology ! 1) ! 0)"
    by (rule m, simp add: sample_topology_def)+
  with c show ?thesis by simp
qed

text \<open>
  C10: A failover replaces the master of a shard by another of its nodes. The new master answers, it is a
  slave that has data; it is the preferred node if that one qualifies, and otherwise no qualifying node
  has a higher sequence. The old master becomes a slave, and nothing else of the shard changes.
\<close>
theorem promote_correct:
  assumes "promoteNewMaster kv masterNodeID preferred sh = Ok (sh', newID)" "one_master sh"
  shows "\<exists>old new. IsMaster (shard_Nodes sh ! old) \<and> old < length (shard_Nodes sh) \<and> new < length (shard_Nodes sh) \<and> new \<noteq> old
    \<and> newID = cn_id (shard_Nodes sh ! new) \<and> candidate kv (shard_Nodes sh ! new) \<noteq> None
    \<and> (newID = preferred \<or> (\<forall>j<length (shard_Nodes sh). j \<noteq> old \<and> candidate kv (shard_Nodes sh ! j) \<noteq> None \<longrightarrow>
         (preferred = [] \<or> cn_id (shard_Nodes sh ! j) \<noteq> preferred)
         \<and> the (candidate kv (shard_Nodes sh ! j)) \<le> the (candidate kv (shard_Nodes sh ! new))))
    \<and> sh' = sh\<lparr>shard_Nodes := (shard_Nodes sh)[old := SetRole RoleSlave (shard_Nodes sh ! old), new := SetRole RoleMaster (shard_Nodes sh ! new)]\<rparr>
    \<and> filter IsMaster (shard_Nodes sh') = [SetRole RoleMaster (shard_Nodes sh ! new)]"
proof -
  obtain old new where p: "master_index sh = Some old" "chosen kv old preferred (indexed (shard_Nodes sh)) new" "newID = cn_id (shard_Nodes sh ! new)"
    "sh' = sh\<lparr>shard_Nodes := (shard_Nodes sh)[old := SetRole RoleSlave (shard_Nodes sh ! old), new := SetRole RoleMaster (shard_Nodes sh ! new)]\<rparr>"
    using promote_shape [OF assms(1)] by metis
  have b: "old < length (shard_Nodes sh)" "IsMaster (shard_Nodes sh ! old)" using p(1) by (simp_all add: master_index_Some)
  have c: "new < length (shard_Nodes sh)" "new \<noteq> old" "candidate kv (shard_Nodes sh ! new) \<noteq> None"
    "newID = preferred \<or> (\<forall>j<length (shard_Nodes sh). j \<noteq> old \<and> candidate kv (shard_Nodes sh ! j) \<noteq> None \<longrightarrow>
         (preferred = [] \<or> cn_id (shard_Nodes sh ! j) \<noteq> preferred)
         \<and> the (candidate kv (shard_Nodes sh ! j)) \<le> the (candidate kv (shard_Nodes sh ! new)))"
    using p(2,3) by (auto simp: chosen_def in_set_indexed)
  have "length (filter IsMaster (shard_Nodes sh')) = 1" using promote_one_master [OF assms(2,1)] by (simp add: one_master_def)
  moreover have "SetRole RoleMaster (shard_Nodes sh ! new) \<in> set (filter IsMaster (shard_Nodes sh'))"
    using c by (auto simp: p(4) in_set_conv_nth nth_update_if intro!: exI [of _ new])
  ultimately have "filter IsMaster (shard_Nodes sh') = [SetRole RoleMaster (shard_Nodes sh ! new)]"
    by (cases "filter IsMaster (shard_Nodes sh')") (simp_all del: set_filter)
  with b c p show ?thesis by blast
qed

definition sample_shard :: Shard where
  "sample_shard = NewShard\<lparr>shard_Nodes := shard_nodes sample_spawn [''a'', ''b''] []\<rparr>"

lemma sample_lines:
  "node_info_line ''role:slave'' s = Ok (s\<lparr>ni_Role := RoleSlave\<rparr>)" "node_info_line ''sequence:7'' s = Ok (s\<lparr>ni_Sequence := 7\<rparr>)"
  "cluster_info_line ''cluster_current_epoch:1'' i = Ok (i\<lparr>ci_CurrentEpoch := 1\<rparr>)"
  by (simp_all add: node_info_line_def ParseUint_def is_digit_def digits_val_def digit_val_def RoleSlave_def)
    (simp add: cluster_info_line_def ParseInt_def Atoi_def TrimSpace_def go_space_def is_digit_def digits_val_def digit_val_def
      js_toLowerCase_def lower_char_def)

lemma sample_infos:
  "GetClusterInfo sample_kvrocks n = Ok \<lparr>ci_CurrentEpoch = 1, ci_MigratingSlot = None, ci_MigratingState = []\<rparr>"
  "GetClusterNodeInfo sample_kvrocks n = Ok \<lparr>ni_Sequence = 7, ni_Role = RoleSlave\<rparr>"
  by (simp_all add: GetClusterInfo_def GetClusterNodeInfo_def sample_kvrocks_def sample_lines)

lemma sample_promote: "\<exists>r. promoteNewMaster sample_kvrocks [] [] sample_shard = Ok r"
  by (simp add: promoteNewMaster_def sample_shard_def NewShard_def shard_nodes_def indexed_def upt_rec master_index_def
    getNewMasterNodeIndex_def sample_infos IsMaster_def SetRole_def)

theorem promote_correct_witness:
  "\<exists>sh' newID. promoteNewMaster sample_kvrocks [] [] sample_shard = Ok (sh', newID) \<and> length (filter IsMaster (shard_Nodes sh')) = 1"
proof -
  obtain sh' newID where p: "promoteNewMaster sample_kvrocks [] [] sample_shard = Ok (sh', newID)"
    using sample_promote by auto
  have "one_master sample_shard" using wf_new_shard [of "[''a'', ''b'']"] by (simp add: wf_shard_def sample_shard_def)
  from promote_correct [OF p this] p show ?thesis by auto
qed

text \<open>
  C12: An accepted migration does what was asked. A migration of the slots alone gives every slot of the
  range to the target and leaves every other slot where it was. A migration of the data leaves the owners
  alone and notes the range and the target at the shard that holds the range, after its master has accepted
  the command.
\<close>
theorem migrate_slot_effect:
  assumes "slice_sorting sortSlice" "wf_cluster c" "valid_range slot" "Cluster_MigrateSlot kv sortSlice slot t slotOnly c = Ok c'"
  shows "\<exists>i. i < length (cl_Shards c) \<and> int i \<noteq> t \<and> (\<forall>k\<in>slots_of slot. owns c i k)
    \<and> (if slotOnly
       then (\<forall>j k. owns c' j k \<longleftrightarrow> (if k \<in> slots_of slot then int j = t else owns c j k)) \<and> \<not> IsMigrating (cl_Shards c' ! i)
       else owns c' = owns c \<and> shard_MigratingSlot (cl_Shards c' ! i) = Some (FromSlotRange slot) \<and> shard_TargetShardIndex (cl_Shards c' ! i) = t
         \<and> (\<exists>m n. GetMasterNode (cl_Shards c ! i) = Some m \<and> GetMasterNode (cl_Shards c ! nat t) = Some n
              \<and> node_MigrateSlot kv m slot (cn_id n) = Ok ()))"
proof -
  obtain i where i: "findShardIndexBySlot slot c = Ok i" "shard_in_range t c" "i \<noteq> nat t"
    using assms(4) by (auto simp: Cluster_MigrateSlot_def fail_def Let_def split: if_splits)
  note own = found_shard_owns [OF assms(2,3) i(1)]
  have t: "nat t < length (cl_Shards c)" "0 \<le> t" using i(2) by (simp_all add: in_range_nat)
  have own': "\<forall>k\<in>slots_of slot. owns c i k" using own by (auto simp: owns_def)
  show ?thesis
  proof (cases slotOnly)
    case True
    then have c': "c' = move_slots sortSlice i (nat t) slot (end_migration i c)"
      using assms(4) i by (auto simp: Cluster_MigrateSlot_def fail_def end_migration_def Let_def split: if_splits)
    have "owns c' j k \<longleftrightarrow> (if k \<in> slots_of slot then int j = t else owns c j k)" for j k
      by (rule slice_sorting.migrate_owns [OF assms(1-3)]) (use assms(4) True in simp)
    moreover have "\<not> IsMigrating (cl_Shards c' ! i)"
      using own(1) t by (simp add: c' move_slots_nth end_migration_nth IsMigrating_def ClearMigrateState_def)
    ultimately show ?thesis using True i own' own(1) t by (intro exI [of _ i]) auto
  next
    case False
    then obtain m n where mn: "GetMasterNode (cl_Shards c ! i) = Some m" "GetMasterNode (cl_Shards c ! nat t) = Some n"
      "node_MigrateSlot kv m slot (cn_id n) = Ok ()"
      "c' = set_shard i ((cl_Shards c ! i)\<lparr>shard_MigratingSlot := Some (FromSlotRange slot), shard_TargetShardIndex := t\<rparr>) c"
      using assms(4) i by (auto simp: Cluster_MigrateSlot_def fail_def Let_def split: if_splits option.splits)
    moreover have "owns c' = owns c" unfolding mn(4) by (rule owns_same) simp
    ultimately show ?thesis using False i own' own(1) t by (intro exI [of _ i]) (auto simp: set_shard_def)
  qed
qed

theorem migrate_slot_effect_witness:
  "\<exists>c'. Cluster_MigrateSlot sample_kvrocks (sort_key Start) \<lparr>Start = 0, Stop = 99\<rparr> 1 True sample_topology = Ok c'
     \<and> owns c' 1 5"
proof -
  have "wf_cluster sample_topology" by (rule wf_NewCluster [OF sample_topology_new]) (simp add: sample_topology_def)
  from migrate_slot_effect [OF insertion.slice_sorting_axioms this _ sample_topology_migrate [of sample_kvrocks]]
  show ?thesis by (auto simp: sample_topology_migrate valid_range_def MinSlotID_def MaxSlotID_def slots_of_def)
qed

text \<open>
  C13: Which migrations are accepted. In a well-formed cluster a migration of the slots alone is accepted
  exactly when the target exists and another shard holds the whole range. A migration of the data needs in
  addition that neither shard is migrating and that the master of the source accepts the command.
\<close>
theorem migration_accepted:
  assumes "wf_cluster c" "valid_range slot"
  shows "(\<exists>c'. Cluster_MigrateSlot kv sortSlice slot t slotOnly c = Ok c') \<longleftrightarrow>
    0 \<le> t \<and> t < int (length (cl_Shards c)) \<and> (\<exists>i. i \<noteq> nat t \<and> (\<forall>k\<in>slots_of slot. owns c i k)
      \<and> (\<not> slotOnly \<longrightarrow> \<not> IsMigrating (cl_Shards c ! i) \<and> \<not> IsMigrating (cl_Shards c ! nat t)
           \<and> (\<forall>m n. GetMasterNode (cl_Shards c ! i) = Some m \<and> GetMasterNode (cl_Shards c ! nat t) = Some n \<longrightarrow>
                node_MigrateSlot kv m slot (cn_id n) = Ok ())))" (is "_ \<longleftrightarrow> ?right")
proof -
  have e: "shard_in_range t c \<longleftrightarrow> 0 \<le> t \<and> t < int (length (cl_Shards c))" by (auto simp: shard_in_range_def)
  have u: "i = j" if "\<forall>k\<in>slots_of slot. owns c i k" "\<forall>k\<in>slots_of slot. owns c j k" for i j
    using that found_shard_iff [OF assms, of i] found_shard_iff [OF assms, of j] by simp
  have m: "\<exists>m. GetMasterNode (cl_Shards c ! i) = Some m" if "i < length (cl_Shards c)" for i
    using master_exists [OF wf_nth [OF assms(1) that]] .
  show ?thesis
  proof (cases "\<exists>i. findShardIndexBySlot slot c = Ok i")
    case True
    then obtain i where i: "findShardIndexBySlot slot c = Ok i" ..
    then have own: "\<forall>k\<in>slots_of slot. owns c i k" by (simp add: found_shard_iff [OF assms])
    have r: "?right \<longleftrightarrow> shard_in_range t c \<and> i \<noteq> nat t
      \<and> (\<not> slotOnly \<longrightarrow> \<not> IsMigrating (cl_Shards c ! i) \<and> \<not> IsMigrating (cl_Shards c ! nat t)
           \<and> (\<forall>m n. GetMasterNode (cl_Shards c ! i) = Some m \<and> GetMasterNode (cl_Shards c ! nat t) = Some n \<longrightarrow>
                node_MigrateSlot kv m slot (cn_id n) = Ok ()))"
      using u own unfolding e by blast
    show ?thesis unfolding r using m [of i] m [of "nat t"] found_in_range [OF i]
      by (cases "shard_in_range t c")
        (auto simp: Cluster_MigrateSlot_def i fail_def Let_def in_range_nat)
  next
    case False
    then show ?thesis using found_shard_iff [OF assms]
      by (cases "findShardIndexBySlot slot c") (auto simp: Cluster_MigrateSlot_def fail_def Let_def)
  qed
qed

theorem migration_accepted_witness:
  "\<exists>c'. Cluster_MigrateSlot sample_kvrocks (sort_key Start) \<lparr>Start = 0, Stop = 99\<rparr> 1 True sample_topology = Ok c'"
proof -
  have "wf_cluster sample_topology" by (rule wf_NewCluster [OF sample_topology_new]) (simp add: sample_topology_def)
  from migration_accepted [OF this, of "\<lparr>Start = 0, Stop = 99\<rparr>" sample_kvrocks "sort_key Start" 1 True] show ?thesis
    by (auto simp: valid_range_def MinSlotID_def MaxSlotID_def sample_topology_def owns_def slots_of_def intro!: exI [of _ 0])
qed

text \<open>
  C14: A migration of the data that starts and then succeeds gives the same topology as a migration of the
  slots alone.
\<close>
theorem migration_equals_slot_only:
  assumes "Cluster_MigrateSlot kv sortSlice slot t False c = Ok c'"
  shows "\<exists>i. findShardIndexBySlot slot c = Ok i
    \<and> Cluster_MigrateSlot kv sortSlice slot t True c = Ok (complete_migration sortSlice i slot c')"
proof -
  obtain i where i: "findShardIndexBySlot slot c = Ok i" "shard_in_range t c" "i \<noteq> nat t"
    and c': "c' = set_shard i ((cl_Shards c ! i)\<lparr>shard_MigratingSlot := Some (FromSlotRange slot), shard_TargetShardIndex := t\<rparr>) c"
    using assms by (auto simp: Cluster_MigrateSlot_def fail_def Let_def split: if_splits option.splits)
  have l: "i < length (cl_Shards c)" using found_in_range [OF i(1)] .
  have t: "nat t < length (cl_Shards c)" using i(2) by (simp add: in_range_nat)
  have "end_migration i c' = end_migration i c"
    using l by (simp add: c' end_migration_def set_shard_def ClearMigrateState_def)
  moreover have "shard_TargetShardIndex (cl_Shards c' ! i) = t" using l by (simp add: c')
  ultimately have "complete_migration sortSlice i slot c' = move_slots sortSlice i (nat t) slot (end_migration i c)"
    using l t by (simp add: complete_migration_def end_move c')
  with i show ?thesis by (simp add: Cluster_MigrateSlot_def end_migration_def)
qed

theorem migration_equals_slot_only_witness:
  "\<exists>c'. Cluster_MigrateSlot sample_kvrocks (sort_key Start) \<lparr>Start = 0, Stop = 99\<rparr> 1 False sample_topology = Ok c'
     \<and> Cluster_MigrateSlot sample_kvrocks (sort_key Start) \<lparr>Start = 0, Stop = 99\<rparr> 1 True sample_topology
        = Ok (complete_migration (sort_key Start) 0 \<lparr>Start = 0, Stop = 99\<rparr> c')"
proof -
  have f: "findShardIndexBySlot \<lparr>Start = 0, Stop = 99\<rparr> sample_topology = Ok 0"
    by (simp add: findShardIndexBySlot_def owned_ranges_def indexed_def upt_rec HasOverlap_def sample_topology_def NewShard_def)
  then obtain c' where c': "Cluster_MigrateSlot sample_kvrocks (sort_key Start) \<lparr>Start = 0, Stop = 99\<rparr> 1 False sample_topology = Ok c'"
    by (simp add: Cluster_MigrateSlot_def shard_in_range_def sample_topology_def IsMigrating_def NewShard_def GetMasterNode_def
      NewClusterNode_def IsMaster_def node_MigrateSlot_def sample_kvrocks_def)
  from migration_equals_slot_only [OF c'] c' f show ?thesis by auto
qed

text \<open>
  The index of a target shard does not follow the shard. When a shard without slots is removed while
  another one migrates to it, the note at the source names the shard behind it, and the slots go there
  when the migration is done.
\<close>
theorem dropped_target_misroutes:
  assumes "i < j" "Suc j < length (cl_Shards c)" "shard_TargetShardIndex (cl_Shards c ! i) = int j"
  shows "shard_TargetShardIndex (cl_Shards (drop_shard j c) ! i) = int j"
    "cl_Shards (drop_shard j c) ! j = cl_Shards c ! Suc j"
  using assms by (simp_all add: drop_shard_def nth_append)

end
