(* ===== verification/Api.thy ===== *)
theory Api
  imports JSValue
begin

text \<open>
  The client of the controller's HTTP interface, \<^verbatim>\<open>webui/src/app/lib/api.ts\<close>. The HTTP library
  (axios) is not part of the repository: it is the parameter \<open>ax\<close>, which answers every request
  either with the body of a successful response or with the error it rejects with. A handler runs
  against one \<open>ax\<close>; the requests of one run are pairwise different, so a function from requests to
  answers covers every behaviour of the server during the run.
\<close>

section \<open>Requests\<close>

datatype request = GET string | POST string jsval | DELETE string

type_synonym axios = "request \<Rightarrow> jsval res"

definition apiPrefix :: string where
  "apiPrefix = ''/api/v1''"

definition apiHost :: string where
  "apiHost = apiPrefix"

definition namespaces_url :: string where
  "namespaces_url = apiHost @ ''/namespaces''"

definition namespace_url :: "string \<Rightarrow> string" where
  "namespace_url ns = namespaces_url @ ''/'' @ ns"

definition clusters_url :: "string \<Rightarrow> string" where
  "clusters_url ns = namespace_url ns @ ''/clusters''"

definition cluster_url :: "string \<Rightarrow> string \<Rightarrow> string" where
  "cluster_url ns c = clusters_url ns @ ''/'' @ c"

definition shards_url :: "string \<Rightarrow> string \<Rightarrow> string" where
  "shards_url ns c = cluster_url ns c @ ''/shards''"

definition shard_url :: "string \<Rightarrow> string \<Rightarrow> string \<Rightarrow> string" where
  "shard_url ns c sh = shards_url ns c @ ''/'' @ sh"

definition nodes_url :: "string \<Rightarrow> string \<Rightarrow> string \<Rightarrow> string" where
  "nodes_url ns c sh = shard_url ns c sh @ ''/nodes''"

lemmas url_defs [api_simps] = apiPrefix_def apiHost_def namespaces_url_def namespace_url_def clusters_url_def
  cluster_url_def shards_url_def shard_url_def nodes_url_def

section \<open>Responses\<close>

definition handleError :: "exn \<Rightarrow> jsval" where
  "handleError error =
     (let message = (case error of
          AxiosError m response \<Rightarrow>
            js_or (oget (oget (oget response ''data'') ''error'') ''message'') (JStr m)
        | NativeError _ m \<Rightarrow> JStr m
        | Thrown v \<Rightarrow>
            if js_typeof v = ''object''
            then js_or (oget (oget v ''error'') ''message'') (oget v ''message'')
            else JStr [])
      in js_or message (JStr ''Unknown error''))"

definition handleCreateResponse :: "jsval \<Rightarrow> jsval" where
  "handleCreateResponse responseData =
     (if \<not> nullish (oget responseData ''data'') then JStr [] else handleError (Thrown responseData))"

definition handleDeleteResponse :: "jsval \<Rightarrow> jsval" where
  "handleDeleteResponse responseData =
     (if nullish responseData \<or> nullish (js_prop responseData ''data'')
         \<or> strict_eq (js_prop responseData ''data'') (JStr ''ok'')
      then JStr [] else handleError (Thrown responseData))"

definition create_call :: "axios \<Rightarrow> request \<Rightarrow> jsval res" where
  "create_call ax req =
     try_catch (rbind (ax req) (\<lambda>responseData. Inr (handleCreateResponse responseData)))
       (\<lambda>error. Inr (handleError error))"

definition delete_call :: "axios \<Rightarrow> request \<Rightarrow> jsval res" where
  "delete_call ax req =
     try_catch (rbind (ax req) (\<lambda>responseData. Inr (handleDeleteResponse responseData)))
       (\<lambda>error. Inr (handleError error))"

definition list_call :: "axios \<Rightarrow> request \<Rightarrow> string \<Rightarrow> jsval res" where
  "list_call ax req field =
     try_catch (rbind (ax req) (\<lambda>responseData. rbind (get responseData ''data'') (\<lambda>data.
        rbind (get data field) (\<lambda>v. Inr (js_or v (JArr []))))))
       (\<lambda>error. Inr (JArr []))"

definition object_call :: "axios \<Rightarrow> request \<Rightarrow> string \<Rightarrow> jsval res" where
  "object_call ax req field =
     try_catch (rbind (ax req) (\<lambda>responseData. rbind (get responseData ''data'') (\<lambda>data. get data field)))
       (\<lambda>error. Inr (JObj []))"

section \<open>The exported functions\<close>

definition fetchNamespaces :: "axios \<Rightarrow> jsval res" where
  "fetchNamespaces ax = list_call ax (GET namespaces_url) ''namespaces''"

definition createNamespace :: "axios \<Rightarrow> jsval \<Rightarrow> jsval res" where
  "createNamespace ax name = create_call ax (POST namespaces_url (JObj [(''namespace'', name)]))"

definition deleteNamespace :: "axios \<Rightarrow> string \<Rightarrow> jsval res" where
  "deleteNamespace ax name = delete_call ax (DELETE (namespace_url name))"

definition createCluster :: "axios \<Rightarrow> jsval \<Rightarrow> jsval \<Rightarrow> jsnum \<Rightarrow> jsval \<Rightarrow> string \<Rightarrow> jsval res" where
  "createCluster ax name nodes replicas password namespace =
     create_call ax (POST (clusters_url namespace)
       (JObj [(''name'', name), (''nodes'', nodes), (''replicas'', JNum replicas), (''password'', password)]))"

definition fetchClusters :: "axios \<Rightarrow> string \<Rightarrow> jsval res" where
  "fetchClusters ax namespace = list_call ax (GET (clusters_url namespace)) ''clusters''"

definition fetchCluster :: "axios \<Rightarrow> string \<Rightarrow> string \<Rightarrow> jsval res" where
  "fetchCluster ax namespace cluster = object_call ax (GET (cluster_url namespace cluster)) ''cluster''"

definition deleteCluster :: "axios \<Rightarrow> string \<Rightarrow> string \<Rightarrow> jsval res" where
  "deleteCluster ax namespace cluster = delete_call ax (DELETE (cluster_url namespace cluster))"

definition importCluster :: "axios \<Rightarrow> string \<Rightarrow> string \<Rightarrow> jsval \<Rightarrow> jsval \<Rightarrow> jsval res" where
  "importCluster ax namespace cluster nodes password =
     create_call ax (POST (cluster_url namespace cluster @ ''/import'')
       (JObj [(''nodes'', nodes), (''password'', password)]))"

definition migrateSlot :: "axios \<Rightarrow> string \<Rightarrow> string \<Rightarrow> jsnum \<Rightarrow> string \<Rightarrow> bool \<Rightarrow> jsval res" where
  "migrateSlot ax namespace cluster target slot slotOnly =
     create_call ax (POST (cluster_url namespace cluster @ ''/migrate'')
       (JObj [(''target'', JNum target), (''slot'', JStr slot), (''slot_only'', JBool slotOnly)]))"

definition createShard :: "axios \<Rightarrow> string \<Rightarrow> string \<Rightarrow> jsval \<Rightarrow> jsval \<Rightarrow> jsval res" where
  "createShard ax namespace cluster nodes password =
     create_call ax (POST (shards_url namespace cluster)
       (JObj [(''nodes'', nodes), (''password'', password)]))"

definition fetchShard :: "axios \<Rightarrow> string \<Rightarrow> string \<Rightarrow> string \<Rightarrow> jsval res" where
  "fetchShard ax namespace cluster shard = object_call ax (GET (shard_url namespace cluster shard)) ''shard''"

definition listShards :: "axios \<Rightarrow> string \<Rightarrow> string \<Rightarrow> jsval res" where
  "listShards ax namespace cluster = list_call ax (GET (shards_url namespace cluster)) ''shards''"

definition deleteShard :: "axios \<Rightarrow> string \<Rightarrow> string \<Rightarrow> string \<Rightarrow> jsval res" where
  "deleteShard ax namespace cluster shard = delete_call ax (DELETE (shard_url namespace cluster shard))"

definition createNode ::
  "axios \<Rightarrow> string \<Rightarrow> string \<Rightarrow> string \<Rightarrow> jsval \<Rightarrow> jsval \<Rightarrow> jsval \<Rightarrow> jsval res" where
  "createNode ax namespace cluster shard addr role password =
     create_call ax (POST (nodes_url namespace cluster shard)
       (JObj [(''addr'', addr), (''role'', role), (''password'', password)]))"

definition listNodes :: "axios \<Rightarrow> string \<Rightarrow> string \<Rightarrow> string \<Rightarrow> jsval res" where
  "listNodes ax namespace cluster shard = list_call ax (GET (nodes_url namespace cluster shard)) ''nodes''"

definition deleteNode :: "axios \<Rightarrow> string \<Rightarrow> string \<Rightarrow> string \<Rightarrow> string \<Rightarrow> jsval res" where
  "deleteNode ax namespace cluster shard nodeId =
     delete_call ax (DELETE (nodes_url namespace cluster shard @ ''/'' @ nodeId))"

datatype failover_result = NewMaster jsval | FailoverError jsval

definition failover_body :: "string option \<Rightarrow> jsval" where
  "failover_body preferredNodeId =
     JObj (case preferredNodeId of None \<Rightarrow> []
       | Some n \<Rightarrow> if n \<noteq> [] then [(''preferred_node_id'', JStr n)] else [])"

definition failoverShard :: "axios \<Rightarrow> string \<Rightarrow> string \<Rightarrow> string \<Rightarrow> string option \<Rightarrow> failover_result res" where
  "failoverShard ax namespace cluster shard preferredNodeId =
     try_catch (rbind (ax (POST (shard_url namespace cluster shard @ ''/failover'') (failover_body preferredNodeId)))
       (\<lambda>responseData. let m = oget (oget responseData ''data'') ''new_master_id'' in
          if truthy m then Inr (NewMaster m) else Inr (FailoverError (handleError (Thrown responseData)))))
       (\<lambda>error. Inr (FailoverError (handleError error)))"

lemmas api_defs [api_simps] =
  fetchNamespaces_def createNamespace_def deleteNamespace_def createCluster_def fetchClusters_def
  fetchCluster_def deleteCluster_def importCluster_def migrateSlot_def createShard_def fetchShard_def
  listShards_def deleteShard_def createNode_def listNodes_def deleteNode_def list_call_def object_call_def

section \<open>Contracts of the calls\<close>

lemma handleError_truthy [simp]: "truthy (handleError e)"
  by (simp add: handleError_def Let_def truthy_js_or)

lemma handleError_nonempty [simp]: "handleError e \<noteq> JStr []"
  using handleError_truthy [of e] by (metis truthy.simps(5))

text \<open>
  A mutation sends one request and answers the empty string exactly when the response passes its
  check; every failure, of the transport or of the server, is a non-empty message.
\<close>

locale api_mutation =
  fixes call :: "axios \<Rightarrow> jsval res" and req :: request and accepts :: "jsval \<Rightarrow> bool"
  assumes call_accepted: "ax req = Inr body \<Longrightarrow> accepts body \<Longrightarrow> call ax = Inr (JStr [])"
    and call_refused: "ax req = Inr body \<Longrightarrow> \<not> accepts body \<Longrightarrow> call ax = Inr (handleError (Thrown body))"
    and call_failed: "ax req = Inl e \<Longrightarrow> call ax = Inr (handleError e)"
begin

lemma succeeds_iff: "call ax = Inr (JStr []) \<longleftrightarrow> (\<exists>body. ax req = Inr body \<and> accepts body)"
proof (cases "ax req")
  case (Inl e)
  then show ?thesis using call_failed [where ax = ax, OF Inl] by simp
next
  case (Inr body)
  then show ?thesis
    using call_accepted [where ax = ax, OF Inr] call_refused [where ax = ax, OF Inr] by (cases "accepts body") auto
qed

lemma never_raises: "\<exists>v. call ax = Inr v \<and> (v = JStr [] \<or> truthy v)"
proof (cases "ax req")
  case (Inl e)
  then show ?thesis using call_failed [where ax = ax, OF Inl] by simp
next
  case (Inr body)
  then show ?thesis
    using call_accepted [where ax = ax, OF Inr] call_refused [where ax = ax, OF Inr] by (cases "accepts body") auto
qed

lemma one_request: "ax req = ax' req \<Longrightarrow> call ax = call ax'"
  using call_accepted call_refused call_failed by (cases "ax' req") metis+

end

definition create_accepts :: "jsval \<Rightarrow> bool" where
  "create_accepts body \<longleftrightarrow> \<not> nullish (oget body ''data'')"

definition delete_accepts :: "jsval \<Rightarrow> bool" where
  "delete_accepts body \<longleftrightarrow> nullish (oget body ''data'') \<or> oget body ''data'' = JStr ''ok''"

lemma strict_eq_str: "strict_eq v (JStr s) \<longleftrightarrow> v = JStr s"
  by (cases v) auto

lemma oget_js_prop: "\<not> nullish v \<Longrightarrow> oget v k = js_prop v k"
  by (simp add: oget_def)

lemma create_mutation: "api_mutation (\<lambda>ax. create_call ax req) req create_accepts"
  by unfold_locales (simp_all add: create_call_def handleCreateResponse_def create_accepts_def)

lemma delete_mutation: "api_mutation (\<lambda>ax. delete_call ax req) req delete_accepts"
proof
  fix ax :: axios and body
  assume *: "ax req = Inr body"
  show "delete_call ax req = Inr (JStr [])" if "delete_accepts body"
    using * that by (cases "nullish body")
      (auto simp: delete_call_def handleDeleteResponse_def delete_accepts_def oget_js_prop strict_eq_str)
  show "delete_call ax req = Inr (handleError (Thrown body))" if "\<not> delete_accepts body"
    using * that by (cases "nullish body")
      (auto simp: delete_call_def handleDeleteResponse_def delete_accepts_def oget_js_prop strict_eq_str oget_def)
next
  fix ax :: axios and e
  assume "ax req = Inl e"
  then show "delete_call ax req = Inr (handleError e)" by (simp add: delete_call_def)
qed

text \<open>
  A listing sends one request, never raises, and falls back to the empty list when the request
  fails or the body has no usable field; an object fetch falls back to the empty object.
\<close>

locale api_fetch =
  fixes call :: "axios \<Rightarrow> jsval res" and req :: request and field :: string and fallback :: jsval
  assumes fetch_hit: "ax req = Inr (JObj [(''data'', JObj [(field, v)])]) \<Longrightarrow> truthy v \<Longrightarrow> call ax = Inr v"
    and fetch_fail: "ax req = Inl e \<Longrightarrow> call ax = Inr fallback"
    and fetch_nullish: "ax req = Inr body \<Longrightarrow> nullish (oget body ''data'') \<Longrightarrow> call ax = Inr fallback"
    and fetch_total: "\<exists>v. call ax = Inr v"
begin

lemma fetch_no_answer: "(\<nexists>body. ax req = Inr body \<and> \<not> nullish (oget body ''data'')) \<Longrightarrow> call ax = Inr fallback"
  using fetch_fail fetch_nullish by (cases "ax req") auto

end

lemma list_fetch: "api_fetch (\<lambda>ax. list_call ax req field) req field (JArr [])"
proof
  fix ax :: axios and body
  assume "ax req = Inr body" and "nullish (oget body ''data'')"
  then show "list_call ax req field = Inr (JArr [])"
    by (cases "nullish body") (auto simp: list_call_def get_def oget_def)
next
  fix ax :: axios
  show "\<exists>v. list_call ax req field = Inr v"
    by (simp add: list_call_def try_catch_def split: sum.splits)
qed (simp_all add: list_call_def js_or_def)

lemma object_fetch: "api_fetch (\<lambda>ax. object_call ax req field) req field (JObj [])"
proof
  fix ax :: axios and body
  assume "ax req = Inr body" and "nullish (oget body ''data'')"
  then show "object_call ax req field = Inr (JObj [])"
    by (cases "nullish body") (auto simp: object_call_def get_def oget_def)
next
  fix ax :: axios
  show "\<exists>v. object_call ax req field = Inr v"
    by (simp add: object_call_def try_catch_def split: sum.splits)
qed (simp_all add: object_call_def)


section \<open>Every exported function meets its contract\<close>

interpretation createNamespace_api: api_mutation "\<lambda>ax. createNamespace ax name"
  "POST namespaces_url (JObj [(''namespace'', name)])" create_accepts for name
  unfolding createNamespace_def by (rule create_mutation)

interpretation deleteNamespace_api: api_mutation "\<lambda>ax. deleteNamespace ax name"
  "DELETE (namespace_url name)" delete_accepts for name
  unfolding deleteNamespace_def by (rule delete_mutation)

interpretation createCluster_api: api_mutation "\<lambda>ax. createCluster ax name nodes replicas password ns"
  "POST (clusters_url ns)
     (JObj [(''name'', name), (''nodes'', nodes), (''replicas'', JNum replicas), (''password'', password)])"
  create_accepts for name nodes replicas password ns
  unfolding createCluster_def by (rule create_mutation)

interpretation deleteCluster_api: api_mutation "\<lambda>ax. deleteCluster ax ns c"
  "DELETE (cluster_url ns c)" delete_accepts for ns c
  unfolding deleteCluster_def by (rule delete_mutation)

interpretation importCluster_api: api_mutation "\<lambda>ax. importCluster ax ns c nodes password"
  "POST (cluster_url ns c @ ''/import'') (JObj [(''nodes'', nodes), (''password'', password)])"
  create_accepts for ns c nodes password
  unfolding importCluster_def by (rule create_mutation)

interpretation migrateSlot_api: api_mutation "\<lambda>ax. migrateSlot ax ns c target slot only"
  "POST (cluster_url ns c @ ''/migrate'')
     (JObj [(''target'', JNum target), (''slot'', JStr slot), (''slot_only'', JBool only)])"
  create_accepts for ns c target slot only
  unfolding migrateSlot_def by (rule create_mutation)

interpretation createShard_api: api_mutation "\<lambda>ax. createShard ax ns c nodes password"
  "POST (shards_url ns c) (JObj [(''nodes'', nodes), (''password'', password)])"
  create_accepts for ns c nodes password
  unfolding createShard_def by (rule create_mutation)

interpretation deleteShard_api: api_mutation "\<lambda>ax. deleteShard ax ns c sh"
  "DELETE (shard_url ns c sh)" delete_accepts for ns c sh
  unfolding deleteShard_def by (rule delete_mutation)

interpretation createNode_api: api_mutation "\<lambda>ax. createNode ax ns c sh addr role password"
  "POST (nodes_url ns c sh) (JObj [(''addr'', addr), (''role'', role), (''password'', password)])"
  create_accepts for ns c sh addr role password
  unfolding createNode_def by (rule create_mutation)

interpretation deleteNode_api: api_mutation "\<lambda>ax. deleteNode ax ns c sh nid"
  "DELETE (nodes_url ns c sh @ ''/'' @ nid)" delete_accepts for ns c sh nid
  unfolding deleteNode_def by (rule delete_mutation)

interpretation fetchNamespaces_api: api_fetch fetchNamespaces "GET namespaces_url" "''namespaces''" "JArr []"
  using list_fetch [of "GET namespaces_url" "''namespaces''"] by (simp add: fetchNamespaces_def [abs_def])

interpretation fetchClusters_api: api_fetch "\<lambda>ax. fetchClusters ax ns" "GET (clusters_url ns)" "''clusters''" "JArr []" for ns
  unfolding fetchClusters_def by (rule list_fetch)

interpretation listShards_api: api_fetch "\<lambda>ax. listShards ax ns c" "GET (shards_url ns c)" "''shards''" "JArr []" for ns c
  unfolding listShards_def by (rule list_fetch)

interpretation listNodes_api: api_fetch "\<lambda>ax. listNodes ax ns c sh" "GET (nodes_url ns c sh)" "''nodes''" "JArr []" for ns c sh
  unfolding listNodes_def by (rule list_fetch)

interpretation fetchCluster_api: api_fetch "\<lambda>ax. fetchCluster ax ns c" "GET (cluster_url ns c)" "''cluster''" "JObj []" for ns c
  unfolding fetchCluster_def by (rule object_fetch)

interpretation fetchShard_api: api_fetch "\<lambda>ax. fetchShard ax ns c sh" "GET (shard_url ns c sh)" "''shard''" "JObj []" for ns c sh
  unfolding fetchShard_def by (rule object_fetch)

subsection \<open>The table of mutations\<close>

text \<open>
  The mutations as one table, the abstract specification of the client: the request each sends,
  in the routes of \<^verbatim>\<open>docs/API.md\<close>, and the response it takes for a success.
\<close>

datatype api_op =
    OpCreateNamespace jsval
  | OpDeleteNamespace string
  | OpCreateCluster jsval jsval jsnum jsval string
  | OpDeleteCluster string string
  | OpImportCluster string string jsval jsval
  | OpMigrateSlot string string jsnum string bool
  | OpCreateShard string string jsval jsval
  | OpDeleteShard string string string
  | OpCreateNode string string string jsval jsval jsval
  | OpDeleteNode string string string string

fun run_op :: "axios \<Rightarrow> api_op \<Rightarrow> jsval res" where
  "run_op ax (OpCreateNamespace n) = createNamespace ax n"
| "run_op ax (OpDeleteNamespace n) = deleteNamespace ax n"
| "run_op ax (OpCreateCluster n nodes r p ns) = createCluster ax n nodes r p ns"
| "run_op ax (OpDeleteCluster ns c) = deleteCluster ax ns c"
| "run_op ax (OpImportCluster ns c nodes p) = importCluster ax ns c nodes p"
| "run_op ax (OpMigrateSlot ns c t s only) = migrateSlot ax ns c t s only"
| "run_op ax (OpCreateShard ns c nodes p) = createShard ax ns c nodes p"
| "run_op ax (OpDeleteShard ns c sh) = deleteShard ax ns c sh"
| "run_op ax (OpCreateNode ns c sh a r p) = createNode ax ns c sh a r p"
| "run_op ax (OpDeleteNode ns c sh nid) = deleteNode ax ns c sh nid"

fun op_path :: "api_op \<Rightarrow> string list" where
  "op_path (OpCreateNamespace n) = [''namespaces'']"
| "op_path (OpDeleteNamespace n) = [''namespaces'', n]"
| "op_path (OpCreateCluster n nodes r p ns) = [''namespaces'', ns, ''clusters'']"
| "op_path (OpDeleteCluster ns c) = [''namespaces'', ns, ''clusters'', c]"
| "op_path (OpImportCluster ns c nodes p) = [''namespaces'', ns, ''clusters'', c, ''import'']"
| "op_path (OpMigrateSlot ns c t s only) = [''namespaces'', ns, ''clusters'', c, ''migrate'']"
| "op_path (OpCreateShard ns c nodes p) = [''namespaces'', ns, ''clusters'', c, ''shards'']"
| "op_path (OpDeleteShard ns c sh) = [''namespaces'', ns, ''clusters'', c, ''shards'', sh]"
| "op_path (OpCreateNode ns c sh a r p) = [''namespaces'', ns, ''clusters'', c, ''shards'', sh, ''nodes'']"
| "op_path (OpDeleteNode ns c sh nid) = [''namespaces'', ns, ''clusters'', c, ''shards'', sh, ''nodes'', nid]"

fun op_body :: "api_op \<Rightarrow> jsval option" where
  \<comment> \<open>The body of a creation; a deletion has none.\<close>
  "op_body (OpCreateNamespace n) = Some (JObj [(''namespace'', n)])"
| "op_body (OpCreateCluster n nodes r p ns) =
     Some (JObj [(''name'', n), (''nodes'', nodes), (''replicas'', JNum r), (''password'', p)])"
| "op_body (OpImportCluster ns c nodes p) = Some (JObj [(''nodes'', nodes), (''password'', p)])"
| "op_body (OpMigrateSlot ns c t s only) =
     Some (JObj [(''target'', JNum t), (''slot'', JStr s), (''slot_only'', JBool only)])"
| "op_body (OpCreateShard ns c nodes p) = Some (JObj [(''nodes'', nodes), (''password'', p)])"
| "op_body (OpCreateNode ns c sh a r p) = Some (JObj [(''addr'', a), (''role'', r), (''password'', p)])"
| "op_body _ = None"

definition path_url :: "string list \<Rightarrow> string" where
  "path_url segs = ''/api/v1'' @ concat (map (\<lambda>s. ''/'' @ s) segs)"

definition op_request :: "api_op \<Rightarrow> request" where
  "op_request op = (case op_body op of Some b \<Rightarrow> POST (path_url (op_path op)) b | None \<Rightarrow> DELETE (path_url (op_path op)))"

definition op_accepts :: "api_op \<Rightarrow> jsval \<Rightarrow> bool" where
  "op_accepts op = (case op_body op of Some _ \<Rightarrow> create_accepts | None \<Rightarrow> delete_accepts)"

lemmas op_spec = op_request_def op_accepts_def path_url_def url_defs

lemma run_op_mutation: "api_mutation (\<lambda>ax. run_op ax op) (op_request op) (op_accepts op)"
proof (cases op)
  case (OpCreateNamespace n)
  then show ?thesis using createNamespace_api.api_mutation_axioms [of n] by (simp add: op_spec)
next
  case (OpDeleteNamespace n)
  then show ?thesis using deleteNamespace_api.api_mutation_axioms [of n] by (simp add: op_spec)
next
  case (OpCreateCluster n nodes r p ns)
  then show ?thesis using createCluster_api.api_mutation_axioms [of n nodes r p ns] by (simp add: op_spec)
next
  case (OpDeleteCluster ns c)
  then show ?thesis using deleteCluster_api.api_mutation_axioms [of ns c] by (simp add: op_spec)
next
  case (OpImportCluster ns c nodes p)
  then show ?thesis using importCluster_api.api_mutation_axioms [of ns c nodes p] by (simp add: op_spec)
next
  case (OpMigrateSlot ns c t s only)
  then show ?thesis using migrateSlot_api.api_mutation_axioms [of ns c t s only] by (simp add: op_spec)
next
  case (OpCreateShard ns c nodes p)
  then show ?thesis using createShard_api.api_mutation_axioms [of ns c nodes p] by (simp add: op_spec)
next
  case (OpDeleteShard ns c sh)
  then show ?thesis using deleteShard_api.api_mutation_axioms [of ns c sh] by (simp add: op_spec)
next
  case (OpCreateNode ns c sh a r p)
  then show ?thesis using createNode_api.api_mutation_axioms [of ns c sh a r p] by (simp add: op_spec)
next
  case (OpDeleteNode ns c sh nid)
  then show ?thesis using deleteNode_api.api_mutation_axioms [of ns c sh nid] by (simp add: op_spec)
qed

interpretation op_api: api_mutation "\<lambda>ax. run_op ax op" "op_request op" "op_accepts op" for op
  by (rule run_op_mutation)

section \<open>Properties\<close>

text \<open>
  C23: Every mutation of the client sends exactly the request of the table above and no other, never
  raises, and answers the empty string exactly when that request was answered with a body that passes
  the check for its kind; any other outcome is a non-empty message.
\<close>
theorem api_mutation_contract:
  "(run_op ax op = Inr (JStr []) \<longleftrightarrow> (\<exists>body. ax (op_request op) = Inr body \<and> op_accepts op body))
   \<and> (\<exists>v. run_op ax op = Inr v \<and> (v = JStr [] \<or> truthy v))
   \<and> run_op ax op = run_op (\<lambda>r. if r = op_request op then ax r else Inl e) op"
  using op_api.succeeds_iff [of ax op] op_api.never_raises [of ax op]
    op_api.one_request [of ax op "\<lambda>r. if r = op_request op then ax r else Inl e"]
  by simp

text \<open>
  No fetch of the client raises, whatever the server does: a list that cannot be read is the empty
  list and an object that cannot be read is the empty object, so no caller can tell a missing resource
  or an unreachable controller from an empty one.
\<close>
theorem api_fetch_contract:
  "(\<exists>v. fetchNamespaces ax = Inr v) \<and> (\<exists>v. fetchClusters ax ns = Inr v) \<and> (\<exists>v. listShards ax ns c = Inr v)
   \<and> (\<exists>v. listNodes ax ns c sh = Inr v) \<and> (\<exists>v. fetchCluster ax ns c = Inr v) \<and> (\<exists>v. fetchShard ax ns c sh = Inr v)
   \<and> fetchNamespaces (\<lambda>_. Inl e) = Inr (JArr []) \<and> fetchClusters (\<lambda>_. Inl e) ns = Inr (JArr [])
   \<and> listShards (\<lambda>_. Inl e) ns c = Inr (JArr []) \<and> listNodes (\<lambda>_. Inl e) ns c sh = Inr (JArr [])
   \<and> fetchCluster (\<lambda>_. Inl e) ns c = Inr (JObj []) \<and> fetchShard (\<lambda>_. Inl e) ns c sh = Inr (JObj [])"
  by (intro conjI fetchNamespaces_api.fetch_total fetchClusters_api.fetch_total listShards_api.fetch_total
    listNodes_api.fetch_total fetchCluster_api.fetch_total fetchShard_api.fetch_total
    fetchNamespaces_api.fetch_fail [where e = e] fetchClusters_api.fetch_fail [where e = e] listShards_api.fetch_fail [where e = e]
    listNodes_api.fetch_fail [where e = e] fetchCluster_api.fetch_fail [where e = e] fetchShard_api.fetch_fail [where e = e] refl)

text \<open>
  A failover never raises: it answers a new master exactly when the controller names one, with the
  name it gave, and otherwise an error message that is not empty.
\<close>
theorem failover_contract:
  "(failoverShard ax ns c sh p = Inr (NewMaster m) \<longleftrightarrow>
      truthy m \<and> (\<exists>body. ax (POST (shard_url ns c sh @ ''/failover'') (failover_body p)) = Inr body
        \<and> oget (oget body ''data'') ''new_master_id'' = m))
   \<and> ((\<exists>m. failoverShard ax ns c sh p = Inr (NewMaster m)) \<or> (\<exists>e. failoverShard ax ns c sh p = Inr (FailoverError e) \<and> truthy e))"
  by (cases "ax (POST (shard_url ns c sh @ ''/failover'') (failover_body p))") (auto simp: failoverShard_def Let_def)

end
