(* ===== verification/Server.thy ===== *)
theory Server
  imports Store Partition Api
begin

text \<open>
  The HTTP server of the controller: the responses of \<^verbatim>\<open>server/helper/helper.go\<close>, the middleware, the
  handlers for namespaces, clusters, shards and nodes (\<^verbatim>\<open>server/api\<close>) and the routes (\<^verbatim>\<open>server/route.go\<close>).
  A request meets one state of the store. The router and the decoding of bodies are those of the web
  framework: a parameter of a route is one segment of the path that is not empty, a panic of a handler
  closes the connection, and the tags \<^verbatim>\<open>validate:"required"\<close>, which the framework does not read, check
  nothing.
\<close>

section \<open>Responses\<close>

datatype reply = Reply nat jsval | Crash

definition data_body :: "jsval \<Rightarrow> jsval" where
  "data_body v = JObj [(''data'', v)]"

definition error_body :: "string \<Rightarrow> jsval" where
  "error_body message = JObj [(''error'', JObj [(''message'', JStr message)]), (''data'', JNull)]"

definition ResponseOK :: "jsval \<Rightarrow> reply" where
  "ResponseOK v = Reply 200 (data_body v)"

definition ResponseCreated :: "jsval \<Rightarrow> reply" where
  "ResponseCreated v = Reply 201 (data_body v)"

definition ResponseNoContent :: reply where
  \<comment> \<open>The body is empty.\<close>
  "ResponseNoContent = Reply 204 (JStr [])"

definition ResponseBadRequest :: "err \<Rightarrow> reply" where
  "ResponseBadRequest e = Reply 400 (error_body (err_text e))"

definition error_status :: "err \<Rightarrow> nat" where
  "error_status e =
     (if err_is e = Some ErrNotFound then 404
      else if err_is e = Some ErrIndexOutOfRange then 400
      else if err_is e = Some ErrAlreadyExists then 409
      else if err_is e = Some ErrForbidden then 403
      else if err_is e = Some ErrInvalidArgument then 400
      else 500)"

definition ResponseError :: "err \<Rightarrow> reply" where
  "ResponseError e = Reply (error_status e) (error_body (err_text e))"

definition or_error :: "'a go \<Rightarrow> 's \<Rightarrow> ('a \<Rightarrow> reply \<times> 's) \<Rightarrow> reply \<times> 's" where
  \<comment> \<open>\<^verbatim>\<open>if err != nil { helper.ResponseError(c, err); return }\<close>\<close>
  "or_error r s k = (case r of Ok x \<Rightarrow> k x | Fail e \<Rightarrow> (ResponseError e, s) | Panic \<Rightarrow> (Crash, s))"

definition or_bad :: "'a go \<Rightarrow> 's \<Rightarrow> ('a \<Rightarrow> reply \<times> 's) \<Rightarrow> reply \<times> 's" where
  \<comment> \<open>\<^verbatim>\<open>if err != nil { helper.ResponseBadRequest(c, err); return }\<close>\<close>
  "or_bad r s k = (case r of Ok x \<Rightarrow> k x | Fail e \<Rightarrow> (ResponseBadRequest e, s) | Panic \<Rightarrow> (Crash, s))"

definition bad_request :: "string \<Rightarrow> reply" where
  "bad_request m = ResponseBadRequest (Err None m)"

section \<open>What a handler can use\<close>

record 'e env =
  \<comment> \<open>The engine, the answers of the nodes, the two sorts, and what new nodes draw.\<close>
  env_E :: "'e engine"
  env_kv :: kvrocks
  env_sort :: slice_sort
  env_sortShards :: "Shard list \<Rightarrow> Shard list"
  env_nw :: "nat \<Rightarrow> spawn"

type_synonym 'e handler = "'e env \<Rightarrow> 'e ClusterStore \<Rightarrow> reply \<times> 'e ClusterStore"

definition bind_json :: "jsval \<Rightarrow> (string \<times> jsval) list go" where
  \<comment> \<open>The fields of the body, decoded into a struct; a request without a body ends too early.\<close>
  "bind_json body = (if body = JUndef then errors_New ''EOF'' else json_struct ''struct'' body)"

definition json_strings :: "string \<Rightarrow> jsval \<Rightarrow> string list go" where
  "json_strings into v = json_list (json_string into) into ''[]string'' v"

section \<open>Middleware\<close>

definition RequiredNamespace :: "string \<Rightarrow> 'e handler \<Rightarrow> 'e handler" where
  "RequiredNamespace ns k env s =
     or_error (ExistsNamespace (env_E env) s ns) s (\<lambda>ok. if \<not> ok then (bad_request ''namespace not found'', s) else k env s)"

definition RequiredCluster :: "string \<Rightarrow> string \<Rightarrow> (Cluster \<Rightarrow> 'e handler) \<Rightarrow> 'e handler" where
  "RequiredCluster ns n k env s = or_error (GetCluster (env_E env) s ns n) s (\<lambda>cluster. k cluster env s)"

definition RequiredClusterShard :: "string \<Rightarrow> string \<Rightarrow> string \<Rightarrow> (Cluster \<Rightarrow> int \<Rightarrow> Shard \<Rightarrow> 'e handler) \<Rightarrow> 'e handler" where
  \<comment> \<open>An index that is not a number is answered but not aborted: the handler runs, does not find the
      cluster in its context and panics.\<close>
  "RequiredClusterShard ns n shard k env s =
     or_error (GetCluster (env_E env) s ns n) s (\<lambda>cluster.
       case Atoi shard of
         Inl _ \<Rightarrow> (Crash, s)
       | Inr shardIndex \<Rightarrow> or_error (GetShard shardIndex cluster) s (\<lambda>sh. k cluster shardIndex sh env s))"

section \<open>Namespaces\<close>

definition Namespace_List :: "'e handler" where
  "Namespace_List env s =
     or_error (ListNamespace (env_E env) s) s (\<lambda>namespaces. (ResponseOK (JObj [(''namespaces'', JArr (map JStr namespaces))]), s))"

definition Namespace_Exists :: "string \<Rightarrow> 'e handler" where
  "Namespace_Exists ns env s =
     or_error (ExistsNamespace (env_E env) s ns) s (\<lambda>ok.
       if \<not> ok then (ResponseError (Err (Some ErrNotFound) (sentinel_text ErrNotFound)), s) else (ResponseOK JNull, s))"

definition namespace_request :: "jsval \<Rightarrow> string go" where
  "namespace_request body = gbind (bind_json body) (\<lambda>fs. json_string ''struct field .namespace'' (json_field fs ''namespace''))"

definition Namespace_Create :: "jsval \<Rightarrow> 'e handler" where
  "Namespace_Create body env s =
     or_bad (namespace_request body) s (\<lambda>ns.
       if length ns = 0 then (bad_request ''namespace should NOT be empty'', s)
       else or_error (CreateNamespace (env_E env) ns s) s (\<lambda>s'. (ResponseCreated (JObj [(''namespace'', JStr ns)]), s')))"

definition Namespace_Remove :: "string \<Rightarrow> 'e handler" where
  "Namespace_Remove ns env s = or_error (RemoveNamespace (env_E env) ns s) s (\<lambda>s'. (ResponseNoContent, s'))"

section \<open>Clusters\<close>

definition Cluster_List :: "string \<Rightarrow> 'e handler" where
  \<comment> \<open>Not to find the prefix is not an error; the list is then nil.\<close>
  "Cluster_List ns env s = (case ListCluster (env_E env) s ns of
       Ok clusters \<Rightarrow> (ResponseOK (JObj [(''clusters'', JArr (map JStr clusters))]), s)
     | Fail e \<Rightarrow> if err_is e \<noteq> Some ErrNotFound then (ResponseError e, s) else (ResponseOK (JObj [(''clusters'', JNull)]), s)
     | Panic \<Rightarrow> (Crash, s))"

definition Cluster_Get :: "Cluster \<Rightarrow> 'e handler" where
  "Cluster_Get cluster env s = (ResponseOK (JObj [(''cluster'', Cluster_MarshalJSON cluster)]), s)"

fun check_cluster_modes :: "kvrocks \<Rightarrow> ClusterNode list \<Rightarrow> reply option" where
  \<comment> \<open>The loop of \<^verbatim>\<open>Create\<close> that asks the nodes; None when it goes on.\<close>
  "check_cluster_modes kv [] = None"
| "check_cluster_modes kv (n # ns) = (case CheckClusterMode kv n of
       Panic \<Rightarrow> Some Crash
     | Fail e \<Rightarrow> Some (ResponseError e)
     | Ok v \<Rightarrow> if v \<noteq> -1 then Some (bad_request ''node is already in cluster mode'') else check_cluster_modes kv ns)"

record CreateClusterRequest =
  cr_Name :: string
  cr_Nodes :: "string list"
  cr_Password :: string
  cr_Replicas :: int

definition create_cluster_request :: "jsval \<Rightarrow> CreateClusterRequest go" where
  "create_cluster_request body =
     gbind (bind_json body) (\<lambda>fs.
     gbind (json_string ''struct field CreateClusterRequest.name'' (json_field fs ''name'')) (\<lambda>name.
     gbind (json_strings ''struct field CreateClusterRequest.nodes'' (json_field fs ''nodes'')) (\<lambda>nodes.
     gbind (json_string ''struct field CreateClusterRequest.password'' (json_field fs ''password'')) (\<lambda>password.
     gbind (json_int ''struct field CreateClusterRequest.replicas'' (json_field fs ''replicas'')) (\<lambda>replicas.
       Ok \<lparr>cr_Name = name, cr_Nodes = nodes, cr_Password = password, cr_Replicas = replicas\<rparr>)))))"

definition Cluster_Create :: "string \<Rightarrow> string \<Rightarrow> jsval \<Rightarrow> 'e handler" where
  \<comment> \<open>The second argument is the header \<^verbatim>\<open>HeaderDontCheckClusterMode\<close>.\<close>
  "Cluster_Create ns header body env s =
     or_bad (create_cluster_request body) s (\<lambda>req.
     or_error (CheckNewNodes (env_E env) s (cr_Nodes req)) s (\<lambda>_.
     or_bad (NewCluster (env_nw env) (cr_Name req) (cr_Nodes req) (cr_Replicas req)) s (\<lambda>cluster.
       let cluster = Cluster_SetPassword (cr_Password req) cluster;
           checkClusterMode = (js_toLowerCase header = ''yes'')
       in case (if checkClusterMode then check_cluster_modes (env_kv env) (GetNodes cluster) else None) of
            Some r \<Rightarrow> (r, s)
          | None \<Rightarrow> or_error (CreateCluster (env_E env) ns cluster s) s (\<lambda>s'.
              (ResponseCreated (JObj [(''cluster'', Cluster_MarshalJSON cluster)]), s')))))"

definition Cluster_Remove :: "string \<Rightarrow> string \<Rightarrow> 'e handler" where
  "Cluster_Remove ns n env s = or_error (RemoveCluster (env_E env) ns n s) s (\<lambda>s'. (ResponseNoContent, s'))"

record MigrateSlotRequest =
  mr_Target :: int
  mr_Slot :: SlotRange
  mr_SlotOnly :: bool

definition migrate_slot_request :: "jsval \<Rightarrow> MigrateSlotRequest go" where
  "migrate_slot_request body =
     gbind (bind_json body) (\<lambda>fs.
     gbind (json_int ''struct field MigrateSlotRequest.target'' (json_field fs ''target'')) (\<lambda>target.
     gbind (SlotRange_UnmarshalJSON (json_field fs ''slot'')) (\<lambda>slot.
     gbind (json_bool ''struct field MigrateSlotRequest.slot_only'' (json_field fs ''slot_only'')) (\<lambda>only.
       Ok \<lparr>mr_Target = target, mr_Slot = slot, mr_SlotOnly = only\<rparr>))))"

definition update_cluster :: "string \<Rightarrow> Cluster \<Rightarrow> (Cluster \<Rightarrow> reply) \<Rightarrow> 'e handler" where
  \<comment> \<open>The end of the handlers that change a cluster.\<close>
  "update_cluster ns cluster answer env s =
     or_error (UpdateCluster (env_E env) ns cluster s) s (\<lambda>(s', cluster). (answer cluster, s'))"

definition Cluster_MigrateSlot_handler :: "string \<Rightarrow> string \<Rightarrow> jsval \<Rightarrow> 'e handler" where
  "Cluster_MigrateSlot_handler ns n body env s =
     or_error (GetCluster (env_E env) s ns n) s (\<lambda>cluster.
     or_bad (migrate_slot_request body) s (\<lambda>req.
     or_error (Cluster_MigrateSlot (env_kv env) (env_sort env) (mr_Slot req) (mr_Target req) (mr_SlotOnly req) cluster) s (\<lambda>cluster.
       update_cluster ns cluster (\<lambda>c. ResponseOK (JObj [(''cluster'', Cluster_MarshalJSON c)])) env s)))"

definition nodes_request :: "jsval \<Rightarrow> (string list \<times> string) go" where
  "nodes_request body =
     gbind (bind_json body) (\<lambda>fs.
     gbind (json_strings ''struct field .nodes'' (json_field fs ''nodes'')) (\<lambda>nodes.
     gbind (json_string ''struct field .password'' (json_field fs ''password'')) (\<lambda>password. Ok (nodes, password))))"

definition Cluster_Import :: "string \<Rightarrow> string \<Rightarrow> jsval \<Rightarrow> 'e handler" where
  "Cluster_Import ns n body env s =
     or_bad (nodes_request body) s (\<lambda>(nodes, password).
       if length nodes = 0 then (bad_request ''nodes should NOT be empty'', s)
       else or_error (GetClusterNodesString (env_kv env) (NewClusterNode (env_nw env 0) (hd nodes) password)) s (\<lambda>clusterNodesStr.
         or_error (ParseCluster (env_sortShards env) clusterNodesStr) s (\<lambda>cluster.
           let cluster = Cluster_SetPassword password cluster in
           or_error (CheckNewNodes (env_E env) s (map cn_addr (GetNodes cluster))) s (\<lambda>_.
             let cluster = cluster\<lparr>cl_Name := n\<rparr> in
             or_error (CreateCluster (env_E env) ns cluster s) s (\<lambda>s'.
               (ResponseOK (JObj [(''cluster'', Cluster_MarshalJSON cluster)]), s'))))))"

section \<open>Shards\<close>

definition Shard_List :: "Cluster \<Rightarrow> 'e handler" where
  "Shard_List cluster env s = (ResponseOK (JObj [(''shards'', JArr (map Shard_json (cl_Shards cluster)))]), s)"

definition Shard_Get :: "Shard \<Rightarrow> 'e handler" where
  "Shard_Get sh env s = (ResponseOK (JObj [(''shard'', Shard_json sh)]), s)"

definition Shard_Create :: "string \<Rightarrow> jsval \<Rightarrow> Cluster \<Rightarrow> 'e handler" where
  "Shard_Create ns body cluster env s =
     or_bad (nodes_request body) s (\<lambda>(nodes, password).
       if length nodes = 0 then (bad_request ''nodes should NOT be empty'', s)
       else (let newShard = NewShard\<lparr>shard_Nodes := shard_nodes (env_nw env) nodes password\<rparr> in
         update_cluster ns (add_shard newShard cluster) (\<lambda>_. ResponseCreated (JObj [(''shard'', Shard_json newShard)])) env s))"

definition Shard_Remove :: "string \<Rightarrow> string \<Rightarrow> Cluster \<Rightarrow> 'e handler" where
  "Shard_Remove ns shard cluster env s =
     (case Atoi shard of
        Inl e \<Rightarrow> or_bad (slot_err e :: unit go) s (\<lambda>_. (Crash, s))
      | Inr shardIdx \<Rightarrow>
          if \<not> shard_in_range shardIdx cluster then (ResponseBadRequest (Err (Some ErrIndexOutOfRange) (sentinel_text ErrIndexOutOfRange)), s)
          else if IsServicing (cl_Shards cluster ! nat shardIdx)
          then (ResponseBadRequest (Err (Some ErrShardIsServicing) (sentinel_text ErrShardIsServicing)), s)
          else update_cluster ns (drop_shard (nat shardIdx) cluster) (\<lambda>_. ResponseNoContent) env s)"

definition Shard_Failover :: "string \<Rightarrow> jsval \<Rightarrow> Cluster \<Rightarrow> int \<Rightarrow> 'e handler" where
  "Shard_Failover ns body cluster shardIndex env s =
     or_bad (gbind (bind_json body) (\<lambda>fs. json_string ''struct field .preferred_node_id'' (json_field fs ''preferred_node_id''))) s (\<lambda>preferred.
       if length preferred > 0 \<and> length preferred \<noteq> NodeIDLen then (bad_request (''invalid node id: '' @ preferred), s)
       else or_error (PromoteNewMaster (env_kv env) shardIndex [] preferred cluster) s (\<lambda>(cluster, newMasterNodeID).
         update_cluster ns cluster (\<lambda>_. ResponseOK (JObj [(''new_master_id'', JStr newMasterNodeID)])) env s))"

section \<open>Nodes\<close>

definition Node_List :: "Shard \<Rightarrow> 'e handler" where
  "Node_List sh env s = (ResponseOK (JObj [(''nodes'', JArr (map ClusterNode_MarshalJSON (shard_Nodes sh)))]), s)"

definition node_request :: "jsval \<Rightarrow> (string \<times> string \<times> string) go" where
  \<comment> \<open>\<^verbatim>\<open>binding:"required"\<close> refuses an empty address.\<close>
  "node_request body =
     gbind (bind_json body) (\<lambda>fs.
     gbind (json_string ''struct field .addr'' (json_field fs ''addr'')) (\<lambda>addr.
     gbind (json_string ''struct field .role'' (json_field fs ''role'')) (\<lambda>role.
     gbind (json_string ''struct field .password'' (json_field fs ''password'')) (\<lambda>password.
       if addr = [] then errors_New (''Key: '' @ [CHR 0x27] @ ''Addr'' @ [CHR 0x27] @ '' Error:Field validation for '' @ [CHR 0x27] @ ''Addr'' @ [CHR 0x27]
         @ '' failed on the '' @ [CHR 0x27] @ ''required'' @ [CHR 0x27] @ '' tag'')
       else Ok (addr, role, password)))))"

definition Node_Create :: "string \<Rightarrow> jsval \<Rightarrow> Cluster \<Rightarrow> int \<Rightarrow> 'e handler" where
  "Node_Create ns body cluster shardIndex env s =
     or_bad (node_request body) s (\<lambda>(addr, role, password).
       let role = (if role = [] then RoleSlave else role) in
       or_error (AddNode (env_nw env 0) shardIndex addr role password cluster) s (\<lambda>(cluster, newNode).
         update_cluster ns cluster (\<lambda>_. ResponseCreated (JStr (cn_id newNode))) env s))"

definition Node_Remove :: "string \<Rightarrow> string \<Rightarrow> Cluster \<Rightarrow> int \<Rightarrow> 'e handler" where
  "Node_Remove ns nodeID cluster shardIndex env s =
     or_error (RemoveNode shardIndex nodeID cluster) s (\<lambda>cluster.
       update_cluster ns cluster (\<lambda>_. ResponseNoContent) env s)"

section \<open>Routes\<close>

definition NoRoute :: "'e handler" where
  "NoRoute env s = (ResponseError (Err (Some ErrNotFound) (sentinel_text ErrNotFound)), s)"

definition api_path :: "string \<Rightarrow> string list" where
  \<comment> \<open>The segments of the path behind \<^verbatim>\<open>/api/v1/\<close>.\<close>
  "api_path url = (let ps = (if startsWith url (apiPrefix @ ''/'') then js_split CHR ''/'' (drop (length apiPrefix + 1) url) else []) in
     if [] \<in> set ps then [] else ps)"

definition serve_get :: "string list \<Rightarrow> 'e handler" where
  "serve_get ps = (case ps of
       [a] \<Rightarrow> if a = ''namespaces'' then Namespace_List else NoRoute
     | [a, ns] \<Rightarrow> if a = ''namespaces'' then Namespace_Exists ns else NoRoute
     | [a, ns, b] \<Rightarrow> if a = ''namespaces'' \<and> b = ''clusters'' then RequiredNamespace ns (Cluster_List ns) else NoRoute
     | [a, ns, b, n] \<Rightarrow> if a = ''namespaces'' \<and> b = ''clusters'' then RequiredCluster ns n Cluster_Get else NoRoute
     | [a, ns, b, n, c] \<Rightarrow> if a = ''namespaces'' \<and> b = ''clusters'' \<and> c = ''shards'' then RequiredCluster ns n Shard_List else NoRoute
     | [a, ns, b, n, c, sh] \<Rightarrow> if a = ''namespaces'' \<and> b = ''clusters'' \<and> c = ''shards''
         then RequiredClusterShard ns n sh (\<lambda>_ _. Shard_Get) else NoRoute
     | [a, ns, b, n, c, sh, d] \<Rightarrow> if a = ''namespaces'' \<and> b = ''clusters'' \<and> c = ''shards'' \<and> d = ''nodes''
         then RequiredClusterShard ns n sh (\<lambda>_ _. Node_List) else NoRoute
     | _ \<Rightarrow> NoRoute)"

definition serve_post :: "string list \<Rightarrow> jsval \<Rightarrow> 'e handler" where
  "serve_post ps body = (case ps of
       [a] \<Rightarrow> if a = ''namespaces'' then Namespace_Create body else NoRoute
     | [a, ns, b] \<Rightarrow> if a = ''namespaces'' \<and> b = ''clusters'' then RequiredNamespace ns (Cluster_Create ns [] body) else NoRoute
     | [a, ns, b, n, c] \<Rightarrow> if a = ''namespaces'' \<and> b = ''clusters''
         then (if c = ''import'' then RequiredNamespace ns (Cluster_Import ns n body)
               else if c = ''migrate'' then Cluster_MigrateSlot_handler ns n body
               else if c = ''shards'' then RequiredCluster ns n (Shard_Create ns body)
               else NoRoute)
         else NoRoute
     | [a, ns, b, n, c, sh, d] \<Rightarrow> if a = ''namespaces'' \<and> b = ''clusters'' \<and> c = ''shards''
         then (if d = ''failover'' then RequiredClusterShard ns n sh (\<lambda>cluster i _. Shard_Failover ns body cluster i)
               else if d = ''nodes'' then RequiredClusterShard ns n sh (\<lambda>cluster i _. Node_Create ns body cluster i)
               else NoRoute)
         else NoRoute
     | _ \<Rightarrow> NoRoute)"

definition serve_delete :: "string list \<Rightarrow> 'e handler" where
  "serve_delete ps = (case ps of
       [a, ns] \<Rightarrow> if a = ''namespaces'' then Namespace_Remove ns else NoRoute
     | [a, ns, b, n] \<Rightarrow> if a = ''namespaces'' \<and> b = ''clusters'' then RequiredCluster ns n (\<lambda>_. Cluster_Remove ns n) else NoRoute
     | [a, ns, b, n, c, sh] \<Rightarrow> if a = ''namespaces'' \<and> b = ''clusters'' \<and> c = ''shards''
         then RequiredCluster ns n (Shard_Remove ns sh) else NoRoute
     | [a, ns, b, n, c, sh, d, nodeID] \<Rightarrow> if a = ''namespaces'' \<and> b = ''clusters'' \<and> c = ''shards'' \<and> d = ''nodes''
         then RequiredClusterShard ns n sh (\<lambda>cluster i _. Node_Remove ns nodeID cluster i) else NoRoute
     | _ \<Rightarrow> NoRoute)"

definition serve :: "request \<Rightarrow> 'e handler" where
  "serve req = (case req of
       GET url \<Rightarrow> serve_get (api_path url)
     | POST url body \<Rightarrow> serve_post (api_path url) body
     | DELETE url \<Rightarrow> serve_delete (api_path url))"

definition GenerateSessionID :: "(nat \<Rightarrow> nat) \<Rightarrow> string \<Rightarrow> string" where
  "GenerateSessionID draw addr = RandString draw 8 @ ''/'' @ addr"

definition ExtractAddrFromSessionID :: "string \<Rightarrow> string" where
  "ExtractAddrFromSessionID sessionID =
     (let parts = js_split CHR ''/'' sessionID in if length parts \<noteq> 2 then sessionID else parts ! 1)"

text \<open>The address of the leader is found again in its session.\<close>

lemma RandString_chars: "c \<in> set (RandString draw k) \<Longrightarrow> c \<in> set ''abcdefghijklmnopqrstuvwxyzABCDEFGHIJKLMNOPQRSTUVWXYZ0123456789''"
proof -
  have "draw i mod 62 < length ''abcdefghijklmnopqrstuvwxyzABCDEFGHIJKLMNOPQRSTUVWXYZ0123456789''" for i by simp
  from nth_mem [OF this] show "c \<in> set (RandString draw k) \<Longrightarrow> c \<in> set ''abcdefghijklmnopqrstuvwxyzABCDEFGHIJKLMNOPQRSTUVWXYZ0123456789''"
    unfolding RandString_def set_map by blast
qed

lemma session_round_trip:
  assumes "CHR ''/'' \<notin> set addr"
  shows "ExtractAddrFromSessionID (GenerateSessionID draw addr) = addr"
proof -
  have "CHR ''/'' \<notin> set (RandString draw 8)" using RandString_chars [of "CHR ''/''" draw 8] by auto
  with assms show ?thesis by (simp add: ExtractAddrFromSessionID_def GenerateSessionID_def js_split_append js_split_no_sep)
qed

datatype leadership = NoLeader | Leads | Follows

definition RedirectIfNotLeader :: "leadership \<Rightarrow> bool \<Rightarrow> 'e handler \<Rightarrow> 'e handler" where
  \<comment> \<open>A follower writes a redirect and does not abort, so the handler still runs. The redirect of a GET has a
      body and is sent; otherwise the answer of the handler replaces its status. The engine is not the
      Raft engine.\<close>
  "RedirectIfNotLeader role isGet k env s = (case role of
       NoLeader \<Rightarrow> (Reply 400 (JObj [(''error'', JStr ''no leader now, please retry later'')]), s)
     | Leads \<Rightarrow> k env s
     | Follows \<Rightarrow> (if isGet then Reply 307 JUndef else fst (k env s), snd (k env s)))"

section \<open>The server as the interface calls it\<close>

definition axios_result :: "reply \<Rightarrow> jsval res" where
  \<comment> \<open>What the HTTP library makes of a reply: a status of 200 to 299 is a response, another one an error.\<close>
  "axios_result r = (case r of
       Reply status body \<Rightarrow> if 200 \<le> status \<and> status < 300 then Inr body
         else Inl (AxiosError (''Request failed with status code '' @ show_nat status) (JObj [(''data'', body)]))
     | Crash \<Rightarrow> Inl (AxiosError ''Network Error'' JUndef))"

definition answers :: "'e env \<Rightarrow> 'e ClusterStore \<Rightarrow> axios" where
  \<comment> \<open>What the interface gets for each request in a state of the store.\<close>
  "answers env s req = axios_result (fst (serve req env s))"

definition store_after :: "'e env \<Rightarrow> 'e ClusterStore \<Rightarrow> request \<Rightarrow> 'e ClusterStore" where
  "store_after env s req = snd (serve req env s)"


section \<open>Every stored cluster is well formed\<close>

subsection \<open>Numbers\<close>

definition ints_shard :: "Shard \<Rightarrow> bool" where
  "ints_shard sh \<longleftrightarrow> int64 (shard_TargetShardIndex sh) \<and> (\<forall>n\<in>set (shard_Nodes sh). int64 (cn_createdAt n))"

definition ints :: "Cluster \<Rightarrow> bool" where
  "ints c \<longleftrightarrow> int64 (cl_Version c) \<and> (\<forall>sh\<in>set (cl_Shards c). ints_shard sh)"

lemma int64_small [simp]: "int64 (- 1)" "int64 0" "int64 1"
  by (simp_all add: int64_def)

lemma wf_storable: "wf_cluster c \<Longrightarrow> ints c \<Longrightarrow> storable c"
  by (auto simp: storable_def storable_shard_def wf_cluster_def wf_shard_def ints_def ints_shard_def migrating_owned_def canonical_def list_all_iff)

lemma storable_ints: "storable c \<Longrightarrow> ints c"
  by (auto simp: storable_def storable_shard_def ints_def ints_shard_def list_all_iff)

lemma ints_set_shard: "ints c \<Longrightarrow> ints_shard sh \<Longrightarrow> ints (set_shard i sh c)"
  using set_update_subset_insert [of "cl_Shards c" i sh] by (auto simp: ints_def set_shard_def)

lemma ints_nth: "ints c \<Longrightarrow> i < length (cl_Shards c) \<Longrightarrow> ints_shard (cl_Shards c ! i)"
  by (simp add: ints_def)

lemma NewClusterNode_int [simp]: "int64 (cn_createdAt (SetRole r (NewClusterNode nw a p)))"
  by (simp add: SetRole_def NewClusterNode_def)

lemma ints_AddNode:
  assumes "ints c" "AddNode nw i addr role password c = Ok (c', n)"
  shows "ints c'" "cl_Name c' = cl_Name c"
proof -
  obtain sh where sh: "shard_in_range i c" "addNode nw addr role password (cl_Shards c ! nat i) = Ok (sh, n)" "c' = set_shard (nat i) sh c"
    using assms(2) by (auto simp: AddNode_def fail_def split: if_splits)
  have "ints_shard (cl_Shards c ! nat i)" using ints_nth [OF assms(1)] sh(1) by (simp add: in_range_nat)
  then have "ints_shard sh" using sh(2) by (auto simp: addNode_def fail_def wrap_def Let_def ints_shard_def split: if_splits)
  then show "ints c'" "cl_Name c' = cl_Name c" using ints_set_shard [OF assms(1)] sh(3) by (simp_all add: set_shard_def)
qed

lemma remove_loop_set:
  "remove_loop nodeID is arr m f = Ok (nodes, g) \<Longrightarrow> set nodes \<subseteq> set arr"
proof (induction nodeID "is" arr m f rule: remove_loop.induct)
  case (1 nodeID arr m f)
  then show ?case by (auto dest: in_set_takeD)
next
  case (2 nodeID i "is" arr m f)
  have "set (take i arr @ drop (i + 1) (take m arr) @ drop (m - 1) arr) \<subseteq> set arr"
    by (auto dest: in_set_takeD in_set_dropD)
  with 2 show ?case by (auto simp: wrap_def split: if_splits)
qed

lemma ints_RemoveNode:
  assumes "ints c" "RemoveNode i nodeID c = Ok c'"
  shows "ints c'" "cl_Name c' = cl_Name c"
proof -
  obtain sh where sh: "shard_in_range i c" "removeNode nodeID (cl_Shards c ! nat i) = Ok sh" "c' = set_shard (nat i) sh c"
    using assms(2) by (auto simp: RemoveNode_def fail_def split: if_splits)
  have "ints_shard (cl_Shards c ! nat i)" using ints_nth [OF assms(1)] sh(1) by (simp add: in_range_nat)
  then have "ints_shard sh" using sh(2)
    by (auto simp: removeNode_def fail_def Let_def ints_shard_def split: if_splits dest!: remove_loop_set)
  then show "ints c'" "cl_Name c' = cl_Name c" using ints_set_shard [OF assms(1)] sh(3) by (simp_all add: set_shard_def)
qed

lemma ints_Promote:
  assumes "ints c" "PromoteNewMaster kv i m p c = Ok (c', n)"
  shows "ints c'" "cl_Name c' = cl_Name c"
proof -
  obtain sh where sh: "shard_in_range i c" "promoteNewMaster kv m p (cl_Shards c ! nat i) = Ok (sh, n)" "c' = set_shard (nat i) sh c"
    using assms(2) by (auto simp: PromoteNewMaster_def GetShard_def fail_def split: if_splits)
  have b: "ints_shard (cl_Shards c ! nat i)" using ints_nth [OF assms(1)] sh(1) by (simp add: in_range_nat)
  obtain old new where "master_index (cl_Shards c ! nat i) = Some old" "chosen kv old p (indexed (shard_Nodes (cl_Shards c ! nat i))) new"
    and s: "sh = (cl_Shards c ! nat i)\<lparr>shard_Nodes := (shard_Nodes (cl_Shards c ! nat i))[old := SetRole RoleSlave (shard_Nodes (cl_Shards c ! nat i) ! old),
        new := SetRole RoleMaster (shard_Nodes (cl_Shards c ! nat i) ! new)]\<rparr>"
    using promote_shape [OF sh(2)] by metis
  then have "old < length (shard_Nodes (cl_Shards c ! nat i))" "new < length (shard_Nodes (cl_Shards c ! nat i))"
    by (auto simp: master_index_Some chosen_def in_set_indexed)
  then have "ints_shard sh" using b unfolding s ints_shard_def
    by (auto simp: SetRole_def dest!: set_update_subset_insert [THEN subsetD])
  then show "ints c'" "cl_Name c' = cl_Name c" using ints_set_shard [OF assms(1)] sh(3) by (simp_all add: set_shard_def)
qed

lemma ints_end_migration: "ints c \<Longrightarrow> i < length (cl_Shards c) \<Longrightarrow> ints (end_migration i c)"
  unfolding end_migration_def by (rule ints_set_shard) (auto simp: ints_def ints_shard_def ClearMigrateState_def int64_def)

lemma ints_move:
  assumes "ints c" "i < length (cl_Shards c)" "t < length (cl_Shards c)"
  shows "ints (move_slots sortSlice i t slot c)"
proof -
  have "ints_shard (cl_Shards (move_slots sortSlice i t slot c) ! j)" if "j < length (cl_Shards c)" for j
    using ints_nth [OF assms(1) that] by (simp add: move_slots_nth [OF assms(2,3) that] ints_shard_def)
  then show ?thesis using assms(1) by (auto simp: ints_def in_set_conv_nth) (simp add: move_slots_def set_shard_def Let_def)
qed

lemma ints_MigrateSlot:
  assumes "ints c" "int64 t" "Cluster_MigrateSlot kv sortSlice slot t slotOnly c = Ok c'"
  shows "ints c'" "cl_Name c' = cl_Name c"
proof -
  obtain i where i: "findShardIndexBySlot slot c = Ok i" "shard_in_range t c"
    using assms(3) by (auto simp: Cluster_MigrateSlot_def fail_def Let_def split: if_splits)
  note l = found_in_range [OF i(1)]
  consider "c' = move_slots sortSlice i (nat t) slot (end_migration i c)"
    | "c' = set_shard i ((cl_Shards c ! i)\<lparr>shard_MigratingSlot := Some (FromSlotRange slot), shard_TargetShardIndex := t\<rparr>) c"
    using assms(3) i by (auto simp: Cluster_MigrateSlot_def fail_def end_migration_def Let_def split: if_splits option.splits)
  then have "ints c' \<and> cl_Name c' = cl_Name c"
  proof cases
    case 1
    then show ?thesis using ints_move [OF ints_end_migration [OF assms(1) l]] l i(2)
      by (simp add: in_range_nat) (simp add: move_slots_def end_migration_def set_shard_def Let_def)
  next
    case 2
    then show ?thesis using ints_set_shard [OF assms(1)] ints_nth [OF assms(1) l] assms(2) by (simp add: ints_shard_def set_shard_def)
  qed
  then show "ints c'" "cl_Name c' = cl_Name c" by simp_all
qed

lemma ints_NewCluster:
  assumes "NewCluster nw name nodes replicas = Ok c"
  shows "ints c" "cl_Name c = name"
proof -
  obtain r ranges where r: "0 < r" "r = nat (if replicas = 0 then 1 else replicas)" "r dvd length nodes" "nodes \<noteq> []" "0 \<le> replicas"
    "CalculateSlotRanges (length nodes div r) = Some ranges"
    and c: "c = \<lparr>cl_Name = name, cl_Version = 1, cl_Shards = map (\<lambda>i. NewShard\<lparr>shard_Nodes := new_shard_nodes nw nodes r i,
        shard_SlotRanges := [ranges ! i]\<rparr>) [0..<length nodes div r]\<rparr>"
    by (rule NewCluster_shape [OF assms])
  have "ints_shard (NewShard\<lparr>shard_Nodes := new_shard_nodes nw nodes r i, shard_SlotRanges := [ranges ! i]\<rparr>)" for i
    by (auto simp: ints_shard_def NewShard_def new_shard_nodes_def)
  then show "ints c" "cl_Name c = name" by (auto simp: c ints_def)
qed

lemma ints_password: "ints c \<Longrightarrow> ints (Cluster_SetPassword password c)"
  by (auto simp: ints_def ints_shard_def Cluster_SetPassword_def map_nodes_def SetPassword_def)

lemma ints_new_shard: "ints_shard (NewShard\<lparr>shard_Nodes := shard_nodes nw addrs password\<rparr>)"
  by (auto simp: ints_shard_def NewShard_def shard_nodes_def in_set_indexed)

lemma ints_add_shard: "ints c \<Longrightarrow> ints_shard sh \<Longrightarrow> ints (add_shard sh c)"
  by (auto simp: ints_def add_shard_def)

lemma ints_drop_shard: "ints c \<Longrightarrow> ints (drop_shard i c)"
  by (auto simp: ints_def drop_shard_def dest: in_set_takeD in_set_dropD)

lemma json_int_int64: "json_int into v = Ok n \<Longrightarrow> int64 n"
  by (auto simp: json_int_def int64_def errors_New_def unmarshal_error_def split: jsval.splits jsnum.splits if_splits)

lemma slot_err_not_Ok [simp]: "slot_err e \<noteq> Ok r"
  by (cases e) (simp_all add: slot_err_def wrap_def errors_New_def num_error_def)

lemma parse_range_valid: "parse_range s = Ok r \<Longrightarrow> valid_range r"
  using ParseSlotRange_valid by (cases "ParseSlotRange s") (auto simp: parse_range_def)

lemma SlotRange_decoded: "SlotRange_UnmarshalJSON v = Ok r \<Longrightarrow> valid_range r"
  by (cases v) (auto simp: SlotRange_UnmarshalJSON_def valid_range_def [of "\<lparr>Start = 0, Stop = 0\<rparr>"] MinSlotID_def MaxSlotID_def dest: parse_range_valid)

subsection \<open>The handlers\<close>

definition well_kept :: "('e \<Rightarrow> string \<Rightarrow> blob option) \<Rightarrow> 'e ClusterStore \<Rightarrow> bool" where
  "well_kept content s \<longleftrightarrow> tidy (content (cs_e s))
     \<and> (\<forall>ns n c. rg_clusters (store_abs content s) (ns, n) = Some c \<longrightarrow> wf_cluster c)"

lemma reg_namespace_clusters:
  "reg_CreateNamespace ns R = Ok R' \<Longrightarrow> rg_clusters R' = rg_clusters R" "reg_RemoveNamespace ns R = Ok R' \<Longrightarrow> rg_clusters R' = rg_clusters R"
  by (auto simp: reg_CreateNamespace_def reg_RemoveNamespace_def fail_def wrap_def split: if_splits)

lemma kept_or_error:
  "well_kept content s \<Longrightarrow> (\<And>x. r = Ok x \<Longrightarrow> well_kept content (snd (k x))) \<Longrightarrow> well_kept content (snd (or_error r s k))"
  by (cases r) (simp_all add: or_error_def)

lemma kept_or_bad:
  "well_kept content s \<Longrightarrow> (\<And>x. r = Ok x \<Longrightarrow> well_kept content (snd (k x))) \<Longrightarrow> well_kept content (snd (or_bad r s k))"
  by (cases r) (simp_all add: or_bad_def)

context engine_contract
begin

lemma kept_get:
  assumes "well_kept content s" "GetCluster E s ns n = Ok c"
  shows "wf_cluster c" "ints c" "cl_Name c = n" "plain ns" "plain n"
proof -
  have t: "tidy (content (cs_e s))" using assms(1) by (simp add: well_kept_def)
  have c: "rg_clusters (store_abs content s) (ns, n) = Some c"
    using assms(2) by (auto simp: GetCluster_reg [OF t] reg_GetCluster_def wrap_def split: option.splits)
  show "wf_cluster c" using assms(1) c by (auto simp: well_kept_def)
  show "ints c" "cl_Name c = n" using tidy_registry(1) [OF t] c by (auto simp: store_abs_def intro: storable_ints)
  show "plain ns" "plain n" using tidy_registry(3) [OF t] c by (auto simp: store_abs_def)
qed

lemma kept_put:
  assumes "well_kept content s" "tidy (content (cs_e s'))" "store_abs content s' = reg_put ns c (store_abs content s)" "wf_cluster c"
  shows "well_kept content s'"
  using assms by (auto simp: well_kept_def reg_put_def split: if_splits)

lemma kept_update:
  assumes "well_kept content s" "plain ns" "plain (cl_Name c)" "wf_cluster c" "ints c" "env_E env = E"
  shows "well_kept content (snd (update_cluster ns c answer env s))"
  unfolding update_cluster_def assms(6)
proof (rule kept_or_error [OF assms(1)], clarsimp)
  fix s' c' assume u: "UpdateCluster E ns c s = Ok (s', c')"
  have "tidy (content (cs_e s))" using assms(1) by (simp add: well_kept_def)
  note u = UpdateCluster_reg(2) [OF this assms(2,3) wf_storable [OF assms(4,5)] u]
  then have "wf_cluster c'" using assms(4) by (simp add: wf_version)
  with u show "well_kept content s'" using kept_put [OF assms(1)] by blast
qed

lemma kept_create:
  assumes "well_kept content s" "plain ns" "plain (cl_Name c)" "wf_cluster c" "ints c" "CreateCluster E ns c s = Ok s'"
  shows "well_kept content s'"
proof -
  have t: "tidy (content (cs_e s))" using assms(1) by (simp add: well_kept_def)
  note r = CreateCluster_reg [OF t assms(2,3) wf_storable [OF assms(4,5)]]
  have "reg_CreateCluster ns c (store_abs content s) = Ok (store_abs content s')" using r(1) assms(6) by simp
  then have "store_abs content s' = reg_put ns c (store_abs content s)" by (simp add: reg_CreateCluster_def wrap_def split: if_splits)
  then show ?thesis using kept_put [OF assms(1) r(2) [OF assms(6)]] assms(4) by blast
qed

lemma kept_fewer:
  assumes "well_kept content s" "tidy (content (cs_e s'))"
    and "\<And>p. rg_clusters (store_abs content s') p = None \<or> rg_clusters (store_abs content s') p = rg_clusters (store_abs content s) p"
  shows "well_kept content s'"
  using assms unfolding well_kept_def by (metis option.simps(3))

lemma kept_remove:
  assumes "well_kept content s" "plain ns" "plain n" "RemoveCluster E ns n s = Ok s'"
  shows "well_kept content s'"
proof -
  have t: "tidy (content (cs_e s))" using assms(1) by (simp add: well_kept_def)
  have "reg_RemoveCluster ns n (store_abs content s) = Ok (store_abs content s')"
    using RemoveCluster_reg(1) [OF t assms(2,3)] assms(4) by simp
  then have "store_abs content s' = (store_abs content s)\<lparr>rg_clusters := (rg_clusters (store_abs content s))((ns, n) := None)\<rparr>"
    by (simp add: reg_RemoveCluster_def fail_def split: if_splits)
  then show ?thesis using kept_fewer [OF assms(1) RemoveCluster_reg(2) [OF t assms(2-4)]] by simp
qed

lemma kept_namespaces:
  assumes "well_kept content s" "plain ns"
  shows "CreateNamespace E ns s = Ok s' \<Longrightarrow> well_kept content s'" "RemoveNamespace E ns s = Ok s' \<Longrightarrow> well_kept content s'"
proof -
  have t: "tidy (content (cs_e s))" using assms(1) by (simp add: well_kept_def)
  show "well_kept content s'" if c: "CreateNamespace E ns s = Ok s'"
  proof -
    have "reg_CreateNamespace ns (store_abs content s) = Ok (store_abs content s')" using CreateNamespace_reg(1) [OF t assms(2)] c by simp
    then have "rg_clusters (store_abs content s') = rg_clusters (store_abs content s)"
      by (rule reg_namespace_clusters)
    then show ?thesis using kept_fewer [OF assms(1) CreateNamespace_reg(2) [OF t assms(2) c]] by simp
  qed
  show "well_kept content s'" if c: "RemoveNamespace E ns s = Ok s'"
  proof -
    have "reg_RemoveNamespace ns (store_abs content s) = Ok (store_abs content s')" using RemoveNamespace_reg(1) [OF t assms(2)] c by simp
    then have "rg_clusters (store_abs content s') = rg_clusters (store_abs content s)"
      by (rule reg_namespace_clusters)
    then show ?thesis using kept_fewer [OF assms(1) RemoveNamespace_reg(2) [OF t assms(2) c]] by simp
  qed
qed

end

lemma plain_segments:
  assumes "p \<in> set (api_path url)"
  shows "plain p"
proof -
  have "d \<notin> set q" if "q \<in> set (js_split d s)" for d q and s :: string
    using that by (induction s arbitrary: q) (auto split: if_splits list.splits)
  then show ?thesis using assms by (auto simp: api_path_def plain_def Let_def split: if_splits)
qed

lemma NewCluster_shards:
  assumes "NewCluster nw name nodes replicas = Ok c"
  shows "length (cl_Shards c) \<le> length nodes"
  by (rule NewCluster_shape [OF assms]) simp

lemma password_shape: "length (cl_Shards (Cluster_SetPassword p c)) = length (cl_Shards c)" "cl_Name (Cluster_SetPassword p c) = cl_Name c"
  by (simp_all add: Cluster_SetPassword_def map_nodes_def)

definition tame :: "request \<Rightarrow> bool" where
  \<comment> \<open>The names it creates can be segments of a path, it creates at most 16384 shards, and it imports nothing.\<close>
  "tame req = (case req of
       POST url body \<Rightarrow> (case api_path url of
           [a] \<Rightarrow> (case namespace_request body of Ok ns \<Rightarrow> ns = [] \<or> plain ns | _ \<Rightarrow> True)
         | [a, ns, b] \<Rightarrow> (case create_cluster_request body of Ok r \<Rightarrow> plain (cr_Name r) \<and> length (cr_Nodes r) \<le> 16384 | _ \<Rightarrow> True)
         | [a, ns, b, n, c] \<Rightarrow> c \<noteq> ''import''
         | _ \<Rightarrow> True)
     | _ \<Rightarrow> True)"

text \<open>Reading changes nothing.\<close>

lemma or_error_same: "(\<And>x. r = Ok x \<Longrightarrow> snd (k x) = s) \<Longrightarrow> snd (or_error r s k) = s"
  by (cases r) (simp_all add: or_error_def)

lemma reads_keep [simp]:
  "snd (NoRoute env s) = s" "snd (Namespace_List env s) = s" "snd (Namespace_Exists ns env s) = s"
  "snd (RequiredNamespace ns (Cluster_List ns) env s) = s" "snd (RequiredCluster ns n Cluster_Get env s) = s"
  "snd (RequiredCluster ns n Shard_List env s) = s" "snd (RequiredClusterShard ns n sh (\<lambda>_ _. Shard_Get) env s) = s"
  "snd (RequiredClusterShard ns n sh (\<lambda>_ _. Node_List) env s) = s"
  unfolding NoRoute_def Namespace_List_def Namespace_Exists_def RequiredNamespace_def RequiredCluster_def RequiredClusterShard_def
    Cluster_List_def Cluster_Get_def Shard_List_def Shard_Get_def Node_List_def
  by (auto split: sum.splits go.splits intro!: or_error_same)

locale server = engine_contract E content + slice_sorting sortSlice
  for E :: "'e engine" and content and sortSlice +
  fixes env :: "'e env"
  assumes env: "env_E env = E" "env_sort env = sortSlice"
begin

lemma kept_required_cluster:
  assumes "well_kept content s" "\<And>c. GetCluster E s ns n = Ok c \<Longrightarrow> well_kept content (snd (k c env s))"
  shows "well_kept content (snd (RequiredCluster ns n k env s))"
  unfolding RequiredCluster_def env by (rule kept_or_error [OF assms(1)]) (rule assms(2))

lemma kept_required_shard:
  assumes "well_kept content s" "\<And>c i sh. GetCluster E s ns n = Ok c \<Longrightarrow> well_kept content (snd (k c i sh env s))"
  shows "well_kept content (snd (RequiredClusterShard ns n shard k env s))"
  unfolding RequiredClusterShard_def env
  by (rule kept_or_error [OF assms(1)]) (auto simp: assms(1) split: sum.splits intro!: kept_or_error assms(2))

lemma kept_required_namespace:
  assumes "well_kept content s" "well_kept content (snd (k env s))"
  shows "well_kept content (snd (RequiredNamespace ns k env s))"
  unfolding RequiredNamespace_def by (rule kept_or_error [OF assms(1)]) (simp add: assms)

text \<open>What a handler keeps that changes the cluster it was given.\<close>

lemma kept_change:
  assumes "well_kept content s" "GetCluster E s ns n = Ok c" "wf_cluster c'" "ints c'" "cl_Name c' = cl_Name c"
  shows "well_kept content (snd (update_cluster ns c' answer env s))"
  using kept_get [OF assms(1,2)] assms(5) by (intro kept_update [OF assms(1) _ _ assms(3,4) env(1)]) simp_all

lemma kept_Cluster_Create:
  assumes "well_kept content s" "plain ns" "\<And>r. create_cluster_request body = Ok r \<Longrightarrow> plain (cr_Name r) \<and> length (cr_Nodes r) \<le> 16384"
  shows "well_kept content (snd (Cluster_Create ns header body env s))"
  unfolding Cluster_Create_def env
proof (rule kept_or_bad [OF assms(1)], rule kept_or_error [OF assms(1)], rule kept_or_bad [OF assms(1)])
  fix req u cluster assume r: "create_cluster_request body = Ok req" "NewCluster (env_nw env) (cr_Name req) (cr_Nodes req) (cr_Replicas req) = Ok cluster"
  define c where "c = Cluster_SetPassword (cr_Password req) cluster"
  have "length (cl_Shards cluster) \<le> 16384" using NewCluster_shards [OF r(2)] assms(3) [OF r(1)] by simp
  then have "wf_cluster c" "ints c" "plain (cl_Name c)"
    using wf_password [OF wf_NewCluster [OF r(2)]] ints_password [OF ints_NewCluster(1) [OF r(2)]] ints_NewCluster(2) [OF r(2)] assms(3) [OF r(1)]
    by (simp_all add: c_def password_shape)
  then have "well_kept content s'" if "CreateCluster E ns c s = Ok s'" for s' using kept_create [OF assms(1,2)] that by blast
  then show "well_kept content (snd (let cluster = Cluster_SetPassword (cr_Password req) cluster;
        checkClusterMode = (js_toLowerCase header = ''yes'')
      in case (if checkClusterMode then check_cluster_modes (env_kv env) (GetNodes cluster) else None) of
           Some r \<Rightarrow> (r, s)
         | None \<Rightarrow> or_error (CreateCluster E ns cluster s) s (\<lambda>s'.
             (ResponseCreated (JObj [(''cluster'', Cluster_MarshalJSON cluster)]), s'))))"
    using assms(1) by (auto simp: Let_def c_def split: option.splits intro!: kept_or_error)
qed

lemma kept_Cluster_MigrateSlot:
  assumes "well_kept content s"
  shows "well_kept content (snd (Cluster_MigrateSlot_handler ns n body env s))"
  unfolding Cluster_MigrateSlot_handler_def env
proof (rule kept_or_error [OF assms], rule kept_or_bad [OF assms], rule kept_or_error [OF assms])
  fix c req c' assume a: "GetCluster E s ns n = Ok c" "migrate_slot_request body = Ok req"
    "Cluster_MigrateSlot (env_kv env) sortSlice (mr_Slot req) (mr_Target req) (mr_SlotOnly req) c = Ok c'"
  have "int64 (mr_Target req)" "valid_range (mr_Slot req)" using a(2) by (auto simp: migrate_slot_request_def dest: json_int_int64 SlotRange_decoded)
  note b = kept_get [OF assms a(1)]
  show "well_kept content (snd (update_cluster ns c' (\<lambda>c. ResponseOK (JObj [(''cluster'', Cluster_MarshalJSON c)])) env s))"
    by (rule kept_change [OF assms a(1)]) (use b wf_MigrateSlot [OF _ _ a(3)] ints_MigrateSlot [OF _ _ a(3)] \<open>int64 _\<close> \<open>valid_range _\<close> in blast)+
qed

lemma kept_Shard_Create:
  assumes "well_kept content s" "GetCluster E s ns n = Ok c"
  shows "well_kept content (snd (Shard_Create ns body c env s))"
  unfolding Shard_Create_def
proof (rule kept_or_bad [OF assms(1)])
  fix x assume "nodes_request body = Ok x"
  obtain nodes password where x: "x = (nodes, password)" by (cases x)
  note b = kept_get [OF assms]
  have "wf_cluster (add_shard (NewShard\<lparr>shard_Nodes := shard_nodes nw nodes password\<rparr>) c)" if "nodes \<noteq> []" for nw
    using wf_add_shard [OF b(1) wf_new_shard [OF that]] by (simp add: NewShard_def)
  then show "well_kept content (snd (case x of (nodes, password) \<Rightarrow> if length nodes = 0 then (bad_request ''nodes should NOT be empty'', s)
       else (let newShard = NewShard\<lparr>shard_Nodes := shard_nodes (env_nw env) nodes password\<rparr> in
         update_cluster ns (add_shard newShard c) (\<lambda>_. ResponseCreated (JObj [(''shard'', Shard_json newShard)])) env s)))"
    using assms(1) kept_change [OF assms] ints_add_shard [OF b(2) ints_new_shard] by (auto simp: x Let_def add_shard_def)
qed

lemma kept_Shard_Remove:
  assumes "well_kept content s" "GetCluster E s ns n = Ok c"
  shows "well_kept content (snd (Shard_Remove ns shard c env s))"
proof (cases "Atoi shard")
  case (Inl e)
  then show ?thesis using assms(1) by (simp add: Shard_Remove_def kept_or_bad)
next
  case (Inr i)
  note b = kept_get [OF assms]
  have "wf_cluster (drop_shard (nat i) c)" if "shard_in_range i c" "\<not> IsServicing (cl_Shards c ! nat i)"
    using that wf_drop_shard [OF b(1)] by (simp add: in_range_nat)
  then show ?thesis
    using Inr assms(1) kept_change [OF assms _ ints_drop_shard [OF b(2)]] by (simp add: Shard_Remove_def drop_shard_def)
qed

lemma kept_Shard_Failover:
  assumes "well_kept content s" "GetCluster E s ns n = Ok c"
  shows "well_kept content (snd (Shard_Failover ns body c i env s))"
  unfolding Shard_Failover_def
proof (rule kept_or_bad [OF assms(1)])
  fix preferred
  note b = kept_get [OF assms]
  have "well_kept content (snd (update_cluster ns c' answer env s))"
    if p: "PromoteNewMaster (env_kv env) i [] preferred c = Ok (c', newID)" for c' newID answer
    using kept_change [OF assms wf_Promote [OF b(1) p] ints_Promote [OF b(2) p]] .
  then show "well_kept content (snd (if length preferred > 0 \<and> length preferred \<noteq> NodeIDLen then (bad_request (''invalid node id: '' @ preferred), s)
       else or_error (PromoteNewMaster (env_kv env) i [] preferred c) s (\<lambda>(cluster, newMasterNodeID).
         update_cluster ns cluster (\<lambda>_. ResponseOK (JObj [(''new_master_id'', JStr newMasterNodeID)])) env s)))"
    using assms(1) by (auto intro!: kept_or_error split: prod.splits)
qed

lemma kept_Node_Create:
  assumes "well_kept content s" "GetCluster E s ns n = Ok c"
  shows "well_kept content (snd (Node_Create ns body c i env s))"
  unfolding Node_Create_def
proof (rule kept_or_bad [OF assms(1)])
  fix x :: "string \<times> string \<times> string"
  obtain addr role password where x: "x = (addr, role, password)" by (cases x)
  note b = kept_get [OF assms]
  have "well_kept content (snd (update_cluster ns c' answer env s))" if p: "AddNode nw i addr r password c = Ok (c', node)" for nw r c' node answer
    using kept_change [OF assms wf_AddNode [OF b(1) p] ints_AddNode [OF b(2) p]] .
  then show "well_kept content (snd (case x of (addr, role, password) \<Rightarrow>
       let role = (if role = [] then RoleSlave else role) in
       or_error (AddNode (env_nw env 0) i addr role password c) s (\<lambda>(cluster, newNode).
         update_cluster ns cluster (\<lambda>_. ResponseCreated (JStr (cn_id newNode))) env s)))"
    using assms(1) by (auto simp: x Let_def intro!: kept_or_error split: prod.splits)
qed

lemma kept_Node_Remove:
  assumes "well_kept content s" "GetCluster E s ns n = Ok c"
  shows "well_kept content (snd (Node_Remove ns nodeID c i env s))"
  unfolding Node_Remove_def
proof (rule kept_or_error [OF assms(1)])
  fix c' assume p: "RemoveNode i nodeID c = Ok c'"
  note b = kept_get [OF assms]
  show "well_kept content (snd (update_cluster ns c' (\<lambda>_. ResponseNoContent) env s))"
    using kept_change [OF assms wf_RemoveNode [OF b(1) p] ints_RemoveNode [OF b(2) p]] .
qed

lemma kept_serve:
  assumes "well_kept content s" "tame req"
  shows "well_kept content (snd (serve req env s))"
proof -
  note rules = kept_required_cluster [OF assms(1)] kept_required_shard [OF assms(1)] kept_required_namespace [OF assms(1)]
    kept_Cluster_MigrateSlot [OF assms(1)] kept_Shard_Create [OF assms(1)] kept_Shard_Remove [OF assms(1)]
    kept_Shard_Failover [OF assms(1)] kept_Node_Create [OF assms(1)] kept_Node_Remove [OF assms(1)]
  show ?thesis
  proof (cases req)
    case (GET url)
    have "snd (serve_get ps env s) = s" for ps
      by (simp add: serve_get_def split: list.split)
    then show ?thesis using assms(1) by (simp add: GET serve_def)
  next
    case (POST url body)
    have r: "well_kept content (snd (Namespace_Create body env s))" if "case namespace_request body of Ok ns \<Rightarrow> ns = [] \<or> plain ns | _ \<Rightarrow> True"
      unfolding Namespace_Create_def env
      by (rule kept_or_bad [OF assms(1)]) (use that assms(1) kept_namespaces(1) [OF assms(1)] in \<open>auto intro!: kept_or_error\<close>)
    have p: "plain ns" if "api_path url = [a, ns, b]" for a ns b using plain_segments [of ns url] that by simp
    show ?thesis using assms(2) r p
      by (auto simp: POST serve_def serve_post_def tame_def assms(1) split: list.splits go.splits intro!: rules kept_Cluster_Create [OF assms(1)])
  next
    case (DELETE url)
    have r: "well_kept content (snd (Namespace_Remove ns env s))" if "plain ns" for ns
      unfolding Namespace_Remove_def env using kept_namespaces(2) [OF assms(1) that] by (auto intro!: kept_or_error [OF assms(1)])
    have q: "well_kept content (snd (Cluster_Remove ns n env s))" if "plain ns" "plain n" for ns n
      unfolding Cluster_Remove_def env using kept_remove [OF assms(1) that] by (auto intro!: kept_or_error [OF assms(1)])
    have p: "plain q" if "q \<in> set (api_path url)" for q using plain_segments [OF that] .
    show ?thesis using p r q
      by (auto simp: DELETE serve_def serve_delete_def assms(1) split: list.splits intro!: rules)
  qed
qed

end

text \<open>The server over the engine in memory.\<close>

definition memory_env :: "kvrocks \<Rightarrow> (Shard list \<Rightarrow> Shard list) \<Rightarrow> (nat \<Rightarrow> spawn) \<Rightarrow> mock env" where
  "memory_env kv sortShards nw =
     \<lparr>env_E = Mock, env_kv = kv, env_sort = sort_key Start, env_sortShards = sortShards, env_nw = nw\<rparr>"

interpretation memory: server Mock map_of "sort_key Start" "memory_env kv sortShards nw" for kv sortShards nw
  by unfold_locales (simp_all add: memory_env_def)

end
