(* ===== verification/Checker.thy ===== *)
theory Checker
  imports Server
begin

text \<open>
  The checker of a cluster, \<^verbatim>\<open>src/controller/cluster.go\<close>. It probes the nodes, replaces a master that does not answer, brings
  nodes with an old topology up to date, and follows the migrations. The probes of one round run at the same
  time and meet in locks and in the store; the model runs them one after the other, in any order. Tickers
  and channels only say when a step happens.
\<close>

section \<open>Probing\<close>

datatype probe = Probed int | Restoring | NotInitialized | Unreachable err | ProbePanic

definition ErrClusterNotInitialized :: string where
  "ErrClusterNotInitialized = ''CLUSTERDOWN The cluster is not initialized''"

definition ErrRestoringBackUp :: string where
  "ErrRestoringBackUp = ''LOADING kvrocks is restoring the db from backup''"

definition probeNode :: "kvrocks \<Rightarrow> ClusterNode \<Rightarrow> probe" where
  "probeNode kv n = (case GetClusterInfo kv n of
       Ok info \<Rightarrow> Probed (ci_CurrentEpoch info)
     | Fail e \<Rightarrow>
         if js_includes (err_text e) ErrRestoringBackUp then Restoring
         else if js_includes (err_text e) ErrClusterNotInitialized then NotInitialized
         else Unreachable e
     | Panic \<Rightarrow> ProbePanic)"

definition WithPingInterval :: "int \<Rightarrow> int" where
  \<comment> \<open>In milliseconds.\<close>
  "WithPingInterval interval = (if interval < 200 then 200 else interval)"

definition WithMaxFailureCount :: "int \<Rightarrow> int" where
  "WithMaxFailureCount limit = (if limit < 1 then 5 else limit)"

type_synonym counts = "string \<Rightarrow> int option"

definition resetFailureCount :: "string \<Rightarrow> counts \<Rightarrow> counts" where
  "resetFailureCount nodeID f = f(nodeID := None)"

definition failure_count :: "counts \<Rightarrow> string \<Rightarrow> int" where
  "failure_count f nodeID = (case f nodeID of None \<Rightarrow> 0 | Some k \<Rightarrow> k)"

definition increaseFailureCount ::
  "'e env \<Rightarrow> int \<Rightarrow> string \<Rightarrow> string \<Rightarrow> nat \<Rightarrow> ClusterNode \<Rightarrow> counts \<times> 'e ClusterStore \<Rightarrow> (int \<times> counts \<times> 'e ClusterStore) go" where
  \<comment> \<open>The count of the node, and what is left; an error of the promotion or of the store is only logged.\<close>
  "increaseFailureCount env maxFailureCount ns name shardIndex node st =
     (let (f, s) = st;
          count = failure_count f (cn_id node) + 1;
          f = f(cn_id node \<mapsto> count)
      in if \<not> IsMaster node then Ok (count, f, s)
         else if count mod maxFailureCount = 0 then
           (case GetCluster (env_E env) s ns name of
              Panic \<Rightarrow> Panic
            | Fail _ \<Rightarrow> Ok (count, f, s)
            | Ok cluster \<Rightarrow> (case PromoteNewMaster (env_kv env) (int shardIndex) (cn_id node) [] cluster of
                Panic \<Rightarrow> Panic
              | Fail _ \<Rightarrow> Ok (count, f, s)
              | Ok (cluster, newMasterID) \<Rightarrow>
                  (let f = resetFailureCount newMasterID f in
                   case UpdateCluster (env_E env) ns cluster s of
                     Panic \<Rightarrow> Panic
                   | Fail _ \<Rightarrow> Ok (count, f, s)
                   | Ok (s', _) \<Rightarrow> Ok (count, f, s'))))
         else Ok (count, f, s))"

record 'e probe_state =
  pr_counts :: counts
  pr_store :: "'e ClusterStore"
  pr_latestNodeVersion :: int
  pr_latestClusterNodesStr :: string
  pr_sent :: "(ClusterNode \<times> string list) list"

definition probe_step :: "'e env \<Rightarrow> int \<Rightarrow> string \<Rightarrow> Cluster \<Rightarrow> nat \<times> ClusterNode \<Rightarrow> 'e probe_state \<Rightarrow> 'e probe_state go" where
  \<comment> \<open>The goroutine of \<^verbatim>\<open>parallelProbeNodes\<close> for one node.\<close>
  "probe_step env maxFailureCount ns cluster = (\<lambda>(shardIdx, n) st.
     let go_on = (\<lambda>version.
        if version < cl_Version cluster then
          (case SyncClusterInfo (env_kv env) cluster n of
             (sent, Panic) \<Rightarrow> Panic
           | (sent, _) \<Rightarrow> Ok (st\<lparr>pr_sent := pr_sent st @ sent, pr_counts := resetFailureCount (cn_id n) (pr_counts st)\<rparr>))
        else if version > cl_Version cluster \<and> version > pr_latestNodeVersion st then
          (case GetClusterNodesString (env_kv env) n of
             Panic \<Rightarrow> Panic
           | Fail _ \<Rightarrow> Ok (st\<lparr>pr_latestNodeVersion := version, pr_latestClusterNodesStr := [],
               pr_counts := resetFailureCount (cn_id n) (pr_counts st)\<rparr>)
           | Ok clusterNodesStr \<Rightarrow> Ok (st\<lparr>pr_latestNodeVersion := version, pr_latestClusterNodesStr := clusterNodesStr,
               pr_counts := resetFailureCount (cn_id n) (pr_counts st)\<rparr>))
        else Ok (st\<lparr>pr_counts := resetFailureCount (cn_id n) (pr_counts st)\<rparr>))
     in case probeNode (env_kv env) n of
          ProbePanic \<Rightarrow> Panic
        | Restoring \<Rightarrow> Ok st
        | Unreachable _ \<Rightarrow>
            gbind (increaseFailureCount env maxFailureCount ns (cl_Name cluster) shardIdx n (pr_counts st, pr_store st)) (\<lambda>(count, f, s).
              Ok (st\<lparr>pr_counts := f, pr_store := s\<rparr>))
        | NotInitialized \<Rightarrow> go_on (-1)
        | Probed version \<Rightarrow> go_on version)"

definition refresh_cluster :: "'e env \<Rightarrow> string \<Rightarrow> Cluster \<Rightarrow> int \<Rightarrow> string \<Rightarrow> 'e ClusterStore \<Rightarrow> 'e ClusterStore go" where
  \<comment> \<open>The end of \<^verbatim>\<open>parallelProbeNodes\<close>: a node knows a later topology than the store.\<close>
  "refresh_cluster env ns cluster latestNodeVersion latestClusterNodesStr s =
     (if latestNodeVersion > cl_Version cluster \<and> latestClusterNodesStr \<noteq> [] then
        (case ParseCluster (env_sortShards env) latestClusterNodesStr of
           Panic \<Rightarrow> Panic
         | Fail _ \<Rightarrow> Ok s
         | Ok latest \<Rightarrow>
             if cl_Shards cluster = [] \<or> shard_Nodes (hd (cl_Shards cluster)) = [] then Panic
             else (case SetCluster (env_E env) ns (Cluster_SetPassword (cn_password (hd (shard_Nodes (hd (cl_Shards cluster))))) (latest\<lparr>cl_Name := cl_Name cluster\<rparr>)) s of
                 Ok s' \<Rightarrow> Ok s' | Fail _ \<Rightarrow> Ok s | Panic \<Rightarrow> Panic))
      else Ok s)"

definition shard_nodes_of :: "Cluster \<Rightarrow> (nat \<times> ClusterNode) list" where
  "shard_nodes_of cluster = concat (map (\<lambda>(i, sh). map (Pair i) (shard_Nodes sh)) (indexed (cl_Shards cluster)))"

definition parallelProbeNodes :: "'e env \<Rightarrow> int \<Rightarrow> string \<Rightarrow> (nat \<times> ClusterNode) list \<Rightarrow> Cluster \<Rightarrow> counts \<times> 'e ClusterStore \<Rightarrow> 'e probe_state go" where
  \<comment> \<open>The list is the order in which the probes come to their locks.\<close>
  "parallelProbeNodes env maxFailureCount ns order cluster st =
     gbind (go_fold (probe_step env maxFailureCount ns cluster) order
       \<lparr>pr_counts = fst st, pr_store = snd st, pr_latestNodeVersion = 0, pr_latestClusterNodesStr = [], pr_sent = []\<rparr>) (\<lambda>pr.
     gbind (refresh_cluster env ns cluster (pr_latestNodeVersion pr) (pr_latestClusterNodesStr pr) (pr_store pr)) (\<lambda>s.
       Ok (pr\<lparr>pr_store := s\<rparr>)))"

definition syncClusterToNodes :: "'e env \<Rightarrow> string \<Rightarrow> string \<Rightarrow> 'e ClusterStore \<Rightarrow> (ClusterNode \<times> string list) list go" where
  \<comment> \<open>The commands, node by node; each node gets its own goroutine.\<close>
  "syncClusterToNodes env ns name s =
     gbind (GetCluster (env_E env) s ns name) (\<lambda>cluster.
       Ok (concat (map (\<lambda>n. fst (SyncClusterInfo (env_kv env) cluster n)) (GetNodes cluster))))"

section \<open>Migrations\<close>

text \<open>
  The clone that the checker works on, the store, and what the checker holds. After the first commit the
  checker holds the clone itself, so that later changes of the clone show there.
\<close>

record 'e migration_state =
  mg_cluster :: Cluster
  mg_store :: "'e ClusterStore"
  mg_cached :: "Cluster option"
  mg_shared :: bool

datatype verdict = Continue | Return

definition refused_update :: "'e engine \<Rightarrow> string \<Rightarrow> Cluster \<Rightarrow> 'e ClusterStore \<Rightarrow> Cluster" where
  \<comment> \<open>What a failed \<^verbatim>\<open>UpdateCluster\<close> leaves of its argument: the version grows before the engine is asked.\<close>
  "refused_update E ns c s = (case check_version E ns c s of
       Ok _ \<Rightarrow> c\<lparr>cl_Version := wrap64 (cl_Version c + 1)\<rparr> | _ \<Rightarrow> c)"

definition commit_migration :: "'e env \<Rightarrow> string \<Rightarrow> Cluster \<Rightarrow> 'e migration_state \<Rightarrow> (verdict \<times> 'e migration_state) go" where
  \<comment> \<open>Writing the changed cluster; when that fails the checker gives up for this round.\<close>
  "commit_migration env ns c st = (case UpdateCluster (env_E env) ns c (mg_store st) of
       Panic \<Rightarrow> Panic
     | Fail _ \<Rightarrow> (let c' = refused_update (env_E env) ns c (mg_store st) in
         Ok (Return, st\<lparr>mg_cluster := c', mg_cached := (if mg_shared st then Some c' else mg_cached st)\<rparr>))
     | Ok (s', c') \<Rightarrow> Ok (Continue, \<lparr>mg_cluster = c', mg_store = s', mg_cached = Some c', mg_shared = True\<rparr>))"

definition migration_step :: "'e env \<Rightarrow> string \<Rightarrow> nat \<Rightarrow> 'e migration_state \<Rightarrow> (verdict \<times> 'e migration_state) go" where
  \<comment> \<open>One iteration of \<^verbatim>\<open>tryUpdateMigrationStatus\<close>. A shard without a master, or a source node that reports no
      migrating slot, is a nil pointer.\<close>
  "migration_step env ns i st =
     (let c = mg_cluster st; shard = cl_Shards c ! i in
      if \<not> IsMigrating shard then Ok (Continue, st)
      else (case GetMasterNode shard of
          None \<Rightarrow> Panic
        | Some sourceNode \<Rightarrow> (case GetClusterInfo (env_kv env) sourceNode of
            Panic \<Rightarrow> Panic
          | Fail _ \<Rightarrow> Ok (Continue, st)
          | Ok info \<Rightarrow> (case ci_MigratingSlot info of
              None \<Rightarrow> Panic
            | Some reported \<Rightarrow>
                (let slot = ms_SlotRange (the (shard_MigratingSlot shard)) in
                 if \<not> SlotRange_Equal (ms_SlotRange reported) slot then Ok (Continue, st)
                 else if \<not> shard_in_range (shard_TargetShardIndex shard) c then Ok (Return, st)
                 else if ci_MigratingState info = ''none'' \<or> ci_MigratingState info = ''start'' then Ok (Continue, st)
                 else if ci_MigratingState info = ''success'' then commit_migration env ns (complete_migration (env_sort env) i slot c) st
                 else commit_migration env ns (end_migration i c) st)))))"

fun migration_loop :: "'e env \<Rightarrow> string \<Rightarrow> nat list \<Rightarrow> 'e migration_state \<Rightarrow> 'e migration_state go" where
  "migration_loop env ns [] st = Ok st"
| "migration_loop env ns (i # is) st =
     gbind (migration_step env ns i st) (\<lambda>(v, st). if v = Return then Ok st else migration_loop env ns is st)"

definition tryUpdateMigrationStatus :: "'e env \<Rightarrow> string \<Rightarrow> Cluster \<Rightarrow> Cluster option \<Rightarrow> 'e ClusterStore \<Rightarrow> 'e migration_state go" where
  "tryUpdateMigrationStatus env ns clonedCluster cached s =
     migration_loop env ns [0..<length (cl_Shards clonedCluster)] \<lparr>mg_cluster = clonedCluster, mg_store = s, mg_cached = cached, mg_shared = False\<rparr>"

section \<open>The checker keeps every stored cluster well formed\<close>

lemma ints_complete_migration:
  assumes "ints c" "i < length (cl_Shards c)" "shard_in_range (shard_TargetShardIndex (cl_Shards c ! i)) c"
  shows "ints (complete_migration sortSlice i slot c)"
proof -
  have "nat (shard_TargetShardIndex (cl_Shards c ! i)) < length (cl_Shards c)" using assms(3) by (simp add: in_range_nat)
  then show ?thesis
    using ints_move [OF ints_end_migration [OF assms(1,2)], of i "nat (shard_TargetShardIndex (cl_Shards c ! i))"] assms(2)
    by (simp add: complete_migration_def end_move)
qed

lemma migration_names [simp]:
  "cl_Name (end_migration i c) = cl_Name c" "cl_Name (complete_migration sortSlice i slot c) = cl_Name c"
  "cl_Version (end_migration i c) = cl_Version c" "cl_Version (complete_migration sortSlice i slot c) = cl_Version c"
  "length (cl_Shards (complete_migration sortSlice i slot c)) = length (cl_Shards c)"
  by (simp_all add: complete_migration_def move_slots_def end_migration_def set_shard_def Let_def)

lemma IsMigrating_slot: "IsMigrating sh \<Longrightarrow> \<exists>m. shard_MigratingSlot sh = Some m"
  by (cases "shard_MigratingSlot sh") (simp_all add: IsMigrating_def)

definition copy_ok :: "Cluster \<Rightarrow> bool" where
  "copy_ok c \<longleftrightarrow> wf_cluster c \<and> ints c \<and> plain (cl_Name c)"

context server
begin

definition under_check :: "nat \<Rightarrow> 'e migration_state \<Rightarrow> bool" where
  "under_check k st \<longleftrightarrow> well_kept content (mg_store st) \<and> copy_ok (mg_cluster st) \<and> (\<forall>d. mg_cached st = Some d \<longrightarrow> copy_ok d)
     \<and> length (cl_Shards (mg_cluster st)) = k"

lemma kept_commit:
  assumes "under_check k st" "plain ns" "wf_cluster c" "ints c" "plain (cl_Name c)" "length (cl_Shards c) = k"
    and "commit_migration env ns c st = Ok (v, st')"
  shows "under_check k st'"
proof (cases "UpdateCluster E ns c (mg_store st)")
  case (Ok p)
  obtain s' c' where u: "UpdateCluster E ns c (mg_store st) = Ok (s', c')" using Ok by (cases p) auto
  have w: "well_kept content (mg_store st)" using assms(1) by (simp add: under_check_def)
  then have t: "tidy (content (cs_e (mg_store st)))" by (simp add: well_kept_def)
  have "well_kept content s'" using kept_update [OF w assms(2,5,3,4) env(1)] u by (simp add: update_cluster_def env or_error_def)
  moreover have "c' = c\<lparr>cl_Version := wrap64 (cl_Version c + 1)\<rparr>"
    using UpdateCluster_reg(2) [OF t assms(2,5) wf_storable [OF assms(3,4)] u] by blast
  ultimately show ?thesis using assms u by (auto simp: commit_migration_def env under_check_def copy_ok_def wf_version ints_def)
next
  case (Fail e)
  then show ?thesis using assms
    by (auto simp: commit_migration_def env under_check_def copy_ok_def refused_update_def wf_version ints_def Let_def split: go.splits if_splits)
qed (use assms in \<open>auto simp: commit_migration_def env\<close>)

lemma kept_migration_step:
  assumes "under_check k st" "plain ns" "i < k" "migration_step env ns i st = Ok (v, st')"
  shows "under_check k st'"
proof -
  define c where "c = mg_cluster st"
  have c: "wf_cluster c" "ints c" "plain (cl_Name c)" "length (cl_Shards c) = k" using assms(1) by (simp_all add: under_check_def copy_ok_def c_def)
  note commit = kept_commit [OF assms(1,2)]
  consider "st' = st"
    | "commit_migration env ns (end_migration i c) st = Ok (v, st')"
    | m where "shard_MigratingSlot (cl_Shards c ! i) = Some m" "shard_in_range (shard_TargetShardIndex (cl_Shards c ! i)) c"
        "commit_migration env ns (complete_migration sortSlice i (ms_SlotRange m) c) st = Ok (v, st')"
    using assms(4) IsMigrating_slot [of "cl_Shards c ! i"]
    by (auto simp: migration_step_def Let_def env c_def [symmetric] split: if_splits option.splits go.splits)
  then show ?thesis
  proof cases
    case 2
    then show ?thesis using commit wf_end_migration [OF c(1)] ints_end_migration [OF c(2)] c assms(3) by (metis length_end_migration migration_names(1))
  next
    case 3
    then show ?thesis
      using commit [OF wf_complete_migration [OF c(1) _ 3(1,2)] ints_complete_migration [OF c(2) _ 3(2)] _ _ 3(3)] c assms(3) by simp
  qed (use assms(1) in simp)
qed

lemma kept_migration_loop:
  assumes "under_check k st" "plain ns" "\<forall>i\<in>set is. i < k" "migration_loop env ns is st = Ok st'"
  shows "under_check k st'"
  using assms(1,3,4)
proof (induction "is" arbitrary: st)
  case (Cons i "is")
  then obtain v st1 where s: "migration_step env ns i st = Ok (v, st1)" "v = Return \<and> st' = st1 \<or> migration_loop env ns is st1 = Ok st'"
    by (auto split: if_splits)
  have "under_check k st1" using kept_migration_step [OF Cons.prems(1) assms(2) _ s(1)] Cons.prems(2) by simp
  with Cons s show ?case by auto
qed auto

lemma kept_tryUpdateMigrationStatus:
  assumes "well_kept content s" "copy_ok c" "plain ns" "tryUpdateMigrationStatus env ns c (Some c) s = Ok st"
  shows "well_kept content (mg_store st) \<and> (\<forall>d. mg_cached st = Some d \<longrightarrow> copy_ok d)"
  using kept_migration_loop [of "length (cl_Shards c)" _ ns _ st, OF _ assms(3) _ assms(4) [unfolded tryUpdateMigrationStatus_def]] assms(1,2)
  by (simp add: under_check_def)

lemma kept_increaseFailureCount:
  assumes "well_kept content s" "increaseFailureCount env limit ns name i node (f, s) = Ok (k, f', s')"
  shows "well_kept content s'"
proof (cases "s' = s")
  case False
  then obtain c c' newID c'' where p: "GetCluster E s ns name = Ok c" "PromoteNewMaster (env_kv env) (int i) (cn_id node) [] c = Ok (c', newID)"
    "UpdateCluster E ns c' s = Ok (s', c'')"
    using assms(2) by (auto simp: increaseFailureCount_def Let_def env split: if_splits go.splits)
  note g = kept_get [OF assms(1) p(1)]
  have "well_kept content (snd (update_cluster ns c' (\<lambda>_. Crash) env s))"
    using g ints_Promote [OF g(2) p(2)] wf_Promote [OF g(1) p(2)] by (intro kept_change [OF assms(1) p(1)]) simp_all
  then show ?thesis using p(3) by (simp add: update_cluster_def env or_error_def)
qed (use assms(1) in simp)

end

section \<open>The controller as a whole\<close>

text \<open>
  The store, and the copy of each cluster that its checker holds. Requests come in, the checkers probe and
  read the store, count failures and follow migrations, in any order; the answers of the nodes and what new
  nodes draw differ from step to step.
\<close>

inductive system :: "'e engine \<Rightarrow> slice_sort \<Rightarrow> 'e ClusterStore \<times> (string \<times> string \<Rightarrow> Cluster option) \<Rightarrow> 'e ClusterStore \<times> (string \<times> string \<Rightarrow> Cluster option) \<Rightarrow> bool"
  for E sortSlice where
  request: "env_E env = E \<Longrightarrow> env_sort env = sortSlice \<Longrightarrow> tame req \<Longrightarrow> system E sortSlice (s, m) (store_after env s req, m)"
| probed: "GetCluster E s ns n = Ok c \<Longrightarrow> system E sortSlice (s, m) (s, m((ns, n) \<mapsto> c))"
| failed: "env_E env = E \<Longrightarrow> env_sort env = sortSlice \<Longrightarrow> increaseFailureCount env limit ns n i node (f, s) = Ok (k, f', s') \<Longrightarrow>
    system E sortSlice (s, m) (s', m)"
| migrated: "env_E env = E \<Longrightarrow> env_sort env = sortSlice \<Longrightarrow> m (ns, n) = Some c \<Longrightarrow> tryUpdateMigrationStatus env ns c (Some c) s = Ok st \<Longrightarrow>
    system E sortSlice (s, m) (mg_store st, m((ns, n) := mg_cached st))"

definition in_order :: "('e \<Rightarrow> string \<Rightarrow> blob option) \<Rightarrow> 'e ClusterStore \<times> (string \<times> string \<Rightarrow> Cluster option) \<Rightarrow> bool" where
  "in_order content st \<longleftrightarrow> well_kept content (fst st) \<and> (\<forall>ns n c. snd st (ns, n) = Some c \<longrightarrow> copy_ok c \<and> plain ns)"

lemma system_in_order:
  assumes "engine_contract E content" "slice_sorting sortSlice" "system E sortSlice st st'" "in_order content st"
  shows "in_order content st'"
  using assms(3,4)
proof (cases rule: system.cases)
  case (request env req s m)
  have "server E content sortSlice env" using assms(1,2) request(3,4) by (simp add: server_def server_axioms_def)
  from server.kept_serve [OF this _ request(5)] show ?thesis using assms(4) request(1,2) by (simp add: in_order_def store_after_def)
next
  case (probed s ns n c m)
  have "well_kept content s" using assms(4) probed(1) by (simp add: in_order_def)
  from engine_contract.kept_get [OF assms(1) this probed(3)] show ?thesis
    using assms(4) probed(1,2) by (auto simp: in_order_def copy_ok_def)
next
  case (failed env limit ns n i node f s k f' s' m)
  have "server E content sortSlice env" using assms(1,2) failed(3,4) by (simp add: server_def server_axioms_def)
  from server.kept_increaseFailureCount [OF this _ failed(5)] show ?thesis using assms(4) failed(1,2) by (simp add: in_order_def)
next
  case (migrated env m ns n c s st1)
  have v: "server E content sortSlice env" using assms(1,2) migrated(3,4) by (simp add: server_def server_axioms_def)
  have c: "well_kept content s" "copy_ok c" "plain ns" using assms(4) migrated(1,5) by (auto simp: in_order_def)
  from server.kept_tryUpdateMigrationStatus [OF v c migrated(6)] show ?thesis
    using c(3) assms(4) migrated(1,2) by (auto simp: in_order_def)
qed

lemma system_all_in_order:
  assumes "engine_contract E content" "slice_sorting sortSlice" "(system E sortSlice)\<^sup>*\<^sup>* st st'" "in_order content st"
  shows "in_order content st'"
  using assms(3,4) by (induction rule: rtranclp_induct) (auto intro: system_in_order [OF assms(1,2)])

text \<open>
  C1: The controller never loses or doubles a slot. Starting with an empty store, after any sequence of
  requests, probes, failovers and finished migrations, with stale copies in the checkers, every cluster that
  the store returns assigns each of the 16384 slots to exactly one shard, and each of its shards has exactly
  one master. The names have no slash, a cluster has no more nodes than slots, and no topology is taken over
  from the nodes: an import and a refresh store whatever a node reports.
\<close>
theorem system_keeps_partition:
  assumes "engine_contract E content" "slice_sorting sortSlice" "content (cs_e s0) = (\<lambda>_. None)"
    and "(system E sortSlice)\<^sup>*\<^sup>* (s0, \<lambda>_. None) (s, m)" "GetCluster E s ns n = Ok c"
  shows "(\<forall>k. 0 \<le> k \<and> k \<le> 16383 \<longrightarrow> (\<exists>!i. i < length (cl_Shards c) \<and> SlotRanges_Contains (shard_SlotRanges (cl_Shards c ! i)) k))
    \<and> (\<forall>sh\<in>set (cl_Shards c). length (filter IsMaster (shard_Nodes sh)) = 1)"
proof -
  have "in_order content (s0, \<lambda>_. None)"
    using assms(3) by (simp add: in_order_def well_kept_def tidy_def store_abs_def registry_of_def)
  then have "in_order content (s, m)" by (rule system_all_in_order [OF assms(1,2,4)])
  then have "wf_cluster c" using engine_contract.kept_get(1) [OF assms(1) _ assms(5)] by (simp add: in_order_def)
  then show ?thesis
    by (simp add: wf_cluster_def wf_shard_def one_master_def owns_def SlotRanges_Contains_iff MinSlotID_def MaxSlotID_def)
qed


text \<open>A namespace and a cluster of two nodes are created in an empty store.\<close>

definition sample_env :: "mock env" where
  "sample_env = memory_env sample_kvrocks (\<lambda>shards. shards) sample_spawn"

definition sample_requests :: "request list" where
  "sample_requests =
     [POST ''/api/v1/namespaces'' (JObj [(''namespace'', JStr ''n'')]),
      POST ''/api/v1/namespaces/n/clusters'' (JObj [(''name'', JStr ''c''), (''nodes'', JArr [JStr ''a'', JStr ''b''])])]"

lemma sample_paths:
  "api_path ''/api/v1/namespaces'' = [''namespaces'']" "api_path ''/api/v1/namespaces/n/clusters'' = [''namespaces'', ''n'', ''clusters'']"
  by (simp_all add: api_path_def apiPrefix_def startsWith_def)

lemma sample_bodies:
  "namespace_request (JObj [(''namespace'', JStr ''n'')]) = Ok ''n''"
  "create_cluster_request (JObj [(''name'', JStr ''c''), (''nodes'', JArr [JStr ''a'', JStr ''b''])]) =
     Ok \<lparr>cr_Name = ''c'', cr_Nodes = [''a'', ''b''], cr_Password = [], cr_Replicas = 0\<rparr>"
  by (simp_all add: namespace_request_def create_cluster_request_def bind_json_def json_struct_def json_field_def js_toLowerCase_def lower_char_def
    json_string_def json_strings_def json_list_def json_int_def)

lemma sample_names: "plain ''n''" "plain ''c''"
  by (simp_all add: plain_def)

lemma sample_namespace:
  "store_after sample_env \<lparr>cs_e = [], cs_events = []\<rparr> (POST ''/api/v1/namespaces'' (JObj [(''namespace'', JStr ''n'')])) =
     \<lparr>cs_e = [(appendPrefix ''n'', Raw ''n'')], cs_events = [namespace_event ''n'' CommandCreate]\<rparr>"
  by (simp add: store_after_def serve_def serve_post_def sample_paths Namespace_Create_def sample_bodies or_bad_def sample_env_def memory_env_def
    CreateNamespace_def ExistsNamespace_def Mock_def Mock_Exists_def Mock_Set_def or_error_def EmitEvent_def)

lemma sample_topology_zero: "NewCluster sample_spawn ''c'' [''a'', ''b''] 0 = Ok sample_topology"
  using sample_topology_new by (simp add: NewCluster_def)

lemma sample_password: "Cluster_SetPassword [] sample_topology = sample_topology"
  by (simp add: Cluster_SetPassword_def map_nodes_def sample_topology_def SetPassword_def NewClusterNode_def)

lemma sample_create:
  defines "s \<equiv> \<lparr>cs_e = [(appendPrefix ''n'', Raw ''n'')], cs_events = [namespace_event ''n'' CommandCreate]\<rparr>"
  shows "store_after sample_env s (POST ''/api/v1/namespaces/n/clusters'' (JObj [(''name'', JStr ''c''), (''nodes'', JArr [JStr ''a'', JStr ''b''])])) =
     \<lparr>cs_e = [(appendPrefix ''n'', Raw ''n''), (buildClusterKey ''n'' ''c'', Json (Cluster_MarshalJSON sample_topology))],
      cs_events = [namespace_event ''n'' CommandCreate, cluster_event ''n'' ''c'' CommandCreate]\<rparr>"
proof -
  have "CheckNewNodes Mock s nodes = Ok ()" for nodes
    using listed_namespace(1,2) [OF sample_names] listed_cluster(1) [OF sample_names(1,1,2)]
    by (simp add: CheckNewNodes_def existing_nodes_def ListNamespace_def ListCluster_def s_def Mock_def Mock_List_def)
  moreover have k: "buildClusterKey ''n'' ''c'' \<noteq> appendPrefix ''n''" using appendPrefix_not_cluster [OF sample_names(1)] by metis
  moreover have "eng_Exists Mock (cs_e s) (appendPrefix ''n'') = Ok True" "eng_Exists Mock (cs_e s) (buildClusterKey ''n'' ''c'') = Ok False"
    "eng_Set Mock (buildClusterKey ''n'' ''c'') v (cs_e s) = Ok [(appendPrefix ''n'', Raw ''n''), (buildClusterKey ''n'' ''c'', v)]" for v
    using k by (simp_all add: s_def Mock_def Mock_Exists_def Mock_Set_def)
  moreover have "cl_Name sample_topology = ''c''" by (simp add: sample_topology_def)
  ultimately show ?thesis
    by (simp add: store_after_def serve_def serve_post_def sample_paths RequiredNamespace_def Cluster_Create_def sample_bodies or_bad_def sample_env_def
      memory_env_def ExistsNamespace_def or_error_def sample_topology_zero sample_password CreateCluster_def existsCluster_def put_cluster_def EmitEvent_def
      js_toLowerCase_def Let_def) (simp add: s_def)
qed

theorem system_keeps_partition_witness:
  "\<exists>s c. (system Mock (sort_key Start))\<^sup>*\<^sup>* (\<lparr>cs_e = [], cs_events = []\<rparr>, \<lambda>_. None) (s, \<lambda>_. None) \<and> GetCluster Mock s ''n'' ''c'' = Ok c
     \<and> length (cl_Shards c) = 2 \<and> (\<exists>!i. i < length (cl_Shards c) \<and> SlotRanges_Contains (shard_SlotRanges (cl_Shards c ! i)) 5)"
proof -
  let ?s = "\<lparr>cs_e = [(appendPrefix ''n'', Raw ''n''), (buildClusterKey ''n'' ''c'', Json (Cluster_MarshalJSON sample_topology))],
      cs_events = [namespace_event ''n'' CommandCreate, cluster_event ''n'' ''c'' CommandCreate]\<rparr>"
  have e: "env_E sample_env = Mock" "env_sort sample_env = sort_key Start" by (simp_all add: sample_env_def memory_env_def)
  have "system Mock (sort_key Start) (\<lparr>cs_e = [], cs_events = []\<rparr>, \<lambda>_. None)
      (\<lparr>cs_e = [(appendPrefix ''n'', Raw ''n'')], cs_events = [namespace_event ''n'' CommandCreate]\<rparr>, \<lambda>_. None)"
    unfolding sample_namespace [symmetric] by (rule system.request [OF e]) (simp add: tame_def sample_paths sample_bodies sample_names)
  moreover have "system Mock (sort_key Start) (\<lparr>cs_e = [(appendPrefix ''n'', Raw ''n'')], cs_events = [namespace_event ''n'' CommandCreate]\<rparr>, \<lambda>_. None) (?s, \<lambda>_. None)"
    unfolding sample_create [symmetric] by (rule system.request [OF e]) (simp add: tame_def sample_paths sample_bodies sample_names)
  ultimately have r: "(system Mock (sort_key Start))\<^sup>*\<^sup>* (\<lparr>cs_e = [], cs_events = []\<rparr>, \<lambda>_. None) (?s, \<lambda>_. None)" by simp
  have "storable sample_topology"
    by (rule wf_storable [OF wf_NewCluster [OF sample_topology_new] ints_NewCluster(1) [OF sample_topology_new]]) (simp add: sample_topology_def)
  moreover have "buildClusterKey ''n'' ''c'' \<noteq> appendPrefix ''n''" using appendPrefix_not_cluster [OF sample_names(1)] by metis
  ultimately have g: "GetCluster Mock ?s ''n'' ''c'' = Ok sample_topology"
    by (simp add: GetCluster_def Mock_def Mock_Get_def unmarshal_cluster_def)
  from system_keeps_partition [OF mock.engine_contract_axioms insertion.slice_sorting_axioms _ r g, THEN conjunct1, rule_format, of 5] r g
  show ?thesis by (intro exI [of _ ?s] exI [of _ sample_topology]) (simp add: sample_topology_def)
qed

section \<open>Following a migration\<close>

lemma migration_loop_idle:
  assumes "\<forall>i\<in>set is. \<not> IsMigrating (cl_Shards (mg_cluster st) ! i)"
  shows "migration_loop env ns is st = Ok st"
  using assms by (induction "is") (simp_all add: migration_step_def Let_def)

lemma migration_loop_append:
  assumes "\<forall>i\<in>set is. \<not> IsMigrating (cl_Shards (mg_cluster st) ! i)"
  shows "migration_loop env ns (is @ js) st = migration_loop env ns js st"
  using assms by (induction "is") (simp_all add: migration_step_def Let_def)

lemma complete_migration_idle:
  assumes "i < length (cl_Shards c)" "shard_in_range (shard_TargetShardIndex (cl_Shards c ! i)) c" "j < length (cl_Shards c)"
    and "j \<noteq> i \<Longrightarrow> \<not> IsMigrating (cl_Shards c ! j)"
  shows "\<not> IsMigrating (cl_Shards (complete_migration sortSlice i slot c) ! j)"
proof -
  have t: "nat (shard_TargetShardIndex (cl_Shards c ! i)) < length (cl_Shards c)" using assms(2) by (simp add: in_range_nat)
  show ?thesis
    using assms(3,4) by (auto simp: complete_migration_def end_migration_nth move_slots_nth [OF assms(1) t] IsMigrating_def ClearMigrateState_def)
qed

lemma end_migration_idle:
  assumes "j < length (cl_Shards c)" "j \<noteq> i \<Longrightarrow> \<not> IsMigrating (cl_Shards c ! j)"
  shows "\<not> IsMigrating (cl_Shards (end_migration i c) ! j)"
  using assms by (auto simp: end_migration_nth IsMigrating_def ClearMigrateState_def)

text \<open>What the checker makes of a cluster whose shard \<open>i\<close> migrates a range, by the state that the source reports.\<close>

definition migration_outcome :: "slice_sort \<Rightarrow> nat \<Rightarrow> SlotRange \<Rightarrow> string \<Rightarrow> Cluster \<Rightarrow> Cluster" where
  "migration_outcome sortSlice i slot state c =
     (if state = ''none'' \<or> state = ''start'' then c
      else (if state = ''success'' then complete_migration sortSlice i slot c else end_migration i c)\<lparr>cl_Version := wrap64 (cl_Version c + 1)\<rparr>)"

text \<open>
  C8: The checker follows a migration. When it holds the cluster as it is stored, one shard migrates, and
  its master reports the same range, then a round ends as the reported state asks: while the migration runs
  the store is left alone, after success the range is moved to the target, and after a failure it stays at
  its shard. In the last two cases the migration is cleared and the version increased; nothing else of the
  cluster changes.
\<close>
theorem migration_taken_over:
  assumes "server E content sortSlice env" "well_kept content s" "GetCluster E s ns n = Ok c"
    and "i < length (cl_Shards c)" "IsMigrating (cl_Shards c ! i)" "\<forall>j<length (cl_Shards c). j \<noteq> i \<longrightarrow> \<not> IsMigrating (cl_Shards c ! j)"
    and "shard_MigratingSlot (cl_Shards c ! i) = Some m" "shard_in_range (shard_TargetShardIndex (cl_Shards c ! i)) c"
    and "GetMasterNode (cl_Shards c ! i) = Some node" "GetClusterInfo (env_kv env) node = Ok info"
    and "ci_MigratingSlot info = Some reported" "ms_SlotRange reported = ms_SlotRange m"
  shows "\<exists>st. tryUpdateMigrationStatus env ns c (Some c) s = Ok st
    \<and> GetCluster E (mg_store st) ns n = Ok (migration_outcome sortSlice i (ms_SlotRange m) (ci_MigratingState info) c)"
proof -
  have env: "env_E env = E" "env_sort env = sortSlice" using server.env [OF assms(1)] by simp_all
  have e: "engine_contract E content" "slice_sorting sortSlice" using assms(1) by (simp_all add: server_def)
  have t: "tidy (content (cs_e s))" using assms(2) by (simp add: well_kept_def)
  note k = engine_contract.kept_get [OF e(1) assms(2,3)]
  let ?st = "\<lparr>mg_cluster = c, mg_store = s, mg_cached = Some c, mg_shared = False\<rparr>"
  have split: "[0..<length (cl_Shards c)] = [0..<i] @ i # [Suc i..<length (cl_Shards c)]"
    using assms(4) upt_add_eq_append [of 0 i "length (cl_Shards c) - i"] by (simp add: upt_conv_Cons)
  have loop: "tryUpdateMigrationStatus env ns c (Some c) s = Ok st"
    if "migration_step env ns i ?st = Ok (Continue, st)" "\<forall>j\<in>set [Suc i..<length (cl_Shards c)]. \<not> IsMigrating (cl_Shards (mg_cluster st) ! j)" for st
    unfolding tryUpdateMigrationStatus_def split using assms(4,6) that(1) migration_loop_idle [OF that(2), of env ns]
    by (subst migration_loop_append) simp_all
  have commit: ?thesis
    if d: "migration_step env ns i ?st = commit_migration env ns d ?st" "wf_cluster d" "ints d" "cl_Name d = cl_Name c" "cl_Version d = cl_Version c"
      "\<And>j. j < length (cl_Shards c) \<Longrightarrow> \<not> IsMigrating (cl_Shards d ! j)"
      "migration_outcome sortSlice i (ms_SlotRange m) (ci_MigratingState info) c = d\<lparr>cl_Version := wrap64 (cl_Version c + 1)\<rparr>" for d
  proof -
    obtain s' where s': "UpdateCluster E ns d s = Ok (s', d\<lparr>cl_Version := wrap64 (cl_Version c + 1)\<rparr>)"
      "GetCluster E s' ns n = Ok (d\<lparr>cl_Version := wrap64 (cl_Version c + 1)\<rparr>)"
      by (rule engine_contract.UpdateCluster_current [OF e(1) t assms(3) d(4,5) wf_storable [OF d(2,3)]])
    let ?st' = "\<lparr>mg_cluster = d\<lparr>cl_Version := wrap64 (cl_Version c + 1)\<rparr>, mg_store = s', mg_cached = Some (d\<lparr>cl_Version := wrap64 (cl_Version c + 1)\<rparr>), mg_shared = True\<rparr>"
    have "tryUpdateMigrationStatus env ns c (Some c) s = Ok ?st'"
      by (rule loop) (use d(1,6) s'(1) in \<open>simp_all add: commit_migration_def env\<close>)
    then show ?thesis using s'(2) d(7) by simp
  qed
  note step = migration_step_def Let_def SlotRange_Equal_def env assms
  consider "ci_MigratingState info = ''none'' \<or> ci_MigratingState info = ''start''" | "ci_MigratingState info = ''success''"
    | "ci_MigratingState info \<notin> {''none'', ''start'', ''success''}" by blast
  then show ?thesis
  proof cases
    case 1
    then have "tryUpdateMigrationStatus env ns c (Some c) s = Ok ?st" by (intro loop) (use assms(6) in \<open>auto simp: step\<close>)
    then show ?thesis using 1 assms(3) by (auto simp: migration_outcome_def)
  next
    case 2
    show ?thesis
      by (rule commit [of "complete_migration sortSlice i (ms_SlotRange m) c"])
        (use 2 assms(4-8) k slice_sorting.wf_complete_migration [OF e(2) k(1) assms(4,7,8)] ints_complete_migration [OF k(2) assms(4,8)]
          complete_migration_idle [OF assms(4,8)] in \<open>simp_all add: step migration_outcome_def\<close>)
  next
    case 3
    show ?thesis
      by (rule commit [of "end_migration i c"])
        (use 3 assms(4-8) k wf_end_migration [OF k(1) assms(4)] ints_end_migration [OF k(2) assms(4)] end_migration_idle in
          \<open>simp_all add: step migration_outcome_def\<close>)
  qed
qed

text \<open>
  A source that reports no migrating slot stops the controller. After a failover during a migration, or a
  restart, the node that is now the master of the shard has nothing to report, and the comparison with the
  stored range dereferences a nil pointer.
\<close>
theorem checker_panics_without_slot:
  assumes "IsMigrating (cl_Shards c ! 0)" "cl_Shards c \<noteq> []" "GetMasterNode (cl_Shards c ! 0) = Some node"
    and "GetClusterInfo (env_kv env) node = Ok info" "ci_MigratingSlot info = None"
  shows "tryUpdateMigrationStatus env ns c cached s = Panic"
proof -
  have "[0..<length (cl_Shards c)] = 0 # [Suc 0..<length (cl_Shards c)]" using assms(2) by (simp add: upt_conv_Cons)
  then show ?thesis using assms by (simp add: tryUpdateMigrationStatus_def migration_step_def Let_def)
qed

section \<open>Replacing a master\<close>


text \<open>A cluster with a migration that its master reports as done, for the example.\<close>

definition migrating_topology :: Cluster where
  "migrating_topology = set_shard 0 ((cl_Shards sample_topology ! 0)\<lparr>shard_MigratingSlot := Some (FromSlotRange \<lparr>Start = 0, Stop = 99\<rparr>),
     shard_TargetShardIndex := 1\<rparr>) sample_topology"

definition done_kvrocks :: kvrocks where
  "done_kvrocks = sample_kvrocks\<lparr>kv_ClusterInfo := (\<lambda>_. Ok (''migrating_slot:0-99'' @ [CHR 0x0D, CHR 0x0A] @ ''migrating_state:success''))\<rparr>"

lemma done_info: "GetClusterInfo done_kvrocks n =
    Ok \<lparr>ci_CurrentEpoch = -1, ci_MigratingSlot = Some (FromSlotRange \<lparr>Start = 0, Stop = 99\<rparr>), ci_MigratingState = ''success''\<rparr>"
proof -
  have r: "parse_range ''0-99'' = Ok \<lparr>Start = 0, Stop = 99\<rparr>"
    by (simp add: parse_range_def ParseSlotRange_def Atoi_def is_digit_def digits_val_def digit_val_def in_slot_bounds_def MinSlotID_def MaxSlotID_def Let_def)
  have l: "cluster_info_line ''migrating_slot:0-99'' i = Ok (i\<lparr>ci_MigratingSlot := Some (FromSlotRange \<lparr>Start = 0, Stop = 99\<rparr>)\<rparr>)"
    "cluster_info_line ''migrating_state:success'' i = Ok (i\<lparr>ci_MigratingState := ''success''\<rparr>)" for i
    by (simp_all add: cluster_info_line_def TrimSpace_def go_space_def js_toLowerCase_def lower_char_def r)
  then show ?thesis by (simp add: GetClusterInfo_def done_kvrocks_def)
qed

lemma sample_wf: "wf_cluster sample_topology"
  by (rule wf_NewCluster [OF sample_topology_new]) (simp add: sample_topology_def)

lemma migrating_topology_ok: "wf_cluster migrating_topology" "ints migrating_topology"
proof -
  have r: "wf_shard (cl_Shards sample_topology ! 0)" by (rule wf_nth [OF sample_wf]) (simp add: sample_topology_def)
  have "slots_of \<lparr>Start = 0, Stop = 99\<rparr> \<subseteq> slots (shard_SlotRanges (cl_Shards sample_topology ! 0))"
    by (auto simp: sample_topology_def slots_def slots_of_def)
  with r show "wf_cluster migrating_topology" unfolding migrating_topology_def
    by (intro wf_set_same [OF sample_wf])
      (simp_all add: wf_shard_def one_master_def migrating_owned_def FromSlotRange_def valid_range_def MinSlotID_def MaxSlotID_def)
  show "ints migrating_topology" unfolding migrating_topology_def
    using ints_NewCluster(1) [OF sample_topology_new] by (intro ints_set_shard) (simp_all add: ints_def ints_shard_def sample_topology_def)
qed

theorem migration_taken_over_witness:
  "\<exists>st d. tryUpdateMigrationStatus (memory_env done_kvrocks (\<lambda>s. s) sample_spawn) ''n'' migrating_topology (Some migrating_topology) (one_cluster migrating_topology) = Ok st
     \<and> GetCluster Mock (mg_store st) ''n'' ''c'' = Ok d \<and> cl_Version d = 2"
proof -
  let ?c = migrating_topology and ?r = "\<lparr>Start = 0, Stop = 99\<rparr>"
  let ?info = "\<lparr>ci_CurrentEpoch = -1, ci_MigratingSlot = Some (FromSlotRange ?r), ci_MigratingState = ''success''\<rparr>"
  have shards: "cl_Shards ?c = [(cl_Shards sample_topology ! 0)\<lparr>shard_MigratingSlot := Some (FromSlotRange ?r), shard_TargetShardIndex := 1\<rparr>,
      cl_Shards sample_topology ! 1]" "cl_Name ?c = ''c''" "cl_Version ?c = 1"
    by (simp_all add: migrating_topology_def set_shard_def sample_topology_def)
  have p: "plain (cl_Name ?c)" by (simp add: shards plain_def)
  note a = one_cluster_abs [OF p wf_storable [OF migrating_topology_ok]]
  have w: "well_kept map_of (one_cluster ?c)"
    using a migrating_topology_ok(1) by (auto simp: well_kept_def split: if_splits)
  have g: "GetCluster Mock (one_cluster ?c) ''n'' ''c'' = Ok ?c"
    using a(3) by (simp add: mock.GetCluster_reg [OF a(1)] reg_GetCluster_def shards)
  have "\<exists>node. GetMasterNode (cl_Shards ?c ! 0) = Some node"
    by (simp add: shards GetMasterNode_def sample_topology_def IsMaster_def NewClusterNode_def)
  then obtain node where node: "GetMasterNode (cl_Shards ?c ! 0) = Some node" ..
  have "\<exists>st. tryUpdateMigrationStatus (memory_env done_kvrocks (\<lambda>s. s) sample_spawn) ''n'' ?c (Some ?c) (one_cluster ?c) = Ok st
      \<and> GetCluster Mock (mg_store st) ''n'' ''c'' = Ok (migration_outcome (sort_key Start) 0 (ms_SlotRange (FromSlotRange ?r)) (ci_MigratingState ?info) ?c)"
    by (rule migration_taken_over [where m = "FromSlotRange ?r" and node = node and info = ?info and reported = "FromSlotRange ?r",
        OF memory.server_axioms w g _ _ _ _ _ node])
      (simp_all add: shards IsMigrating_def sample_topology_def NewShard_def FromSlotRange_def less_Suc_eq shard_in_range_def memory_env_def done_info)
  then show ?thesis by (fastforce simp: shards wrap64_def migration_outcome_def)
qed

definition pair_cluster :: Cluster where
  "pair_cluster = \<lparr>cl_Name = ''c'', cl_Version = 1, cl_Shards = [sample_shard\<lparr>shard_SlotRanges := [\<lparr>Start = 0, Stop = 16383\<rparr>]\<rparr>]\<rparr>"

lemma pair_cluster_new: "NewCluster sample_spawn ''c'' [''a'', ''b''] 2 = Ok pair_cluster"
  by (simp add: NewCluster_def pair_cluster_def CalculateSlotRanges_def MaxSlotID_def new_shard_nodes_def upt_rec Let_def sample_shard_def
    shard_nodes_def indexed_def)


end
