(* ===== verification/Controller.thy ===== *)
theory Controller
  imports Checker
begin

text \<open>
  The controller of \<^verbatim>\<open>src/controller/controller.go\<close>: it starts a checker for every cluster when it becomes
  the leader, starts and stops checkers when the store reports that clusters were created and removed, and
  stops all of them when it loses the leadership.
\<close>

section \<open>The controller\<close>

text \<open>The keys of the clusters that have a running checker, and the keys of those that were told to sync.\<close>

record controller =
  ct_clusters :: "string list"
  ct_synced :: "string list"

definition ctl_buildClusterKey :: "string \<Rightarrow> string \<Rightarrow> string" where
  "ctl_buildClusterKey namespace clusterName = namespace @ ''/'' @ clusterName"

definition addCluster :: "string \<Rightarrow> string \<Rightarrow> controller \<Rightarrow> controller" where
  "addCluster namespace clusterName c =
     (let key = ctl_buildClusterKey namespace clusterName in
      if key \<in> set (ct_clusters c) then c else c\<lparr>ct_clusters := key # ct_clusters c\<rparr>)"

definition removeCluster :: "string \<Rightarrow> string \<Rightarrow> controller \<Rightarrow> controller" where
  "removeCluster namespace clusterName c =
     c\<lparr>ct_clusters := filter (\<lambda>k. k \<noteq> ctl_buildClusterKey namespace clusterName) (ct_clusters c)\<rparr>"

definition updateCluster :: "string \<Rightarrow> string \<Rightarrow> controller \<Rightarrow> controller" where
  "updateCluster namespace clusterName c =
     (let key = ctl_buildClusterKey namespace clusterName in
      if key \<in> set (ct_clusters c) then c\<lparr>ct_synced := ct_synced c @ [key]\<rparr> else c)"

definition suspend :: "controller \<Rightarrow> controller" where
  "suspend c = c\<lparr>ct_clusters := []\<rparr>"

fun resume_loop :: "'e engine \<Rightarrow> 'e ClusterStore \<Rightarrow> string list \<Rightarrow> controller \<Rightarrow> controller \<times> unit go" where
  "resume_loop E s [] c = (c, Ok ())"
| "resume_loop E s (ns # namespaces) c = (case in_context ''failed to list clusters'' (ListCluster E s ns) of
       Ok clusters \<Rightarrow> resume_loop E s namespaces (fold (addCluster ns) clusters c)
     | Fail e \<Rightarrow> (c, Fail e)
     | Panic \<Rightarrow> (c, Panic))"

definition resume :: "'e engine \<Rightarrow> 'e ClusterStore \<Rightarrow> controller \<Rightarrow> controller \<times> unit go" where
  \<comment> \<open>With the checkers that are running when it returns, also when it returns an error.\<close>
  "resume E s c = (case in_context ''failed to list namespaces'' (ListNamespace E s) of
       Ok namespaces \<Rightarrow> resume_loop E s namespaces c
     | Fail e \<Rightarrow> (c, Fail e)
     | Panic \<Rightarrow> (c, Panic))"

definition becomeLeader :: "'e engine \<Rightarrow> 'e ClusterStore \<Rightarrow> string \<Rightarrow> string \<Rightarrow> controller \<Rightarrow> controller go" where
  "becomeLeader E s self prevTermLeader c =
     (if prevTermLeader = self then Ok c
      else (case resume E s c of (c', Panic) \<Rightarrow> Panic | (c', _) \<Rightarrow> Ok c'))"

definition leader_change :: "'e engine \<Rightarrow> 'e ClusterStore \<Rightarrow> string \<Rightarrow> string \<Rightarrow> string \<times> controller \<Rightarrow> (string \<times> controller) go" where
  \<comment> \<open>One change of the leader in \<^verbatim>\<open>syncLoop\<close>, with the leader of the previous term. A controller is the leader
      when the leader has its name.\<close>
  "leader_change E s self leader = (\<lambda>(prevTermLeader, c).
     if leader = self then
       (if prevTermLeader \<noteq> self then gbind (becomeLeader E s self prevTermLeader c) (\<lambda>c. Ok (self, c)) else Ok (prevTermLeader, c))
     else if prevTermLeader \<noteq> self then Ok (prevTermLeader, c)
     else Ok (leader, suspend c))"

definition leader_event :: "bool \<Rightarrow> EventPayload \<Rightarrow> controller \<Rightarrow> controller" where
  \<comment> \<open>One event in \<^verbatim>\<open>leaderEventLoop\<close>.\<close>
  "leader_event isLeader event c =
     (if \<not> isLeader \<or> ev_Type event \<noteq> EventCluster then c
      else (case ev_Command event of
          CommandCreate \<Rightarrow> addCluster (ev_Namespace event) (ev_Cluster event) c
        | CommandRemove \<Rightarrow> removeCluster (ev_Namespace event) (ev_Cluster event) c
        | CommandUpdate \<Rightarrow> updateCluster (ev_Namespace event) (ev_Cluster event) c))"

section \<open>The controller follows the store\<close>

inductive store_step :: "'e engine \<Rightarrow> 'e ClusterStore \<Rightarrow> 'e ClusterStore \<Rightarrow> bool" for E where
  create_namespace: "plain ns \<Longrightarrow> CreateNamespace E ns s = Ok s' \<Longrightarrow> store_step E s s'"
| remove_namespace: "plain ns \<Longrightarrow> RemoveNamespace E ns s = Ok s' \<Longrightarrow> store_step E s s'"
| create_cluster: "plain ns \<Longrightarrow> plain (cl_Name c) \<Longrightarrow> storable c \<Longrightarrow> CreateCluster E ns c s = Ok s' \<Longrightarrow> store_step E s s'"
| remove_cluster: "plain ns \<Longrightarrow> plain n \<Longrightarrow> RemoveCluster E ns n s = Ok s' \<Longrightarrow> store_step E s s'"
| update_cluster: "plain ns \<Longrightarrow> plain (cl_Name c) \<Longrightarrow> storable c \<Longrightarrow> UpdateCluster E ns c s = Ok (s', c') \<Longrightarrow> store_step E s s'"
| set_cluster: "plain ns \<Longrightarrow> plain (cl_Name c) \<Longrightarrow> storable c \<Longrightarrow> SetCluster E ns c s = Ok s' \<Longrightarrow> store_step E s s'"

definition tracked :: "registry \<Rightarrow> controller \<Rightarrow> bool" where
  "tracked R ct \<longleftrightarrow> set (ct_clusters ct) = (\<lambda>(ns, n). ctl_buildClusterKey ns n) ` dom (rg_clusters R)"

lemma ctl_key_inj: "plain ns \<Longrightarrow> plain ns' \<Longrightarrow> ctl_buildClusterKey ns n = ctl_buildClusterKey ns' n' \<longleftrightarrow> ns = ns' \<and> n = n'"
  using split_unique [of "CHR ''/''" ns ns'] by (simp add: ctl_buildClusterKey_def plain_def)

lemma tracked_same: "rg_clusters R' = rg_clusters R \<Longrightarrow> tracked R' ct \<longleftrightarrow> tracked R ct"
  by (simp add: tracked_def)

lemma tracked_put:
  assumes "tracked R ct"
  shows "tracked (reg_put ns c R) (addCluster ns (cl_Name c) ct)"
    "rg_clusters R (ns, cl_Name c) \<noteq> None \<Longrightarrow> tracked (reg_put ns c R) ct"
    "rg_clusters R (ns, cl_Name c) \<noteq> None \<Longrightarrow> tracked (reg_put ns c R) (updateCluster ns (cl_Name c) ct)"
proof -
  have d: "(\<lambda>(ns, n). ctl_buildClusterKey ns n) ` dom (rg_clusters (reg_put ns c R)) =
      insert (ctl_buildClusterKey ns (cl_Name c)) ((\<lambda>(ns, n). ctl_buildClusterKey ns n) ` dom (rg_clusters R))"
    by (simp add: reg_put_def)
  have a: "set (ct_clusters (addCluster ns (cl_Name c) ct)) = insert (ctl_buildClusterKey ns (cl_Name c)) (set (ct_clusters ct))"
    by (auto simp: addCluster_def Let_def)
  show "tracked (reg_put ns c R) (addCluster ns (cl_Name c) ct)"
    using assms by (simp only: tracked_def d a)
  show t: "tracked (reg_put ns c R) ct" if "rg_clusters R (ns, cl_Name c) \<noteq> None"
  proof -
    have "ctl_buildClusterKey ns (cl_Name c) \<in> (\<lambda>(ns, n). ctl_buildClusterKey ns n) ` dom (rg_clusters R)"
      using that by (intro image_eqI [of _ _ "(ns, cl_Name c)"]) auto
    then show ?thesis using assms by (simp only: tracked_def d insert_absorb)
  qed
  show "tracked (reg_put ns c R) (updateCluster ns (cl_Name c) ct)" if "rg_clusters R (ns, cl_Name c) \<noteq> None"
    using t [OF that] by (simp add: tracked_def updateCluster_def Let_def)
qed

lemma tracked_remove:
  assumes "tracked R ct" "plain ns" "\<And>ns' n'. rg_clusters R (ns', n') \<noteq> None \<Longrightarrow> plain ns'"
  shows "tracked (R\<lparr>rg_clusters := (rg_clusters R)((ns, n) := None)\<rparr>) (removeCluster ns n ct)"
proof -
  have "ctl_buildClusterKey ns' n' \<noteq> ctl_buildClusterKey ns n" if "(ns', n') \<in> dom (rg_clusters R) - {(ns, n)}" for ns' n'
    using that assms(3) [of ns' n'] ctl_key_inj [OF _ assms(2), of ns' n' n] by auto
  with assms(1) show ?thesis by (auto simp: tracked_def removeCluster_def)
qed

lemma leader_event_simps:
  "leader_event True (namespace_event ns cmd) ct = ct"
  "leader_event True (cluster_event ns n CommandCreate) ct = addCluster ns n ct"
  "leader_event True (cluster_event ns n CommandUpdate) ct = updateCluster ns n ct"
  "leader_event True (cluster_event ns n CommandRemove) ct = removeCluster ns n ct"
  by (simp_all add: leader_event_def namespace_event_def cluster_event_def)

context engine_contract
begin

lemma put_events: "put_cluster E ns c s = Ok s' \<Longrightarrow> cs_events s' = cs_events s"
  by (auto simp: put_cluster_def)

lemma store_events:
  "CreateNamespace E ns s = Ok s' \<Longrightarrow> cs_events s' = cs_events s @ [namespace_event ns CommandCreate]"
  "RemoveNamespace E ns s = Ok s' \<Longrightarrow> cs_events s' = cs_events s @ [namespace_event ns CommandRemove]"
  "RemoveCluster E ns n s = Ok s' \<Longrightarrow> cs_events s' = cs_events s @ [cluster_event ns n CommandRemove]"
  by (auto simp: CreateNamespace_def RemoveNamespace_def RemoveCluster_def EmitEvent_def fail_def wrap_def split: if_splits)

lemma store_write_events:
  "CreateCluster E ns c s = Ok s' \<Longrightarrow> cs_events s' = cs_events s @ [cluster_event ns (cl_Name c) CommandCreate]"
  "SetCluster E ns c s = Ok s' \<Longrightarrow> cs_events s' = cs_events s"
  "UpdateCluster E ns c s = Ok (s', c') \<Longrightarrow> cs_events s' = cs_events s @ [cluster_event ns (cl_Name c) CommandUpdate]"
proof -
  show "cs_events s' = cs_events s @ [cluster_event ns (cl_Name c) CommandCreate]" if c: "CreateCluster E ns c s = Ok s'"
  proof -
    obtain s1 where "put_cluster E ns c s = Ok s1" "s' = EmitEvent (cluster_event ns (cl_Name c) CommandCreate) s1"
      using c by (auto simp: CreateCluster_def fail_def split: if_splits)
    then show ?thesis using put_events by (simp add: EmitEvent_def)
  qed
  show "cs_events s' = cs_events s" if "SetCluster E ns c s = Ok s'"
    using that put_events unfolding SetCluster_def gbind_eq_Ok by blast
  show "cs_events s' = cs_events s @ [cluster_event ns (cl_Name c) CommandUpdate]" if u: "UpdateCluster E ns c s = Ok (s', c')"
  proof -
    obtain s1 where "put_cluster E ns (c\<lparr>cl_Version := wrap64 (cl_Version c + 1)\<rparr>) s = Ok s1" "s' = EmitEvent (cluster_event ns (cl_Name c) CommandUpdate) s1"
      using u unfolding UpdateCluster_def gbind_eq_Ok Let_def by (elim exE conjE) simp
    then show ?thesis using put_events by (simp add: EmitEvent_def)
  qed
qed

lemma store_step_tracked:
  assumes "store_step E s s'" "tidy (content (cs_e s))" "tracked (store_abs content s) ct"
  shows "tidy (content (cs_e s')) \<and> (\<exists>evs. cs_events s' = cs_events s @ evs \<and> tracked (store_abs content s') (fold (leader_event True) evs ct))"
  using assms(1)
proof (cases rule: store_step.cases)
  case (create_namespace ns)
  have "reg_CreateNamespace ns (store_abs content s) = Ok (store_abs content s')"
    using CreateNamespace_reg(1) [OF assms(2) create_namespace(1)] create_namespace(2) by simp
  then have "tracked (store_abs content s') ct" using assms(3) tracked_same [OF reg_namespace_clusters(1)] by blast
  then show ?thesis
    using CreateNamespace_reg(2) [OF assms(2) create_namespace] store_events(1) [OF create_namespace(2)]
    by (intro conjI exI [of _ "[namespace_event ns CommandCreate]"]) (simp_all add: leader_event_simps)
next
  case (remove_namespace ns)
  have "reg_RemoveNamespace ns (store_abs content s) = Ok (store_abs content s')"
    using RemoveNamespace_reg(1) [OF assms(2) remove_namespace(1)] remove_namespace(2) by simp
  then have "tracked (store_abs content s') ct" using assms(3) tracked_same [OF reg_namespace_clusters(2)] by blast
  then show ?thesis
    using RemoveNamespace_reg(2) [OF assms(2) remove_namespace] store_events(2) [OF remove_namespace(2)]
    by (intro conjI exI [of _ "[namespace_event ns CommandRemove]"]) (simp_all add: leader_event_simps)
next
  case (create_cluster ns c)
  have "reg_CreateCluster ns c (store_abs content s) = Ok (store_abs content s')"
    using CreateCluster_reg(1) [OF assms(2) create_cluster(1-3)] create_cluster(4) by simp
  then have "store_abs content s' = reg_put ns c (store_abs content s)" by (simp add: reg_CreateCluster_def wrap_def split: if_splits)
  then show ?thesis
    using CreateCluster_reg(2) [OF assms(2) create_cluster] store_write_events(1) [OF create_cluster(4)] tracked_put(1) [OF assms(3)]
    by (intro conjI exI [of _ "[cluster_event ns (cl_Name c) CommandCreate]"]) (simp_all add: leader_event_simps)
next
  case (remove_cluster ns n)
  have "reg_RemoveCluster ns n (store_abs content s) = Ok (store_abs content s')"
    using RemoveCluster_reg(1) [OF assms(2) remove_cluster(1,2)] remove_cluster(3) by simp
  then have a: "store_abs content s' = (store_abs content s)\<lparr>rg_clusters := (rg_clusters (store_abs content s))((ns, n) := None)\<rparr>"
    by (simp add: reg_RemoveCluster_def fail_def split: if_splits)
  have "plain ns'" if "rg_clusters (store_abs content s) (ns', n') \<noteq> None" for ns' n'
    using tidy_registry(3) [OF assms(2)] that by (auto simp: store_abs_def)
  then show ?thesis
    using RemoveCluster_reg(2) [OF assms(2) remove_cluster] store_events(3) [OF remove_cluster(3)] tracked_remove [OF assms(3) remove_cluster(1), of n] a
    by (intro conjI exI [of _ "[cluster_event ns n CommandRemove]"]) (simp_all add: leader_event_simps)
next
  case (update_cluster ns c c')
  note u = UpdateCluster_reg(2) [OF assms(2) update_cluster(1-4)]
  have "rg_clusters (store_abs content s) (ns, cl_Name c) \<noteq> None" using u by (auto simp: reg_check_Ok)
  then have "tracked (reg_put ns c' (store_abs content s)) (updateCluster ns (cl_Name c) ct)"
    using tracked_put(3) [OF assms(3), of ns c'] u by simp
  then show ?thesis using u store_write_events(3) [OF update_cluster(4)]
    by (intro conjI exI [of _ "[cluster_event ns (cl_Name c) CommandUpdate]"]) (simp_all add: leader_event_simps)
next
  case (set_cluster ns c)
  have s: "reg_SetCluster ns c (store_abs content s) = Ok (store_abs content s')"
    using SetCluster_reg(1) [OF assms(2) set_cluster(1-3)] set_cluster(4) by simp
  then have "rg_clusters (store_abs content s) (ns, cl_Name c) \<noteq> None" "store_abs content s' = reg_put ns c (store_abs content s)"
    by (auto simp: reg_SetCluster_def reg_check_Ok)
  then show ?thesis
    using SetCluster_reg(2) [OF assms(2) set_cluster] store_write_events(2) [OF set_cluster(4)] tracked_put(2) [OF assms(3)]
    by (intro conjI exI [of _ "[]"]) simp_all
qed

end

lemma store_step_tidy:
  assumes "engine_contract E content" "store_step E s s'" "tidy (content (cs_e s))"
  shows "tidy (content (cs_e s'))"
  using assms(2)
proof (cases rule: store_step.cases)
  case (create_namespace ns)
  then show ?thesis using engine_contract.CreateNamespace_reg(2) [OF assms(1,3)] by blast
next
  case (remove_namespace ns)
  then show ?thesis using engine_contract.RemoveNamespace_reg(2) [OF assms(1,3)] by blast
next
  case (create_cluster ns c)
  then show ?thesis using engine_contract.CreateCluster_reg(2) [OF assms(1,3)] by blast
next
  case (remove_cluster ns n)
  then show ?thesis using engine_contract.RemoveCluster_reg(2) [OF assms(1,3)] by blast
next
  case (update_cluster ns c c')
  then show ?thesis using engine_contract.UpdateCluster_reg(2) [OF assms(1,3)] by blast
next
  case (set_cluster ns c)
  then show ?thesis using engine_contract.SetCluster_reg(2) [OF assms(1,3)] by blast
qed

section \<open>Terms of leadership\<close>

lemma addCluster_all: "set (ct_clusters (fold (addCluster ns) names c)) = ctl_buildClusterKey ns ` set names \<union> set (ct_clusters c)"
  by (induction names arbitrary: c) (auto simp: addCluster_def Let_def)

context engine_contract
begin

lemma resume_loop_clusters:
  assumes "tidy (content (cs_e s))" "\<forall>ns\<in>set namespaces. plain ns"
  shows "\<exists>c'. resume_loop E s namespaces c = (c', Ok ()) \<and> set (ct_clusters c') = set (ct_clusters c)
    \<union> (\<lambda>(ns, n). ctl_buildClusterKey ns n) ` {(ns, n). ns \<in> set namespaces \<and> rg_clusters (store_abs content s) (ns, n) \<noteq> None}"
  using assms(2)
proof (induction namespaces arbitrary: c)
  case (Cons ns namespaces)
  obtain names where n: "ListCluster E s ns = Ok names" "set names = {n. rg_clusters (store_abs content s) (ns, n) \<noteq> None}"
    using ListCluster_reg [OF assms(1), of ns] Cons.prems by (metis list.set_intros(1))
  have "{(ns', n). ns' \<in> set (ns # namespaces) \<and> rg_clusters (store_abs content s) (ns', n) \<noteq> None} =
      Pair ns ` set names \<union> {(ns', n). ns' \<in> set namespaces \<and> rg_clusters (store_abs content s) (ns', n) \<noteq> None}"
    using n(2) by auto
  then show ?case
    using Cons.IH [of "fold (addCluster ns) names c"] Cons.prems n(1) by (simp add: in_context_def addCluster_all image_Un image_image Un_ac)
qed auto

text \<open>Becoming the leader starts a checker for each stored cluster.\<close>

lemma resume_tracked:
  assumes "tidy (content (cs_e s))" "ct_clusters c = []"
  shows "\<exists>c'. resume E s c = (c', Ok ()) \<and> tracked (store_abs content s) c'"
proof -
  obtain names where n: "ListNamespace E s = Ok names"
    "set names = rg_namespaces (store_abs content s) \<union> {ns. \<exists>n. rg_clusters (store_abs content s) (ns, n) \<noteq> None}"
    using ListNamespace_reg [OF assms(1)] by blast
  have "\<forall>ns\<in>set names. plain ns"
    unfolding n(2) using listed_plain [OF assms(1)] by blast
  from resume_loop_clusters [OF assms(1) this, of c] obtain c' where "resume_loop E s names c = (c', Ok ())"
    "set (ct_clusters c') = (\<lambda>(ns, n). ctl_buildClusterKey ns n) ` {(ns, n). ns \<in> set names \<and> rg_clusters (store_abs content s) (ns, n) \<noteq> None}"
    using assms(2) by auto
  moreover have "{(ns, n). ns \<in> set names \<and> rg_clusters (store_abs content s) (ns, n) \<noteq> None} = dom (rg_clusters (store_abs content s))"
    unfolding n(2) by auto
  ultimately show ?thesis using n(1) by (simp add: resume_def in_context_def tracked_def)
qed

end

text \<open>
  The store changes and sends events, which the controller handles in order, and the leader changes. The
  state is the store, the leader, the leader of the previous term as the controller knows it, and its checkers.
\<close>

inductive term_step :: "'e engine \<Rightarrow> string \<Rightarrow> 'e ClusterStore \<times> string \<times> string \<times> controller \<Rightarrow> 'e ClusterStore \<times> string \<times> string \<times> controller \<Rightarrow> bool"
  for E self where
  stored: "store_step E s s' \<Longrightarrow> cs_events s' = cs_events s @ evs \<Longrightarrow>
    term_step E self (s, leader, prev, c) (s', leader, prev, fold (leader_event (leader = self)) evs c)"
| changed: "leader_change E s self leader' (prev, c) = Ok (prev', c') \<Longrightarrow> term_step E self (s, leader, prev, c) (s, leader', prev', c')"

definition in_term :: "('e \<Rightarrow> string \<Rightarrow> blob option) \<Rightarrow> string \<Rightarrow> 'e ClusterStore \<times> string \<times> string \<times> controller \<Rightarrow> bool" where
  "in_term content self = (\<lambda>(s, leader, prev, c). tidy (content (cs_e s)) \<and> (leader = self \<longleftrightarrow> prev = self)
     \<and> (if leader = self then tracked (store_abs content s) c else ct_clusters c = []))"

lemma follower_events: "fold (leader_event False) evs c = c"
  by (induction evs) (simp_all add: leader_event_def)

lemma term_step_in_term:
  assumes "engine_contract E content" "term_step E self st st'" "in_term content self st"
  shows "in_term content self st'"
  using assms(2)
proof (cases rule: term_step.cases)
  case (stored s s' evs leader prev c)
  have t: "tidy (content (cs_e s))" using assms(3) stored(1) by (simp add: in_term_def)
  show ?thesis
  proof (cases "leader = self")
    case True
    then have "tracked (store_abs content s) c" "prev = self" using assms(3) stored(1) by (simp_all add: in_term_def)
    with engine_contract.store_step_tracked [OF assms(1) stored(3) t this(1)] stored(2,4) True show ?thesis
      by (auto simp: in_term_def)
  next
    case False
    then show ?thesis using store_step_tidy [OF assms(1) stored(3) t] assms(3) stored(1,2) by (simp add: in_term_def follower_events)
  qed
next
  case (changed s leader' prev c prev' c' leader)
  have "\<exists>c1. resume E s c = (c1, Ok ()) \<and> tracked (store_abs content s) c1" if "prev \<noteq> self"
    using engine_contract.resume_tracked [OF assms(1)] assms(3) changed(1) that by (simp add: in_term_def)
  with assms(3) changed show ?thesis
    by (auto simp: in_term_def leader_change_def becomeLeader_def suspend_def split: if_splits)
qed

text \<open>
  C9: The leader runs a checker for exactly the clusters in the store, and a follower runs none. This holds
  through everything that is created, written and removed in the store and through every change of the
  leader, when the controller handles the events in the order in which the store sends them.
\<close>
theorem leader_runs_checkers:
  assumes "engine_contract E content" "tidy (content (cs_e s0))" "leader0 \<noteq> self" "prev0 \<noteq> self" "ct_clusters c0 = []"
    and "(term_step E self)\<^sup>*\<^sup>* (s0, leader0, prev0, c0) (s, leader, prev, c)"
  shows "set (ct_clusters c) =
    (if leader = self then (\<lambda>(ns, n). ctl_buildClusterKey ns n) ` dom (rg_clusters (store_abs content s)) else {})"
proof -
  have "in_term content self (s0, leader0, prev0, c0)" using assms(2-5) by (simp add: in_term_def)
  with assms(6) have "in_term content self (s, leader, prev, c)"
    by (induction rule: rtranclp_induct) (blast intro: term_step_in_term [OF assms(1)])+
  then show ?thesis by (auto simp: in_term_def tracked_def split: if_splits)
qed

theorem leader_runs_checkers_witness:
  "\<exists>s c. (term_step Mock ''me'')\<^sup>*\<^sup>* (\<lparr>cs_e = [], cs_events = []\<rparr>, ''other'', ''other'', \<lparr>ct_clusters = [], ct_synced = []\<rparr>) (s, ''me'', ''me'', c)
     \<and> set (ct_clusters c) = (\<lambda>(ns, n). ctl_buildClusterKey ns n) ` dom (rg_clusters (store_abs map_of s))
     \<and> (''n'', cl_Name pair_cluster) \<in> dom (rg_clusters (store_abs map_of s))"
proof -
  let ?s0 = "\<lparr>cs_e = [], cs_events = []\<rparr> :: mock ClusterStore"
  let ?c0 = "\<lparr>ct_clusters = [], ct_synced = []\<rparr>"
  have w: "wf_cluster pair_cluster" by (rule wf_NewCluster [OF pair_cluster_new]) (simp add: pair_cluster_def)
  have c: "plain (cl_Name pair_cluster)" "storable pair_cluster"
    using wf_storable [OF w ints_NewCluster(1) [OF pair_cluster_new]] by (simp_all add: pair_cluster_def plain_def)
  have t: "tidy (map_of (cs_e ?s0))" by (simp add: tidy_def)
  have r: "reg_CreateCluster ''n'' pair_cluster (store_abs map_of ?s0) = Ok (reg_put ''n'' pair_cluster (store_abs map_of ?s0))"
    by (simp add: reg_CreateCluster_def store_abs_def registry_of_def)
  then have "\<exists>s. CreateCluster Mock ''n'' pair_cluster ?s0 = Ok s \<and> store_abs map_of s = reg_put ''n'' pair_cluster (store_abs map_of ?s0)"
    using mock.CreateCluster_reg(1) [OF t sample_names(1) c] by (cases "CreateCluster Mock ''n'' pair_cluster ?s0") simp_all
  then obtain s where s: "CreateCluster Mock ''n'' pair_cluster ?s0 = Ok s" "store_abs map_of s = reg_put ''n'' pair_cluster (store_abs map_of ?s0)" by blast
  have "term_step Mock ''me'' (?s0, ''other'', ''other'', ?c0) (s, ''other'', ''other'', ?c0)"
    using term_step.stored [OF store_step.create_cluster [OF sample_names(1) c s(1)] mock.store_write_events(1) [OF s(1)], of "''me''" "''other''" "''other''" ?c0]
    by (simp add: leader_event_def)
  moreover obtain c' where "resume Mock s ?c0 = (c', Ok ())"
    using mock.resume_tracked [OF mock.CreateCluster_reg(2) [OF t sample_names(1) c s(1)], of ?c0] by auto
  then have "leader_change Mock s ''me'' ''me'' (''other'', ?c0) = Ok (''me'', c')" by (simp add: leader_change_def becomeLeader_def)
  then have "term_step Mock ''me'' (s, ''other'', ''other'', ?c0) (s, ''me'', ''me'', c')" by (rule term_step.changed)
  ultimately have p: "(term_step Mock ''me'')\<^sup>*\<^sup>* (?s0, ''other'', ''other'', ?c0) (s, ''me'', ''me'', c')" by simp
  from leader_runs_checkers [OF mock.engine_contract_axioms t _ _ _ p] p s(2)
  show ?thesis by (intro exI [of _ s] exI [of _ c']) (simp add: reg_put_def)
qed

end
