(* ===== verification/View.thy ===== *)
theory View
  imports JSValue
begin

text \<open>
  Rendered views. A component of the source returns JSX; its model returns a \<open>view\<close>, one
  constructor application per element, with the attributes that carry behaviour: targets of links,
  event handlers (named by an action of the component), values, keys, \<^verbatim>\<open>open\<close> and \<^verbatim>\<open>disabled\<close>
  flags, and the views passed as attributes. Attributes that only style an element (class names,
  sizes, colours, spacing) are left out. A component used inside another stays an element with its
  props, as in JSX. A character outside the code units of the model is a \<open>Glyph\<close>, named by its
  code point.
\<close>

datatype 'a view =
    Txt string
  | Ex jsval                          \<comment> \<open>\<^verbatim>\<open>{expression}\<close>\<close>
  | Glyph string
  | El string "'a attr list" "'a view list"
and 'a attr =
    SA string string                  \<comment> \<open>a string-valued attribute\<close>
  | BA string bool                    \<comment> \<open>a flag\<close>
  | VA string jsval                   \<comment> \<open>any other value\<close>
  | On string 'a                      \<comment> \<open>an event handler\<close>
  | NA string "'a view"               \<comment> \<open>a view passed as an attribute\<close>

type_synonym 'a views = "'a view list"

definition when_view :: "bool \<Rightarrow> 'a views \<Rightarrow> 'a views" where
  \<comment> \<open>\<^verbatim>\<open>{b && (...)}\<close>\<close>
  "when_view b vs = (if b then vs else [])"

section \<open>Queries on views\<close>

primrec hrefs :: "'a view \<Rightarrow> string list" and attr_hrefs :: "'a attr \<Rightarrow> string list" where
  "hrefs (Txt s) = []"
| "hrefs (Ex v) = []"
| "hrefs (Glyph s) = []"
| "hrefs (El t as cs) = concat (map attr_hrefs as) @ concat (map hrefs cs)"
| "attr_hrefs (SA k s) = (if k = ''href'' then [s] else [])"
| "attr_hrefs (BA k b) = []"
| "attr_hrefs (VA k v) = []"
| "attr_hrefs (On k a) = []"
| "attr_hrefs (NA k v) = hrefs v"

primrec actions :: "'a view \<Rightarrow> 'a list" and attr_actions :: "'a attr \<Rightarrow> 'a list" where
  "actions (Txt s) = []"
| "actions (Ex v) = []"
| "actions (Glyph s) = []"
| "actions (El t as cs) = concat (map attr_actions as) @ concat (map actions cs)"
| "attr_actions (SA k s) = []"
| "attr_actions (BA k b) = []"
| "attr_actions (VA k v) = []"
| "attr_actions (On k a) = [a]"
| "attr_actions (NA k v) = actions v"

definition is_disabled :: "'a attr list \<Rightarrow> bool" where
  "is_disabled as \<longleftrightarrow> BA ''disabled'' True \<in> set as"

definition is_closed :: "'a attr list \<Rightarrow> bool" where
  "is_closed as \<longleftrightarrow> BA ''open'' False \<in> set as"

primrec enabled_actions :: "'a view \<Rightarrow> 'a list" and attr_enabled_actions :: "'a attr \<Rightarrow> 'a list" where
  \<comment> \<open>The handlers the user can reach: those of an element that is not disabled, outside a dialog,
      menu, popover or snack bar that is closed (a closed one is not mounted).\<close>
  "enabled_actions (Txt s) = []"
| "enabled_actions (Ex v) = []"
| "enabled_actions (Glyph s) = []"
| "enabled_actions (El t as cs) =
     (if is_closed as then []
      else (if is_disabled as then [] else concat (map attr_enabled_actions as)) @ concat (map enabled_actions cs))"
| "attr_enabled_actions (SA k s) = []"
| "attr_enabled_actions (BA k b) = []"
| "attr_enabled_actions (VA k v) = []"
| "attr_enabled_actions (On k a) = [a]"
| "attr_enabled_actions (NA k v) = enabled_actions v"

fun react_text :: "jsval \<Rightarrow> string" where
  \<comment> \<open>What a JSX child of a primitive value prints.\<close>
  "react_text (JStr s) = s"
| "react_text (JNum x) = show_num x"
| "react_text _ = []"

primrec texts :: "'a view \<Rightarrow> string list" and attr_texts :: "'a attr \<Rightarrow> string list" where
  "texts (Txt s) = [s]"
| "texts (Ex v) = [react_text v]"
| "texts (Glyph s) = []"
| "texts (El t as cs) = concat (map attr_texts as) @ concat (map texts cs)"
| "attr_texts (SA k s) = (if k = ''label'' then [s] else [])"
| "attr_texts (BA k b) = []"
| "attr_texts (VA k v) = (if k = ''label'' then [react_text v] else [])"
| "attr_texts (On k a) = []"
| "attr_texts (NA k v) = texts v"

primrec radio_values :: "'a view \<Rightarrow> string list" and attr_radio_values :: "'a attr \<Rightarrow> string list" where
  \<comment> \<open>The values of the \<^verbatim>\<open>FormControlLabel\<close> entries of a radio group, in order.\<close>
  "radio_values (Txt s) = []"
| "radio_values (Ex v) = []"
| "radio_values (Glyph s) = []"
| "radio_values (El t as cs) =
     (if t = ''FormControlLabel'' then concat (map (\<lambda>a. case a of SA k s \<Rightarrow> (if k = ''value'' then [s] else []) | _ \<Rightarrow> []) as) else [])
     @ concat (map attr_radio_values as) @ concat (map radio_values cs)"
| "attr_radio_values (SA k s) = []"
| "attr_radio_values (BA k b) = []"
| "attr_radio_values (VA k v) = []"
| "attr_radio_values (On k a) = []"
| "attr_radio_values (NA k v) = radio_values v"

definition all_hrefs :: "'a views \<Rightarrow> string list" where
  "all_hrefs vs = concat (map hrefs vs)"

definition all_actions :: "'a views \<Rightarrow> 'a list" where
  "all_actions vs = concat (map actions vs)"

definition all_enabled :: "'a views \<Rightarrow> 'a list" where
  "all_enabled vs = concat (map enabled_actions vs)"

definition all_texts :: "'a views \<Rightarrow> string list" where
  "all_texts vs = concat (map texts vs)"

definition all_radio_values :: "'a views \<Rightarrow> string list" where
  "all_radio_values vs = concat (map radio_values vs)"

lemma when_view_simps [simp]: "when_view True vs = vs" "when_view False vs = []"
  by (simp_all add: when_view_def)

lemma is_disabled_simps [simp]:
  "is_disabled [] = False"
  "is_disabled (BA k b # as) = ((k = ''disabled'' \<and> b) \<or> is_disabled as)"
  "is_disabled (SA k s # as) = is_disabled as"
  "is_disabled (VA k v # as) = is_disabled as"
  "is_disabled (On k a # as) = is_disabled as"
  "is_disabled (NA k w # as) = is_disabled as"
  by (auto simp: is_disabled_def)

lemma is_closed_simps [simp]:
  "is_closed [] = False"
  "is_closed (BA k b # as) = ((k = ''open'' \<and> \<not> b) \<or> is_closed as)"
  "is_closed (SA k s # as) = is_closed as"
  "is_closed (VA k v # as) = is_closed as"
  "is_closed (On k a # as) = is_closed as"
  "is_closed (NA k w # as) = is_closed as"
  by (auto simp: is_closed_def)

lemma all_append [simp]:
  "all_hrefs (vs @ ws) = all_hrefs vs @ all_hrefs ws"
  "all_actions (vs @ ws) = all_actions vs @ all_actions ws"
  "all_enabled (vs @ ws) = all_enabled vs @ all_enabled ws"
  "all_texts (vs @ ws) = all_texts vs @ all_texts ws"
  "all_radio_values (vs @ ws) = all_radio_values vs @ all_radio_values ws"
  by (simp_all add: all_hrefs_def all_actions_def all_enabled_def all_texts_def all_radio_values_def)

lemma all_Cons [simp]:
  "all_hrefs (v # vs) = hrefs v @ all_hrefs vs"
  "all_actions (v # vs) = actions v @ all_actions vs"
  "all_enabled (v # vs) = enabled_actions v @ all_enabled vs"
  "all_texts (v # vs) = texts v @ all_texts vs"
  "all_radio_values (v # vs) = radio_values v @ all_radio_values vs"
  by (simp_all add: all_hrefs_def all_actions_def all_enabled_def all_texts_def all_radio_values_def)

lemma all_Nil [simp]:
  "all_hrefs [] = []" "all_actions [] = []" "all_enabled [] = []" "all_texts [] = []" "all_radio_values [] = []"
  by (simp_all add: all_hrefs_def all_actions_def all_enabled_def all_texts_def all_radio_values_def)

lemma enabled_subset:
  fixes v :: "'a view" and a :: "'a attr"
  shows "set (enabled_actions v) \<subseteq> set (actions v)" "set (attr_enabled_actions a) \<subseteq> set (attr_actions a)"
  by (induction v and a rule: view.induct attr.induct) (auto; blast)+

lemma not_enabled: "a \<notin> set (actions v) \<Longrightarrow> a \<notin> set (enabled_actions v)"
  by (meson enabled_subset(1) subsetD)

lemma all_enabled_subset: "set (all_enabled vs) \<subseteq> set (all_actions vs)"
  by (auto simp: all_enabled_def all_actions_def dest: subsetD [OF enabled_subset(1)])

section \<open>Routes of the pages\<close>

definition namespace_href :: "string \<Rightarrow> string" where
  "namespace_href ns = ''/namespaces/'' @ ns"

definition cluster_href :: "string \<Rightarrow> string \<Rightarrow> string" where
  "cluster_href ns c = ''/namespaces/'' @ ns @ ''/clusters/'' @ c"

definition shard_href :: "string \<Rightarrow> string \<Rightarrow> string \<Rightarrow> string" where
  "shard_href ns c sh = ''/namespaces/'' @ ns @ ''/clusters/'' @ c @ ''/shards/'' @ sh"

definition node_href :: "string \<Rightarrow> string \<Rightarrow> string \<Rightarrow> string \<Rightarrow> string" where
  "node_href ns c sh n = ''/namespaces/'' @ ns @ ''/clusters/'' @ c @ ''/shards/'' @ sh @ ''/nodes/'' @ n"

lemmas href_defs = namespace_href_def cluster_href_def shard_href_def node_href_def

lemma concat_map_fst_indexed: "concat (map (\<lambda>p. [f (fst p)]) (indexed xs)) = map f [0..<length xs]"
  by (simp add: map_indexed_fst [symmetric])

section \<open>Effects of handlers\<close>

datatype effect =
    RouterPush string
  | RouterRefresh
  | RouterBack
  | Reload                 \<comment> \<open>\<^verbatim>\<open>window.location.reload()\<close>\<close>
  | Alert string
  | ConsoleError string
  | ClipboardWrite jsval

end
