(* ===== verification/PageParts.thy ===== *)
theory PageParts
  imports View
begin

text \<open>
  What the list pages (namespaces, clusters, shards and nodes) repeat: the search term, the filter
  and sort options with their popovers, the cards with the resource counts, and reading arrays out of
  a response. The anchor of a popover is an element or \<^verbatim>\<open>null\<close>; only whether it is one matters.
\<close>

section \<open>Controls of a list\<close>

record list_controls =
  lc_searchTerm :: string
  lc_filterOpen :: bool
  lc_sortOpen :: bool
  lc_filterOption :: string
  lc_sortOption :: string

datatype ctl_act = CtlSearch | CtlClearSearch | CtlFilterClick | CtlFilterClose | CtlSortClick | CtlSortClose | CtlFilter | CtlSort

definition lc_init :: "string \<Rightarrow> string \<Rightarrow> list_controls" where
  "lc_init flt srt = \<lparr>lc_searchTerm = [], lc_filterOpen = False, lc_sortOpen = False,
     lc_filterOption = flt, lc_sortOption = srt\<rparr>"

fun lc_handle :: "ctl_act \<Rightarrow> string \<Rightarrow> list_controls \<Rightarrow> list_controls" where
  \<comment> \<open>The handlers; the second argument is the value of the event's target.\<close>
  "lc_handle CtlSearch v s = s\<lparr>lc_searchTerm := v\<rparr>"
| "lc_handle CtlClearSearch v s = s\<lparr>lc_searchTerm := []\<rparr>"
| "lc_handle CtlFilterClick v s = s\<lparr>lc_filterOpen := True\<rparr>"
| "lc_handle CtlFilterClose v s = s\<lparr>lc_filterOpen := False\<rparr>"
| "lc_handle CtlSortClick v s = s\<lparr>lc_sortOpen := True\<rparr>"
| "lc_handle CtlSortClose v s = s\<lparr>lc_sortOpen := False\<rparr>"
| "lc_handle CtlFilter v s = s\<lparr>lc_filterOption := v\<rparr>"
| "lc_handle CtlSort v s = s\<lparr>lc_sortOption := v\<rparr>"

section \<open>Shared views\<close>

definition search_box :: "(ctl_act \<Rightarrow> 'a) \<Rightarrow> string \<Rightarrow> string \<Rightarrow> list_controls \<Rightarrow> 'a view" where
  "search_box act box placeholder s =
     El box []
       ([El ''div'' [] [El ''SearchIcon'' [] []],
         El ''input'' [SA ''type'' ''text'', SA ''placeholder'' placeholder, SA ''value'' (lc_searchTerm s),
           On ''onChange'' (act CtlSearch)] []] @
        when_view (lc_searchTerm s \<noteq> []) [El ''button'' [On ''onClick'' (act CtlClearSearch)] [El ''span'' [] [Glyph ''U+2715'']]])"

definition stat_card :: "string \<Rightarrow> string \<Rightarrow> jsval \<Rightarrow> string \<Rightarrow> 'a view" where
  "stat_card box icon num label =
     El ''Grid'' []
       [El ''Paper'' []
         [El ''div'' []
           [El box [] [El icon [] []],
            El ''div'' [] [El ''Typography'' [] [Ex num], El ''Typography'' [] [Txt label]]],
          El ''div'' [] []]]"

definition list_header :: "(ctl_act \<Rightarrow> 'a) \<Rightarrow> string \<Rightarrow> list_controls \<Rightarrow> 'a view" where
  "list_header act title s =
     El ''div'' []
       [El ''div'' []
         [El ''Typography'' [] [Txt title],
          El ''div'' []
            [El ''Tooltip'' [SA ''title'' ''Filter'']
               [El ''IconButton''
                  ([On ''onClick'' (act CtlFilterClick)] @
                   (if lc_filterOpen s then [SA ''aria-describedby'' ''filter-popover''] else []))
                  [El ''FilterListIcon'' [] []]],
             El ''Tooltip'' [SA ''title'' ''Sort'']
               [El ''IconButton''
                  ([On ''onClick'' (act CtlSortClick)] @
                   (if lc_sortOpen s then [SA ''aria-describedby'' ''sort-popover''] else []))
                  [El ''SortIcon'' [] []]]]]]"

definition radio_option :: "string \<Rightarrow> string \<Rightarrow> 'a views \<Rightarrow> 'a view" where
  "radio_option box v label =
     El box []
       [El ''FormControlLabel''
         [SA ''value'' v,
          NA ''control'' (El ''Radio'' [NA ''checkedIcon'' (El ''div'' [] [El ''CheckIcon'' [] []])] []),
          NA ''label'' (El ''div'' [] label)] []]"

definition filter_entry :: "string \<Rightarrow> string \<times> string \<times> nat \<Rightarrow> 'a view" where
  \<comment> \<open>An option of a filter: its value, its text and how many rows it matches.\<close>
  "filter_entry box = (\<lambda>(v, text, n). radio_option box v [El ''span'' [] [Txt text], El ''Chip'' [VA ''label'' (JNat n)] []])"

definition sort_entry :: "string \<Rightarrow> string \<times> string \<times> string \<Rightarrow> 'a view" where
  \<comment> \<open>An option of a sort: its value, its icon and its text.\<close>
  "sort_entry box = (\<lambda>(v, icon, text). radio_option box v [El icon [] [], El ''span'' [] [Txt text]])"

definition option_popover ::
  "string \<Rightarrow> bool \<Rightarrow> 'a \<Rightarrow> 'a \<Rightarrow> string \<Rightarrow> string \<Rightarrow> 'a views \<Rightarrow> 'a view" where
  "option_popover pid opened close pick title cur entries =
     El ''Popover'' ((if opened then [SA ''id'' pid] else []) @ [BA ''open'' opened, On ''onClose'' close])
       [El ''div'' []
         [El ''div'' [] [El ''Typography'' [] [Txt title]],
          El ''RadioGroup'' [SA ''value'' cur, On ''onChange'' pick] [El ''div'' [] entries],
          El ''div'' [] [El ''Button'' [On ''onClick'' close] [Txt ''Close'']]]]"

definition filter_popover :: "(ctl_act \<Rightarrow> 'a) \<Rightarrow> string \<Rightarrow> 'a views \<Rightarrow> list_controls \<Rightarrow> 'a view" where
  "filter_popover act title entries s =
     option_popover ''filter-popover'' (lc_filterOpen s) (act CtlFilterClose) (act CtlFilter) title (lc_filterOption s) entries"

definition sort_popover :: "(ctl_act \<Rightarrow> 'a) \<Rightarrow> string \<Rightarrow> 'a views \<Rightarrow> list_controls \<Rightarrow> 'a view" where
  "sort_popover act title entries s =
     option_popover ''sort-popover'' (lc_sortOpen s) (act CtlSortClose) (act CtlSort) title (lc_sortOption s) entries"

lemmas part_defs = search_box_def stat_card_def list_header_def radio_option_def filter_entry_def sort_entry_def
  option_popover_def filter_popover_def sort_popover_def

section \<open>Arrays in responses\<close>

text \<open>
  \<^verbatim>\<open>v || []\<close> for a field the response declares as an array. A truthy value that is no array (or no
  array of strings) breaks that declaration; the source raises where it first uses the value as an
  array, the model where it reads it.
\<close>

fun array_or_empty :: "jsval \<Rightarrow> jsval list res" where
  "array_or_empty (JArr xs) = Inr xs"
| "array_or_empty v = (if truthy v then Inl (type_error ''not an array'') else Inr [])"

fun as_string :: "jsval \<Rightarrow> string res" where
  "as_string (JStr s) = Inr s"
| "as_string _ = Inl (type_error ''not a string'')"

definition strings_or_empty :: "jsval \<Rightarrow> string list res" where
  "strings_or_empty v = rbind (array_or_empty v) (rmap as_string)"

lemma rmap_as_string [simp]: "rmap as_string (map (\<lambda>x. JStr (f x)) xs) = Inr (map f xs)"
  by (induction xs) auto

lemma rmap_Inr_map: "(\<And>x. x \<in> set xs \<Longrightarrow> f x = Inr (g x)) \<Longrightarrow> rmap f xs = Inr (map g xs)"
  by (induction xs) auto

section \<open>Queries on the shared views\<close>

lemma parts_hrefs [simp]:
  "hrefs (search_box act box ph s) = []" "hrefs (stat_card b i n l) = []" "hrefs (list_header act t s) = []"
  "hrefs (filter_entry b e) = []" "hrefs (sort_entry b e') = []"
  by (auto simp: part_defs when_view_def split: prod.splits)

lemma popover_hrefs [simp]: "all_hrefs es = [] \<Longrightarrow> hrefs (filter_popover act t es s) = []"
  "all_hrefs es = [] \<Longrightarrow> hrefs (sort_popover act t es s) = []"
  by (auto simp: part_defs all_hrefs_def)

lemma radio_entries [simp]:
  "radio_values (filter_entry b e) = [fst e]" "radio_values (sort_entry b e') = [fst e']"
  by (auto simp: part_defs split: prod.splits)

lemma radio_popover [simp]:
  "radio_values (filter_popover act t es s) = all_radio_values es" "radio_values (sort_popover act t es s) = all_radio_values es"
  by (auto simp: part_defs all_radio_values_def)

section \<open>Rows of a list\<close>

text \<open>
  The rows a page shows: those that match the search and the filter, under the comparator of the
  chosen sort option. The contract holds of any page whose comparators are consistent.
\<close>

definition listed :: "('r \<Rightarrow> bool) \<Rightarrow> ('r \<Rightarrow> 'r \<Rightarrow> bool) \<Rightarrow> 'r list \<Rightarrow> 'r list" where
  "listed keep gt rows = js_sort gt (filter keep rows)"

definition same_rank :: "('r \<Rightarrow> 'r \<Rightarrow> bool) \<Rightarrow> 'r \<Rightarrow> 'r \<Rightarrow> bool" where
  "same_rank gt a b \<longleftrightarrow> \<not> gt a b \<and> \<not> gt b a"

definition listing_ok :: "('r \<Rightarrow> bool) \<Rightarrow> ('r \<Rightarrow> 'r \<Rightarrow> bool) \<Rightarrow> 'r list \<Rightarrow> 'r list \<Rightarrow> bool" where
  \<comment> \<open>The shown rows are the matching ones, each as often as it occurs, in the order of the option;
      rows the option does not tell apart keep their order.\<close>
  "listing_ok keep gt rows shown \<longleftrightarrow>
     mset shown = mset (filter keep rows)
     \<and> sorted_wrt (\<lambda>a b. \<not> gt a b) shown
     \<and> (\<forall>c. filter (same_rank gt c) shown = filter (same_rank gt c) (filter keep rows))"

locale list_page =
  fixes keep :: "list_controls \<Rightarrow> 'r \<Rightarrow> bool" and gt :: "list_controls \<Rightarrow> 'r \<Rightarrow> 'r \<Rightarrow> bool"
  assumes comparator: "js_comparator (gt s)"
begin

lemma listed_set: "set (listed (keep s) (gt s) rows) = {r \<in> set rows. keep s r}"
  by (simp add: listed_def)

lemma listed_length: "length (listed (keep s) (gt s) rows) \<le> length rows"
  by (simp add: listed_def)

lemma listed_distinct: "distinct (map f rows) \<Longrightarrow> distinct (map f (listed (keep s) (gt s) rows))"
  by (simp add: listed_def distinct_map_filter)

lemma listed_all: "(\<And>r. r \<in> set rows \<Longrightarrow> keep s r) \<Longrightarrow> mset (listed (keep s) (gt s) rows) = mset rows"
  by (simp add: listed_def filter_True)

end

sublocale list_page < order: js_comparator "gt s" for s
  by (rule comparator)

context list_page
begin

lemma listing: "listing_ok (keep s) (gt s) rows (listed (keep s) (gt s) rows)"
  unfolding listing_ok_def listed_def
proof (intro conjI allI)
  have "same_rank (gt s) c = (\<lambda>z. \<not> gt s c z \<and> \<not> gt s z c)" for c by (simp add: same_rank_def fun_eq_iff)
  then show "filter (same_rank (gt s) c) (js_sort (gt s) (filter (keep s) rows)) =
      filter (same_rank (gt s) c) (filter (keep s) rows)" for c
    by (simp only: order.sort_stable)
qed (simp_all add: order.sort_ordered)

end

section \<open>Names in order\<close>

text \<open>
  Pages of named rows sort them with \<^verbatim>\<open>localeCompare\<close>, whose order depends on the browser's locale: it
  is a parameter of the pages. The language specification promises a consistent comparator, the laws of
  the locale below. Comparing code units is one such order.
\<close>

locale locale_compare =
  fixes compare :: "string \<Rightarrow> string \<Rightarrow> int"
  assumes compare_flip: "0 < compare a b \<longleftrightarrow> compare b a < 0"
    and compare_trans: "compare a b \<le> 0 \<Longrightarrow> compare b c \<le> 0 \<Longrightarrow> compare a c \<le> 0"
begin

lemma comparator_asc: "js_comparator (\<lambda>x y. 0 < compare (f x) (f y))"
proof
  show "0 < compare (f x) (f y) \<Longrightarrow> \<not> 0 < compare (f y) (f x)" for x y using compare_flip by fastforce
  show "\<not> 0 < compare (f x) (f y) \<Longrightarrow> \<not> 0 < compare (f y) (f z) \<Longrightarrow> \<not> 0 < compare (f x) (f z)" for x y z
    unfolding not_less by (rule compare_trans)
qed

lemma comparator_desc: "js_comparator (\<lambda>x y. 0 < compare (f y) (f x))"
  by (rule js_comparator_flip [OF comparator_asc])

text \<open>The orders a page of named rows offers: by name and by two counts, each in both directions.\<close>

lemma comparator_of:
  fixes g h :: "'r \<Rightarrow> nat"
  assumes "gt = (\<lambda>x y. 0 < compare (f x) (f y)) \<or> gt = (\<lambda>x y. 0 < compare (f y) (f x)) \<or> gt = (\<lambda>x y. g x < g y)
    \<or> gt = (\<lambda>x y. g y < g x) \<or> gt = (\<lambda>x y. h x < h y) \<or> gt = (\<lambda>x y. h y < h x) \<or> gt = (\<lambda>x y. False)"
  shows "js_comparator gt"
  using assms comparator_asc [of f] comparator_desc [of f] js_comparator_key [of g] js_comparator_key [of h]
    js_comparator_flip [OF js_comparator_key [of g]] js_comparator_flip [OF js_comparator_key [of h]] js_comparator_const
  by (elim disjE) (simp_all only:)

end

fun units_compare :: "nat list \<Rightarrow> nat list \<Rightarrow> int" where
  "units_compare [] [] = 0"
| "units_compare [] (_ # _) = -1"
| "units_compare (_ # _) [] = 1"
| "units_compare (x # xs) (y # ys) = (if x < y then -1 else if y < x then 1 else units_compare xs ys)"

definition code_compare :: "string \<Rightarrow> string \<Rightarrow> int" where
  "code_compare a b = units_compare (map of_char a) (map of_char b)"

lemma units_compare_flip: "units_compare b a = - units_compare a b"
  by (induction a b rule: units_compare.induct) auto

lemma units_compare_trans: "units_compare a b \<le> 0 \<Longrightarrow> units_compare b c \<le> 0 \<Longrightarrow> units_compare a c \<le> 0"
proof (induction a b arbitrary: c rule: units_compare.induct)
  case (2 y ys)
  then show ?case by (cases c) simp_all
next
  case (4 x xs y ys)
  show ?case
  proof (cases c)
    case Nil
    with 4(3) show ?thesis by simp
  next
    case (Cons z zs)
    have "x \<le> y" "y \<le> z" using 4(2,3) Cons by (simp_all split: if_splits)
    then show ?thesis
    proof (cases "x < z")
      case False
      with \<open>x \<le> y\<close> \<open>y \<le> z\<close> have eq: "x = y" "y = z" by simp_all
      from 4(2,3) have "units_compare xs ys \<le> 0" "units_compare ys zs \<le> 0" by (simp_all add: Cons eq)
      with 4(1) [of zs] show ?thesis by (simp add: Cons eq)
    qed (simp add: Cons)
  qed
qed simp_all

interpretation code_units: locale_compare code_compare
proof
  show "0 < code_compare a b \<longleftrightarrow> code_compare b a < 0" for a b 
    using units_compare_flip [of "map of_char b" "map of_char a"] by (simp add: code_compare_def)
qed (auto simp: code_compare_def intro: units_compare_trans)

section \<open>Requests of a list page\<close>

text \<open>
  A list page reads its data when it is mounted, may read it again, and deletes a row in two requests:
  the deletion and, when it succeeded, reading the data again. The page shows a spinner while its
  \<^verbatim>\<open>loading\<close> flag is set and disables the button of a row that is being deleted. The contract: an answer
  leaves the flags set only when a request follows it. Then a page without outstanding requests shows
  its list, whatever was answered and in whatever order.
\<close>

datatype page_request = InitialFetch | Refresh | Deletion | Refetch

definition answer_step ::
  "(page_request \<Rightarrow> 'o \<Rightarrow> 's \<Rightarrow> 's \<times> page_request list) \<Rightarrow> 's \<times> page_request list \<Rightarrow> 's \<times> page_request list \<Rightarrow> bool" where
  \<comment> \<open>One of the outstanding requests is answered; a request that follows it is sent.\<close>
  "answer_step answered c d \<longleftrightarrow> (\<exists>xs q ys r follow.
     snd c = xs @ q # ys \<and> answered q r (fst c) = (fst d, follow) \<and> snd d = xs @ ys @ follow)"

fun request_weight :: "page_request \<Rightarrow> nat" where
  \<comment> \<open>How many answers a request may still take.\<close>
  "request_weight Deletion = 2"
| "request_weight _ = 1"

lemma request_weight_le: "sum_list (map request_weight qs) \<le> 2 * length qs"
proof (induction qs)
  case (Cons q qs)
  have "request_weight q \<le> 2" by (cases q) simp_all
  with Cons show ?case by simp
qed simp

lemma answer_step_possible: "(\<nexists>d. answer_step answered (s, pending) d) \<longleftrightarrow> pending = []"
proof
  assume none: "\<nexists>d. answer_step answered (s, pending) d"
  show "pending = []"
  proof (rule ccontr)
    assume "pending \<noteq> []"
    then obtain q qs where "pending = [] @ q # qs" by (cases pending) auto
    then have "answer_step answered (s, pending) (fst (answered q r s), [] @ qs @ snd (answered q r s))" for r
      unfolding answer_step_def fst_conv snd_conv by (intro exI conjI) (assumption, rule surjective_pairing, rule refl)
    with none show False by blast
  qed
qed (simp add: answer_step_def)

locale settling_page =
  fixes loading deleting :: "'s \<Rightarrow> bool"
    and answered :: "page_request \<Rightarrow> 'o \<Rightarrow> 's \<Rightarrow> 's \<times> page_request list"
  assumes answered_follow: "answered q r s = (p, follow) \<Longrightarrow> follow = [] \<or> q = Deletion \<and> follow = [Refetch]"
    and answered_loading: "answered q r s = (p, follow) \<Longrightarrow> loading p \<Longrightarrow> follow = [Refetch]"
    and answered_deleting: "answered q r s = (p, follow) \<Longrightarrow> deleting p \<Longrightarrow>
      follow = [Refetch] \<or> (q \<in> {InitialFetch, Refresh} \<and> deleting s)"
begin

definition flags_ok :: "'s \<Rightarrow> page_request list \<Rightarrow> bool" where
  "flags_ok s pending \<longleftrightarrow> (loading s \<longrightarrow> \<not> set pending \<subseteq> {Deletion}) \<and> (deleting s \<longrightarrow> set pending \<inter> {Deletion, Refetch} \<noteq> {})"

lemma flags_answer:
  assumes "flags_ok s (xs @ q # ys)" "answered q r s = (p, follow)"
  shows "flags_ok p (xs @ ys @ follow)"
  using assms(1) answered_loading [OF assms(2)] answered_deleting [OF assms(2)] by (auto simp: flags_ok_def)

lemma flags_refresh: "flags_ok s pending \<Longrightarrow> deleting t = deleting s \<Longrightarrow> flags_ok t (pending @ [Refresh])"
  by (auto simp: flags_ok_def)

lemma flags_delete: "flags_ok s pending \<Longrightarrow> loading t = loading s \<Longrightarrow> flags_ok t (pending @ [Deletion])"
  by (auto simp: flags_ok_def)

lemma flags_edit: "flags_ok s pending \<Longrightarrow> loading t = loading s \<Longrightarrow> deleting t = deleting s \<Longrightarrow> flags_ok t pending"
  by (simp add: flags_ok_def)

lemma flags_start: "\<not> deleting s \<Longrightarrow> flags_ok s [InitialFetch]"
  by (simp add: flags_ok_def)

lemma answer_step_flags: "answer_step answered c d \<Longrightarrow> flags_ok (fst c) (snd c) \<Longrightarrow> flags_ok (fst d) (snd d)"
  unfolding answer_step_def using flags_answer by metis

lemma answer_step_weight:
  assumes "answer_step answered c d"
  shows "sum_list (map request_weight (snd d)) < sum_list (map request_weight (snd c))"
proof -
  obtain xs q ys r follow where c: "snd c = xs @ q # ys" and a: "answered q r (fst c) = (fst d, follow)"
    and d: "snd d = xs @ ys @ follow" using assms unfolding answer_step_def by blast
  have "sum_list (map request_weight follow) < request_weight q"
    using answered_follow [OF a] by (cases q) auto
  then show ?thesis by (simp add: c d)
qed

lemma answers_weight:
  "(answer_step answered ^^ n) c d \<Longrightarrow> n + sum_list (map request_weight (snd d)) \<le> sum_list (map request_weight (snd c))"
proof (induction n arbitrary: d)
  case (Suc n)
  then obtain e where "(answer_step answered ^^ n) c e" "answer_step answered e d" by auto
  with Suc.IH [of e] answer_step_weight [of e d] show ?case by simp
qed simp

lemma answers_flags: "(answer_step answered ^^ n) c d \<Longrightarrow> flags_ok (fst c) (snd c) \<Longrightarrow> flags_ok (fst d) (snd d)"
  by (induction n arbitrary: d) (auto dest: answer_step_flags)

text \<open>Answering the outstanding requests ends, and the page then shows its list.\<close>

lemma settles:
  assumes "flags_ok s pending" "(answer_step answered ^^ n) (s, pending) (t, pending')"
  shows "n \<le> 2 * length pending \<and> ((\<nexists>d. answer_step answered (t, pending') d) \<longrightarrow> \<not> loading t \<and> \<not> deleting t)"
proof
  show "n \<le> 2 * length pending" using answers_weight [OF assms(2)] request_weight_le [of pending] by simp
  show "(\<nexists>d. answer_step answered (t, pending') d) \<longrightarrow> \<not> loading t \<and> \<not> deleting t"
    unfolding answer_step_possible using answers_flags [OF assms(2)] assms(1) by (auto simp: flags_ok_def)
qed

end

end
