(* ===== verification/AsyncDialog.thy ===== *)
theory AsyncDialog
  imports View
begin

text \<open>
  The contract that the dialogs with one outstanding request share (the migration dialog and the
  failover dialog): the request is sent by one handler, its outcome arrives later, and closing is
  refused in between. The callbacks \<^verbatim>\<open>onSuccess\<close> and \<^verbatim>\<open>onClose\<close> belong to the page that shows the
  dialog; a handler returns the calls it makes.
\<close>

datatype dialog_callback = OnSuccess | OnClose

definition still_open :: "dialog_callback list \<Rightarrow> bool \<Rightarrow> bool" where
  \<comment> \<open>The page's \<^verbatim>\<open>open\<close> flag after the calls of a handler.\<close>
  "still_open calls opened \<longleftrightarrow> opened \<and> OnClose \<notin> set calls"

locale async_dialog =
  fixes loading :: "'s \<Rightarrow> bool"
    and start :: "'s \<Rightarrow> 's \<times> 'm option"
    and finish :: "'o \<Rightarrow> 's \<Rightarrow> 's \<times> dialog_callback list"
    and close :: "'s \<Rightarrow> 's \<times> dialog_callback list"
  assumes start_loading: "\<not> loading s \<Longrightarrow> start s = (t, req) \<Longrightarrow> loading t \<longleftrightarrow> req \<noteq> None"
    and finish_idle: "finish r s = (t, calls) \<Longrightarrow> \<not> loading t"
    and close_refused: "loading s \<Longrightarrow> close s = (s, [])"
    and close_idle: "\<not> loading s \<Longrightarrow> close s = (t, calls) \<Longrightarrow> \<not> loading t \<and> OnClose \<in> set calls"
begin

definition busy_inv :: "'s \<Rightarrow> bool \<Rightarrow> 'm list \<Rightarrow> bool" where
  "busy_inv s opened pending \<longleftrightarrow> length pending = (if loading s then 1 else 0) \<and> (loading s \<longrightarrow> opened)"

lemma busy_start:
  assumes "busy_inv s opened pending" "\<not> loading s" "opened" "start s = (t, req)"
  shows "busy_inv t opened (case req of None \<Rightarrow> pending | Some m \<Rightarrow> pending @ [m])"
  using assms start_loading [OF assms(2,4)] by (auto simp: busy_inv_def split: option.splits)

lemma busy_finish:
  assumes "busy_inv s opened (m # ms)" "finish r s = (t, calls)"
  shows "busy_inv t (still_open calls opened) ms"
  using assms finish_idle [OF assms(2)] by (auto simp: busy_inv_def split: if_splits)

lemma busy_close:
  assumes "busy_inv s opened pending" "close s = (t, calls)"
  shows "busy_inv t (still_open calls opened) pending"
  using assms close_refused [of s] close_idle [of s t calls]
  by (cases "loading s") (auto simp: busy_inv_def still_open_def)

lemma busy_edit:
  assumes "busy_inv s opened pending" "loading t = loading s"
  shows "busy_inv t opened pending"
  using assms by (simp add: busy_inv_def)

lemma busy_bound: "busy_inv s opened pending \<Longrightarrow> length pending \<le> 1 \<and> (pending \<noteq> [] \<longrightarrow> opened \<and> loading s)"
  by (auto simp: busy_inv_def split: if_splits)

end

end
