(* ===== verification/MigrationDialog.thy ===== *)
theory MigrationDialog
  imports AsyncDialog Api SlotStore
begin

text \<open>
  The dialog that migrates a slot or a range of slots, \<^verbatim>\<open>webui/src/app/ui/migrationDialog.tsx\<close>: the
  check of the typed text, the handlers, the view and the step relation of one mounted dialog.
\<close>

section \<open>Props and state\<close>

record ShardData =
  sd_index :: nat
  sd_nodes :: "jsval list"
  sd_slotRanges :: "string list"
  sd_migratingSlot :: jsval
  sd_importingSlot :: jsval
  sd_targetShardIndex :: jsval
  sd_nodeCount :: nat
  sd_hasSlots :: bool
  sd_hasMigration :: bool
  sd_hasImporting :: bool

record migration_dialog =
  md_targetShardIndex :: jsnum
  md_slotNumber :: string
  md_slotOnly :: bool
  md_loading :: bool
  md_error :: jsval

definition md_init :: migration_dialog where
  "md_init = \<lparr>md_targetShardIndex = Fin (-1), md_slotNumber = [], md_slotOnly = False,
     md_loading = False, md_error = JStr []\<rparr>"

definition availableTargetShards :: "ShardData list \<Rightarrow> ShardData list" where
  "availableTargetShards shards = filter sd_hasSlots shards"

section \<open>Handlers\<close>

definition validateSlotInput :: "string \<Rightarrow> string option" where
  \<comment> \<open>None is \<^verbatim>\<open>{ isValid: true }\<close>, \<open>Some m\<close> is \<^verbatim>\<open>{ isValid: false, error: m }\<close>.\<close>
  "validateSlotInput input =
     (if js_trim input = [] then Some ''Please enter a slot number or range''
      else if js_includes input ''-'' then
        (let parts = js_split CHR ''-'' input in
         if length parts \<noteq> 2 then Some ''Invalid range format. Use format: start-end (e.g., 100-200)''
         else
           (let start = parseInt (js_trim (parts ! 0)); end = parseInt (js_trim (parts ! 1)) in
            if start = NaN \<or> end = NaN then Some ''Both start and end of range must be valid numbers''
            else if js_gt (Fin 0) start \<or> js_gt end (Fin 16383) \<or> js_gt start (Fin 16383) \<or> js_gt (Fin 0) end
              then Some ''Slot numbers must be between 0 and 16383''
            else if js_gt start end then Some ''Start slot must be less than or equal to end slot''
            else None))
      else
        (let slot = parseInt (js_trim input) in
         if slot = NaN \<or> js_gt (Fin 0) slot \<or> js_gt slot (Fin 16383)
         then Some ''Slot number must be between 0 and 16383'' else None))"

definition md_resetForm :: "migration_dialog \<Rightarrow> migration_dialog" where
  "md_resetForm s = s\<lparr>md_targetShardIndex := Fin (-1), md_slotNumber := [], md_slotOnly := False, md_error := JStr []\<rparr>"

type_synonym migration = "jsnum \<times> string \<times> bool"

definition md_migrate_begin :: "migration_dialog \<Rightarrow> migration_dialog \<times> migration option" where
  \<comment> \<open>\<^verbatim>\<open>handleMigration\<close> up to the call of \<^verbatim>\<open>migrateSlot\<close>, with the arguments of the call\<close>
  "md_migrate_begin s =
     (if md_targetShardIndex s = Fin (-1) \<or> js_trim (md_slotNumber s) = []
      then (s\<lparr>md_error := JStr ''Please select a target shard and enter a slot number or range''\<rparr>, None)
      else (case validateSlotInput (md_slotNumber s) of
          Some m \<Rightarrow> (s\<lparr>md_error := js_or (JStr m) (JStr ''Invalid slot input'')\<rparr>, None)
        | None \<Rightarrow> (s\<lparr>md_loading := True, md_error := JStr []\<rparr>,
            Some (md_targetShardIndex s, js_trim (md_slotNumber s), md_slotOnly s))))"

definition md_migrate_end :: "jsval res \<Rightarrow> migration_dialog \<Rightarrow> migration_dialog \<times> dialog_callback list" where
  \<comment> \<open>\<^verbatim>\<open>handleMigration\<close> from the result of \<^verbatim>\<open>migrateSlot\<close> on\<close>
  "md_migrate_end result s =
     (let (s', calls) = (case result of
          Inr v \<Rightarrow> if truthy v then (s\<lparr>md_error := v\<rparr>, []) else (md_resetForm s, [OnSuccess, OnClose])
        | Inl _ \<Rightarrow> (s\<lparr>md_error := JStr ''An unexpected error occurred during migration''\<rparr>, []))
      in (s'\<lparr>md_loading := False\<rparr>, calls))"

definition md_handleMigration ::
  "axios \<Rightarrow> string \<Rightarrow> string \<Rightarrow> migration_dialog \<Rightarrow> migration_dialog \<times> dialog_callback list" where
  "md_handleMigration ax namespace cluster s =
     (case md_migrate_begin s of
        (s', None) \<Rightarrow> (s', [])
      | (s', Some (target, slot, only)) \<Rightarrow> md_migrate_end (migrateSlot ax namespace cluster target slot only) s')"

definition md_handleClose :: "migration_dialog \<Rightarrow> migration_dialog \<times> dialog_callback list" where
  "md_handleClose s = (if \<not> md_loading s then (md_resetForm s, [OnClose]) else (s, []))"

definition md_setSlotNumber :: "string \<Rightarrow> migration_dialog \<Rightarrow> migration_dialog" where
  "md_setSlotNumber v s = s\<lparr>md_slotNumber := v\<rparr>"

definition md_setSlotOnly :: "bool \<Rightarrow> migration_dialog \<Rightarrow> migration_dialog" where
  "md_setSlotOnly b s = s\<lparr>md_slotOnly := b\<rparr>"

definition md_setTarget :: "string \<Rightarrow> migration_dialog \<Rightarrow> migration_dialog" where
  "md_setTarget v s = s\<lparr>md_targetShardIndex := parseInt v\<rparr>"

definition md_dismiss :: "migration_dialog \<Rightarrow> migration_dialog" where
  "md_dismiss s = s\<lparr>md_error := JStr []\<rparr>"

definition getSlotRangeDisplay :: "string list \<Rightarrow> string" where
  "getSlotRangeDisplay slotRanges = (if slotRanges = [] then ''No slots'' else js_join '', '' slotRanges)"

lemmas md_handlers = md_resetForm_def md_migrate_begin_def md_migrate_end_def md_handleClose_def
  md_setSlotNumber_def md_setSlotOnly_def md_setTarget_def md_dismiss_def

section \<open>View\<close>

datatype md_act = MdClose | MdSlotNumber | MdSlotOnly | MdTarget | MdMigrate | MdDismiss

definition md_title :: "md_act view" where
  "md_title = El ''DialogTitle'' []
     [El ''Box'' []
       [El ''MoveUpIcon'' [] [],
        El ''Box'' []
          [El ''Typography'' [] [Txt ''Migrate Slot''],
           El ''Typography'' [] [Txt ''Move a slot to a different shard'']]]]"

definition md_inputs :: "migration_dialog \<Rightarrow> md_act views" where
  "md_inputs s =
     [El ''Box'' []
       [El ''TextField''
         [SA ''label'' ''Slot or Slot Range'', SA ''value'' (md_slotNumber s), On ''onChange'' MdSlotNumber,
          SA ''placeholder'' ''e.g., 123 or 100-200'',
          SA ''helperText'' ''Enter a single slot (123) or slot range (100-200). Slots must be between 0 and 16383''] []],
      El ''Box'' []
       [El ''FormControlLabel''
         [NA ''control'' (El ''Switch'' [BA ''checked'' (md_slotOnly s), On ''onChange'' MdSlotOnly] []),
          NA ''label'' (El ''Box'' []
            [El ''Typography'' [] [Txt ''Slot-only migration''],
             El ''Typography'' [] [Txt ''Migrate only the slot without data'']])] []]]"

definition md_target_option :: "ShardData \<Rightarrow> md_act view" where
  "md_target_option shard =
     El ''FormControlLabel''
       [VA ''key'' (JNat (sd_index shard)), SA ''value'' (show_nat (sd_index shard)),
        NA ''control'' (El ''Radio'' [] []),
        NA ''label'' (El ''Box'' []
          [El ''StorageIcon'' [] [],
           El ''Box'' []
             [El ''Typography'' [] [Txt ''Shard '', Ex (JNat (sd_index shard))],
              El ''Typography'' [] [Txt ''Slots:'', Txt '' '', Txt (getSlotRangeDisplay (sd_slotRanges shard))],
              El ''Typography'' [] [Txt ''Nodes: '', Ex (JNat (sd_nodeCount shard))]],
           El ''Box'' []
             ([El ''Chip'' [SA ''label'' (show_nat (sd_nodeCount shard) @ '' nodes'')] []] @
              when_view (sd_hasMigration shard) [El ''Chip'' [SA ''label'' ''Migrating''] []] @
              when_view (sd_hasImporting shard) [El ''Chip'' [SA ''label'' ''Importing''] []])])] []"

definition md_targets :: "ShardData list \<Rightarrow> migration_dialog \<Rightarrow> md_act view" where
  "md_targets shards s =
     (if length (availableTargetShards shards) > 0 then
        El ''Box'' []
          [El ''Typography'' [] [Txt ''Select Target Shard''],
           El ''FormControl'' []
             [El ''RadioGroup''
               [SA ''value'' (show_num (md_targetShardIndex s)), On ''onChange'' MdTarget]
               (map md_target_option (availableTargetShards shards))]]
      else
        El ''Alert'' [SA ''severity'' ''warning'']
          [Txt ''No target shards available for migration. At least one shard with slots is required.''])"

definition md_actions :: "ShardData list \<Rightarrow> migration_dialog \<Rightarrow> md_act view" where
  "md_actions shards s =
     El ''DialogActions'' []
       [El ''Button'' [On ''onClick'' MdClose, BA ''disabled'' (md_loading s)] [Txt ''Cancel''],
        El ''Button''
          [On ''onClick'' MdMigrate,
           BA ''disabled'' (md_loading s \<or> length (availableTargetShards shards) = 0 \<or>
             md_targetShardIndex s = Fin (-1) \<or> js_trim (md_slotNumber s) = []),
           NA ''startIcon'' (if md_loading s then El ''CircularProgress'' [] [] else El ''MoveUpIcon'' [] [])]
          [Txt (if md_loading s then ''Processing...'' else ''Start Migration'')]]"

definition md_view :: "bool \<Rightarrow> ShardData list \<Rightarrow> migration_dialog \<Rightarrow> md_act views" where
  "md_view opened shards s =
     [El ''Dialog'' [BA ''open'' opened, On ''onClose'' MdClose]
        [md_title, El ''DialogContent'' [] (md_inputs s @ [md_targets shards s]), md_actions shards s],
      El ''Snackbar'' [BA ''open'' (truthy (md_error s)), VA ''autoHideDuration'' (JNat 6000), On ''onClose'' MdDismiss]
        [El ''Alert'' [On ''onClose'' MdDismiss, SA ''severity'' ''error''] [Ex (md_error s)]]]"

section \<open>The check against the controller's parser\<close>

lemma Atoi_parseInt:
  assumes "Atoi s = Inr n"
  shows "parseInt s = Fin (of_int n)" "js_trim s = s" "s \<noteq> []"
proof -
  obtain neg ds where sd: "split_sign s = (neg, ds)" by fastforce
  have ds: "ds \<noteq> []" "\<forall>c\<in>set ds. is_digit c" "n = (if neg then - int (digits_val ds) else int (digits_val ds))"
    using assms sd by (auto simp: Atoi_def Let_def list_all_iff split: list.splits if_splits)
  have s: "s = ds \<and> \<not> neg \<or> s = CHR ''+'' # ds \<and> \<not> neg \<or> s = CHR ''-'' # ds \<and> neg"
    using sd by (cases s) (auto split: if_splits)
  show "s \<noteq> []" using s ds by auto
  have "\<not> is_ws CHR ''+''" "\<not> is_ws CHR ''-''" by (simp_all add: is_ws_def)
  then have ws: "\<not> is_ws c" if "c \<in> set s" for c using s ds that by auto
  then show "js_trim s = s" by (rule js_trim_no_ws)
  have "js_trim_start s = s" using ws \<open>s \<noteq> []\<close> by (cases s) (simp_all add: js_trim_start_def)
  moreover have tw: "takeWhile is_digit ds = ds" using ds(2) by simp
  moreover have "\<not> hex_prefix ds" using ds(1,2) hex_prefix_digits by (cases ds) auto
  ultimately show "parseInt s = Fin (of_int n)"
    using sd ds by (simp add: parseInt_def signed_def tw Let_def)
qed

lemma one_dash:
  assumes "CHR ''-'' \<in> set s" "\<not> 1 < length (filter (\<lambda>c. c = CHR ''-'') s)"
  obtains u v where "s = u @ CHR ''-'' # v" "CHR ''-'' \<notin> set u" "CHR ''-'' \<notin> set v"
proof -
  from split_list_first [OF assms(1)] obtain u v where s: "s = u @ CHR ''-'' # v" and u: "CHR ''-'' \<notin> set u" by blast
  have "CHR ''-'' \<notin> set v"
  proof
    assume "CHR ''-'' \<in> set v"
    then have "filter (\<lambda>c. c = CHR ''-'') v \<noteq> []" by (auto simp: filter_empty_conv)
    then show False using assms(2) s by (auto simp: not_less)
  qed
  with s u show ?thesis by (rule that)
qed

text \<open>
  C27: The dialog never turns away what the controller would take: every text the controller's
  parser of slot ranges accepts passes the check of the dialog.
\<close>
theorem slot_check_complete:
  assumes "ParseSlotRange s = Inr r"
  shows "validateSlotInput s = None"
proof (cases "CHR ''-'' \<in> set s")
  case False
  with assms obtain n where n: "Atoi s = Inr n" "\<not> (n < 0 \<or> n > 16383)"
    by (auto simp: ParseSlotRange_def MinSlotID_def MaxSlotID_def split: if_splits sum.splits)
  note p = Atoi_parseInt [OF n(1)]
  show ?thesis using n(2) False p by (simp add: validateSlotInput_def js_includes_char Let_def not_less)
next
  case True
  have count: "\<not> 1 < length (filter (\<lambda>c. c = CHR ''-'') s)"
    using assms by (auto simp: ParseSlotRange_def split: if_splits)
  obtain u v where s: "s = u @ CHR ''-'' # v" "CHR ''-'' \<notin> set u" "CHR ''-'' \<notin> set v"
    using one_dash [OF True count] .
  have "takeWhile (\<lambda>c. c \<noteq> CHR ''-'') s = u" using s(2) unfolding s(1) by (subst takeWhile_append2) auto
  then obtain a b where ab: "Atoi u = Inr a" "Atoi v = Inr b" "a \<le> b" "0 \<le> a" "b \<le> 16383"
    using assms True s
    by (auto simp: ParseSlotRange_def Let_def in_slot_bounds_def MinSlotID_def MaxSlotID_def split: if_splits sum.splits)
  note p = Atoi_parseInt [OF ab(1)] Atoi_parseInt [OF ab(2)]
  have "js_split CHR ''-'' s = [u, v]" using s by (simp add: js_split_append js_split_no_sep)
  moreover have "js_trim s \<noteq> []"
    using s by (auto simp: js_trim_empty_iff is_ws_def)
  ultimately show ?thesis
    using True p ab by (simp add: validateSlotInput_def js_includes_char Let_def not_less)
qed

theorem slot_check_complete_witness: "validateSlotInput ''100-200'' = None"
  by (rule slot_check_complete [of _ "\<lparr>Start = 100, Stop = 200\<rparr>"])
    (simp add: ParseSlotRange_def Atoi_def is_digit_def digits_val_def digit_val_def in_slot_bounds_def MinSlotID_def MaxSlotID_def)

text \<open>
  The converse fails: digits followed by a letter pass the check of the dialog, which then sends
  the whole text, and the controller's parser refuses that text.
\<close>
theorem slot_check_lax:
  assumes "k \<le> 16383" "\<not> is_digit c" "\<not> is_ws c" "c \<notin> {CHR ''-'', CHR ''x'', CHR ''X''}"
  shows "validateSlotInput (show_nat k @ [c]) = None \<and> (\<exists>err. ParseSlotRange (show_nat k @ [c]) = Inl err)
    \<and> js_trim (show_nat k @ [c]) = show_nat k @ [c]"
proof -
  have trim: "js_trim (show_nat k @ [c]) = show_nat k @ [c]"
    using assms(3) by (intro js_trim_no_ws) (auto dest: show_nat_digits)
  have p: "parseInt (show_nat k @ [c]) = Fin (of_nat k)"
    using parseInt_digits_suffix [of "show_nat k" "[c]"] show_nat_digits [of _ k] assms by auto
  have nd: "CHR ''-'' \<notin> set (show_nat k @ [c])" using assms(4) no_dash_show_nat by auto
  obtain d ds where d: "show_nat k = d # ds" using show_nat_nonempty [of k] by (cases "show_nat k") auto
  then have "is_digit d" using show_nat_digits [of d k] by simp
  then have "Atoi (show_nat k @ [c]) = Inl (AtoiError (show_nat k @ [c]))"
    using assms(2) d by (auto simp: Atoi_def Let_def)
  moreover have "filter (\<lambda>c. c = CHR ''-'') (show_nat k @ [c]) = []" using nd by (auto simp: filter_empty_conv)
  ultimately have "\<exists>err. ParseSlotRange (show_nat k @ [c]) = Inl err" using nd by (simp add: ParseSlotRange_def)
  then show ?thesis
    using trim p nd assms(1) by (simp add: validateSlotInput_def js_includes_char Let_def)
qed

theorem slot_check_lax_witness:
  "validateSlotInput (show_nat 5 @ ''a'') = None \<and> (\<exists>err. ParseSlotRange (show_nat 5 @ ''a'') = Inl err)
   \<and> js_trim (show_nat 5 @ ''a'') = show_nat 5 @ ''a''"
  by (rule slot_check_lax) (simp_all add: is_digit_def is_ws_def)

section \<open>One mounted dialog\<close>

text \<open>
  The dialog between two changes of the shards it is given. The page opens it; the user's steps are
  the handlers reachable in the view, with the value of a radio button among those shown; the outcome
  of a migration that was sent arrives at any time.
\<close>

record md_sys =
  mg_ui :: migration_dialog
  mg_open :: bool
  mg_pending :: "migration list"

inductive md_step :: "ShardData list \<Rightarrow> md_sys \<Rightarrow> md_sys \<Rightarrow> bool" for shards where
  page_opens: "md_step shards s (s\<lparr>mg_open := True\<rparr>)"
| close: "MdClose \<in> set (all_enabled (md_view (mg_open s) shards (mg_ui s))) \<Longrightarrow> md_handleClose (mg_ui s) = (u, calls) \<Longrightarrow>
    md_step shards s (s\<lparr>mg_ui := u, mg_open := still_open calls (mg_open s)\<rparr>)"
| slot_number: "MdSlotNumber \<in> set (all_enabled (md_view (mg_open s) shards (mg_ui s))) \<Longrightarrow>
    md_step shards s (s\<lparr>mg_ui := md_setSlotNumber v (mg_ui s)\<rparr>)"
| slot_only: "MdSlotOnly \<in> set (all_enabled (md_view (mg_open s) shards (mg_ui s))) \<Longrightarrow>
    md_step shards s (s\<lparr>mg_ui := md_setSlotOnly b (mg_ui s)\<rparr>)"
| target: "MdTarget \<in> set (all_enabled (md_view (mg_open s) shards (mg_ui s))) \<Longrightarrow>
    v \<in> set (all_radio_values (md_view (mg_open s) shards (mg_ui s))) \<Longrightarrow>
    md_step shards s (s\<lparr>mg_ui := md_setTarget v (mg_ui s)\<rparr>)"
| migrate: "MdMigrate \<in> set (all_enabled (md_view (mg_open s) shards (mg_ui s))) \<Longrightarrow> md_migrate_begin (mg_ui s) = (u, req) \<Longrightarrow>
    md_step shards s (s\<lparr>mg_ui := u, mg_pending := (case req of None \<Rightarrow> mg_pending s | Some m \<Rightarrow> mg_pending s @ [m])\<rparr>)"
| outcome: "mg_pending s = m # ms \<Longrightarrow> md_migrate_end r (mg_ui s) = (u, calls) \<Longrightarrow>
    md_step shards s (s\<lparr>mg_ui := u, mg_open := still_open calls (mg_open s), mg_pending := ms\<rparr>)"
| dismiss: "MdDismiss \<in> set (all_enabled (md_view (mg_open s) shards (mg_ui s))) \<Longrightarrow>
    md_step shards s (s\<lparr>mg_ui := md_dismiss (mg_ui s)\<rparr>)"

inductive md_reachable :: "ShardData list \<Rightarrow> md_sys \<Rightarrow> bool" for shards where
  init: "md_reachable shards \<lparr>mg_ui = md_init, mg_open = False, mg_pending = []\<rparr>"
| step: "md_reachable shards s \<Longrightarrow> md_step shards s t \<Longrightarrow> md_reachable shards t"

definition target_ok :: "ShardData list \<Rightarrow> jsnum \<Rightarrow> bool" where
  "target_ok shards t \<longleftrightarrow> t \<in> (\<lambda>sh. num_of_nat (sd_index sh)) ` set (availableTargetShards shards)"

definition migration_ok :: "ShardData list \<Rightarrow> migration \<Rightarrow> bool" where
  "migration_ok shards = (\<lambda>(target, slot, only). target_ok shards target \<and> (\<exists>x. slot = js_trim x \<and> validateSlotInput x = None))"

interpretation migration: async_dialog md_loading md_migrate_begin md_migrate_end md_handleClose
  by unfold_locales
    (auto simp: md_handlers split: if_splits option.splits sum.splits)

definition md_inv :: "ShardData list \<Rightarrow> md_sys \<Rightarrow> bool" where
  "md_inv shards s \<longleftrightarrow> migration.busy_inv (mg_ui s) (mg_open s) (mg_pending s)
     \<and> (md_targetShardIndex (mg_ui s) = Fin (-1) \<or> target_ok shards (md_targetShardIndex (mg_ui s)))
     \<and> list_all (migration_ok shards) (mg_pending s)"

lemma md_radio_values: "set (all_radio_values (md_view opened shards s)) \<subseteq> (\<lambda>sh. show_nat (sd_index sh)) ` set (availableTargetShards shards)"
  by (auto simp: md_view_def md_title_def md_inputs_def md_targets_def md_actions_def md_target_option_def when_view_def
    split: if_splits)

lemma md_migrate_enabled:
  assumes "MdMigrate \<in> set (all_enabled (md_view opened shards s))"
  shows "\<not> md_loading s \<and> opened \<and> md_targetShardIndex s \<noteq> Fin (-1)"
  using assms
  by (auto simp: md_view_def md_title_def md_inputs_def md_targets_def md_actions_def md_target_option_def when_view_def
    split: if_splits)

lemma md_close_enabled: "MdClose \<in> set (all_enabled (md_view opened shards s)) \<Longrightarrow> opened"
  by (auto simp: md_view_def split: if_splits)

lemma md_inv_init: "md_inv shards \<lparr>mg_ui = md_init, mg_open = False, mg_pending = []\<rparr>"
  by (simp add: md_inv_def migration.busy_inv_def md_init_def)

lemma md_inv_step: "md_step shards s t \<Longrightarrow> md_inv shards s \<Longrightarrow> md_inv shards t"
proof (induction rule: md_step.induct)
  case (page_opens s)
  then show ?case by (auto simp: md_inv_def migration.busy_inv_def)
next
  case (close s u calls)
  then have "migration.busy_inv u (still_open calls (mg_open s)) (mg_pending s)"
    by (auto simp: md_inv_def intro: migration.busy_close)
  with close show ?case by (auto simp: md_inv_def md_handleClose_def md_resetForm_def split: if_splits)
next
  case (target s v)
  then have "v \<in> (\<lambda>sh. show_nat (sd_index sh)) ` set (availableTargetShards shards)" using md_radio_values by blast
  with target show ?case by (auto simp: md_inv_def md_setTarget_def target_ok_def elim: migration.busy_edit)
next
  case (migrate s u req)
  note en = md_migrate_enabled [OF migrate(1)]
  with migrate have "migration.busy_inv u (mg_open s) (case req of None \<Rightarrow> mg_pending s | Some m \<Rightarrow> mg_pending s @ [m])"
    by (auto simp: md_inv_def intro: migration.busy_start)
  with migrate en show ?case
    by (auto simp: md_inv_def md_migrate_begin_def migration_ok_def split: if_splits option.splits)
next
  case (outcome s m ms r u calls)
  then have "migration.busy_inv u (still_open calls (mg_open s)) ms"
    by (auto simp: md_inv_def intro: migration.busy_finish)
  with outcome show ?case
    by (auto simp: md_inv_def md_migrate_end_def md_resetForm_def split: if_splits sum.splits)
qed (auto simp: md_inv_def md_handlers elim: migration.busy_edit)

lemma md_reachable_inv: "md_reachable shards s \<Longrightarrow> md_inv shards s"
  by (induction rule: md_reachable.induct) (auto intro: md_inv_init md_inv_step)

text \<open>
  C21: In every reachable state of the migration dialog at most one migration is outstanding, the
  dialog stays open while one is, and whatever was sent names a shard that holds slots as its target
  and the trimmed text of an input that passed the check.
\<close>
theorem migration_dialog_safe:
  assumes "md_reachable shards s"
  shows "length (mg_pending s) \<le> 1 \<and> (mg_pending s \<noteq> [] \<longrightarrow> mg_open s) \<and> list_all (migration_ok shards) (mg_pending s)"
  using md_reachable_inv [OF assms] by (auto simp: md_inv_def dest: migration.busy_bound)

lemma md_sent_reachable:
  fixes shards
  defines "shards \<equiv> [\<lparr>sd_index = 3, sd_nodes = [], sd_slotRanges = [''0-100''], sd_migratingSlot = JStr [],
      sd_importingSlot = JStr [], sd_targetShardIndex = JNum (Fin (-1)), sd_nodeCount = 0, sd_hasSlots = True,
      sd_hasMigration = False, sd_hasImporting = False\<rparr>]"
  shows "\<exists>s. md_reachable shards s \<and> mg_pending s = [(num_of_nat 3, ''7'', False)]"
proof -
  let ?s0 = "\<lparr>mg_ui = md_init, mg_open = False, mg_pending = []\<rparr>"
  let ?s1 = "?s0\<lparr>mg_open := True\<rparr>"
  let ?s2 = "?s1\<lparr>mg_ui := md_setSlotNumber ''7'' (mg_ui ?s1)\<rparr>"
  let ?s3 = "?s2\<lparr>mg_ui := md_setTarget (show_nat 3) (mg_ui ?s2)\<rparr>"
  note v = md_view_def md_title_def md_inputs_def md_targets_def md_actions_def md_target_option_def
    availableTargetShards_def shards_def md_init_def md_handlers
  have "md_step shards ?s0 ?s1" by (rule md_step.page_opens)
  moreover have "md_step shards ?s1 ?s2" by (rule md_step.slot_number) (simp add: v)
  moreover have "md_step shards ?s2 ?s3" by (rule md_step.target) (simp_all add: v)
  ultimately have r: "md_reachable shards ?s3" by (blast intro: md_reachable.intros)
  have trim: "js_trim ''7'' = ''7''" by (simp add: js_trim_def is_ws_def)
  have p: "parseInt ''7'' = num_of_nat 7"
    using parseInt_digits_suffix [of "''7''" "[]"]
    by (simp add: is_digit_def digits_val_def digit_val_def num_of_nat_def)
  have neq: "num_of_nat 3 \<noteq> Fin (-1)" by (metis Fin_neg_one_nat)
  have val: "validateSlotInput ''7'' = None" by (simp add: validateSlotInput_def trim p)
  obtain u req where mb: "md_migrate_begin (mg_ui ?s3) = (u, req)" by fastforce
  then have req: "req = Some (num_of_nat 3, ''7'', False)"
    using trim val neq by (simp add: md_migrate_begin_def md_setTarget_def md_setSlotNumber_def md_init_def)
  have "MdMigrate \<in> set (all_enabled (md_view (mg_open ?s3) shards (mg_ui ?s3)))"
    using neq trim by (simp add: v)
  from md_step.migrate [OF this mb] r show ?thesis
    by (intro exI conjI) (erule md_reachable.step, assumption, simp add: req)
qed

theorem migration_dialog_safe_witness:
  "\<exists>shards (s :: md_sys). mg_pending s = [(num_of_nat 3, ''7'', False)] \<and> length (mg_pending s) \<le> 1 \<and> mg_open s
     \<and> list_all (migration_ok shards) (mg_pending s)"
proof -
  from md_sent_reachable obtain shards s where r: "md_reachable shards s" and p: "mg_pending s = [(num_of_nat 3, ''7'', False)]"
    by blast
  show ?thesis
    by (rule exI [of _ shards], rule exI [of _ s]) (use migration_dialog_safe [OF r] p in simp)
qed

end
