(* ===== verification/ClusterPage.thy ===== *)
theory ClusterPage
  imports PageParts MigrationDialog
begin

text \<open>
  The page of a cluster, \<^verbatim>\<open>webui/src/app/namespaces/[namespace]/clusters/[cluster]/page.tsx\<close>: reading
  the shards, deleting one, the filtered and sorted list, the display of slots, and the view.
\<close>

section \<open>State\<close>

record ResourceCounts =
  rc_shards :: nat
  rc_nodes :: nat
  rc_withSlots :: nat
  rc_migrating :: nat

record cluster_page =
  cp_shardsData :: "ShardData list"
  cp_resourceCounts :: ResourceCounts
  cp_loading :: bool
  cp_deletingShardIndex :: "nat option"
  cp_controls :: list_controls
  cp_expandedSlots :: "nat set"
  cp_migrationDialogOpen :: bool

definition cp_init :: cluster_page where
  "cp_init = \<lparr>cp_shardsData = [], cp_resourceCounts = \<lparr>rc_shards = 0, rc_nodes = 0, rc_withSlots = 0, rc_migrating = 0\<rparr>,
     cp_loading = True, cp_deletingShardIndex = None, cp_controls = lc_init ''all'' ''index-asc'',
     cp_expandedSlots = {}, cp_migrationDialogOpen = False\<rparr>"

section \<open>Reading the shards\<close>

definition isActiveMigration :: "jsval \<Rightarrow> bool" where
  "isActiveMigration migratingSlot \<longleftrightarrow>
     migratingSlot \<noteq> JNull \<and> migratingSlot \<noteq> JUndef \<and> migratingSlot \<noteq> JStr [] \<and> migratingSlot \<noteq> JStr ''-1''"

definition isActiveImport :: "jsval \<Rightarrow> bool" where
  "isActiveImport importingSlot \<longleftrightarrow>
     importingSlot \<noteq> JNull \<and> importingSlot \<noteq> JUndef \<and> importingSlot \<noteq> JStr [] \<and> importingSlot \<noteq> JStr ''-1''"

definition process_shard :: "nat \<times> jsval \<Rightarrow> ShardData res" where
  \<comment> \<open>The callback of the \<^verbatim>\<open>map\<close> in the fetch effect.\<close>
  "process_shard = (\<lambda>(index, shard).
     rbind (get shard ''nodes'') (\<lambda>nodesField. rbind (array_or_empty nodesField) (\<lambda>nodes.
     rbind (get shard ''slot_ranges'') (\<lambda>rangesField. rbind (strings_or_empty rangesField) (\<lambda>ranges.
     rbind (get shard ''migrating_slot'') (\<lambda>m. rbind (get shard ''import_slot'') (\<lambda>im.
     rbind (get shard ''target_shard_index'') (\<lambda>t.
       let migratingSlot = js_or m (JStr []); importingSlot = js_or im (JStr []) in
       Inr \<lparr>sd_index = index, sd_nodes = nodes, sd_slotRanges = ranges,
            sd_migratingSlot = migratingSlot, sd_importingSlot = importingSlot,
            sd_targetShardIndex = js_or t (JNum (Fin (-1))), sd_nodeCount = length nodes,
            sd_hasSlots = (length ranges > 0), sd_hasMigration = isActiveMigration migratingSlot,
            sd_hasImporting = isActiveImport importingSlot\<rparr>))))))))"

definition process_shard_after_delete :: "nat \<times> jsval \<Rightarrow> ShardData res" where
  \<comment> \<open>The callback of the \<^verbatim>\<open>map\<close> in \<^verbatim>\<open>handleDeleteShard\<close>.\<close>
  "process_shard_after_delete = (\<lambda>(idx, shard).
     rbind (get shard ''nodes'') (\<lambda>nodesField. rbind (array_or_empty nodesField) (\<lambda>nodes.
     rbind (get shard ''slot_ranges'') (\<lambda>rangesField. rbind (strings_or_empty rangesField) (\<lambda>ranges.
     rbind (get shard ''migrating_slot'') (\<lambda>m. rbind (get shard ''import_slot'') (\<lambda>im.
     rbind (get shard ''target_shard_index'') (\<lambda>t.
       let migratingSlot = (if m \<noteq> JNull \<and> m \<noteq> JUndef then m else JNum (Fin (-1)));
           importingSlot = (if im \<noteq> JNull \<and> im \<noteq> JUndef then im else JNum (Fin (-1))) in
       Inr \<lparr>sd_index = idx, sd_nodes = nodes, sd_slotRanges = ranges,
            sd_migratingSlot = migratingSlot, sd_importingSlot = importingSlot,
            sd_targetShardIndex = js_or t (JNum (Fin (-1))), sd_nodeCount = length nodes,
            sd_hasSlots = (length ranges > 0), sd_hasMigration = ge0 migratingSlot,
            sd_hasImporting = ge0 importingSlot\<rparr>))))))))"

fun process_shards ::
  "(nat \<times> jsval \<Rightarrow> ShardData res) \<Rightarrow> (nat \<times> jsval) list \<Rightarrow> nat \<Rightarrow> nat \<Rightarrow> nat \<Rightarrow> (ShardData list \<times> nat \<times> nat \<times> nat) res" where
  \<comment> \<open>The \<^verbatim>\<open>map\<close> with the counters its callback increments: \<^verbatim>\<open>totalNodes\<close>, \<^verbatim>\<open>withSlots\<close>, \<^verbatim>\<open>migrating\<close>.\<close>
  "process_shards f [] totalNodes withSlots migrating = Inr ([], totalNodes, withSlots, migrating)"
| "process_shards f (p # ps) totalNodes withSlots migrating =
     rbind (f p) (\<lambda>d.
       rbind (process_shards f ps (totalNodes + sd_nodeCount d)
           (if sd_hasSlots d then withSlots + 1 else withSlots)
           (if sd_hasMigration d then migrating + 1 else migrating))
         (\<lambda>(ds, counts). Inr (d # ds, counts)))"

definition cp_set_shards :: "(nat \<times> jsval \<Rightarrow> ShardData res) \<Rightarrow> jsval \<Rightarrow> cluster_page \<Rightarrow> cluster_page res" where
  "cp_set_shards f fetchedShards s =
     rbind (as_array ''map'' fetchedShards) (\<lambda>xs.
       rbind (process_shards f (indexed xs) 0 0 0) (\<lambda>(processedShards, totalNodes, withSlots, migrating).
         Inr (s\<lparr>cp_shardsData := processedShards,
                cp_resourceCounts := \<lparr>rc_shards = length processedShards, rc_nodes = totalNodes,
                  rc_withSlots = withSlots, rc_migrating = migrating\<rparr>\<rparr>)))"

definition cp_fetch_end :: "jsval res \<Rightarrow> cluster_page \<Rightarrow> cluster_page \<times> effect list" where
  \<comment> \<open>\<^verbatim>\<open>fetchData\<close> from the result of \<^verbatim>\<open>listShards\<close> on\<close>
  "cp_fetch_end fetched s =
     (let (s', effs) = (case fetched of
          Inl e \<Rightarrow> (s, [ConsoleError ''Error fetching shards:''])
        | Inr fetchedShards \<Rightarrow>
            if \<not> truthy fetchedShards then (s, [ConsoleError ''Shards not found'', RouterPush ''/404''])
            else (case cp_set_shards process_shard fetchedShards s of
                Inr s' \<Rightarrow> (s', [])
              | Inl e \<Rightarrow> (s, [ConsoleError ''Error fetching shards:''])))
      in (s'\<lparr>cp_loading := False\<rparr>, effs))"

definition cp_fetchData :: "axios \<Rightarrow> string \<Rightarrow> string \<Rightarrow> cluster_page \<Rightarrow> cluster_page \<times> effect list" where
  "cp_fetchData ax namespace cluster s = cp_fetch_end (listShards ax namespace cluster) s"

definition cp_refreshShardData :: "axios \<Rightarrow> string \<Rightarrow> string \<Rightarrow> cluster_page \<Rightarrow> cluster_page \<times> effect list" where
  "cp_refreshShardData ax namespace cluster s = cp_fetch_end (listShards ax namespace cluster) (s\<lparr>cp_loading := True\<rparr>)"

section \<open>Deleting a shard\<close>

definition cp_delete_begin :: "nat \<Rightarrow> cluster_page \<Rightarrow> cluster_page" where
  "cp_delete_begin index s = s\<lparr>cp_deletingShardIndex := Some index\<rparr>"

definition cp_delete_end :: "jsval res \<Rightarrow> jsval res \<Rightarrow> cluster_page \<Rightarrow> cluster_page \<times> effect list" where
  \<comment> \<open>\<^verbatim>\<open>handleDeleteShard\<close> from the answers of \<^verbatim>\<open>deleteShard\<close> and \<^verbatim>\<open>listShards\<close> on\<close>
  "cp_delete_end deleted fetched s =
     (let (s', effs) = (case deleted of
          Inl e \<Rightarrow> (s, [Alert (''Failed to delete shard: '' @ error_string e)])
        | Inr responseMessage \<Rightarrow>
            if truthy responseMessage \<and> \<not> strict_eq responseMessage (JStr [])
            then (s, [Alert (''Failed to delete shard: '' @ js_to_string responseMessage)])
            else (case rbind fetched (\<lambda>fetchedShards.
                     cp_set_shards process_shard_after_delete (js_or fetchedShards (JArr [])) s) of
                Inr s' \<Rightarrow> (s', [])
              | Inl e \<Rightarrow> (s, [Alert (''Failed to delete shard: '' @ error_string e)])))
      in (s'\<lparr>cp_deletingShardIndex := None\<rparr>, effs))"

definition cp_handleDeleteShard ::
  "axios \<Rightarrow> string \<Rightarrow> string \<Rightarrow> bool \<Rightarrow> nat \<Rightarrow> cluster_page \<Rightarrow> cluster_page \<times> effect list" where
  \<comment> \<open>The fourth argument is the answer to \<^verbatim>\<open>confirm\<close>.\<close>
  "cp_handleDeleteShard ax namespace cluster confirmed index s =
     (if \<not> confirmed then (s, [])
      else cp_delete_end (deleteShard ax namespace cluster (show_nat index)) (listShards ax namespace cluster)
        (cp_delete_begin index s))"

section \<open>The list\<close>

definition cp_keep :: "list_controls \<Rightarrow> ShardData \<Rightarrow> bool" where
  "cp_keep c shard =
     (if \<not> js_includes (js_toLowerCase (''shard '' @ show_nat (sd_index shard + 1))) (js_toLowerCase (lc_searchTerm c)) then False
      else if lc_filterOption c = ''with-migration'' then sd_hasMigration shard
      else if lc_filterOption c = ''no-migration'' then \<not> sd_hasMigration shard
      else if lc_filterOption c = ''with-slots'' then sd_hasSlots shard
      else if lc_filterOption c = ''no-slots'' then \<not> sd_hasSlots shard
      else if lc_filterOption c = ''with-importing'' then sd_hasImporting shard
      else True)"

definition cp_compare :: "list_controls \<Rightarrow> ShardData \<Rightarrow> ShardData \<Rightarrow> int" where
  "cp_compare c a b =
     (if lc_sortOption c = ''index-asc'' then int (sd_index a) - int (sd_index b)
      else if lc_sortOption c = ''index-desc'' then int (sd_index b) - int (sd_index a)
      else if lc_sortOption c = ''nodes-desc'' then int (sd_nodeCount b) - int (sd_nodeCount a)
      else if lc_sortOption c = ''nodes-asc'' then int (sd_nodeCount a) - int (sd_nodeCount b)
      else 0)"

definition cp_gt :: "list_controls \<Rightarrow> ShardData \<Rightarrow> ShardData \<Rightarrow> bool" where
  "cp_gt c a b \<longleftrightarrow> cp_compare c a b > 0"

definition filteredAndSortedShards :: "cluster_page \<Rightarrow> ShardData list" where
  "filteredAndSortedShards s = listed (cp_keep (cp_controls s)) (cp_gt (cp_controls s)) (cp_shardsData s)"

section \<open>Display of slots\<close>

definition formatSlotRanges :: "string list \<Rightarrow> string" where
  "formatSlotRanges ranges =
     (if ranges = [] then ''None''
      else if length ranges \<le> 2 then js_join '', '' ranges
      else ranges ! 0 @ '', '' @ ranges ! 1 @ '', ... (+'' @ show_nat (length ranges - 2) @ '' more)'')"

function slot_loop :: "rat \<Rightarrow> rat \<Rightarrow> rat list" where
  \<comment> \<open>\<^verbatim>\<open>for (let i = start; i <= end; i++) slots.push(i)\<close>\<close>
  "slot_loop i e = (if i \<le> e then i # slot_loop (i + 1) e else [])"
  by auto

termination
proof (relation "measure (\<lambda>(i, e). nat (\<lfloor>e - i\<rfloor> + 1))")
  fix i e :: rat
  assume "i \<le> e"
  then have "0 \<le> \<lfloor>e - i\<rfloor>" by simp
  moreover have "\<lfloor>e - (i + 1)\<rfloor> = \<lfloor>e - i\<rfloor> - 1"
    unfolding diff_diff_eq [symmetric] by (rule floor_diff_one)
  ultimately show "((i + 1, e), (i, e)) \<in> measure (\<lambda>(i, e). nat (\<lfloor>e - i\<rfloor> + 1))" by simp
qed simp

declare slot_loop.simps [simp del]

fun push_range :: "jsnum \<Rightarrow> jsnum \<Rightarrow> jsnum list option" where
  \<comment> \<open>The loop for any bounds that are numbers; None is the loop that does not end.\<close>
  "push_range (Fin i) (Fin e) = Some (map Fin (slot_loop i e))"
| "push_range (Fin i) NegInf = Some []"
| "push_range PosInf (Fin e) = Some []"
| "push_range PosInf NegInf = Some []"
| "push_range _ _ = None"

fun expand_ranges :: "string list \<Rightarrow> jsnum list option" where
  "expand_ranges [] = Some []"
| "expand_ranges (rg # rgs) =
     (let slots = (if js_includes rg ''-'' then
          (let parts = map js_Number (js_split CHR ''-'' rg) in
           if parts ! 0 \<noteq> NaN \<and> parts ! 1 \<noteq> NaN then push_range (parts ! 0) (parts ! 1) else Some [])
        else if js_Number rg \<noteq> NaN then Some [js_Number rg] else Some [])
      in case slots of None \<Rightarrow> None
       | Some xs \<Rightarrow> map_option (\<lambda>ys. xs @ ys) (expand_ranges rgs))"

definition expandSlotRanges :: "string list \<Rightarrow> jsnum list option" where
  "expandSlotRanges ranges =
     (if ranges = [] then Some []
      else map_option (js_sort (\<lambda>a b. js_gt (js_sub a b) (Fin 0))) (expand_ranges ranges))"

definition toggleSlotExpansion :: "nat \<Rightarrow> cluster_page \<Rightarrow> cluster_page" where
  "toggleSlotExpansion shardIndex s =
     (let cur = cp_expandedSlots s in
      s\<lparr>cp_expandedSlots := (if shardIndex \<in> cur then cur - {shardIndex} else insert shardIndex cur)\<rparr>)"

section \<open>View\<close>

datatype cp_act = CpCtl ctl_act | CpOpenMigration | CpCloseMigration | CpMigrated | CpDelete nat | CpToggleSlots nat | CpNone

definition cp_header :: "string \<Rightarrow> string \<Rightarrow> cluster_page \<Rightarrow> cp_act view" where
  "cp_header namespace cluster s =
     El ''div'' []
       [El ''div'' []
         [El ''Typography'' [] [El ''StorageIcon'' [] [], Txt cluster],
          El ''Typography'' [] [Txt ''Manage shards in this cluster'']],
        El ''div'' []
         [El ''div'' [] [search_box CpCtl ''div'' ''Search shards...'' (cp_controls s)],
          El ''div'' []
            [El ''ShardCreation'' [SA ''position'' ''page'', SA ''namespace'' namespace, SA ''cluster'' cluster]
               [El ''Button'' [NA ''startIcon'' (El ''AddIcon'' [] [])] [Txt ''Create Shard'']],
             El ''Button''
               [NA ''startIcon'' (El ''MoveUpIcon'' [] []), On ''onClick'' CpOpenMigration,
                BA ''disabled'' (length (filter sd_hasSlots (cp_shardsData s)) < 2)]
               [Txt ''Migrate Slot'']]]]"

definition cp_cards :: "cluster_page \<Rightarrow> cp_act view" where
  "cp_cards s =
     (let n = cp_resourceCounts s in
      El ''div'' []
        [El ''Grid'' []
          [stat_card ''div'' ''DnsIcon'' (JNat (rc_shards n)) ''Shards'',
           stat_card ''div'' ''DeviceHubIcon'' (JNat (rc_nodes n)) ''Nodes'',
           stat_card ''div'' ''StorageIcon'' (JNat (rc_withSlots n)) ''With Slots'',
           stat_card ''div'' ''WarningIcon'' (JNat (rc_migrating n)) ''Migrating'']])"

definition cp_filter_popover :: "cluster_page \<Rightarrow> cp_act view" where
  "cp_filter_popover s =
     (let d = cp_shardsData s in
      filter_popover CpCtl ''Filter Shards''
        (map (filter_entry ''div'')
          [(''all'', ''All shards'', length d),
           (''with-migration'', ''With migration'', length (filter sd_hasMigration d)),
           (''no-migration'', ''No migration'', length (filter (\<lambda>x. \<not> sd_hasMigration x) d)),
           (''with-slots'', ''With slots'', length (filter sd_hasSlots d)),
           (''no-slots'', ''No slots'', length (filter (\<lambda>x. \<not> sd_hasSlots x) d)),
           (''with-importing'', ''With importing'', length (filter sd_hasImporting d))])
        (cp_controls s))"

definition cp_sort_popover :: "cluster_page \<Rightarrow> cp_act view" where
  "cp_sort_popover s =
     (let n = show_nat (length (cp_shardsData s)) in
      sort_popover CpCtl ''Sort Shards''
        (map (sort_entry ''div'')
          [(''index-asc'', ''ArrowUpwardIcon'', ''Index 1-'' @ n),
           (''index-desc'', ''ArrowDownwardIcon'', ''Index '' @ n @ ''-1''),
           (''nodes-desc'', ''ArrowDownwardIcon'', ''Most nodes''),
           (''nodes-asc'', ''ArrowUpwardIcon'', ''Least nodes'')])
        (cp_controls s))"

definition plural :: "nat \<Rightarrow> string" where
  "plural n = (if n \<noteq> 1 then ''s'' else [])"

definition plus_one :: "jsval \<Rightarrow> jsval" where
  "plus_one v = js_plus v (JNat 1)"

definition cp_row_badges :: "ShardData \<Rightarrow> cp_act view" where
  "cp_row_badges shard =
     El ''div'' []
       ([El ''Typography'' [] [Txt ''Shard '', Ex (JNat (sd_index shard + 1))]] @
        when_view (sd_hasMigration shard)
          [El ''div'' [] [El ''div'' [] [], El ''span'' [] [Txt ''Migrating'', Txt '' '', Ex (sd_migratingSlot shard)]]] @
        when_view (\<not> sd_hasMigration shard \<and> \<not> sd_hasImporting shard)
          [El ''div'' [] [El ''div'' [] [], El ''span'' [] [Txt ''Stable'']]] @
        when_view (sd_hasImporting shard)
          [El ''div'' [] [El ''div'' [] [], El ''span'' [] [Txt ''Importing'', Txt '' '', Ex (sd_importingSlot shard)]]])"

definition cp_row_slots :: "cluster_page \<Rightarrow> ShardData \<Rightarrow> cp_act view option" where
  \<comment> \<open>None when counting the slots does not end.\<close>
  "cp_row_slots s shard =
     (if sd_hasSlots shard then
        map_option (\<lambda>allSlots.
          El ''div'' []
            [El ''div'' []
               ([El ''Typography'' [] [El ''StorageIcon'' [] [], Txt ''Slots:'', Txt '' '', Txt (formatSlotRanges (sd_slotRanges shard))],
                 El ''Chip'' [SA ''label'' (show_nat (length (sd_slotRanges shard)) @ '' range'' @ plural (length (sd_slotRanges shard)))] []] @
                when_view (length (sd_slotRanges shard) > 2)
                  [El ''IconButton'' [On ''onClick'' (CpToggleSlots (sd_index shard))]
                    [if sd_index shard \<in> cp_expandedSlots s then El ''ExpandLessIcon'' [] [] else El ''ExpandMoreIcon'' [] []]]),
             El ''Collapse'' [BA ''in'' (sd_index shard \<in> cp_expandedSlots s)]
               [El ''div'' []
                 [El ''Typography'' []
                    [Txt ''All Slot Ranges ('', Ex (JNat (length allSlots)), Txt '' '', Txt ''total slots):''],
                  El ''Typography'' [] [Txt (js_join '', '' (sd_slotRanges shard))]]]])
          (expandSlotRanges (sd_slotRanges shard))
      else Some (El ''Typography'' [] [El ''StorageIcon'' [] [], Txt ''No slots assigned'']))"

definition cp_row_chips :: "ShardData \<Rightarrow> cp_act view" where
  "cp_row_chips shard =
     El ''div'' []
       ([El ''Chip'' [NA ''icon'' (El ''DeviceHubIcon'' [] []), SA ''label'' (show_nat (sd_nodeCount shard) @ '' nodes'')] [],
         if sd_hasSlots shard
         then El ''Chip'' [NA ''icon'' (El ''StorageIcon'' [] []),
                SA ''label'' (show_nat (length (sd_slotRanges shard)) @ '' slot'' @ plural (length (sd_slotRanges shard)))] []
         else El ''Chip'' [NA ''icon'' (El ''InfoIcon'' [] []), SA ''label'' ''No slots''] []] @
        when_view (sd_hasMigration shard)
          [El ''Chip'' [NA ''icon'' (El ''WarningIcon'' [] []), SA ''label'' (''Migrating '' @ js_to_string (sd_migratingSlot shard))] []] @
        when_view (sd_hasImporting shard)
          [El ''Chip'' [NA ''icon'' (El ''InfoIcon'' [] []), SA ''label'' (''Importing '' @ js_to_string (sd_importingSlot shard))] []] @
        when_view (ge0 (sd_targetShardIndex shard))
          [El ''Chip'' [SA ''label'' (''Target: '' @ js_to_string (plus_one (sd_targetShardIndex shard)))] []])"

definition cp_row_summary :: "ShardData \<Rightarrow> cp_act view" where
  "cp_row_summary shard =
     El ''div'' []
       [El ''div'' [] [El ''Typography'' [] [Txt ''Nodes''], El ''Typography'' [] [Ex (JNat (sd_nodeCount shard))]],
        El ''div'' [] [El ''Typography'' [] [Txt ''Slots''],
          El ''Typography'' [] [Ex (JNat (if sd_hasSlots shard then length (sd_slotRanges shard) else 0))]],
        El ''div'' [] [El ''Typography'' [] [Txt ''Status''],
          El ''Typography'' [] [Txt (if sd_hasMigration shard then ''Migrating''
            else if sd_hasImporting shard then ''Importing'' else ''Stable'')]]]"

definition cp_row :: "string \<Rightarrow> string \<Rightarrow> cluster_page \<Rightarrow> ShardData \<Rightarrow> cp_act view option" where
  "cp_row namespace cluster s shard =
     map_option (\<lambda>slotsView.
       El ''div'' [VA ''key'' (JNat (sd_index shard))]
         [El ''Paper'' []
           [El ''div'' []
             [El ''div'' [] [El ''DnsIcon'' [] []],
              El ''div'' []
                [El ''div'' []
                   [El ''Link'' [SA ''href'' (shard_href namespace cluster (show_nat (sd_index shard)))]
                     [cp_row_badges shard,
                      El ''div'' []
                        ([El ''Typography'' [] [El ''DeviceHubIcon'' [] [], Ex (JNat (sd_nodeCount shard)), Txt '' nodes''],
                          slotsView] @
                         when_view (ge0 (sd_targetShardIndex shard))
                           [El ''Typography'' []
                             [El ''InfoIcon'' [] [], Txt ''Target shard:'', Txt '' '', Ex (plus_one (sd_targetShardIndex shard))]])]],
                 cp_row_chips shard,
                 cp_row_summary shard,
                 El ''div'' []
                   [El ''button''
                      [On ''onClick'' (CpDelete (sd_index shard)), BA ''disabled'' (cp_deletingShardIndex s = Some (sd_index shard))]
                      [El ''DeleteIcon'' [] []],
                    El ''Link'' [SA ''href'' (shard_href namespace cluster (show_nat (sd_index shard)))]
                      [El ''ChevronRightIcon'' [] []]]]]]])
       (cp_row_slots s shard)"

definition cp_empty :: "string \<Rightarrow> string \<Rightarrow> cluster_page \<Rightarrow> cp_act view" where
  "cp_empty namespace cluster s =
     El ''div'' []
       [El ''EmptyState''
          [SA ''title'' (if lc_filterOption (cp_controls s) \<noteq> ''all'' then ''No matching shards'' else ''No shards found''),
           SA ''description'' (if lc_filterOption (cp_controls s) \<noteq> ''all'' then ''Try changing your filter settings''
             else if lc_searchTerm (cp_controls s) \<noteq> [] then ''Try adjusting your search term''
             else ''Create a shard to get started''),
           NA ''icon'' (El ''DnsIcon'' [] []), SA ''action.label'' ''Create Shard'', On ''action.onClick'' CpNone] [],
        El ''div'' [] [El ''ShardCreation'' [SA ''position'' ''card'', SA ''namespace'' namespace, SA ''cluster'' cluster] []]]"

text \<open>The dialog's \<^verbatim>\<open>shards\<close> are the page's \<^verbatim>\<open>shardsData\<close>.\<close>

definition cp_view :: "string \<Rightarrow> string \<Rightarrow> cluster_page \<Rightarrow> cp_act views option" where
  "cp_view namespace cluster s =
     (if cp_loading s then Some [El ''LoadingSpinner'' [] []]
      else map_option (\<lambda>rows.
        [El ''div'' []
          [El ''div'' [] [El ''ClusterSidebar'' [SA ''namespace'' namespace] []],
           El ''div'' []
             [El ''Box'' []
               [cp_header namespace cluster s,
                cp_cards s,
                El ''Paper'' []
                  ([list_header CpCtl ''All Shards'' (cp_controls s), cp_filter_popover s, cp_sort_popover s,
                    if length (filteredAndSortedShards s) > 0 then El ''div'' [] rows else cp_empty namespace cluster s] @
                   when_view (length (filteredAndSortedShards s) > 0)
                     [El ''div'' [] [El ''Typography'' []
                       [Txt ''Showing '', Ex (JNat (length (filteredAndSortedShards s))), Txt '' of '',
                        Ex (JNat (length (cp_shardsData s))), Txt '' '', Txt ''shards'']]])]],
           El ''MigrationDialog''
             [BA ''open'' (cp_migrationDialogOpen s), On ''onClose'' CpCloseMigration, SA ''namespace'' namespace,
              SA ''cluster'' cluster, On ''onSuccess'' CpMigrated] []]])
        (those (map (cp_row namespace cluster s) (filteredAndSortedShards s))))"

section \<open>The mounted page\<close>

text \<open>
  The page with its outstanding fetches and deletions. What the controller answers is arbitrary, and
  answers arrive in any order with the user's steps; a deletion starts when the user presses its button
  in the view and confirms.
\<close>

record cp_sys =
  cs_page :: cluster_page
  cs_deletes :: "nat list"

definition cp_offers :: "string \<Rightarrow> string \<Rightarrow> cp_act \<Rightarrow> cluster_page \<Rightarrow> bool" where
  "cp_offers ns c a s \<longleftrightarrow> (case cp_view ns c s of None \<Rightarrow> False | Some v \<Rightarrow> a \<in> set (all_enabled v))"

inductive cp_step :: "string \<Rightarrow> string \<Rightarrow> cp_sys \<Rightarrow> cp_sys \<Rightarrow> bool" for ns c where
  fetched: "cp_step ns c s (s\<lparr>cs_page := fst (cp_fetch_end r (cs_page s))\<rparr>)"
| refresh: "cp_step ns c s (s\<lparr>cs_page := (cs_page s)\<lparr>cp_loading := True\<rparr>\<rparr>)"
| delete: "cp_offers ns c (CpDelete i) (cs_page s) \<Longrightarrow>
    cp_step ns c s (s\<lparr>cs_page := cp_delete_begin i (cs_page s), cs_deletes := cs_deletes s @ [i]\<rparr>)"
| deleted: "i \<in> set (cs_deletes s) \<Longrightarrow>
    cp_step ns c s (s\<lparr>cs_page := fst (cp_delete_end d r (cs_page s)), cs_deletes := remove1 i (cs_deletes s)\<rparr>)"
| control: "cp_offers ns c (CpCtl a) (cs_page s) \<Longrightarrow>
    cp_step ns c s (s\<lparr>cs_page := (cs_page s)\<lparr>cp_controls := lc_handle a v (cp_controls (cs_page s))\<rparr>\<rparr>)"
| toggle: "cp_offers ns c (CpToggleSlots i) (cs_page s) \<Longrightarrow>
    cp_step ns c s (s\<lparr>cs_page := toggleSlotExpansion i (cs_page s)\<rparr>)"
| open_migration: "cp_offers ns c CpOpenMigration (cs_page s) \<Longrightarrow>
    cp_step ns c s (s\<lparr>cs_page := (cs_page s)\<lparr>cp_migrationDialogOpen := True\<rparr>\<rparr>)"
| close_migration: "cp_offers ns c CpCloseMigration (cs_page s) \<Longrightarrow>
    cp_step ns c s (s\<lparr>cs_page := (cs_page s)\<lparr>cp_migrationDialogOpen := False\<rparr>\<rparr>)"

inductive cp_reachable :: "string \<Rightarrow> string \<Rightarrow> cp_sys \<Rightarrow> bool" for ns c where
  init: "cp_reachable ns c \<lparr>cs_page = cp_init, cs_deletes = []\<rparr>"
| step: "cp_reachable ns c s \<Longrightarrow> cp_step ns c s t \<Longrightarrow> cp_reachable ns c t"

definition cp_consistent :: "cluster_page \<Rightarrow> bool" where
  \<comment> \<open>The rows are numbered in order and the cards show their totals.\<close>
  "cp_consistent s \<longleftrightarrow>
     map sd_index (cp_shardsData s) = [0..<length (cp_shardsData s)]
     \<and> (\<forall>d\<in>set (cp_shardsData s). sd_nodeCount d = length (sd_nodes d) \<and> (sd_hasSlots d \<longleftrightarrow> sd_slotRanges d \<noteq> []))
     \<and> cp_resourceCounts s =
         \<lparr>rc_shards = length (cp_shardsData s), rc_nodes = sum_list (map sd_nodeCount (cp_shardsData s)),
          rc_withSlots = length (filter sd_hasSlots (cp_shardsData s)),
          rc_migrating = length (filter sd_hasMigration (cp_shardsData s))\<rparr>"

lemma process_shards_counts:
  "process_shards f ps a b c = Inr (ds, n, w, m) \<Longrightarrow>
     n = a + sum_list (map sd_nodeCount ds) \<and> w = b + length (filter sd_hasSlots ds) \<and> m = c + length (filter sd_hasMigration ds)
     \<and> rmap f ps = Inr ds"
proof (induction ps arbitrary: a b c ds)
  case (Cons p ps)
  from Cons.prems obtain d ds' where d: "f p = Inr d" "ds = d # ds'"
    and r: "process_shards f ps (a + sd_nodeCount d) (if sd_hasSlots d then b + 1 else b)
      (if sd_hasMigration d then c + 1 else c) = Inr (ds', n, w, m)"
    by (cases "f p") (auto simp: rbind_def split: sum.splits prod.splits)
  from Cons.IH [OF r] d show ?case by auto
qed simp

definition numbered :: "(nat \<times> jsval \<Rightarrow> ShardData res) \<Rightarrow> bool" where
  "numbered f \<longleftrightarrow> (\<forall>p d. f p = Inr d \<longrightarrow> sd_index d = fst p \<and> sd_nodeCount d = length (sd_nodes d)
     \<and> (sd_hasSlots d \<longleftrightarrow> sd_slotRanges d \<noteq> []))"

lemma process_shard_numbered: "numbered process_shard" "numbered process_shard_after_delete"
  unfolding numbered_def process_shard_def process_shard_after_delete_def split_def rbind_eq_Inr Let_def sum.inject
  by (intro allI impI, elim exE conjE, force)+

lemma rmap_numbered:
  assumes "numbered f" "rmap f ps = Inr ds"
  shows "map sd_index ds = map fst ps"
    and "\<forall>d\<in>set ds. sd_nodeCount d = length (sd_nodes d) \<and> (sd_hasSlots d \<longleftrightarrow> sd_slotRanges d \<noteq> [])"
  using assms(2) by (induction ps arbitrary: ds) (use assms(1) in \<open>auto simp: rbind_eq_Inr numbered_def\<close>)

lemma cp_set_shards_consistent:
  assumes "numbered f" "cp_set_shards f v s = Inr t"
  shows "cp_consistent t"
proof -
  obtain xs ds n w m where v: "as_array ''map'' v = Inr xs" and p: "process_shards f (indexed xs) 0 0 0 = Inr (ds, n, w, m)"
    and t: "t = s\<lparr>cp_shardsData := ds, cp_resourceCounts := \<lparr>rc_shards = length ds, rc_nodes = n, rc_withSlots = w, rc_migrating = m\<rparr>\<rparr>"
    using assms(2) by (auto simp: cp_set_shards_def rbind_eq_Inr)
  have c: "n = sum_list (map sd_nodeCount ds)" "w = length (filter sd_hasSlots ds)" "m = length (filter sd_hasMigration ds)"
    and r: "rmap f (indexed xs) = Inr ds"
    using process_shards_counts [OF p] by simp_all
  have "length ds = length xs" using length_rmap [OF r] by simp
  then show ?thesis
    using rmap_numbered [OF assms(1) r] c by (simp add: cp_consistent_def t)
qed

lemmas cp_shards_consistent = cp_set_shards_consistent [OF process_shard_numbered(1)]
  cp_set_shards_consistent [OF process_shard_numbered(2)]

lemma cp_consistent_frame [simp]:
  "cp_consistent (s\<lparr>cp_loading := b\<rparr>) = cp_consistent s" "cp_consistent (s\<lparr>cp_deletingShardIndex := i\<rparr>) = cp_consistent s"
  "cp_consistent (s\<lparr>cp_controls := c\<rparr>) = cp_consistent s" "cp_consistent (s\<lparr>cp_expandedSlots := e\<rparr>) = cp_consistent s"
  "cp_consistent (s\<lparr>cp_migrationDialogOpen := b\<rparr>) = cp_consistent s"
  by (simp_all add: cp_consistent_def)

lemma cp_fetch_consistent: "cp_consistent s \<Longrightarrow> cp_consistent (fst (cp_fetch_end r s))"
  by (auto simp: cp_fetch_end_def Let_def dest: cp_shards_consistent split: sum.splits if_splits)

lemma cp_delete_consistent: "cp_consistent s \<Longrightarrow> cp_consistent (fst (cp_delete_end d r s))"
  by (auto simp: cp_delete_end_def Let_def rbind_eq_Inr dest: cp_shards_consistent split: sum.splits if_splits)

lemma cp_step_consistent: "cp_step ns c s t \<Longrightarrow> cp_consistent (cs_page s) \<Longrightarrow> cp_consistent (cs_page t)"
  by (induction rule: cp_step.induct)
    (simp_all add: cp_fetch_consistent cp_delete_consistent cp_delete_begin_def toggleSlotExpansion_def Let_def)

lemma cp_reachable_consistent: "cp_reachable ns c s \<Longrightarrow> cp_consistent (cs_page s)"
proof (induction rule: cp_reachable.induct)
  case init
  show ?case by (simp add: cp_consistent_def cp_init_def)
qed (rule cp_step_consistent)

text \<open>
  C19: In every reachable state of the cluster page, whatever the controller answered and in whatever
  order, the rows are numbered 0, 1, 2 and so on, and the four cards show the number of shards, the
  sum of their node counts, and how many have slots and how many migrate.
\<close>
theorem cluster_page_consistent:
  assumes "cp_reachable ns c s"
  shows "cp_consistent (cs_page s)"
  by (rule cp_reachable_consistent [OF assms])

lemma cluster_page_one_shard:
  "\<exists>s. cp_reachable ns c s \<and> rc_shards (cp_resourceCounts (cs_page s)) = 1"
proof -
  let ?s0 = "\<lparr>cs_page = cp_init, cs_deletes = []\<rparr>"
  have "cp_reachable ns c (?s0\<lparr>cs_page := fst (cp_fetch_end (Inr (JArr [JObj []])) (cs_page ?s0))\<rparr>)"
    by (rule cp_reachable.step [OF cp_reachable.init cp_step.fetched])
  then show ?thesis
    by (intro exI conjI) (assumption, simp add: cp_fetch_end_def cp_set_shards_def process_shard_def cp_init_def indexed_def
      strings_or_empty_def get_def Let_def)
qed

theorem cluster_page_consistent_witness:
  "\<exists>s :: cp_sys. cp_consistent (cs_page s) \<and> rc_shards (cp_resourceCounts (cs_page s)) = 1"
  using cluster_page_one_shard cluster_page_consistent by blast

section \<open>The rows\<close>

interpretation cluster_list: list_page cp_keep cp_gt
  by unfold_locales (auto simp: js_comparator_def cp_gt_def cp_compare_def)


lemma hrefs_cp_row_slots: "cp_row_slots s shard = Some v \<Longrightarrow> hrefs v = []"
  by (auto simp: cp_row_slots_def when_view_def split: if_splits)

lemma hrefs_cp_row:
  assumes "cp_row ns c s shard = Some v"
  shows "hrefs v = [shard_href ns c (show_nat (sd_index shard)), shard_href ns c (show_nat (sd_index shard))]"
  using assms hrefs_cp_row_slots
  by (auto simp: cp_row_def cp_row_badges_def cp_row_chips_def cp_row_summary_def when_view_def)

lemma actions_cp_row:
  assumes "cp_row ns c s shard = Some v"
  shows "CpDelete i \<in> set (actions v) \<longleftrightarrow> i = sd_index shard"
  using assms
  by (auto simp: cp_row_def cp_row_badges_def cp_row_chips_def cp_row_summary_def cp_row_slots_def when_view_def split: if_splits)

lemma those_Some: "those xs = Some ys \<Longrightarrow> xs = map Some ys"
  by (induction xs arbitrary: ys) (auto split: option.splits)

lemma cp_view_hrefs:
  assumes "cp_view ns c s = Some v" "\<not> cp_loading s"
  shows "all_hrefs v = concat (map (\<lambda>d. [shard_href ns c (show_nat (sd_index d)), shard_href ns c (show_nat (sd_index d))])
    (filteredAndSortedShards s))"
proof -
  obtain rows where r: "those (map (cp_row ns c s) (filteredAndSortedShards s)) = Some rows"
    using assms by (auto simp: cp_view_def)
  have "map (cp_row ns c s) (filteredAndSortedShards s) = map Some rows" by (rule those_Some [OF r])
  then have len: "length rows = length (filteredAndSortedShards s)"
    and nth: "\<And>i. i < length rows \<Longrightarrow> cp_row ns c s (filteredAndSortedShards s ! i) = Some (rows ! i)"
    by (metis length_map, metis length_map nth_map)
  have "map hrefs rows = map (\<lambda>d. [shard_href ns c (show_nat (sd_index d)), shard_href ns c (show_nat (sd_index d))]) (filteredAndSortedShards s)"
    by (rule nth_equalityI) (simp_all add: len hrefs_cp_row [OF nth])
  then show ?thesis
    using assms r len
    by (auto simp: cp_view_def cp_header_def cp_cards_def cp_filter_popover_def cp_sort_popover_def cp_empty_def when_view_def Let_def)
qed

lemma numbered_position:
  assumes "map f xs = [0..<length xs]" "x \<in> set xs"
  shows "f x < length xs \<and> xs ! f x = x"
proof -
  obtain i where i: "i < length xs" "xs ! i = x" using assms(2) unfolding in_set_conv_nth by blast
  have "f x = map f xs ! i" using i by simp
  also have "\<dots> = i" unfolding assms(1) using i(1) by simp
  finally show ?thesis using i by simp
qed

text \<open>
  C28: In every reachable state, the links of the rows the page shows lead, in the order of the rows,
  to the page of the shard at that row's position in the controller's list, whatever the search, filter
  and sort option are.
\<close>
theorem cluster_page_links:
  assumes "cp_reachable ns c s" "cp_view ns c (cs_page s) = Some v" "\<not> cp_loading (cs_page s)"
  shows "all_hrefs v = concat (map (\<lambda>d. [shard_href ns c (show_nat (sd_index d)), shard_href ns c (show_nat (sd_index d))])
      (filteredAndSortedShards (cs_page s)))
    \<and> (\<forall>d\<in>set (filteredAndSortedShards (cs_page s)). sd_index d < length (cp_shardsData (cs_page s)) \<and> cp_shardsData (cs_page s) ! sd_index d = d)"
proof -
  have idx: "map sd_index (cp_shardsData (cs_page s)) = [0..<length (cp_shardsData (cs_page s))]"
    using cp_reachable_consistent [OF assms(1)] unfolding cp_consistent_def by (rule conjunct1)
  have "sd_index d < length (cp_shardsData (cs_page s)) \<and> cp_shardsData (cs_page s) ! sd_index d = d"
    if "d \<in> set (cp_shardsData (cs_page s))" for d
    by (rule numbered_position [OF idx that])
  moreover have "set (filteredAndSortedShards (cs_page s)) \<subseteq> set (cp_shardsData (cs_page s))"
    by (auto simp: filteredAndSortedShards_def cluster_list.listed_set)
  ultimately show ?thesis using cp_view_hrefs [OF assms(2,3)] by blast
qed

theorem cluster_page_links_witness:
  "\<exists>(s :: cp_sys) v. all_hrefs v = [shard_href ''ns'' ''c'' (show_nat 0), shard_href ''ns'' ''c'' (show_nat 0)]
     \<and> cp_view ''ns'' ''c'' (cs_page s) = Some v"
proof -
  let ?s0 = "\<lparr>cs_page = cp_init, cs_deletes = []\<rparr>"
  let ?s = "?s0\<lparr>cs_page := fst (cp_fetch_end (Inr (JArr [JObj []])) (cs_page ?s0))\<rparr>"
  have r: "cp_reachable ''ns'' ''c'' ?s"
    by (rule cp_reachable.step [OF cp_reachable.init cp_step.fetched])
  note e = cp_fetch_end_def cp_set_shards_def process_shard_def cp_init_def indexed_def strings_or_empty_def get_def Let_def
  have l: "\<not> cp_loading (cs_page ?s)" by (simp add: e)
  have "js_includes (js_toLowerCase t) []" for t by simp
  then have shown: "map sd_index (filteredAndSortedShards (cs_page ?s)) = [0]"
    by (simp add: e filteredAndSortedShards_def listed_def cp_keep_def lc_init_def js_toLowerCase_def)
  obtain v where v: "cp_view ''ns'' ''c'' (cs_page ?s) = Some v"
    by (simp add: e cp_view_def filteredAndSortedShards_def listed_def cp_keep_def lc_init_def js_toLowerCase_def
      cp_row_def cp_row_slots_def)
  from shown obtain d where "filteredAndSortedShards (cs_page ?s) = [d]" "sd_index d = 0" by auto
  with cluster_page_links [OF r v l] v show ?thesis by (intro exI [of _ ?s] exI [of _ v]) simp
qed

section \<open>The slots of a shard\<close>

lemma js_sort_sorted: "sorted_wrt (\<lambda>a b. \<not> gt a b) xs \<Longrightarrow> js_sort gt xs = xs"
proof (induction xs)
  case (Cons x xs)
  then show ?case by (cases xs) auto
qed simp

lemma slot_loop_upto: "slot_loop (of_int a) (of_int b) = map of_int [a..b]"
proof (induction a b rule: upto.induct)
  case (1 a b)
  then show ?case
    by (subst slot_loop.simps, subst upto.simps) simp
qed

lemma expand_ranges_String:
  assumes "list_all valid_range rs"
  shows "expand_ranges (map SlotRange_String rs) = Some (map (\<lambda>k. Fin (of_int k)) (concat (map (\<lambda>r. [Start r..Stop r]) rs)))"
  using assms
proof (induction rs)
  case (Cons r rs)
  obtain a b where r: "r = \<lparr>Start = int a, Stop = int b\<rparr>" "a \<le> b" "b \<le> 16383"
    using Cons.prems valid_range_nat [of r] by auto
  show ?case
  proof (cases "a = b")
    case True
    with Cons r show ?thesis
      by (simp add: SlotRange_String_nat js_includes_char no_dash_show_nat num_of_nat_def Let_def)
  next
    case False
    have "push_range (num_of_nat a) (num_of_nat b) = Some (map (\<lambda>k. Fin (of_int k)) [int a..int b])"
      using slot_loop_upto [of "int a" "int b"] by (simp add: num_of_nat_def comp_def)
    with False Cons r show ?thesis
      by (simp add: SlotRange_String_nat js_includes_char no_dash_show_nat js_split_append js_split_no_sep Let_def)
  qed
qed simp

lemma canonical_upto:
  assumes "canonical rs"
  shows "sorted_wrt (<) (concat (map (\<lambda>r. [Start r..Stop r]) rs))" "set (concat (map (\<lambda>r. [Start r..Stop r]) rs)) = slots rs"
proof -
  show "set (concat (map (\<lambda>r. [Start r..Stop r]) rs)) = slots rs" by (auto simp: slots_def slots_of_def)
  show "sorted_wrt (<) (concat (map (\<lambda>r. [Start r..Stop r]) rs))"
    using assms
  proof (induction rs)
    case (Cons r rs)
    have "x < y" if "x \<in> {Start r..Stop r}" "q \<in> set rs" "y \<in> {Start q..Stop q}" for x y q
      using Cons.prems that by (fastforce simp: canonical_def)
    with Cons show ?case
      by (auto simp: canonical_def sorted_wrt_append)
  qed simp
qed

text \<open>
  C25: For the ranges of a shard as the controller keeps and prints them, \<^verbatim>\<open>expandSlotRanges\<close> ends and
  gives every slot of the shard exactly once, in ascending order; so the number of slots the page shows
  is the number of slots the shard holds.
\<close>
theorem expand_slots_correct:
  assumes "canonical rs"
  shows "expandSlotRanges (map SlotRange_String rs) = Some (map (\<lambda>k. Fin (of_int k)) (sorted_list_of_set (slots rs)))
    \<and> length (sorted_list_of_set (slots rs)) = card (slots rs)"
proof -
  let ?ks = "concat (map (\<lambda>r. [Start r..Stop r]) rs)"
  have ks: "sorted_wrt (<) ?ks" "set ?ks = slots rs" by (rule canonical_upto [OF assms])+
  then have eq: "sorted_list_of_set (slots rs) = ?ks"
    by (metis sorted_list_of_set.idem_if_sorted_distinct strict_sorted_iff)
  have gt: "sorted_wrt (\<lambda>a b. \<not> js_gt (js_sub a b) (Fin 0)) (map (\<lambda>k. Fin (of_int k)) ?ks)"
    unfolding sorted_wrt_map by (rule sorted_wrt_mono_rel [OF _ ks(1)]) simp
  have "expand_ranges (map SlotRange_String rs) = Some (map (\<lambda>k. Fin (of_int k)) ?ks)"
    using assms by (intro expand_ranges_String) (simp add: canonical_def)
  then have "expandSlotRanges (map SlotRange_String rs) = Some (map (\<lambda>k. Fin (of_int k)) ?ks)"
    using js_sort_sorted [OF gt] by (auto simp: expandSlotRanges_def)
  then show ?thesis unfolding eq [symmetric] by (simp only: length_sorted_list_of_set simp_thms)
qed

theorem expand_slots_correct_witness:
  "expandSlotRanges (map SlotRange_String [\<lparr>Start = 3, Stop = 5\<rparr>, \<lparr>Start = 9, Stop = 9\<rparr>]) =
     Some [Fin 3, Fin 4, Fin 5, Fin 9]"
proof -
  have "slots [\<lparr>Start = 3, Stop = 5\<rparr>, \<lparr>Start = 9, Stop = 9\<rparr>] = {3, 4, 5, 9}" by (auto simp: slots_of_def)
  then show ?thesis
    using expand_slots_correct [of "[\<lparr>Start = 3, Stop = 5\<rparr>, \<lparr>Start = 9, Stop = 9\<rparr>]"]
    by (simp add: canonical_def valid_range_def MinSlotID_def MaxSlotID_def)
qed

section \<open>Rows against the controller's shards\<close>

lemma strings_of_ranges [simp]: "strings_or_empty (JArr (map SlotRange_MarshalJSON rs)) = Inr (map SlotRange_String rs)"
  by (simp add: strings_or_empty_def SlotRange_MarshalJSON_def [abs_def])

lemma process_Shard_json:
  "process_shard (i, Shard_json sh) = Inr
     \<lparr>sd_index = i, sd_nodes = map ClusterNode_MarshalJSON (shard_Nodes sh), sd_slotRanges = map SlotRange_String (shard_SlotRanges sh),
      sd_migratingSlot = js_or (MigratingSlot_MarshalJSON (shard_MigratingSlot sh)) (JStr []), sd_importingSlot = JStr [],
      sd_targetShardIndex = js_or (JNum (Fin (of_int (shard_TargetShardIndex sh)))) (JNum (Fin (-1))),
      sd_nodeCount = length (shard_Nodes sh), sd_hasSlots = (length (shard_SlotRanges sh) > 0),
      sd_hasMigration = isActiveMigration (js_or (MigratingSlot_MarshalJSON (shard_MigratingSlot sh)) (JStr [])),
      sd_hasImporting = False\<rparr>"
  by (simp add: process_shard_def isActiveImport_def js_or_def Let_def)

lemma process_after_delete_Shard_json:
  "process_shard_after_delete (i, Shard_json sh) = Inr
     \<lparr>sd_index = i, sd_nodes = map ClusterNode_MarshalJSON (shard_Nodes sh), sd_slotRanges = map SlotRange_String (shard_SlotRanges sh),
      sd_migratingSlot = (case migrating_range sh of None \<Rightarrow> JNum (Fin (-1)) | Some r \<Rightarrow> JStr (SlotRange_String r)),
      sd_importingSlot = JNum (Fin (-1)),
      sd_targetShardIndex = js_or (JNum (Fin (of_int (shard_TargetShardIndex sh)))) (JNum (Fin (-1))),
      sd_nodeCount = length (shard_Nodes sh), sd_hasSlots = (length (shard_SlotRanges sh) > 0),
      sd_hasMigration = (case migrating_range sh of None \<Rightarrow> False | Some r \<Rightarrow> ge0 (JStr (SlotRange_String r))),
      sd_hasImporting = False\<rparr>"
  by (simp add: process_shard_after_delete_def migrating_json ge0_def Let_def split: option.split)



lemma ge0_show_nat: "ge0 (JStr (show_nat n))"
  by (simp add: ge0_def num_of_nat_def)

lemma js_Number_range: "js_Number (show_nat a @ CHR ''-'' # show_nat b) = NaN"
proof -
  let ?s = "show_nat a @ CHR ''-'' # show_nat b"
  obtain c s where c: "show_nat a = c # s" "is_digit c" "\<forall>c\<in>set s. is_digit c"
    using digit_string_cases [of "show_nat a"] show_nat_digits [of _ a] by auto
  have "\<not> is_ws CHR ''-''" by (simp add: is_ws_def)
  then have "js_trim ?s = ?s"
    by (intro js_trim_no_ws) (auto dest: show_nat_digits)
  moreover have "take 2 ?s \<noteq> [x, y]" if "\<not> is_digit y" "y \<noteq> CHR ''-''" for x y
    using c that by (cases s) auto
  then have "\<not> hex_prefix ?s" "take 2 ?s \<noteq> ''0o''" "take 2 ?s \<noteq> ''0O''" "take 2 ?s \<noteq> ''0b''" "take 2 ?s \<noteq> ''0B''"
    by (simp_all add: hex_prefix_def)
  moreover have "split_sign ?s = (False, ?s)" using c by simp
  moreover have "read_unsigned ?s = NaN"
  proof -
    have inf: "?s \<noteq> ''Infinity''" using c by auto
    have d: "\<forall>c\<in>set (show_nat a). is_digit c" using show_nat_digits by blast
    then have tw: "takeWhile is_digit ?s = show_nat a" and dw: "dropWhile is_digit ?s = CHR ''-'' # show_nat b"
      by (simp_all add: takeWhile_append dropWhile_append3)
    show ?thesis unfolding read_unsigned_def Let_def tw dw using inf by (simp add: read_exponent_def)
  qed
  ultimately show ?thesis by (simp add: js_Number_def signed_def)
qed

lemma ge0_range:
  assumes "valid_range r"
  shows "ge0 (JStr (SlotRange_String r)) \<longleftrightarrow> Start r = Stop r"
proof -
  obtain a b where r: "r = \<lparr>Start = int a, Stop = int b\<rparr>" using valid_range_nat [OF assms] .
  then show ?thesis using ge0_show_nat by (simp add: SlotRange_String_nat) (simp add: ge0_def js_Number_range)
qed

text \<open>
  The list that \<^verbatim>\<open>handleDeleteShard\<close> reads after a deletion disagrees with the one the page loads: it
  compares the printed range with zero, so a shard that is giving away more than one slot, which the
  loaded page shows as migrating, is shown as stable.
\<close>
theorem cluster_migration_lost_after_delete:
  assumes "valid_shard sh" "migrating_range sh = Some r"
  shows "\<exists>d e. process_shard (i, Shard_json sh) = Inr d \<and> process_shard_after_delete (i, Shard_json sh) = Inr e
    \<and> sd_hasMigration d \<and> (sd_hasMigration e \<longleftrightarrow> Start r = Stop r)"
proof -
  have r: "valid_range r" using assms by (simp add: valid_shard_def)
  have "SlotRange_String r \<noteq> [] \<and> SlotRange_String r \<noteq> ''-1''" using SlotRange_String_hd [OF r] by auto
  then show ?thesis
    using assms(2) ge0_range [OF r]
    by (simp add: process_Shard_json process_after_delete_Shard_json migrating_json isActiveMigration_def js_or_def)
qed

theorem cluster_migration_lost_after_delete_witness:
  "let sh = \<lparr>shard_Nodes = [], shard_SlotRanges = [\<lparr>Start = 0, Stop = 16383\<rparr>], shard_TargetShardIndex = 1,
      shard_MigratingSlot = Some \<lparr>ms_SlotRange = \<lparr>Start = 100, Stop = 200\<rparr>, ms_IsMigrating = True\<rparr>\<rparr> in
   \<exists>d e. process_shard (0, Shard_json sh) = Inr d \<and> process_shard_after_delete (0, Shard_json sh) = Inr e
     \<and> sd_hasMigration d \<and> \<not> sd_hasMigration e"
  using cluster_migration_lost_after_delete [of "\<lparr>shard_Nodes = [], shard_SlotRanges = [\<lparr>Start = 0, Stop = 16383\<rparr>],
      shard_TargetShardIndex = 1, shard_MigratingSlot = Some \<lparr>ms_SlotRange = \<lparr>Start = 100, Stop = 200\<rparr>, ms_IsMigrating = True\<rparr>\<rparr>"
      "\<lparr>Start = 100, Stop = 200\<rparr>" 0]
  by (auto simp: valid_shard_def valid_range_def migrating_range_def MinSlotID_def MaxSlotID_def)

text \<open>
  A migration to the first shard is shown without its target: the row hides the index 0, because
  \<^verbatim>\<open>target_shard_index || -1\<close> takes it for a missing one.
\<close>
theorem cluster_target_zero_hidden:
  "\<exists>d. process_shard (i, Shard_json sh) = Inr d \<and> (ge0 (sd_targetShardIndex d) \<longleftrightarrow> shard_TargetShardIndex sh > 0)"
  by (auto simp: process_Shard_json ge0_def js_or_def)

end
