(* ===== verification/NamespacePage.thy ===== *)
theory NamespacePage
  imports ClusterPage Topology
begin

text \<open>
  The page of a namespace, \<^verbatim>\<open>webui/src/app/namespaces/[namespace]/page.tsx\<close>: reading the clusters of
  the namespace with their shards and the nodes of each shard, deleting a cluster, the filtered and
  sorted list and the view. The callbacks of \<^verbatim>\<open>Promise.all\<close> run against one server; their results do not
  depend on how they interleave, and the model runs them in the order of the clusters. The order of names
  is the parameter \<open>compare\<close>, what \<^verbatim>\<open>notFound\<close> of the framework does is the parameter \<open>notFound\<close>.
\<close>

section \<open>State\<close>

record ClusterData =
  cd_name :: jsval
  cd_version :: jsval
  cd_shards :: "jsval list"
  cd_shardCount :: nat
  cd_nodeCount :: nat
  cd_hasSlots :: bool
  cd_hasMigration :: bool
  cd_hasNoMigration :: bool
  cd_hasImporting :: bool
  cd_slotRanges :: jsval
  cd_migratingSlot :: jsval
  cd_importingSlot :: jsval
  cd_targetShardIndex :: jsval

record nsp_counts =
  nc_clusters :: nat
  nc_shards :: nat
  nc_nodes :: nat

record namespace_page =
  nsp_clusterData :: "ClusterData list"
  nsp_resourceCounts :: nsp_counts
  nsp_loading :: bool
  nsp_controls :: list_controls
  nsp_deletingCluster :: "string option"

definition nsp_init :: namespace_page where
  "nsp_init = \<lparr>nsp_clusterData = [], nsp_resourceCounts = \<lparr>nc_clusters = 0, nc_shards = 0, nc_nodes = 0\<rparr>,
     nsp_loading = True, nsp_controls = lc_init ''all'' ''name-asc'', nsp_deletingCluster = None\<rparr>"

section \<open>Reading a cluster\<close>

definition shard_has_slots :: "jsval \<Rightarrow> bool res" where
  \<comment> \<open>\<^verbatim>\<open>s.slot_ranges && s.slot_ranges.length > 0\<close>\<close>
  "shard_has_slots s = rbind (get s ''slot_ranges'') (\<lambda>r. Inr (truthy r \<and> js_gt (to_number (js_prop r ''length'')) (Fin 0)))"

definition field_ge0 :: "string \<Rightarrow> jsval \<Rightarrow> bool res" where
  \<comment> \<open>\<^verbatim>\<open>s.f >= 0\<close>\<close>
  "field_ge0 f s = rbind (get s f) (\<lambda>v. Inr (ge0 v))"

definition found_or :: "jsval option \<Rightarrow> string \<Rightarrow> jsval \<Rightarrow> jsval" where
  \<comment> \<open>\<^verbatim>\<open>found?.f || other\<close>\<close>
  "found_or found f other = js_or (case found of None \<Rightarrow> JUndef | Some s \<Rightarrow> oget s f) other"

definition cluster_data :: "jsval \<Rightarrow> jsval list \<Rightarrow> nat \<Rightarrow> ClusterData res" where
  "cluster_data clusterInfo shards clusterNodeCount =
     rbind (js_some shard_has_slots shards) (\<lambda>hasSlots.
     rbind (js_some (field_ge0 ''migrating_slot'') shards) (\<lambda>hasMigration.
     rbind (js_every (\<lambda>s. rbind (get s ''migrating_slot'') (\<lambda>v. Inr (strict_eq v (JNum (Fin (-1)))))) shards) (\<lambda>hasNoMigration.
     rbind (js_some (field_ge0 ''import_slot'') shards) (\<lambda>hasImporting.
     rbind (js_find shard_has_slots shards) (\<lambda>withSlots.
     rbind (js_find (field_ge0 ''migrating_slot'') shards) (\<lambda>migrating.
     rbind (js_find (field_ge0 ''import_slot'') shards) (\<lambda>importing.
     rbind (js_find (field_ge0 ''target_shard_index'') shards) (\<lambda>target.
       Inr \<lparr>cd_name = js_prop clusterInfo ''name'', cd_version = js_prop clusterInfo ''version'', cd_shards = shards,
            cd_shardCount = length shards, cd_nodeCount = clusterNodeCount, cd_hasSlots = hasSlots,
            cd_hasMigration = hasMigration, cd_hasNoMigration = hasNoMigration, cd_hasImporting = hasImporting,
            cd_slotRanges = found_or withSlots ''slot_ranges'' (JArr []),
            cd_migratingSlot = found_or migrating ''migrating_slot'' (JNum (Fin (-1))),
            cd_importingSlot = found_or importing ''import_slot'' (JNum (Fin (-1))),
            cd_targetShardIndex = found_or target ''target_shard_index'' (JNum (Fin (-1)))\<rparr>))))))))"

fun count_nodes :: "axios \<Rightarrow> string \<Rightarrow> string \<Rightarrow> nat list \<Rightarrow> nat \<times> effect list" where
  \<comment> \<open>The loop over the positions of the shards.\<close>
  "count_nodes ax namespace cluster [] = (0, [])"
| "count_nodes ax namespace cluster (i # is) =
     (let (n, effs) = count_nodes ax namespace cluster is in
      case listNodes ax namespace cluster (show_nat i) of
        Inr nodes \<Rightarrow> ((case nodes of JArr xs \<Rightarrow> length xs | _ \<Rightarrow> 0) + n, effs)
      | Inl e \<Rightarrow> (n, ConsoleError (''Failed to fetch nodes for shard '' @ show_nat i @ '':'') # effs))"

definition cluster_shards :: "axios \<Rightarrow> string \<Rightarrow> string \<Rightarrow> (jsval \<times> jsval list) option res" where
  "cluster_shards ax namespace cluster =
     rbind (fetchCluster ax namespace cluster) (\<lambda>clusterInfo.
       if truthy clusterInfo \<and> js_typeof clusterInfo = ''object'' \<and> has_prop ''shards'' clusterInfo
       then rbind (array_or_empty (js_prop clusterInfo ''shards'')) (\<lambda>shards. Inr (Some (clusterInfo, shards)))
       else Inr None)"

definition process_cluster :: "axios \<Rightarrow> string \<Rightarrow> jsval \<Rightarrow> ClusterData option \<times> nat \<times> nat \<times> effect list" where
  \<comment> \<open>The callback: its result, what it adds to \<^verbatim>\<open>totalShards\<close> and \<^verbatim>\<open>totalNodes\<close>, and what it logs.\<close>
  "process_cluster ax namespace cluster =
     (let name = js_to_string cluster; failed = ConsoleError (''Failed to fetch data for cluster '' @ name @ '':'') in
      case cluster_shards ax namespace name of
        Inl e \<Rightarrow> (None, 0, 0, [failed])
      | Inr None \<Rightarrow> (None, 0, 0, [])
      | Inr (Some (clusterInfo, shards)) \<Rightarrow>
          (let (clusterNodeCount, effs) = count_nodes ax namespace name [0..<length shards] in
           case cluster_data clusterInfo shards clusterNodeCount of
             Inl e \<Rightarrow> (None, length shards, clusterNodeCount, effs @ [failed])
           | Inr d \<Rightarrow> (Some d, length shards, clusterNodeCount, effs)))"

definition nsp_load :: "axios \<Rightarrow> string \<Rightarrow> (ClusterData list \<times> nsp_counts \<times> effect list) res" where
  "nsp_load ax namespace =
     rbind (fetchClusters ax namespace) (\<lambda>clusters.
     rbind (as_array ''clusters.map'' clusters) (\<lambda>cs.
       let results = map (process_cluster ax namespace) cs;
           validData = List.map_filter fst results in
       Inr (validData,
            \<lparr>nc_clusters = length validData, nc_shards = sum_list (map (\<lambda>r. fst (snd r)) results),
             nc_nodes = sum_list (map (\<lambda>r. fst (snd (snd r))) results)\<rparr>,
            concat (map (\<lambda>r. snd (snd (snd r))) results))))"

section \<open>Handlers\<close>

fun js_contains :: "jsval \<Rightarrow> string \<Rightarrow> bool res" where
  \<comment> \<open>\<^verbatim>\<open>v.includes(s)\<close>\<close>
  "js_contains (JArr xs) s = Inr (JStr s \<in> set xs)"
| "js_contains (JStr t) s = Inr (js_includes t s)"
| "js_contains v s = Inl (type_error ''fetchedNamespaces.includes is not a function'')"

definition nsp_set :: "ClusterData list \<times> nsp_counts \<times> effect list \<Rightarrow> namespace_page \<Rightarrow> namespace_page" where
  "nsp_set loaded s = s\<lparr>nsp_clusterData := fst loaded, nsp_resourceCounts := fst (snd loaded)\<rparr>"

definition nsp_fetchData :: "jsval res \<Rightarrow> axios \<Rightarrow> string \<Rightarrow> namespace_page \<Rightarrow> namespace_page \<times> effect list" where
  "nsp_fetchData notFound ax namespace s =
     (let failed = ConsoleError ''Error fetching data:'';
          (s', effs) = (case rbind (fetchNamespaces ax) (\<lambda>fetchedNamespaces. js_contains fetchedNamespaces namespace) of
          Inl e \<Rightarrow> (s, [failed])
        | Inr found \<Rightarrow>
            if \<not> found then
              (s, ConsoleError (''Namespace '' @ namespace @ '' not found'') # (case notFound of Inl e \<Rightarrow> [failed] | Inr _ \<Rightarrow> []))
            else (case nsp_load ax namespace of
                Inl e \<Rightarrow> (s, [failed])
              | Inr loaded \<Rightarrow> (nsp_set loaded s, snd (snd loaded))))
      in (s'\<lparr>nsp_loading := False\<rparr>, effs))"

definition nsp_delete_begin :: "string \<Rightarrow> namespace_page \<Rightarrow> namespace_page" where
  "nsp_delete_begin clusterName s = s\<lparr>nsp_deletingCluster := Some clusterName\<rparr>"

definition nsp_delete_failed :: "string \<Rightarrow> namespace_page \<Rightarrow> namespace_page \<times> effect list" where
  "nsp_delete_failed what s =
     (s\<lparr>nsp_deletingCluster := None, nsp_loading := False\<rparr>, [Alert (''Failed to delete cluster: '' @ what)])"

definition nsp_delete_answered :: "jsval res \<Rightarrow> namespace_page \<Rightarrow> (namespace_page \<times> effect list) + namespace_page" where
  \<comment> \<open>After the answer of \<^verbatim>\<open>deleteCluster\<close>: the handler ends (Inl), or it reads the clusters again (Inr).\<close>
  "nsp_delete_answered deleted s =
     (case deleted of
        Inl e \<Rightarrow> Inl (nsp_delete_failed (error_string e) s)
      | Inr r \<Rightarrow> if truthy r then Inl (nsp_delete_failed (js_to_string r) s) else Inr (s\<lparr>nsp_loading := True\<rparr>))"

definition nsp_delete_reloaded :: "axios \<Rightarrow> string \<Rightarrow> namespace_page \<Rightarrow> namespace_page \<times> effect list" where
  "nsp_delete_reloaded ax namespace s =
     (case nsp_load ax namespace of
        Inl e \<Rightarrow> nsp_delete_failed (error_string e) s
      | Inr loaded \<Rightarrow> ((nsp_set loaded s)\<lparr>nsp_deletingCluster := None, nsp_loading := False\<rparr>, snd (snd loaded)))"

definition handleDeleteCluster ::
  "axios \<Rightarrow> string \<Rightarrow> bool \<Rightarrow> string \<Rightarrow> namespace_page \<Rightarrow> namespace_page \<times> effect list" where
  "handleDeleteCluster ax namespace confirmed clusterName s =
     (if \<not> confirmed then (s, [])
      else (case nsp_delete_answered (deleteCluster ax namespace clusterName) (nsp_delete_begin clusterName s) of
          Inl ended \<Rightarrow> ended
        | Inr s' \<Rightarrow> nsp_delete_reloaded ax namespace s'))"

section \<open>The list\<close>

definition cluster_name :: "ClusterData \<Rightarrow> string" where
  \<comment> \<open>The name where it is a string; the list raises on other names before it uses this.\<close>
  "cluster_name c = (case cd_name c of JStr s \<Rightarrow> s | _ \<Rightarrow> [])"

definition nsp_keep :: "list_controls \<Rightarrow> ClusterData \<Rightarrow> bool" where
  "nsp_keep c cluster =
     (if \<not> js_includes (js_toLowerCase (cluster_name cluster)) (js_toLowerCase (lc_searchTerm c)) then False
      else if lc_filterOption c = ''with-migration'' then cd_hasMigration cluster
      else if lc_filterOption c = ''no-migration'' then \<not> cd_hasMigration cluster
      else if lc_filterOption c = ''with-slots'' then cd_hasSlots cluster
      else if lc_filterOption c = ''no-slots'' then \<not> cd_hasSlots cluster
      else if lc_filterOption c = ''with-importing'' then cd_hasImporting cluster
      else True)"

definition nsp_compare :: "(string \<Rightarrow> string \<Rightarrow> int) \<Rightarrow> list_controls \<Rightarrow> ClusterData \<Rightarrow> ClusterData \<Rightarrow> int" where
  "nsp_compare compare c a b =
     (if lc_sortOption c = ''name-asc'' then compare (cluster_name a) (cluster_name b)
      else if lc_sortOption c = ''name-desc'' then compare (cluster_name b) (cluster_name a)
      else if lc_sortOption c = ''shards-desc'' then int (cd_shardCount b) - int (cd_shardCount a)
      else if lc_sortOption c = ''shards-asc'' then int (cd_shardCount a) - int (cd_shardCount b)
      else if lc_sortOption c = ''nodes-desc'' then int (cd_nodeCount b) - int (cd_nodeCount a)
      else if lc_sortOption c = ''nodes-asc'' then int (cd_nodeCount a) - int (cd_nodeCount b)
      else 0)"

definition nsp_gt :: "(string \<Rightarrow> string \<Rightarrow> int) \<Rightarrow> list_controls \<Rightarrow> ClusterData \<Rightarrow> ClusterData \<Rightarrow> bool" where
  "nsp_gt compare c a b \<longleftrightarrow> nsp_compare compare c a b > 0"

definition filteredAndSortedClusters :: "(string \<Rightarrow> string \<Rightarrow> int) \<Rightarrow> namespace_page \<Rightarrow> ClusterData list res" where
  "filteredAndSortedClusters compare s =
     rbind (rmap (\<lambda>c. as_string (cd_name c)) (nsp_clusterData s)) (\<lambda>_.
       Inr (listed (nsp_keep (nsp_controls s)) (nsp_gt compare (nsp_controls s)) (nsp_clusterData s)))"

section \<open>View\<close>

datatype nsp_act = NspCtl ctl_act | NspDelete string | NspNone

definition nsp_header :: "string \<Rightarrow> namespace_page \<Rightarrow> nsp_act view" where
  "nsp_header namespace s =
     El ''div'' []
       [El ''div'' []
         [El ''Typography'' [] [El ''FolderIcon'' [] [], Txt namespace],
          El ''Typography'' [] [Txt ''Manage clusters in this namespace'']],
        El ''div'' []
         [El ''div'' [] [search_box NspCtl ''Box'' ''Search clusters...'' (nsp_controls s)],
          El ''div'' []
            [El ''ClusterCreation'' [SA ''position'' ''page'', SA ''namespace'' namespace]
               [El ''Button'' [NA ''startIcon'' (El ''AddIcon'' [] [])] [Txt ''Create Cluster'']],
             El ''ImportCluster'' [SA ''position'' ''page'', SA ''namespace'' namespace]
               [El ''Button'' [NA ''startIcon'' (El ''FileUploadIcon'' [] [])] [Txt ''Import Cluster'']]]]]"

definition nsp_cards :: "namespace_page \<Rightarrow> nsp_act view" where
  "nsp_cards s =
     (let n = nsp_resourceCounts s in
      El ''div'' []
        [El ''Grid'' []
          [stat_card ''Box'' ''StorageIcon'' (JNat (nc_clusters n)) ''Clusters'',
           stat_card ''Box'' ''DnsIcon'' (JNat (nc_shards n)) ''Shards'',
           stat_card ''Box'' ''DeviceHubIcon'' (JNat (nc_nodes n)) ''Nodes'',
           stat_card ''Box'' ''GridViewIcon'' (JNat (length (filter cd_hasSlots (nsp_clusterData s)))) ''With Slots'']])"

definition nsp_filter_popover :: "namespace_page \<Rightarrow> nsp_act view" where
  "nsp_filter_popover s =
     (let d = nsp_clusterData s in
      filter_popover NspCtl ''Filter Clusters''
        (map (filter_entry ''Box'')
          [(''all'', ''All clusters'', length d),
           (''with-migration'', ''With migration'', length (filter cd_hasMigration d)),
           (''no-migration'', ''No migration'', length (filter (\<lambda>x. \<not> cd_hasMigration x) d)),
           (''with-slots'', ''With slots'', length (filter cd_hasSlots d)),
           (''no-slots'', ''No slots'', length (filter (\<lambda>x. \<not> cd_hasSlots x) d)),
           (''with-importing'', ''With importing'', length (filter cd_hasImporting d))])
        (nsp_controls s))"

definition nsp_sort_popover :: "namespace_page \<Rightarrow> nsp_act view" where
  "nsp_sort_popover s =
     sort_popover NspCtl ''Sort Clusters''
       (map (sort_entry ''Box'')
         [(''name-asc'', ''ArrowUpwardIcon'', ''Name A-Z''), (''name-desc'', ''ArrowDownwardIcon'', ''Name Z-A''),
          (''shards-desc'', ''ArrowDownwardIcon'', ''Most shards''), (''nodes-desc'', ''ArrowDownwardIcon'', ''Most nodes'')])
       (nsp_controls s)"

definition nsp_badge :: "nsp_act views \<Rightarrow> nsp_act view" where
  "nsp_badge label = El ''Box'' [] [El ''div'' [] [], El ''span'' [] label]"

definition nsp_row_badges :: "ClusterData \<Rightarrow> nsp_act view" where
  "nsp_row_badges cluster =
     El ''div'' []
       ([El ''Typography'' [] [Ex (cd_name cluster)]] @
        when_view (cd_hasMigration cluster \<and> ge0 (cd_migratingSlot cluster))
          [nsp_badge [Txt ''Migrating'', Txt '' '', Ex (cd_migratingSlot cluster)]] @
        when_view (\<not> cd_hasMigration cluster \<or> strict_eq (cd_migratingSlot cluster) (JNum (Fin (-1))))
          [nsp_badge [Txt ''Stable'']] @
        when_view (cd_hasImporting cluster \<and> ge0 (cd_importingSlot cluster))
          [nsp_badge [Txt ''Importing'', Txt '' '', Ex (cd_importingSlot cluster)]])"

definition nsp_slots_text :: "jsval \<Rightarrow> string res" where
  \<comment> \<open>The first two ranges and an ellipsis when there are more than two, all of them otherwise.\<close>
  "nsp_slots_text ranges =
     rbind (as_array ''join'' ranges) (\<lambda>rs.
       if length rs > 2 then rbind (js_array_join '', '' (JArr (take 2 rs))) (\<lambda>t. Inr (t @ '', ...''))
       else js_array_join '', '' (JArr rs))"

definition nsp_row_slots :: "ClusterData \<Rightarrow> nsp_act views res" where
  "nsp_row_slots cluster =
     (if cd_hasSlots cluster
      then rbind (nsp_slots_text (cd_slotRanges cluster)) (\<lambda>t. Inr [El ''Typography'' [] [Txt ''Slots:'', Txt '' '', Txt t]])
      else Inr [])"

definition nsp_row_chips :: "ClusterData \<Rightarrow> nsp_act view" where
  "nsp_row_chips cluster =
     El ''div'' []
       ([El ''Chip'' [NA ''icon'' (El ''DnsIcon'' [] []), SA ''label'' (show_nat (cd_shardCount cluster) @ '' shards'')] [],
         El ''Chip'' [NA ''icon'' (El ''DeviceHubIcon'' [] []), SA ''label'' (show_nat (cd_nodeCount cluster) @ '' nodes'')] []] @
        when_view (\<not> cd_hasSlots cluster) [El ''Chip'' [NA ''icon'' (El ''InfoIcon'' [] []), SA ''label'' ''No slots''] []] @
        when_view (ge0 (cd_targetShardIndex cluster))
          [El ''Chip'' [SA ''label'' (''Target shard: '' @ js_to_string (js_plus (cd_targetShardIndex cluster) (JNum (Fin 1))))] []])"

definition nsp_row_summary :: "ClusterData \<Rightarrow> nsp_act view" where
  "nsp_row_summary cluster =
     El ''div'' []
       [El ''Box'' [] [El ''Typography'' [] [Txt ''Shards''], El ''Typography'' [] [Ex (JNat (cd_shardCount cluster))]],
        El ''Box'' [] [El ''Typography'' [] [Txt ''Nodes''], El ''Typography'' [] [Ex (JNat (cd_nodeCount cluster))]]]"

definition nsp_row :: "string \<Rightarrow> namespace_page \<Rightarrow> ClusterData \<Rightarrow> nsp_act view res" where
  "nsp_row namespace s cluster =
     rbind (nsp_row_slots cluster) (\<lambda>slots.
       Inr (El ''div'' [VA ''key'' (cd_name cluster)]
         [El ''Paper'' []
           [El ''div'' []
             [El ''Box'' [] [El ''StorageIcon'' [] []],
              El ''div'' []
                [El ''div'' []
                   [El ''Link'' [SA ''href'' (cluster_href namespace (cluster_name cluster))]
                     ([nsp_row_badges cluster,
                       El ''Typography'' [] [El ''AccessTimeIcon'' [] [], Txt ''Version: '', Ex (cd_version cluster)]] @ slots)],
                 nsp_row_chips cluster,
                 nsp_row_summary cluster,
                 El ''div'' []
                   [El ''button''
                      [On ''onClick'' (NspDelete (cluster_name cluster)),
                       BA ''disabled'' (nsp_deletingCluster s = Some (cluster_name cluster))]
                      [El ''DeleteIcon'' [] []],
                    El ''Link'' [SA ''href'' (cluster_href namespace (cluster_name cluster))] [El ''ChevronRightIcon'' [] []]]]]]]))"

definition nsp_empty :: "string \<Rightarrow> namespace_page \<Rightarrow> nsp_act view" where
  "nsp_empty namespace s =
     El ''div'' []
       [El ''EmptyState''
          [SA ''title'' (if lc_filterOption (nsp_controls s) \<noteq> ''all'' then ''No matching clusters'' else ''No clusters found''),
           SA ''description'' (if lc_filterOption (nsp_controls s) \<noteq> ''all'' then ''Try changing your filter settings''
             else if lc_searchTerm (nsp_controls s) \<noteq> [] then ''Try adjusting your search term''
             else ''Create a cluster to get started''),
           NA ''icon'' (El ''StorageIcon'' [] []), SA ''action.label'' ''Create Cluster'', On ''action.onClick'' NspNone] [],
        El ''div'' [] [El ''ClusterCreation'' [SA ''position'' ''card'', SA ''namespace'' namespace] []]]"

definition nsp_view :: "(string \<Rightarrow> string \<Rightarrow> int) \<Rightarrow> string \<Rightarrow> namespace_page \<Rightarrow> nsp_act views res" where
  \<comment> \<open>The list is computed before the test of \<^verbatim>\<open>loading\<close>.\<close>
  "nsp_view compare namespace s =
     rbind (filteredAndSortedClusters compare s) (\<lambda>shown.
       if nsp_loading s then Inr [El ''LoadingSpinner'' [] []]
       else rbind (rmap (nsp_row namespace s) shown) (\<lambda>rows. Inr
         [El ''div'' []
           [El ''div'' [] [El ''NamespaceSidebar'' [] []],
            El ''div'' []
              [El ''Box'' []
                [nsp_header namespace s,
                 nsp_cards s,
                 El ''Paper'' []
                   ([list_header NspCtl ''All Clusters'' (nsp_controls s), nsp_filter_popover s, nsp_sort_popover s,
                     if length shown > 0 then El ''div'' [] rows else nsp_empty namespace s] @
                    when_view (length shown > 0)
                      [El ''div'' [] [El ''Typography'' []
                        [Txt ''Showing '', Ex (JNat (length shown)), Txt '' of'', Txt '' '',
                         Ex (JNat (length (nsp_clusterData s))), Txt '' clusters'']]])]]]]))"

section \<open>The mounted page\<close>

text \<open>
  The page with its outstanding requests, each answered by a server of its own. An answer that reads
  the clusters stands for all the requests it takes.
\<close>

record nsp_sys =
  ny_page :: namespace_page
  ny_pending :: "page_request list"

fun nsp_answered ::
  "jsval res \<Rightarrow> string \<Rightarrow> page_request \<Rightarrow> axios \<times> jsval res \<Rightarrow> namespace_page \<Rightarrow> namespace_page \<times> page_request list" where
  \<comment> \<open>The answer is a server, or for a deletion the answer of \<^verbatim>\<open>deleteCluster\<close>. The page never refreshes.\<close>
  "nsp_answered notFound ns Deletion (ax, deleted) s =
     (case nsp_delete_answered deleted s of Inl ended \<Rightarrow> (fst ended, []) | Inr s' \<Rightarrow> (s', [Refetch]))"
| "nsp_answered notFound ns Refetch (ax, deleted) s = (fst (nsp_delete_reloaded ax ns s), [])"
| "nsp_answered notFound ns _ (ax, deleted) s = (fst (nsp_fetchData notFound ax ns s), [])"

definition nsp_offers :: "(string \<Rightarrow> string \<Rightarrow> int) \<Rightarrow> string \<Rightarrow> nsp_act \<Rightarrow> namespace_page \<Rightarrow> bool" where
  "nsp_offers compare ns a s \<longleftrightarrow> (case nsp_view compare ns s of Inl e \<Rightarrow> False | Inr v \<Rightarrow> a \<in> set (all_enabled v))"

inductive nsp_step :: "jsval res \<Rightarrow> (string \<Rightarrow> string \<Rightarrow> int) \<Rightarrow> string \<Rightarrow> nsp_sys \<Rightarrow> nsp_sys \<Rightarrow> bool" for nf compare ns where
  answer: "ny_pending s = xs @ q # ys \<Longrightarrow> nsp_answered nf ns q r (ny_page s) = (p, follow) \<Longrightarrow>
    nsp_step nf compare ns s \<lparr>ny_page = p, ny_pending = xs @ ys @ follow\<rparr>"
| delete: "nsp_offers compare ns (NspDelete name) (ny_page s) \<Longrightarrow>
    nsp_step nf compare ns s (s\<lparr>ny_page := nsp_delete_begin name (ny_page s), ny_pending := ny_pending s @ [Deletion]\<rparr>)"
| control: "nsp_offers compare ns (NspCtl a) (ny_page s) \<Longrightarrow>
    nsp_step nf compare ns s (s\<lparr>ny_page := (ny_page s)\<lparr>nsp_controls := lc_handle a v (nsp_controls (ny_page s))\<rparr>\<rparr>)"

inductive nsp_reachable :: "jsval res \<Rightarrow> (string \<Rightarrow> string \<Rightarrow> int) \<Rightarrow> string \<Rightarrow> nsp_sys \<Rightarrow> bool" for nf compare ns where
  init: "nsp_reachable nf compare ns \<lparr>ny_page = nsp_init, ny_pending = [InitialFetch]\<rparr>"
| step: "nsp_reachable nf compare ns s \<Longrightarrow> nsp_step nf compare ns s t \<Longrightarrow> nsp_reachable nf compare ns t"

section \<open>Coming to rest\<close>

definition nsp_deleting :: "namespace_page \<Rightarrow> bool" where
  "nsp_deleting s \<longleftrightarrow> nsp_deletingCluster s \<noteq> None"

lemma nsp_fetchData_flags: "\<not> nsp_loading (fst (nsp_fetchData nf ax ns s))"
  "nsp_deletingCluster (fst (nsp_fetchData nf ax ns s)) = nsp_deletingCluster s"
  by (auto simp: nsp_fetchData_def nsp_set_def Let_def split: sum.splits prod.splits if_splits)

lemma nsp_delete_failed_simps [simp]:
  "nsp_loading (fst (nsp_delete_failed w s)) = False" "nsp_deletingCluster (fst (nsp_delete_failed w s)) = None"
  "nsp_clusterData (fst (nsp_delete_failed w s)) = nsp_clusterData s"
  "nsp_resourceCounts (fst (nsp_delete_failed w s)) = nsp_resourceCounts s"
  by (simp_all add: nsp_delete_failed_def)

lemma nsp_reloaded_flags: "\<not> nsp_loading (fst (nsp_delete_reloaded ax ns s))"
  "nsp_deletingCluster (fst (nsp_delete_reloaded ax ns s)) = None"
  by (auto simp: nsp_delete_reloaded_def split: sum.splits)

lemma nsp_answered_flags:
  "nsp_answered nf ns q r s = (p, follow) \<Longrightarrow>
     (follow = [] \<or> q = Deletion \<and> follow = [Refetch])
     \<and> (nsp_loading p \<longrightarrow> follow = [Refetch])
     \<and> (nsp_deleting p \<longrightarrow> follow = [Refetch] \<or> (q \<in> {InitialFetch, Refresh} \<and> nsp_deleting s))"
  by (cases q; cases r) (auto simp: nsp_fetchData_flags nsp_reloaded_flags nsp_deleting_def nsp_delete_answered_def nsp_delete_failed_def
    split: sum.splits if_splits)

interpretation namespace_flags: settling_page nsp_loading nsp_deleting "nsp_answered nf ns" for nf ns
  by unfold_locales (use nsp_answered_flags in blast)+

lemma nsp_deleting_controls [simp]: "nsp_deleting (s\<lparr>nsp_controls := c\<rparr>) = nsp_deleting s"
  by (simp add: nsp_deleting_def)

lemma nsp_step_flags:
  "nsp_step nf compare ns s t \<Longrightarrow> namespace_flags.flags_ok (ny_page s) (ny_pending s)
   \<Longrightarrow> namespace_flags.flags_ok (ny_page t) (ny_pending t)"
proof (induction rule: nsp_step.induct)
  case (answer s xs q ys r p follow)
  then show ?case using namespace_flags.flags_answer [of "ny_page s" xs q ys nf ns r p follow] by simp
qed (auto intro: namespace_flags.flags_delete elim!: namespace_flags.flags_edit simp: nsp_delete_begin_def)

lemma nsp_reachable_flags: "nsp_reachable nf compare ns s \<Longrightarrow> namespace_flags.flags_ok (ny_page s) (ny_pending s)"
proof (induction rule: nsp_reachable.induct)
  case init
  have "\<not> nsp_deleting nsp_init" by (simp add: nsp_init_def nsp_deleting_def)
  then show ?case by (simp add: namespace_flags.flags_start)
qed (rule nsp_step_flags)

section \<open>The cards\<close>

definition nsp_consistent :: "namespace_page \<Rightarrow> bool" where
  "nsp_consistent s \<longleftrightarrow>
     nc_clusters (nsp_resourceCounts s) = length (nsp_clusterData s)
     \<and> sum_list (map cd_shardCount (nsp_clusterData s)) \<le> nc_shards (nsp_resourceCounts s)
     \<and> sum_list (map cd_nodeCount (nsp_clusterData s)) \<le> nc_nodes (nsp_resourceCounts s)
     \<and> (\<forall>d\<in>set (nsp_clusterData s). cd_shardCount d = length (cd_shards d))"

lemma cluster_data_counts:
  "cluster_data info shards n = Inr d \<Longrightarrow> cd_shards d = shards \<and> cd_shardCount d = length shards \<and> cd_nodeCount d = n"
  unfolding cluster_data_def rbind_eq_Inr sum.inject by (elim exE conjE) (drule sym, simp)

lemma process_cluster_counts:
  assumes "process_cluster ax ns c = (Some d, shards, nodes, effs)"
  shows "cd_shardCount d = shards \<and> cd_nodeCount d = nodes \<and> cd_shardCount d = length (cd_shards d)"
  using assms
  by (auto simp: process_cluster_def Let_def split: sum.splits option.splits prod.splits dest: cluster_data_counts)

lemma map_filter_sum:
  fixes g :: "'r \<Rightarrow> 'd option" and f :: "'d \<Rightarrow> nat"
  shows "(\<And>r d. r \<in> set rs \<Longrightarrow> g r = Some d \<Longrightarrow> f d = h r) \<Longrightarrow> sum_list (map f (List.map_filter g rs)) \<le> sum_list (map h rs)"
proof (induction rs)
  case (Cons r rs)
  from Cons.prems have "\<And>q d. q \<in> set rs \<Longrightarrow> g q = Some d \<Longrightarrow> f d = h q" by simp
  note Cons.IH [OF this]
  moreover have "g r = Some d \<Longrightarrow> f d = h r" for d using Cons.prems by simp
  ultimately show ?case by (cases "g r") (simp_all add: List.map_filter_simps)
qed (simp add: List.map_filter_simps)

lemma process_cluster_some:
  "fst (process_cluster ax ns c) = Some d \<Longrightarrow>
   cd_shardCount d = fst (snd (process_cluster ax ns c)) \<and> cd_nodeCount d = fst (snd (snd (process_cluster ax ns c)))
   \<and> cd_shardCount d = length (cd_shards d)"
  using process_cluster_counts [of ax ns c d] by (metis prod.collapse)

lemma nsp_load_consistent:
  assumes "nsp_load ax ns = Inr loaded"
  shows "nsp_consistent (nsp_set loaded s)"
proof -
  obtain cs where l: "loaded = (List.map_filter fst (map (process_cluster ax ns) cs),
      \<lparr>nc_clusters = length (List.map_filter fst (map (process_cluster ax ns) cs)),
       nc_shards = sum_list (map (\<lambda>r. fst (snd r)) (map (process_cluster ax ns) cs)),
       nc_nodes = sum_list (map (\<lambda>r. fst (snd (snd r))) (map (process_cluster ax ns) cs))\<rparr>,
      concat (map (\<lambda>r. snd (snd (snd r))) (map (process_cluster ax ns) cs)))"
    using assms by (auto simp: nsp_load_def Let_def)
  let ?rs = "map (process_cluster ax ns) cs"
  have p: "cd_shardCount d = fst (snd r)" "cd_nodeCount d = fst (snd (snd r))" "cd_shardCount d = length (cd_shards d)"
    if "r \<in> set ?rs" "fst r = Some d" for r d
  proof -
    obtain c where r: "r = process_cluster ax ns c" using \<open>r \<in> set ?rs\<close> by auto
    show "cd_shardCount d = fst (snd r)" "cd_nodeCount d = fst (snd (snd r))" "cd_shardCount d = length (cd_shards d)"
      using process_cluster_some [of ax ns c d] that(2) unfolding r by blast+
  qed
  have "sum_list (map cd_shardCount (List.map_filter fst ?rs)) \<le> sum_list (map (\<lambda>r. fst (snd r)) ?rs)"
    by (rule map_filter_sum) (rule p(1))
  moreover have "sum_list (map cd_nodeCount (List.map_filter fst ?rs)) \<le> sum_list (map (\<lambda>r. fst (snd (snd r))) ?rs)"
    by (rule map_filter_sum) (rule p(2))
  moreover have "\<forall>d\<in>set (List.map_filter fst ?rs). cd_shardCount d = length (cd_shards d)"
    by (auto simp: List.map_filter_def dest: process_cluster_counts [OF sym])
  ultimately show ?thesis by (simp add: nsp_consistent_def nsp_set_def l)
qed

lemma nsp_consistent_frame [simp]:
  "nsp_consistent (s\<lparr>nsp_loading := b\<rparr>) = nsp_consistent s" "nsp_consistent (s\<lparr>nsp_deletingCluster := n\<rparr>) = nsp_consistent s"
  "nsp_consistent (s\<lparr>nsp_controls := c\<rparr>) = nsp_consistent s"
  by (simp_all add: nsp_consistent_def)

lemma nsp_fetchData_consistent: "nsp_consistent s \<Longrightarrow> nsp_consistent (fst (nsp_fetchData nf ax ns s))"
  by (auto simp: nsp_fetchData_def Let_def nsp_load_consistent split: sum.splits)

lemma nsp_reloaded_consistent: "nsp_consistent s \<Longrightarrow> nsp_consistent (fst (nsp_delete_reloaded ax ns s))"
  by (auto simp: nsp_delete_reloaded_def nsp_delete_failed_def nsp_load_consistent split: sum.splits)

lemma nsp_answered_consistent:
  "nsp_answered nf ns q r s = (p, follow) \<Longrightarrow> nsp_consistent s \<Longrightarrow> nsp_consistent p"
  by (cases q; cases r)
    (auto simp: nsp_fetchData_consistent nsp_reloaded_consistent nsp_delete_answered_def nsp_delete_failed_def split: sum.splits if_splits)

lemma nsp_reachable_consistent: "nsp_reachable nf compare ns s \<Longrightarrow> nsp_consistent (ny_page s)"
proof (induction rule: nsp_reachable.induct)
  case init
  show ?case by (simp add: nsp_consistent_def nsp_init_def)
next
  case (step s t)
  from step(2,3) show ?case
    by (induction rule: nsp_step.induct) (auto simp: nsp_delete_begin_def dest: nsp_answered_consistent)
qed

section \<open>The rows\<close>

lemma nsp_comparator: "locale_compare compare \<Longrightarrow> js_comparator (nsp_gt compare c)"
  by (rule locale_compare.comparator_of [where f = cluster_name and g = cd_shardCount and h = cd_nodeCount], assumption)
    (simp add: fun_eq_iff nsp_gt_def nsp_compare_def)

sublocale locale_compare < cluster_rows: list_page nsp_keep "nsp_gt compare"
  by (intro list_page.intro nsp_comparator locale_compare_axioms)

context locale_compare begin

lemma clusters_listing: "listing_ok (nsp_keep c) (nsp_gt compare c) rows (listed (nsp_keep c) (nsp_gt compare c) rows)"
  by (rule cluster_rows.listing)

end

lemma when_view_none [simp]: "all_hrefs vs = [] \<Longrightarrow> all_hrefs (when_view b vs) = []" "all_actions vs = [] \<Longrightarrow> all_actions (when_view b vs) = []"
  by (cases b; simp)+

lemma El_queries: "hrefs (El t as cs) = concat (map attr_hrefs as) @ all_hrefs cs" "actions (El t as cs) = concat (map attr_actions as) @ all_actions cs"
  by (simp_all add: all_hrefs_def all_actions_def)

lemma nsp_row_parts [simp]:
  "hrefs (nsp_row_badges d) = []" "hrefs (nsp_row_chips d) = []" "hrefs (nsp_row_summary d) = []"
  "actions (nsp_row_badges d) = []" "actions (nsp_row_chips d) = []" "actions (nsp_row_summary d) = []"
  by (simp_all add: nsp_row_badges_def nsp_row_chips_def nsp_row_summary_def nsp_badge_def El_queries del: hrefs.simps(4) actions.simps(4))

lemma nsp_row_slots_parts: "nsp_row_slots d = Inr sv \<Longrightarrow> all_hrefs sv = [] \<and> all_actions sv = []"
  by (auto simp: nsp_row_slots_def split: if_splits)

lemma nsp_row_queries:
  assumes "nsp_row ns s d = Inr v"
  shows "hrefs v = [cluster_href ns (cluster_name d), cluster_href ns (cluster_name d)]"
    and "actions v = [NspDelete (cluster_name d)]"
proof -
  obtain sv where "nsp_row_slots d = Inr sv" using assms by (auto simp: nsp_row_def)
  then show "hrefs v = [cluster_href ns (cluster_name d), cluster_href ns (cluster_name d)]" "actions v = [NspDelete (cluster_name d)]"
    using assms nsp_row_slots_parts [of d sv] by (auto simp: nsp_row_def all_hrefs_def all_actions_def)
qed

lemma rmap_concat:
  assumes "rmap f xs = Inr ys" "\<And>x y. f x = Inr y \<Longrightarrow> g y = h x"
  shows "concat (map g ys) = concat (map h xs)"
  using assms(1) by (induction xs arbitrary: ys) (auto simp: assms(2))

lemma nsp_parts_hrefs [simp]:
  "hrefs (nsp_header ns s) = []" "hrefs (nsp_cards s) = []" "hrefs (nsp_filter_popover s) = []" "hrefs (nsp_sort_popover s) = []"
  "hrefs (nsp_empty ns s) = []"
  by (simp_all add: nsp_header_def nsp_cards_def nsp_filter_popover_def nsp_sort_popover_def nsp_empty_def Let_def)

lemma nsp_parts_deletes [simp]:
  "NspDelete n \<notin> set (actions (nsp_header ns s))" "NspDelete n \<notin> set (actions (nsp_cards s))"
  "NspDelete n \<notin> set (actions (nsp_filter_popover s))" "NspDelete n \<notin> set (actions (nsp_sort_popover s))"
  "NspDelete n \<notin> set (actions (nsp_empty ns s))" "NspDelete n \<notin> set (actions (list_header NspCtl t lc))"
  by (simp_all add: nsp_header_def nsp_cards_def nsp_filter_popover_def nsp_sort_popover_def nsp_empty_def part_defs when_view_def Let_def)

lemma rmap_as_string_names:
  "rmap (\<lambda>c. as_string (cd_name c)) cs = Inr names \<Longrightarrow> d \<in> set cs \<Longrightarrow> cd_name d = JStr (cluster_name d)"
  by (induction cs arbitrary: names) (auto simp: cluster_name_def elim!: as_string.elims)

lemma nsp_view_rows:
  assumes "nsp_view compare ns s = Inr v" "\<not> nsp_loading s" "filteredAndSortedClusters compare s = Inr shown"
  shows "all_hrefs v = concat (map (\<lambda>d. [cluster_href ns (cluster_name d), cluster_href ns (cluster_name d)]) shown)"
    and "NspDelete n \<in> set (all_actions v) \<longleftrightarrow> n \<in> cluster_name ` set shown"
proof -
  obtain rows where r: "rmap (nsp_row ns s) shown = Inr rows" using assms by (auto simp: nsp_view_def)
  note v = assms(1) [unfolded nsp_view_def assms(3) rbind_simps(1) r] assms(2)
  have h: "concat (map hrefs rows) = concat (map (\<lambda>d. [cluster_href ns (cluster_name d), cluster_href ns (cluster_name d)]) shown)"
    by (rule rmap_concat [OF r]) (rule nsp_row_queries)
  have a: "concat (map actions rows) = concat (map (\<lambda>d. [NspDelete (cluster_name d)]) shown)"
    by (rule rmap_concat [OF r]) (rule nsp_row_queries)
  have e: "rows = [] \<longleftrightarrow> shown = []" using length_rmap [OF r] by auto
  show "all_hrefs v = concat (map (\<lambda>d. [cluster_href ns (cluster_name d), cluster_href ns (cluster_name d)]) shown)"
    using v h e by (cases "shown = []") (auto simp: all_hrefs_def)
  have "set (concat (map actions rows)) = NspDelete ` cluster_name ` set shown" unfolding a by auto
  then show "NspDelete n \<in> set (all_actions v) \<longleftrightarrow> n \<in> cluster_name ` set shown"
    using v e by (cases "shown = []") (auto simp: all_actions_def)
qed



section \<open>What the page shows of the controller\<close>

definition serves :: "axios \<Rightarrow> string \<Rightarrow> Cluster list \<Rightarrow> bool" where
  \<comment> \<open>The server answers with these clusters of the namespace.\<close>
  "serves ax ns cs \<longleftrightarrow>
     fetchClusters ax ns = Inr (JArr (map (\<lambda>c. JStr (cl_Name c)) cs))
     \<and> list_all (\<lambda>c. fetchCluster ax ns (cl_Name c) = Inr (Cluster_MarshalJSON c)
         \<and> list_all (\<lambda>i. listNodes ax ns (cl_Name c) (show_nat i) = Inr (JArr (map ClusterNode_MarshalJSON (shard_Nodes (cl_Shards c ! i))))) [0..<length (cl_Shards c)]) cs"

definition node_total :: "Cluster \<Rightarrow> nat" where
  "node_total c = sum_list (map (\<lambda>sh. length (shard_Nodes sh)) (cl_Shards c))"

definition idle_shard :: "Shard \<Rightarrow> bool" where
  \<comment> \<open>What \<^verbatim>\<open>migrating_slot >= 0\<close> says of a printed shard.\<close>
  "idle_shard sh = ge0 (MigratingSlot_MarshalJSON (shard_MigratingSlot sh))"

lemma idle_shard_iff: "valid_shard sh \<Longrightarrow> idle_shard sh \<longleftrightarrow> (case migrating_range sh of None \<Rightarrow> True | Some r \<Rightarrow> Start r = Stop r)"
  using ge0_range by (auto simp: idle_shard_def migrating_json valid_shard_def ge0_null split: option.splits)

lemma js_some_map: "js_some p (map f xs) = js_some (\<lambda>x. p (f x)) xs"
  by (induction xs) (simp_all cong: if_cong)

lemma js_every_map: "js_every p (map f xs) = js_every (\<lambda>x. p (f x)) xs"
  by (induction xs) (simp_all cong: if_cong)

lemma js_find_map: "js_find p (map f xs) = rbind (js_find (\<lambda>x. p (f x)) xs) (\<lambda>y. Inr (map_option f y))"
proof (induction xs)
  case (Cons x xs)
  then show ?case by (cases "p (f x)") simp_all
qed simp

lemma shard_fields [simp]:
  "shard_has_slots (Shard_json sh) = Inr (shard_SlotRanges sh \<noteq> [])"
  "field_ge0 ''migrating_slot'' (Shard_json sh) = Inr (idle_shard sh)"
  "field_ge0 ''import_slot'' (Shard_json sh) = Inr False"
  "field_ge0 ''target_shard_index'' (Shard_json sh) = Inr (0 \<le> shard_TargetShardIndex sh)"
  by (simp_all add: shard_has_slots_def field_ge0_def idle_shard_def ge0_undef) (simp add: ge0_def)

lemma cluster_data_json:
  "\<exists>d. cluster_data (Cluster_MarshalJSON c) (map Shard_json (cl_Shards c)) n = Inr d
     \<and> cd_name d = JStr (cl_Name c) \<and> cd_version d = JNum (Fin (of_int (cl_Version c)))
     \<and> cd_shardCount d = length (cl_Shards c) \<and> cd_nodeCount d = n
     \<and> (cd_hasSlots d \<longleftrightarrow> list_ex (\<lambda>sh. shard_SlotRanges sh \<noteq> []) (cl_Shards c))
     \<and> (cd_hasMigration d \<longleftrightarrow> list_ex idle_shard (cl_Shards c)) \<and> \<not> cd_hasImporting d"
proof -
  have "\<exists>b. js_every (\<lambda>s. rbind (get s ''migrating_slot'') (\<lambda>v. Inr (strict_eq v (JNum (Fin (-1)))))) (map Shard_json (cl_Shards c)) = Inr b"
    unfolding js_every_map by (simp add: js_every_total [OF refl])
  moreover have "\<not> list_ex (\<lambda>sh. False) (cl_Shards c)" by (simp add: list_ex_iff)
  ultimately show ?thesis
    by (auto simp: cluster_data_def js_some_map js_find_map js_some_total [OF refl] js_find_total [OF refl] Cluster_MarshalJSON_def)
qed

lemma count_nodes_served:
  "list_all (\<lambda>i. listNodes ax ns name (show_nat i) = Inr (JArr (f i))) is \<Longrightarrow>
   count_nodes ax ns name is = (sum_list (map (\<lambda>i. length (f i)) is), [])"
  by (induction "is") auto

lemma process_cluster_served:
  assumes "fetchCluster ax ns (cl_Name c) = Inr (Cluster_MarshalJSON c)"
    and "list_all (\<lambda>i. listNodes ax ns (cl_Name c) (show_nat i) = Inr (JArr (map ClusterNode_MarshalJSON (shard_Nodes (cl_Shards c ! i))))) [0..<length (cl_Shards c)]"
  shows "\<exists>d. process_cluster ax ns (JStr (cl_Name c)) = (Some d, length (cl_Shards c), node_total c, [])
     \<and> cd_name d = JStr (cl_Name c) \<and> cd_shardCount d = length (cl_Shards c) \<and> cd_nodeCount d = node_total c
     \<and> (cd_hasSlots d \<longleftrightarrow> list_ex (\<lambda>sh. shard_SlotRanges sh \<noteq> []) (cl_Shards c))
     \<and> (cd_hasMigration d \<longleftrightarrow> list_ex idle_shard (cl_Shards c))"
proof -
  have "map (\<lambda>i. length (shard_Nodes (cl_Shards c ! i))) [0..<length (cl_Shards c)] = map (\<lambda>sh. length (shard_Nodes sh)) (cl_Shards c)"
    by (rule nth_equalityI) simp_all
  then have n: "count_nodes ax ns (cl_Name c) [0..<length (cl_Shards c)] = (node_total c, [])"
    using count_nodes_served [OF assms(2)] by (simp add: node_total_def)
  have "cluster_shards ax ns (cl_Name c) = Inr (Some (Cluster_MarshalJSON c, map Shard_json (cl_Shards c)))"
    by (simp add: cluster_shards_def assms(1)) (simp add: Cluster_MarshalJSON_def)
  then show ?thesis
    using cluster_data_json [of c "node_total c"] n by (auto simp: process_cluster_def)
qed

definition shows_cluster :: "ClusterData \<Rightarrow> Cluster \<Rightarrow> bool" where
  "shows_cluster d c \<longleftrightarrow>
     cd_name d = JStr (cl_Name c) \<and> cd_shardCount d = length (cl_Shards c) \<and> cd_nodeCount d = node_total c
     \<and> (cd_hasSlots d \<longleftrightarrow> list_ex (\<lambda>sh. shard_SlotRanges sh \<noteq> []) (cl_Shards c))
     \<and> (cd_hasMigration d \<longleftrightarrow> list_ex idle_shard (cl_Shards c))"

lemma process_clusters_served:
  assumes "list_all (\<lambda>c. fetchCluster ax ns (cl_Name c) = Inr (Cluster_MarshalJSON c)
      \<and> list_all (\<lambda>i. listNodes ax ns (cl_Name c) (show_nat i) = Inr (JArr (map ClusterNode_MarshalJSON (shard_Nodes (cl_Shards c ! i))))) [0..<length (cl_Shards c)]) cs"
  shows "\<exists>ds. map (process_cluster ax ns) (map (\<lambda>c. JStr (cl_Name c)) cs)
        = map (\<lambda>(d, c). (Some d, length (cl_Shards c), node_total c, [])) (zip ds cs) \<and> list_all2 shows_cluster ds cs"
  using assms
proof (induction cs)
  case (Cons c cs)
  then obtain ds where "map (process_cluster ax ns) (map (\<lambda>c. JStr (cl_Name c)) cs)
        = map (\<lambda>(d, c). (Some d, length (cl_Shards c), node_total c, [])) (zip ds cs)" "list_all2 shows_cluster ds cs"
    by auto
  moreover obtain d where "process_cluster ax ns (JStr (cl_Name c)) = (Some d, length (cl_Shards c), node_total c, [])" "shows_cluster d c"
    using process_cluster_served [of ax ns c] Cons.prems by (auto simp: shows_cluster_def)
  ultimately show ?case by (intro exI [of _ "d # ds"]) simp
qed simp

lemma map_filter_zip:
  "length ds = length cs \<Longrightarrow> List.map_filter fst (map (\<lambda>(d, c). (Some d, f c, g c, [])) (zip ds cs)) = ds"
  by (induction ds cs rule: list_induct2) (simp_all add: List.map_filter_simps)

lemma sums_zip:
  "length ds = length cs \<Longrightarrow> map (\<lambda>r. fst (snd r)) (map (\<lambda>(d, c). (Some d, f c, g c, [])) (zip ds cs)) = map f cs"
  "length ds = length cs \<Longrightarrow> map (\<lambda>r. fst (snd (snd r))) (map (\<lambda>(d, c). (Some d, f c, g c, [])) (zip ds cs)) = map g cs"
  "length ds = length cs \<Longrightarrow> concat (map (\<lambda>r. snd (snd (snd r))) (map (\<lambda>(d, c). (Some d, f c, g c, [])) (zip ds cs))) = []"
  by (induction ds cs rule: list_induct2) simp_all

lemma nsp_load_served:
  assumes "serves ax ns cs"
  shows "\<exists>ds. nsp_load ax ns = Inr (ds, \<lparr>nc_clusters = length cs, nc_shards = sum_list (map (\<lambda>c. length (cl_Shards c)) cs),
      nc_nodes = sum_list (map node_total cs)\<rparr>, []) \<and> list_all2 shows_cluster ds cs"
proof -
  obtain ds where p: "map (process_cluster ax ns) (map (\<lambda>c. JStr (cl_Name c)) cs)
        = map (\<lambda>(d, c). (Some d, length (cl_Shards c), node_total c, [])) (zip ds cs)" and d: "list_all2 shows_cluster ds cs"
    using assms process_clusters_served [of ax ns cs] unfolding serves_def by blast
  have len: "length ds = length cs" by (rule list_all2_lengthD [OF d])
  have "nsp_load ax ns = Inr (ds, \<lparr>nc_clusters = length cs, nc_shards = sum_list (map (\<lambda>c. length (cl_Shards c)) cs),
      nc_nodes = sum_list (map node_total cs)\<rparr>, [])"
    using assms unfolding serves_def nsp_load_def
    by (simp only: rbind_simps as_array_arr Let_def p map_filter_zip [OF len] sums_zip [OF len] len)
  with d show ?thesis by blast
qed

text \<open>
  The namespace page against the controller. When the server answers with the clusters of the
  namespace, the page has one row for each of them, in order, with its number of shards and of nodes and
  whether any shard has slots, and the cards show the totals.
\<close>
theorem namespace_page_shows_controller:
  assumes "serves ax ns cs" "fetchNamespaces ax = Inr (JArr names)" "JStr ns \<in> set names"
  shows "\<exists>ds. fst (nsp_fetchData nf ax ns s) = s\<lparr>nsp_clusterData := ds, nsp_loading := False,
      nsp_resourceCounts := \<lparr>nc_clusters = length cs, nc_shards = sum_list (map (\<lambda>c. length (cl_Shards c)) cs),
        nc_nodes = sum_list (map node_total cs)\<rparr>\<rparr>
    \<and> list_all2 shows_cluster ds cs"
proof -
  obtain ds where "nsp_load ax ns = Inr (ds, \<lparr>nc_clusters = length cs, nc_shards = sum_list (map (\<lambda>c. length (cl_Shards c)) cs),
      nc_nodes = sum_list (map node_total cs)\<rparr>, [])" "list_all2 shows_cluster ds cs"
    using nsp_load_served [OF assms(1)] by blast
  then show ?thesis using assms(2,3) by (intro exI [of _ ds]) (simp add: nsp_fetchData_def nsp_set_def)
qed

text \<open>A server with one namespace, one cluster and one shard of one node.\<close>

definition sample_cluster :: Cluster where
  "sample_cluster = \<lparr>cl_Name = ''c'', cl_Version = 1, cl_Shards =
     [\<lparr>shard_Nodes = [sample_node], shard_SlotRanges = [\<lparr>Start = 0, Stop = 16383\<rparr>], shard_TargetShardIndex = -1, shard_MigratingSlot = None\<rparr>]\<rparr>"

definition sample_server :: axios where
  "sample_server req =
     (let ok = \<lambda>f v. Inr (JObj [(''data'', JObj [(f, v)])]) in
      if req = GET namespaces_url then ok ''namespaces'' (JArr [JStr ''n''])
      else if req = GET (clusters_url ''n'') then ok ''clusters'' (JArr [JStr ''c''])
      else if req = GET (cluster_url ''n'' ''c'') then ok ''cluster'' (Cluster_MarshalJSON sample_cluster)
      else if req = GET (shards_url ''n'' ''c'') then ok ''shards'' (JArr (map Shard_json (cl_Shards sample_cluster)))
      else if req = GET (nodes_url ''n'' ''c'' (show_nat 0)) then ok ''nodes'' (JArr [ClusterNode_MarshalJSON sample_node])
      else Inl (type_error ''no such address''))"

lemma sample_server_serves: "serves sample_server ''n'' [sample_cluster]" "fetchNamespaces sample_server = Inr (JArr [JStr ''n''])"
proof -
  note e = sample_server_def api_simps Let_def
  have "fetchClusters sample_server ''n'' = Inr (JArr [JStr ''c''])" by (simp add: e)
  moreover have "fetchCluster sample_server ''n'' ''c'' = Inr (Cluster_MarshalJSON sample_cluster)" by (simp add: e)
  moreover have "listNodes sample_server ''n'' ''c'' (show_nat 0) = Inr (JArr [ClusterNode_MarshalJSON sample_node])" by (simp add: e)
  ultimately show "serves sample_server ''n'' [sample_cluster]" by (simp add: serves_def sample_cluster_def)
  show "fetchNamespaces sample_server = Inr (JArr [JStr ''n''])" by (simp add: e)
qed

theorem namespace_page_shows_controller_witness:
  "\<exists>d. nsp_clusterData (fst (nsp_fetchData (Inr JUndef) sample_server ''n'' nsp_init)) = [d] \<and> cd_name d = JStr ''c''
     \<and> cd_nodeCount d = 1 \<and> cd_hasSlots d
     \<and> nsp_resourceCounts (fst (nsp_fetchData (Inr JUndef) sample_server ''n'' nsp_init)) = \<lparr>nc_clusters = 1, nc_shards = 1, nc_nodes = 1\<rparr>"
  using namespace_page_shows_controller [OF sample_server_serves, of "Inr JUndef" nsp_init]
  by (auto simp: list_all2_Cons2 shows_cluster_def sample_cluster_def node_total_def)

text \<open>
  The migration flag of the namespace page says the opposite of what it is named for. A cluster with
  an idle shard, whose migrating slot the controller prints as null, counts as migrating because null
  compares as zero; a cluster all of whose shards migrate ranges of several slots does not, because the
  printed range is not a number.
\<close>
theorem namespace_migration_inverted:
  assumes "shows_cluster d c" "list_all valid_shard (cl_Shards c)"
  shows "(list_ex (\<lambda>sh. migrating_range sh = None) (cl_Shards c) \<longrightarrow> cd_hasMigration d)
    \<and> (list_all (\<lambda>sh. \<exists>r. migrating_range sh = Some r \<and> Start r \<noteq> Stop r) (cl_Shards c) \<longrightarrow> \<not> cd_hasMigration d)"
proof -
  have "cd_hasMigration d \<longleftrightarrow> (\<exists>sh\<in>set (cl_Shards c). case migrating_range sh of None \<Rightarrow> True | Some r \<Rightarrow> Start r = Stop r)"
    using assms idle_shard_iff by (auto simp: shows_cluster_def list_ex_iff list_all_iff)
  then show ?thesis by (force simp: list_ex_iff list_all_iff)
qed

theorem namespace_migration_inverted_witness:
  "\<exists>d. shows_cluster d sample_cluster \<and> cd_hasMigration d"
proof -
  obtain d where d: "shows_cluster d sample_cluster"
    using cluster_data_json [of sample_cluster "node_total sample_cluster"] by (auto simp: shows_cluster_def)
  have "list_all valid_shard (cl_Shards sample_cluster)"
    by (simp add: sample_cluster_def valid_shard_def valid_range_def migrating_range_def MinSlotID_def MaxSlotID_def)
  moreover have "list_ex (\<lambda>sh. migrating_range sh = None) (cl_Shards sample_cluster)" by (simp add: sample_cluster_def migrating_range_def)
  ultimately show ?thesis using namespace_migration_inverted [OF d] d by blast
qed

text \<open>
  A namespace that the controller does not list is not answered with the page for missing addresses:
  whether the framework's function raises or not, the error is caught, no address is visited, and the
  page shows an empty list of clusters.
\<close>
theorem missing_namespace_shown_empty:
  assumes "fetchNamespaces ax = Inr (JArr names)" "JStr ns \<notin> set names"
  shows "fst (nsp_fetchData nf ax ns nsp_init) = nsp_init\<lparr>nsp_loading := False\<rparr>
    \<and> (\<forall>url. RouterPush url \<notin> set (snd (nsp_fetchData nf ax ns nsp_init)))
    \<and> filteredAndSortedClusters compare (fst (nsp_fetchData nf ax ns nsp_init)) = Inr []"
  using assms by (auto simp: nsp_fetchData_def filteredAndSortedClusters_def nsp_init_def listed_def split: sum.splits)

theorem missing_namespace_shown_empty_witness:
  "filteredAndSortedClusters code_compare (fst (nsp_fetchData (Inl (type_error ''NEXT_NOT_FOUND'')) sample_server ''other'' nsp_init)) = Inr []"
proof -
  have "JStr ''other'' \<notin> set [JStr ''n'']" by simp
  from missing_namespace_shown_empty [OF sample_server_serves(2) this, of "Inl (type_error ''NEXT_NOT_FOUND'')" code_compare]
  show ?thesis by blast
qed

text \<open>
  C32: The namespace page always comes to rest: from every reachable state at most two answers per
  outstanding request arrive, and then the page shows its list and no cluster is marked as being deleted.
  In every reachable state the cards count the rows, and count at least their shards and nodes.
\<close>
theorem namespace_page_settles:
  assumes "nsp_reachable nf compare ns s" "(answer_step (nsp_answered nf ns) ^^ n) (ny_page s, ny_pending s) (t, pending)"
  shows "n \<le> 2 * length (ny_pending s) \<and> nsp_consistent (ny_page s)
    \<and> ((\<nexists>d. answer_step (nsp_answered nf ns) (t, pending) d) \<longrightarrow> \<not> nsp_loading t \<and> nsp_deletingCluster t = None)"
  using namespace_flags.settles [OF nsp_reachable_flags [OF assms(1)] assms(2)] nsp_reachable_consistent [OF assms(1)]
  by (simp add: nsp_deleting_def)

theorem namespace_page_settles_witness:
  "\<exists>t. (answer_step (nsp_answered (Inr JUndef) ''n'') ^^ 1) (nsp_init, [InitialFetch]) (t, []) \<and> \<not> nsp_loading t"
proof -
  let ?t = "fst (nsp_fetchData (Inr JUndef) sample_server ''n'' nsp_init)"
  have "nsp_answered (Inr JUndef) ''n'' InitialFetch (sample_server, Inr JUndef) nsp_init = (?t, [])" by simp
  then have "answer_step (nsp_answered (Inr JUndef) ''n'') (nsp_init, [InitialFetch]) (?t, [])"
    unfolding answer_step_def fst_conv snd_conv
    by (intro exI [of _ "[]"] exI [of _ InitialFetch] exI [of _ "(sample_server, Inr JUndef)"] conjI) simp_all
  then have a: "(answer_step (nsp_answered (Inr JUndef) ''n'') ^^ 1) (nsp_init, [InitialFetch]) (?t, [])" by (simp only: relpowp_1)
  have r: "nsp_reachable (Inr JUndef) code_compare ''n'' \<lparr>ny_page = nsp_init, ny_pending = [InitialFetch]\<rparr>" by (rule nsp_reachable.init)
  have "\<not> nsp_loading ?t"
    using namespace_page_settles [OF r, unfolded nsp_sys.select_convs, OF a] answer_step_possible [of _ ?t "[]"] by blast
  with a show ?thesis by blast
qed

end
