(* ===== verification/FormDialog.thy ===== *)
theory FormDialog
  imports View JSONText
begin

text \<open>
  The generic form dialog, \<^verbatim>\<open>webui/src/app/ui/formDialog.tsx\<close>: its state, its handlers, the form
  data it submits, its view, and the step relation of one mounted dialog with its outstanding
  submissions.
\<close>

section \<open>Props and state\<close>

record form_field =
  ff_name :: string
  ff_label :: string
  ff_type :: string
  ff_required :: bool
  ff_values :: "string list option"

record form_props =
  fp_position :: string
  fp_title :: string
  fp_submitButtonLabel :: string
  fp_formFields :: "form_field list"

record form_dialog =
  fd_showDialog :: bool
  fd_errorMessage :: jsval
  fd_arrayValues :: "(string \<times> string list) list"
  fd_submitting :: bool

definition fd_init :: form_dialog where
  "fd_init = \<lparr>fd_showDialog = False, fd_errorMessage = JStr [], fd_arrayValues = [], fd_submitting = False\<rparr>"

section \<open>Handlers\<close>

definition fd_openDialog :: "form_dialog \<Rightarrow> form_dialog" where
  "fd_openDialog s = s\<lparr>fd_showDialog := True\<rparr>"

definition fd_closeDialog :: "form_dialog \<Rightarrow> form_dialog" where
  "fd_closeDialog s = s\<lparr>fd_showDialog := False\<rparr>"

definition obj_set :: "string \<Rightarrow> 'v \<Rightarrow> (string \<times> 'v) list \<Rightarrow> (string \<times> 'v) list" where
  \<comment> \<open>\<^verbatim>\<open>{...o, [k]: v}\<close>: a key of \<^verbatim>\<open>o\<close> keeps its place, a new one comes last.\<close>
  "obj_set k v ob = (if k \<in> set (map fst ob) then map (\<lambda>(k', v'). (k', if k' = k then v else v')) ob else ob @ [(k, v)])"

definition fd_handleArrayChange :: "string \<Rightarrow> string list \<Rightarrow> form_dialog \<Rightarrow> form_dialog" where
  "fd_handleArrayChange name val s = s\<lparr>fd_arrayValues := obj_set name val (fd_arrayValues s)\<rparr>"

type_synonym form_data = "(string \<times> string) list"

definition fd_formData :: "form_data \<Rightarrow> form_dialog \<Rightarrow> form_data" where
  \<comment> \<open>\<^verbatim>\<open>new FormData(form)\<close>, the entries of the named controls, then one entry per array field.\<close>
  "fd_formData controls s = controls @ map (\<lambda>(name, vs). (name, JSON_stringify vs)) (fd_arrayValues s)"

definition fd_submit_begin :: "form_dialog \<Rightarrow> form_dialog" where
  \<comment> \<open>\<^verbatim>\<open>handleSubmit\<close> up to the call of \<^verbatim>\<open>onSubmit\<close>\<close>
  "fd_submit_begin s = s\<lparr>fd_submitting := True\<rparr>"

definition fd_submit_end :: "jsval res \<Rightarrow> form_dialog \<Rightarrow> form_dialog" where
  \<comment> \<open>\<^verbatim>\<open>handleSubmit\<close> from the outcome of \<^verbatim>\<open>onSubmit\<close> on\<close>
  "fd_submit_end outcome s =
     (let s' = (case outcome of
          Inr error \<Rightarrow> if truthy error then s\<lparr>fd_errorMessage := error\<rparr> else fd_closeDialog s
        | Inl _ \<Rightarrow> s\<lparr>fd_errorMessage := JStr ''An unexpected error occurred''\<rparr>)
      in s'\<lparr>fd_submitting := False\<rparr>)"

definition fd_handleSubmit :: "(form_data \<Rightarrow> jsval res) \<Rightarrow> form_data \<Rightarrow> form_dialog \<Rightarrow> form_dialog" where
  "fd_handleSubmit onSubmit controls s =
     fd_submit_end (onSubmit (fd_formData controls s)) (fd_submit_begin s)"

definition fd_dismissError :: "form_dialog \<Rightarrow> form_dialog" where
  "fd_dismissError s = s\<lparr>fd_errorMessage := JStr []\<rparr>"

definition formData_get :: "form_data \<Rightarrow> string \<Rightarrow> jsval" where
  \<comment> \<open>\<^verbatim>\<open>formData.get(k)\<close>: the first entry, or \<^verbatim>\<open>null\<close>\<close>
  "formData_get fd k = (case map_of fd k of None \<Rightarrow> JNull | Some v \<Rightarrow> JStr v)"

definition formObj :: "form_data \<Rightarrow> string \<Rightarrow> jsval" where
  \<comment> \<open>\<^verbatim>\<open>Object.fromEntries(formData.entries())[k]\<close>: the last entry, or \<^verbatim>\<open>undefined\<close>\<close>
  "formObj fd k = (case map_of (rev fd) k of None \<Rightarrow> JUndef | Some v \<Rightarrow> JStr v)"

section \<open>View\<close>

datatype fd_act = FdOpen | FdClose | FdArrayChange string | FdSubmit | FdDismiss

definition fd_trigger :: "form_props \<Rightarrow> fd_act views \<Rightarrow> fd_act views" where
  "fd_trigger p children =
     (if children \<noteq> [] then [El ''div'' [On ''onClick'' FdOpen] children]
      else if fp_position p = ''card'' then
        [El ''Button'' [On ''onClick'' FdOpen, NA ''startIcon'' (El ''AddIcon'' [] [])] [Txt (fp_title p)]]
      else
        [El ''Button'' [On ''onClick'' FdOpen, NA ''startIcon'' (El ''AddIcon'' [] [])] [Txt (fp_title p)]])"

definition fd_array_field :: "form_dialog \<Rightarrow> nat \<Rightarrow> form_field \<Rightarrow> fd_act view" where
  "fd_array_field s index f =
     (let selected = (case map_of (fd_arrayValues s) (ff_name f) of None \<Rightarrow> [] | Some vs \<Rightarrow> vs) in
      El ''Box'' [VA ''key'' (JNat index)]
        [El ''Typography'' [] [Txt (ff_label f)],
         El ''Autocomplete''
           ([BA ''multiple'' True, BA ''freeSolo'' True, VA ''value'' (JArr (map JStr selected)), VA ''options'' (JArr []),
             On ''onChange'' (FdArrayChange (ff_name f))] @
            map (\<lambda>(i, opt). NA ''renderTags'' (El ''Chip'' [VA ''key'' (JNat i), SA ''label'' opt] [])) (indexed selected) @
            [NA ''renderInput'' (El ''TextField''
               [SA ''label'' (''Add '' @ ff_label f @ ''*''), SA ''placeholder'' ''Type and press enter''] [])])
           []])"

definition fd_enum_field :: "nat \<Rightarrow> form_field \<Rightarrow> fd_act view" where
  "fd_enum_field index f =
     El ''FormControl'' [VA ''key'' (JNat index)]
       [El ''InputLabel'' [SA ''id'' (ff_name f @ ''-label'')] [Txt (ff_label f)],
        El ''Select''
          [SA ''labelId'' (ff_name f @ ''-label''), SA ''name'' (ff_name f), SA ''label'' (ff_label f),
           BA ''required'' (ff_required f), SA ''defaultValue'' []]
          (case ff_values f of None \<Rightarrow> []
           | Some vs \<Rightarrow> map (\<lambda>(i, v). El ''MenuItem'' [VA ''key'' (JNat i), SA ''value'' v] [Txt v]) (indexed vs))]"

definition fd_text_field :: "nat \<Rightarrow> form_field \<Rightarrow> fd_act view" where
  "fd_text_field index f =
     El ''TextField''
       [VA ''key'' (JNat index), BA ''autoFocus'' (index = 0), BA ''required'' (ff_required f),
        SA ''name'' (ff_name f), SA ''label'' (ff_label f), SA ''type'' (ff_type f)] []"

definition fd_field :: "form_dialog \<Rightarrow> nat \<times> form_field \<Rightarrow> fd_act view" where
  "fd_field s = (\<lambda>(index, f).
     if ff_type f = ''array'' then fd_array_field s index f
     else if ff_type f = ''enum'' then fd_enum_field index f
     else fd_text_field index f)"

definition fd_actions :: "form_props \<Rightarrow> form_dialog \<Rightarrow> fd_act view" where
  "fd_actions p s =
     El ''DialogActions'' []
       [El ''Button'' [On ''onClick'' FdClose, BA ''disabled'' (fd_submitting s)] [Txt ''Cancel''],
        El ''Button''
          ([SA ''type'' ''submit'', BA ''disabled'' (fd_submitting s)] @
           (if fd_submitting s then [NA ''startIcon'' (El ''CircularProgress'' [] [])] else []))
          [Txt (if fd_submitting s then ''Processing...'' else fp_submitButtonLabel p)]]"

definition fd_dialog :: "form_props \<Rightarrow> form_dialog \<Rightarrow> fd_act view" where
  "fd_dialog p s =
     El ''Dialog'' [BA ''open'' (fd_showDialog s), On ''onClose'' FdClose]
       [El ''form'' [On ''onSubmit'' FdSubmit]
         [El ''DialogTitle'' [] [El ''Typography'' [] [Txt (fp_title p)]],
          El ''DialogContent'' [] (map (fd_field s) (indexed (fp_formFields p))),
          fd_actions p s]]"

definition fd_snackbar :: "form_dialog \<Rightarrow> fd_act view" where
  "fd_snackbar s =
     El ''Snackbar''
       [BA ''open'' (truthy (fd_errorMessage s)), VA ''autoHideDuration'' (JNat 5000), On ''onClose'' FdDismiss]
       [El ''Alert'' [On ''onClose'' FdDismiss, SA ''severity'' ''error''] [Ex (fd_errorMessage s)]]"

definition fd_view :: "form_props \<Rightarrow> fd_act views \<Rightarrow> form_dialog \<Rightarrow> fd_act views" where
  "fd_view p children s = fd_trigger p children @ [fd_dialog p s, fd_snackbar s]"

section \<open>Facts on the form data\<close>

lemma array_entries: "map_of (rev (map (\<lambda>(name, vs). (name, JSON_stringify vs)) xs)) k =
    (if distinct (map fst xs) then map_option JSON_stringify (map_of xs k) else
     map_of (rev (map (\<lambda>(name, vs). (name, JSON_stringify vs)) xs)) k)"
proof (cases "distinct (map fst xs)")
  case True
  have "map fst (map (\<lambda>(name, vs). (name, JSON_stringify vs)) xs) = map fst xs" by auto
  with True show ?thesis by (simp only: map_of_rev_distinct if_True) (simp add: map_of_map)
qed simp

lemma formObj_array:
  assumes "map_of (fd_arrayValues s) k = Some vs" and "distinct (map fst (fd_arrayValues s))"
  shows "formObj (fd_formData controls s) k = JStr (JSON_stringify vs)"
  using assms by (simp add: formObj_def fd_formData_def array_entries)

lemma formObj_control:
  assumes "k \<notin> set (map fst (fd_arrayValues s))"
  shows "formObj (fd_formData controls s) k = formObj controls k"
proof -
  from assms have "map_of (rev (map (\<lambda>(name, vs). (name, JSON_stringify vs)) (fd_arrayValues s))) k = None"
    by (force simp: map_of_eq_None_iff)
  then show ?thesis by (simp add: formObj_def fd_formData_def map_add_def)
qed

lemma keys_obj_set: "map fst (obj_set k v ob) = (if k \<in> set (map fst ob) then map fst ob else map fst ob @ [k])"
  by (auto simp: obj_set_def comp_def case_prod_unfold)

lemma distinct_obj_set: "distinct (map fst ob) \<Longrightarrow> distinct (map fst (obj_set k v ob))"
  by (simp add: keys_obj_set)

lemma map_of_obj_set: "map_of (obj_set k v ob) k' = (if k' = k then Some v else map_of ob k')"
proof (cases "k \<in> fst ` set ob")
  case True
  then show ?thesis by (cases "k' = k") (simp_all add: obj_set_def map_of_map_upd)
next
  case False
  then have "map_of ob k = None" by (simp add: map_of_eq_None_iff)
  with False show ?thesis by (simp add: obj_set_def map_add_def split: option.splits)
qed

section \<open>One mounted dialog\<close>

text \<open>
  The user's steps are the handlers reachable in the view; the form submits through its submit
  button (implicit submission is blocked while that button is disabled). A submission stays
  outstanding until its outcome arrives, and any step may come in between.
\<close>

record fd_sys =
  fs_ui :: form_dialog
  fs_pending :: nat

inductive fd_step :: "form_props \<Rightarrow> fd_act views \<Rightarrow> fd_sys \<Rightarrow> fd_sys \<Rightarrow> bool" for p children where
  open_dialog: "FdOpen \<in> set (all_enabled (fd_view p children (fs_ui s))) \<Longrightarrow>
    fd_step p children s (s\<lparr>fs_ui := fd_openDialog (fs_ui s)\<rparr>)"
| close_dialog: "FdClose \<in> set (all_enabled (fd_view p children (fs_ui s))) \<Longrightarrow>
    fd_step p children s (s\<lparr>fs_ui := fd_closeDialog (fs_ui s)\<rparr>)"
| array_change: "FdArrayChange name \<in> set (all_enabled (fd_view p children (fs_ui s))) \<Longrightarrow>
    fd_step p children s (s\<lparr>fs_ui := fd_handleArrayChange name val (fs_ui s)\<rparr>)"
| submit: "FdSubmit \<in> set (all_enabled (fd_view p children (fs_ui s))) \<Longrightarrow> \<not> fd_submitting (fs_ui s) \<Longrightarrow>
    fd_step p children s (s\<lparr>fs_ui := fd_submit_begin (fs_ui s), fs_pending := Suc (fs_pending s)\<rparr>)"
| outcome: "fs_pending s = Suc n \<Longrightarrow>
    fd_step p children s (s\<lparr>fs_ui := fd_submit_end r (fs_ui s), fs_pending := n\<rparr>)"
| dismiss: "FdDismiss \<in> set (all_enabled (fd_view p children (fs_ui s))) \<Longrightarrow>
    fd_step p children s (s\<lparr>fs_ui := fd_dismissError (fs_ui s)\<rparr>)"

inductive fd_reachable :: "form_props \<Rightarrow> fd_act views \<Rightarrow> fd_sys \<Rightarrow> bool" for p children where
  \<comment> \<open>The children come from the caller: none of their handlers is one of the dialog's.\<close>
  init: "all_actions children = [] \<Longrightarrow> fd_reachable p children \<lparr>fs_ui = fd_init, fs_pending = 0\<rparr>"
| step: "fd_reachable p children s \<Longrightarrow> fd_step p children s t \<Longrightarrow> fd_reachable p children t"

definition array_names :: "form_props \<Rightarrow> string list" where
  "array_names p = map ff_name (filter (\<lambda>f. ff_type f = ''array'') (fp_formFields p))"

lemma actions_fd_field: "set (actions (fd_field s (i, f))) = (if ff_type f = ''array'' then {FdArrayChange (ff_name f)} else {})"
  by (auto simp: fd_field_def fd_array_field_def fd_enum_field_def fd_text_field_def Let_def split: option.splits)

lemma array_change_in_view:
  assumes "FdArrayChange name \<in> set (all_enabled (fd_view p children s))" and "all_actions children = []"
  shows "name \<in> set (array_names p)"
proof -
  from assms(2) have children: "a \<notin> set (actions v)" if "v \<in> set children" for a v
    using that by (auto simp: all_actions_def)
  from assms(1) have "FdArrayChange name \<in> set (all_actions (fd_view p children s))"
    by (rule subsetD [OF all_enabled_subset])
  then have "\<exists>(i, f) \<in> set (indexed (fp_formFields p)). FdArrayChange name \<in> set (actions (fd_field s (i, f)))"
    using children
    by (auto simp: fd_view_def fd_trigger_def fd_dialog_def fd_actions_def fd_snackbar_def split: if_splits)
  then obtain i f where "(i, f) \<in> set (indexed (fp_formFields p))"
    and "FdArrayChange name \<in> set (actions (fd_field s (i, f)))" by blast
  then show ?thesis
    by (auto simp: array_names_def actions_fd_field in_set_indexed split: if_splits)
qed

lemmas fd_handlers = fd_openDialog_def fd_closeDialog_def fd_handleArrayChange_def fd_submit_begin_def
  fd_submit_end_def fd_dismissError_def

definition fd_inv :: "form_props \<Rightarrow> fd_sys \<Rightarrow> bool" where
  "fd_inv p s \<longleftrightarrow> fs_pending s = (if fd_submitting (fs_ui s) then 1 else 0)
     \<and> distinct (map fst (fd_arrayValues (fs_ui s)))
     \<and> fst ` set (fd_arrayValues (fs_ui s)) \<subseteq> set (array_names p)"

lemma fd_inv_init: "fd_inv p \<lparr>fs_ui = fd_init, fs_pending = 0\<rparr>"
  by (simp add: fd_inv_def fd_init_def)

lemma keys_obj_set_set: "fst ` set (obj_set k v ob) = insert k (fst ` set ob)"
  using arg_cong [OF keys_obj_set, of set k v ob] by auto

lemma fd_inv_step: "fd_step p children s t \<Longrightarrow> all_actions children = [] \<Longrightarrow> fd_inv p s \<Longrightarrow> fd_inv p t"
  by (induction rule: fd_step.induct)
    (auto simp: fd_inv_def fd_handlers Let_def distinct_obj_set keys_obj_set_set dest: array_change_in_view
      split: sum.splits if_splits)

lemma fd_reachable_children: "fd_reachable p children s \<Longrightarrow> all_actions children = []"
  by (induction rule: fd_reachable.induct)

lemma fd_reachable_inv: "fd_reachable p children s \<Longrightarrow> fd_inv p s"
  by (induction rule: fd_reachable.induct) (auto intro: fd_inv_init fd_inv_step dest: fd_reachable_children)

section \<open>Properties\<close>

text \<open>
  A form dialog never submits twice at once: in every reachable state, however the user's steps and
  the outcomes interleave, at most one submission is outstanding, and while one is, neither button of
  the dialog can be pressed.
\<close>
theorem form_dialog_single_submission:
  assumes "fd_reachable p children s"
  shows "fs_pending s \<le> 1 \<and> (fs_pending s = 1 \<longrightarrow> enabled_actions (fd_actions p (fs_ui s)) = [])"
  using fd_reachable_inv [OF assms] by (auto simp: fd_inv_def fd_actions_def split: if_splits)

lemma form_dialog_can_submit:
  "\<exists>s. fd_reachable p [] s \<and> fs_pending s = 1"
proof -
  let ?s0 = "\<lparr>fs_ui = fd_init, fs_pending = 0\<rparr>"
  let ?s1 = "?s0\<lparr>fs_ui := fd_openDialog (fs_ui ?s0)\<rparr>"
  have "fd_reachable p [] ?s0" by (rule fd_reachable.init) simp
  moreover have "fd_step p [] ?s0 ?s1" by (rule fd_step.open_dialog) (simp add: fd_view_def fd_trigger_def)
  moreover have "fd_step p [] ?s1 (?s1\<lparr>fs_ui := fd_submit_begin (fs_ui ?s1), fs_pending := Suc (fs_pending ?s1)\<rparr>)"
    by (rule fd_step.submit) (simp_all add: fd_view_def fd_dialog_def fd_openDialog_def fd_init_def)
  ultimately have "fd_reachable p [] (?s1\<lparr>fs_ui := fd_submit_begin (fs_ui ?s1), fs_pending := Suc (fs_pending ?s1)\<rparr>)"
    by (blast intro: fd_reachable.step)
  then show ?thesis by (intro exI conjI) (assumption, simp)
qed

theorem form_dialog_single_submission_witness:
  "let p = \<lparr>fp_position = ''page'', fp_title = ''Create'', fp_submitButtonLabel = ''Create'', fp_formFields = []\<rparr> in
   \<exists>s :: fd_sys. fs_pending s = 1 \<and> enabled_actions (fd_actions p (fs_ui s)) = []"
proof -
  let ?p = "\<lparr>fp_position = ''page'', fp_title = ''Create'', fp_submitButtonLabel = ''Create'', fp_formFields = []\<rparr>"
  obtain s where s: "fd_reachable ?p [] s" "fs_pending s = 1" using form_dialog_can_submit by blast
  show ?thesis
    unfolding Let_def by (rule exI [of _ s]) (use form_dialog_single_submission [OF s(1)] s(2) in simp)
qed

end
