(* ===== verification/FormCreation.thy ===== *)
theory FormCreation
  imports FormDialog Api SlotStore
begin

text \<open>
  The forms of \<^verbatim>\<open>webui/src/app/ui/formCreation.tsx\<close>: the dialogs that create namespaces, clusters,
  shards and nodes, import a cluster and migrate a slot. A submit handler takes the form data and
  the server and returns its outcome for the dialog (a message, \<^verbatim>\<open>undefined\<close> on success, or an
  exception) with the navigation it performs.
\<close>

section \<open>Validation\<close>

definition containsWhitespace :: "string \<Rightarrow> bool" where
  "containsWhitespace s = list_ex is_ws s"

fun validateFormData :: "form_data \<Rightarrow> string list \<Rightarrow> string option" where
  "validateFormData fd [] = None"
| "validateFormData fd (field # rest) =
     (case formData_get fd field of
        JStr v \<Rightarrow> if containsWhitespace v
          then Some (js_capitalize field @ '' cannot contain any whitespace characters.'')
          else validateFormData fd rest
      | _ \<Rightarrow> validateFormData fd rest)"

type_synonym outcome = "jsval res \<times> effect list"

definition finish :: "jsval res \<Rightarrow> effect \<Rightarrow> string \<Rightarrow> outcome" where
  \<comment> \<open>The end of a creation handler: navigate when the call answers the empty string, otherwise
      return its message.\<close>
  "finish call nav failed = (case call of
       Inl e \<Rightarrow> (Inl e, [])
     | Inr response \<Rightarrow> if strict_eq response (JStr []) then (Inr JUndef, [nav])
         else (Inr (js_or response (JStr failed)), []))"

definition reply :: "string \<Rightarrow> outcome" where
  "reply m = (Inr (JStr m), [])"

definition JSON_parse_val :: "jsval \<Rightarrow> jsval res" where
  "JSON_parse_val v = JSON_parse (js_to_string v)"

section \<open>Namespaces and clusters\<close>

definition NamespaceCreation_handleSubmit :: "axios \<Rightarrow> form_data \<Rightarrow> outcome" where
  "NamespaceCreation_handleSubmit ax fd =
     (case validateFormData fd [''name''] of
        Some m \<Rightarrow> reply m
      | None \<Rightarrow>
        (let name = formObj fd ''name'' in
         finish (createNamespace ax name) (RouterPush (''/namespaces/'' @ js_to_string name))
           ''Failed to create namespace''))"

definition nodes_check :: "jsval \<Rightarrow> string option res" where
  \<comment> \<open>The checks on the parsed node list that creating and importing a cluster share.\<close>
  "nodes_check nodes =
     rbind (js_length nodes) (\<lambda>len.
       if strict_eq len (JNat 0) then Inr (Some ''Nodes cannot be empty.'')
       else rbind (iterate nodes) (\<lambda>xs.
         Inr (if list_ex (\<lambda>node. containsWhitespace (js_to_string node)) xs
              then Some ''Nodes cannot contain any whitespace characters.'' else None)))"

definition ClusterCreation_handleSubmit :: "axios \<Rightarrow> string \<Rightarrow> form_data \<Rightarrow> outcome" where
  "ClusterCreation_handleSubmit ax namespace fd =
     (case validateFormData fd [''name'', ''replicas''] of
        Some m \<Rightarrow> reply m
      | None \<Rightarrow>
        (case JSON_parse_val (formObj fd ''nodes'') of
           Inl e \<Rightarrow> (Inl e, [])
         | Inr nodes \<Rightarrow>
           (case nodes_check nodes of
              Inl e \<Rightarrow> (Inl e, [])
            | Inr (Some m) \<Rightarrow> reply m
            | Inr None \<Rightarrow>
              finish (createCluster ax (formObj fd ''name'') nodes
                  (parseInt (js_to_string (formObj fd ''replicas''))) (formObj fd ''password'') namespace)
                (RouterPush (''/namespaces/'' @ namespace @ ''/clusters/'' @ js_to_string (formObj fd ''name'')))
                ''Failed to create cluster'')))"

definition ImportCluster_handleSubmit :: "axios \<Rightarrow> string \<Rightarrow> form_data \<Rightarrow> outcome" where
  "ImportCluster_handleSubmit ax namespace fd =
     (case validateFormData fd [''nodes''] of
        Some m \<Rightarrow> reply m
      | None \<Rightarrow>
        (case JSON_parse_val (formObj fd ''nodes'') of
           Inl e \<Rightarrow> (Inl e, [])
         | Inr nodes \<Rightarrow>
           (case nodes_check nodes of
              Inl e \<Rightarrow> (Inl e, [])
            | Inr (Some m) \<Rightarrow> reply m
            | Inr None \<Rightarrow>
              (let cluster = js_to_string (formObj fd ''cluster'') in
               finish (importCluster ax namespace cluster nodes (formObj fd ''password''))
                 (RouterPush (''/namespaces/'' @ namespace @ ''/clusters/'' @ cluster))
                 ''Failed to import cluster''))))"

section \<open>Shards and nodes\<close>

fun shard_nodes_check :: "jsval list \<Rightarrow> string option" where
  "shard_nodes_check [] = None"
| "shard_nodes_check (node # nodes) =
     (if \<not> truthy node \<or> js_typeof node \<noteq> ''string'' then Some ''All nodes must be valid address strings.''
      else if containsWhitespace (js_to_string node) then Some ''Node addresses cannot contain whitespace characters.''
      else shard_nodes_check nodes)"

definition error_message :: "exn \<Rightarrow> string" where
  \<comment> \<open>\<^verbatim>\<open>error instanceof Error ? error.message : "Unknown error"\<close>\<close>
  "error_message e = (case e of AxiosError m _ \<Rightarrow> m | NativeError _ m \<Rightarrow> m | Thrown _ \<Rightarrow> ''Unknown error'')"

definition ShardCreation_handleSubmit :: "axios \<Rightarrow> string \<Rightarrow> string \<Rightarrow> form_data \<Rightarrow> outcome" where
  "ShardCreation_handleSubmit ax namespace cluster fd =
     (case validateFormData fd [''nodes''] of
        Some m \<Rightarrow> reply m
      | None \<Rightarrow>
        (let nodesString = formObj fd ''nodes'' in
         if \<not> truthy nodesString then reply ''Nodes field is required.''
         else (case JSON_parse_val nodesString of
           Inl parseError \<Rightarrow> reply ''Invalid nodes format. Please check your input.''
         | Inr nodes \<Rightarrow>
           (case nodes of
              JArr xs \<Rightarrow>
                if xs = [] then reply ''At least one node is required.''
                else (case shard_nodes_check xs of
                  Some m \<Rightarrow> reply m
                | None \<Rightarrow>
                  (case createShard ax namespace cluster nodes (js_or (formObj fd ''password'') (JStr [])) of
                     Inl e \<Rightarrow> (Inr (JStr (''Failed to create shard: '' @ error_message e)), [ConsoleError ''Error in shard creation:''])
                   | Inr response \<Rightarrow> finish (Inr response) Reload ''Failed to create shard''))
            | _ \<Rightarrow> reply ''At least one node is required.''))))"

definition NodeCreation_handleSubmit :: "axios \<Rightarrow> string \<Rightarrow> string \<Rightarrow> string \<Rightarrow> form_data \<Rightarrow> outcome" where
  "NodeCreation_handleSubmit ax namespace cluster shard fd =
     (case validateFormData fd [''Address'', ''Role''] of
        Some m \<Rightarrow> reply m
      | None \<Rightarrow>
        (let address = formObj fd ''Address'' in
         if containsWhitespace (js_to_string address)
         then reply ''Address cannot contain any whitespace characters.''
         else finish (createNode ax namespace cluster shard address (formObj fd ''Role'') (formObj fd ''Password''))
           Reload ''Failed to create node''))"

section \<open>Migrating a slot\<close>

definition js_str_includes :: "jsval \<Rightarrow> string \<Rightarrow> bool res" where
  \<comment> \<open>\<^verbatim>\<open>v.includes(t)\<close>, a method of strings and arrays\<close>
  "js_str_includes v t = (case v of JStr s \<Rightarrow> Inr (js_includes s t)
     | JArr xs \<Rightarrow> Inr (JStr t \<in> set xs)
     | _ \<Rightarrow> Inl (type_error ''includes is not a function''))"

definition range_holds :: "jsnum \<Rightarrow> jsval \<Rightarrow> bool res" where
  "range_holds slot rg =
     rbind (js_str_includes rg ''-'') (\<lambda>dash.
       if dash then
         (case rg of
            JStr s \<Rightarrow> (let parts = map js_Number (js_split CHR ''-'' s) in
              Inr (js_ge slot (parts ! 0) \<and> js_ge (parts ! 1) slot))
          | _ \<Rightarrow> Inl (type_error ''range.split is not a function''))
       else (let n = to_number rg in Inr (js_ge slot n \<and> js_ge n slot)))"

fun any_range :: "jsnum \<Rightarrow> jsval list \<Rightarrow> bool res" where
  "any_range slot [] = Inr False"
| "any_range slot (r # rs) = rbind (range_holds slot r) (\<lambda>b. if b then Inr True else any_range slot rs)"

fun find_source :: "jsnum \<Rightarrow> nat \<Rightarrow> jsval list \<Rightarrow> int res" where
  \<comment> \<open>The loop over the shards: the first one with a range that holds the slot, or \<^verbatim>\<open>-1\<close>.\<close>
  "find_source slot i [] = Inr (-1)"
| "find_source slot i (shard # shards) =
     rbind (get shard ''slot_ranges'') (\<lambda>ranges.
       case ranges of
         JArr rs \<Rightarrow> rbind (any_range slot rs) (\<lambda>b. if b then Inr (int i) else find_source slot (Suc i) shards)
       | _ \<Rightarrow> find_source slot (Suc i) shards)"

definition migrate_check :: "jsval \<Rightarrow> jsnum \<Rightarrow> jsnum \<Rightarrow> string option res" where
  \<comment> \<open>The body of the \<^verbatim>\<open>try\<close>: a message that ends the handler, or nothing.\<close>
  "migrate_check shards target slot =
     (case shards of
        JArr xs \<Rightarrow>
          if js_ge target (num_of_nat (length xs)) then
            Inr (Some (''Target shard index '' @ show_num target @ '' does not exist. Available shards: 0-''
              @ show_int (int (length xs) - 1) @ ''.''))
          else rbind (find_source slot 0 xs) (\<lambda>src.
            if Fin (of_int src) = target then
              Inr (Some (''Cannot migrate slot '' @ show_num slot @ '' to the same shard ('' @ show_num target
                @ ''). The slot is already in shard '' @ show_int src @ ''.''))
            else if src = -1 then
              Inr (Some (''Slot '' @ show_num slot @ '' is not currently assigned to any shard and cannot be migrated.''))
            else rbind (get (js_elem xs (nat src)) ''migrating_slot'') (\<lambda>m.
              if strict_eq m (JNum slot) then
                Inr (Some (''Slot '' @ show_num slot @ '' is already being migrated from shard '' @ show_int src @ ''.''))
              else rbind (get (case target of Fin r \<Rightarrow> js_elem xs (nat \<lfloor>r\<rfloor>) | _ \<Rightarrow> JUndef) ''import_slot'') (\<lambda>im.
                if strict_eq im (JNum slot) then
                  Inr (Some (''Slot '' @ show_num slot @ '' is already being imported to shard '' @ show_num target @ ''.''))
                else Inr None)))
      | _ \<Rightarrow> Inr (Some ''Failed to fetch shard information. Please check if the cluster exists.''))"

definition migrate_failure :: "jsval \<Rightarrow> jsval res" where
  "migrate_failure response =
     rbind (js_str_includes response ''source and target shard is same'') (\<lambda>same.
       if same then Inr (JStr ''Migration failed: The source and target shards are the same. Please select a different target shard.'')
       else rbind (js_str_includes response ''the entry does not exist'') (\<lambda>missing.
         if missing then Inr (JStr ''Migration failed: The specified cluster, shard, or slot does not exist.'')
         else rbind (js_str_includes response ''already existed'') (\<lambda>existed.
           if existed then Inr (JStr ''Migration failed: The slot is already being migrated or exists in the target shard.'')
           else Inr (JStr (''Migration failed: '' @ js_to_string response)))))"

definition MigrateSlot_handleSubmit :: "axios \<Rightarrow> string \<Rightarrow> string \<Rightarrow> form_data \<Rightarrow> outcome" where
  "MigrateSlot_handleSubmit ax namespace cluster fd =
     (case validateFormData fd [''target'', ''slot'', ''slot_only''] of
        Some m \<Rightarrow> reply m
      | None \<Rightarrow>
        (let target = parseInt (js_to_string (formObj fd ''target''));
             slot = parseInt (js_to_string (formObj fd ''slot''));
             slotOnly = strict_eq (formObj fd ''slot_only'') (JStr ''true'')
         in
         if target = NaN \<or> js_gt (Fin 0) target then
           reply ''Target shard index must be a valid non-negative number.''
         else if slot = NaN \<or> js_gt (Fin 0) slot \<or> js_gt slot (Fin 16383) then
           reply ''Slot must be a valid number between 0 and 16383.''
         else
           (case rbind (listShards ax namespace cluster) (\<lambda>shards. migrate_check shards target slot) of
              Inr (Some m) \<Rightarrow> reply m
            | checked \<Rightarrow>
              (let logs = (case checked of Inl _ \<Rightarrow> [ConsoleError ''Error validating migration:''] | Inr _ \<Rightarrow> []) in
               case migrateSlot ax namespace cluster target (show_num slot) slotOnly of
                 Inl e \<Rightarrow> (Inl e, logs)
               | Inr response \<Rightarrow>
                   if strict_eq response (JStr []) then (Inr JUndef, logs @ [Reload])
                   else (migrate_failure response, logs)))))"

section \<open>The dialogs\<close>

abbreviation text_field :: "string \<Rightarrow> string \<Rightarrow> form_field" where
  "text_field n l \<equiv> \<lparr>ff_name = n, ff_label = l, ff_type = ''text'', ff_required = True, ff_values = None\<rparr>"

abbreviation array_field :: "string \<Rightarrow> string \<Rightarrow> form_field" where
  "array_field n l \<equiv> \<lparr>ff_name = n, ff_label = l, ff_type = ''array'', ff_required = True, ff_values = None\<rparr>"

abbreviation password_field :: "string \<Rightarrow> form_field" where
  "password_field n \<equiv> \<lparr>ff_name = n, ff_label = ''Input Password'', ff_type = ''password'', ff_required = False, ff_values = None\<rparr>"

abbreviation enum_field :: "string \<Rightarrow> string \<Rightarrow> string list \<Rightarrow> form_field" where
  "enum_field n l vs \<equiv> \<lparr>ff_name = n, ff_label = l, ff_type = ''enum'', ff_required = True, ff_values = Some vs\<rparr>"

definition NamespaceCreation_props :: "string \<Rightarrow> form_props" where
  "NamespaceCreation_props position = \<lparr>fp_position = position, fp_title = ''Create Namespace'',
     fp_submitButtonLabel = ''Create'', fp_formFields = [text_field ''name'' ''Input Name'']\<rparr>"

definition ClusterCreation_props :: "string \<Rightarrow> form_props" where
  "ClusterCreation_props position = \<lparr>fp_position = position, fp_title = ''Create Cluster'',
     fp_submitButtonLabel = ''Create'',
     fp_formFields = [text_field ''name'' ''Input Name'', array_field ''nodes'' ''Input Nodes'',
       text_field ''replicas'' ''Input Replicas'', password_field ''password'']\<rparr>"

definition ShardCreation_props :: "string \<Rightarrow> form_props" where
  "ShardCreation_props position = \<lparr>fp_position = position, fp_title = ''Create Shard'',
     fp_submitButtonLabel = ''Create'',
     fp_formFields = [array_field ''nodes'' ''Input Nodes'', password_field ''password'']\<rparr>"

definition ImportCluster_props :: "string \<Rightarrow> form_props" where
  "ImportCluster_props position = \<lparr>fp_position = position, fp_title = ''Import Cluster'',
     fp_submitButtonLabel = ''Import'',
     fp_formFields = [text_field ''cluster'' ''Input Cluster'', array_field ''nodes'' ''Input Nodes'',
       password_field ''password'']\<rparr>"

definition MigrateSlot_props :: "string \<Rightarrow> form_props" where
  "MigrateSlot_props position = \<lparr>fp_position = position, fp_title = ''Migrate Slot'',
     fp_submitButtonLabel = ''Migrate'',
     fp_formFields = [text_field ''target'' ''Target Shard Index'', text_field ''slot'' ''Slot Number (0-16383)'',
       enum_field ''slot_only'' ''Slot Only Migration'' [''false'', ''true'']]\<rparr>"

definition NodeCreation_props :: "string \<Rightarrow> form_props" where
  "NodeCreation_props position = \<lparr>fp_position = position, fp_title = ''Create Node'',
     fp_submitButtonLabel = ''Create'',
     fp_formFields = [text_field ''Address'' ''Input Address'', enum_field ''Role'' ''Select Role'' [''master'', ''slave''],
       password_field ''Password'']\<rparr>"

text \<open>
  The children of a form replace its button. \<^verbatim>\<open>NamespaceCreation\<close> and \<^verbatim>\<open>MigrateSlot\<close> do not pass
  theirs on.
\<close>

definition NamespaceCreation_view :: "string \<Rightarrow> fd_act views \<Rightarrow> form_dialog \<Rightarrow> fd_act views" where
  "NamespaceCreation_view position children s = fd_view (NamespaceCreation_props position) [] s"

definition ClusterCreation_view :: "string \<Rightarrow> fd_act views \<Rightarrow> form_dialog \<Rightarrow> fd_act views" where
  "ClusterCreation_view position children s = fd_view (ClusterCreation_props position) children s"

definition ShardCreation_view :: "string \<Rightarrow> fd_act views \<Rightarrow> form_dialog \<Rightarrow> fd_act views" where
  "ShardCreation_view position children s = fd_view (ShardCreation_props position) children s"

definition ImportCluster_view :: "string \<Rightarrow> fd_act views \<Rightarrow> form_dialog \<Rightarrow> fd_act views" where
  "ImportCluster_view position children s = fd_view (ImportCluster_props position) children s"

definition MigrateSlot_view :: "string \<Rightarrow> form_dialog \<Rightarrow> fd_act views" where
  "MigrateSlot_view position s = fd_view (MigrateSlot_props position) [] s"

definition NodeCreation_view :: "string \<Rightarrow> fd_act views \<Rightarrow> form_dialog \<Rightarrow> fd_act views" where
  "NodeCreation_view position children s = fd_view (NodeCreation_props position) children s"

section \<open>Migrating: the form against the controller's shards\<close>

lemma range_holds_String:
  assumes "valid_range r"
  shows "range_holds (num_of_nat k) (SlotRange_MarshalJSON r) = Inr (Contains r (int k))"
proof -
  obtain a b where r: "r = \<lparr>Start = int a, Stop = int b\<rparr>" "a \<le> b" "b \<le> 16383"
    using valid_range_nat [OF assms] .
  then show ?thesis
    by (auto simp: range_holds_def js_str_includes_def SlotRange_MarshalJSON_def SlotRange_String_nat js_includes_char
      no_dash_show_nat js_split_append js_split_no_sep Contains_def)
qed

lemma any_range_String:
  assumes "list_all valid_range rs"
  shows "any_range (num_of_nat k) (map SlotRange_MarshalJSON rs) = Inr (SlotRanges_Contains rs (int k))"
  using assms by (induction rs) (auto simp: range_holds_String SlotRanges_Contains_def)

fun owner :: "int \<Rightarrow> Shard list \<Rightarrow> nat option" where
  \<comment> \<open>The first shard that holds the slot.\<close>
  "owner k [] = None"
| "owner k (s # ss) = (if SlotRanges_Contains (shard_SlotRanges s) k then Some 0 else map_option Suc (owner k ss))"

definition well_formed_shards :: "Shard list \<Rightarrow> bool" where
  "well_formed_shards shards = list_all (\<lambda>s. list_all valid_range (shard_SlotRanges s)) shards"

lemma find_source_owner:
  assumes "well_formed_shards shards"
  shows "find_source (num_of_nat k) i (map Shard_json shards) =
    Inr (case owner (int k) shards of None \<Rightarrow> -1 | Some j \<Rightarrow> int (i + j))"
  using assms
  by (induction shards arbitrary: i) (auto simp: well_formed_shards_def any_range_String split: option.splits)

lemma owner_bound: "owner k shards = Some i \<Longrightarrow> i < length shards"
  by (induction shards arbitrary: i) (auto split: if_splits)

lemma owner_None: "owner k shards = None \<longleftrightarrow> (\<forall>i<length shards. k \<notin> slots (shard_SlotRanges (shards ! i)))"
  by (induction shards) (auto simp: SlotRanges_Contains_iff nth_Cons less_Suc_eq_0_disj split: nat.splits)

lemma owner_Some:
  "owner k shards = Some i \<Longrightarrow> k \<in> slots (shard_SlotRanges (shards ! i))
     \<and> (\<forall>j<i. k \<notin> slots (shard_SlotRanges (shards ! j)))"
proof (induction shards arbitrary: i)
  case (Cons s shards)
  then show ?case by (cases i) (auto simp: SlotRanges_Contains_iff less_Suc_eq_0_disj split: if_splits)
qed simp

lemma migrating_json_not_num [simp]: "strict_eq (MigratingSlot_MarshalJSON m) (JNum x) = False"
  by (simp add: MigratingSlot_MarshalJSON_def split: option.splits)

lemma case_num_nat: "(case num_of_nat t of Fin r \<Rightarrow> f r | PosInf \<Rightarrow> a | NegInf \<Rightarrow> b | NaN \<Rightarrow> c) = f (of_nat t)"
  by (simp add: num_of_nat_def)

definition migrate_verdict :: "nat \<Rightarrow> nat \<Rightarrow> Shard list \<Rightarrow> string option" where
  \<comment> \<open>What the form should decide: the message it refuses with, or nothing.\<close>
  "migrate_verdict slot target shards =
     (if 16383 < slot then Some ''Slot must be a valid number between 0 and 16383.''
      else if length shards \<le> target then
        Some (''Target shard index '' @ show_nat target @ '' does not exist. Available shards: 0-''
          @ show_int (int (length shards) - 1) @ ''.'')
      else (case owner (int slot) shards of
          None \<Rightarrow> Some (''Slot '' @ show_nat slot @ '' is not currently assigned to any shard and cannot be migrated.'')
        | Some i \<Rightarrow> if i = target
            then Some (''Cannot migrate slot '' @ show_nat slot @ '' to the same shard ('' @ show_nat target
              @ ''). The slot is already in shard '' @ show_nat i @ ''.'')
            else None))"

lemma migrate_check_verdict:
  assumes "well_formed_shards shards" "slot \<le> 16383"
  shows "migrate_check (JArr (map Shard_json shards)) (num_of_nat target) (num_of_nat slot) =
    Inr (migrate_verdict slot target shards)"
proof (cases "length shards \<le> target")
  case True
  with assms show ?thesis by (simp add: migrate_check_def migrate_verdict_def)
next
  case False
  then have t: "\<not> js_ge (num_of_nat target) (num_of_nat (length shards))" by simp
  have el: "js_elem (map Shard_json shards) i = Shard_json (shards ! i)" if "i < length shards" for i
    using that by (simp add: js_elem_def)
  show ?thesis
    using assms(2) False t el owner_bound [of "int slot" shards]
    by (cases "owner (int slot) shards")
      (auto simp: migrate_check_def migrate_verdict_def find_source_owner [OF assms(1)] Fin_nat case_num_nat)
qed

section \<open>Properties\<close>

lemma ws_show_nat [simp]: "containsWhitespace (show_nat n) = False"
  by (auto simp: containsWhitespace_def list_ex_iff dest: show_nat_digits)

text \<open>
  C16: Given the shards as the controller prints them, the migration form sends the migration of a
  typed slot exactly when the slot and the target exist and the first shard that holds the slot is
  another one than the target; otherwise it answers the message for the first check that fails. What
  it sends is the typed target and slot.
\<close>
theorem migrate_form_correct:
  assumes "ax (GET (shards_url ns c)) = Inr (JObj [(''data'', JObj [(''shards'', JArr (map Shard_json shards))])])"
    and "well_formed_shards shards" and "\<not> containsWhitespace only"
  shows "MigrateSlot_handleSubmit ax ns c [(''target'', show_nat t), (''slot'', show_nat k), (''slot_only'', only)] =
    (case migrate_verdict k t shards of
       Some m \<Rightarrow> reply m
     | None \<Rightarrow> (case migrateSlot ax ns c (num_of_nat t) (show_nat k) (only = ''true'') of
          Inl e \<Rightarrow> (Inl e, [])
        | Inr r \<Rightarrow> if r = JStr [] then (Inr JUndef, [Reload]) else (migrate_failure r, [])))"
proof -
  have l: "listShards ax ns c = Inr (JArr (map Shard_json shards))"
    using listShards_api.fetch_hit [where ax = ax, OF assms(1)] by simp
  show ?thesis
  proof (cases "16383 < k")
    case True
    then show ?thesis using assms(3)
      by (simp add: MigrateSlot_handleSubmit_def formData_get_def formObj_def migrate_verdict_def)
  next
    case False
    then show ?thesis using assms(3) migrate_check_verdict [OF assms(2), of k t]
      by (auto simp: MigrateSlot_handleSubmit_def formData_get_def formObj_def l strict_eq_str
        split: option.splits sum.splits)
  qed
qed

theorem migrate_form_correct_witness:
  "let shards = [\<lparr>shard_Nodes = [], shard_SlotRanges = [\<lparr>Start = 0, Stop = 100\<rparr>], shard_TargetShardIndex = -1, shard_MigratingSlot = None\<rparr>,
                 \<lparr>shard_Nodes = [], shard_SlotRanges = [\<lparr>Start = 101, Stop = 16383\<rparr>], shard_TargetShardIndex = -1, shard_MigratingSlot = None\<rparr>];
       ax = (\<lambda>r. if r = GET (shards_url ''ns'' ''c'')
                 then Inr (JObj [(''data'', JObj [(''shards'', JArr (map Shard_json shards))])])
                 else Inr (JObj [(''data'', JStr ''ok'')]))
   in MigrateSlot_handleSubmit ax ''ns'' ''c'' [(''target'', show_nat 1), (''slot'', show_nat 7), (''slot_only'', ''true'')]
        = (Inr JUndef, [Reload])"
  unfolding Let_def
  by (subst migrate_form_correct [where shards =
        "[\<lparr>shard_Nodes = [], shard_SlotRanges = [\<lparr>Start = 0, Stop = 100\<rparr>], shard_TargetShardIndex = -1, shard_MigratingSlot = None\<rparr>,
          \<lparr>shard_Nodes = [], shard_SlotRanges = [\<lparr>Start = 101, Stop = 16383\<rparr>], shard_TargetShardIndex = -1, shard_MigratingSlot = None\<rparr>]"])
    (simp_all add: well_formed_shards_def valid_range_def MinSlotID_def MaxSlotID_def containsWhitespace_def is_ws_def
      migrate_verdict_def SlotRanges_Contains_def Contains_def migrateSlot_def create_call_def handleCreateResponse_def)

lemma cluster_form_props [simp]: "array_names (ClusterCreation_props pos) = [''nodes'']"
  by (simp add: array_names_def ClusterCreation_props_def)

text \<open>
  C24: In every reachable state of the cluster dialog, the addresses typed into the node field reach
  the controller unchanged: the submission posts the name, that list of addresses, the parsed replica
  count and the password, and navigates to the new cluster exactly when the call succeeds.
\<close>
theorem cluster_form_posts_typed_nodes:
  assumes "fd_reachable (ClusterCreation_props pos) children s"
    and "map_of (fd_arrayValues (fs_ui s)) ''nodes'' = Some nodes" and "nodes \<noteq> []"
    and "\<not> list_ex containsWhitespace (name # replicas # nodes)"
  shows "ClusterCreation_handleSubmit ax ns
      (fd_formData [(''name'', name), (''replicas'', replicas), (''password'', password)] (fs_ui s)) =
    finish (createCluster ax (JStr name) (JArr (map JStr nodes)) (parseInt replicas) (JStr password) ns)
      (RouterPush (''/namespaces/'' @ ns @ ''/clusters/'' @ name)) ''Failed to create cluster''"
proof -
  let ?fd = "fd_formData [(''name'', name), (''replicas'', replicas), (''password'', password)] (fs_ui s)"
  have inv: "distinct (map fst (fd_arrayValues (fs_ui s)))" "fst ` set (fd_arrayValues (fs_ui s)) \<subseteq> {''nodes''}"
    using fd_reachable_inv [OF assms(1)] by (simp_all add: fd_inv_def)
  have nodes: "formObj ?fd ''nodes'' = JStr (JSON_stringify nodes)"
    by (rule formObj_array [OF assms(2) inv(1)])
  have ctl: "k \<notin> set (map fst (fd_arrayValues (fs_ui s)))" if "k \<noteq> ''nodes''" for k
    using inv(2) that by auto
  have obj: "formObj ?fd k = formObj [(''name'', name), (''replicas'', replicas), (''password'', password)] k"
    if "k \<noteq> ''nodes''" for k by (rule formObj_control [OF ctl [OF that]])
  have ctls: "formObj ?fd ''name'' = JStr name" "formObj ?fd ''replicas'' = JStr replicas" "formObj ?fd ''password'' = JStr password"
    by (simp add: obj, simp add: formObj_def)+
  have "validateFormData ?fd [''name'', ''replicas''] = None"
    using assms(4) by (simp add: formData_get_def fd_formData_def)
  moreover have "nodes_check (JArr (map JStr nodes)) = Inr None"
    using assms(3,4) by (auto simp: nodes_check_def list_ex_iff js_length_def)
  ultimately show ?thesis
    by (simp add: ClusterCreation_handleSubmit_def nodes ctls JSON_parse_val_def)
qed

lemma reach_cluster_nodes:
  "fd_reachable (ClusterCreation_props ''page'') []
     \<lparr>fs_ui = fd_handleArrayChange ''nodes'' vs (fd_openDialog fd_init), fs_pending = 0\<rparr>" (is "fd_reachable ?p [] ?t")
proof -
  let ?o = "\<lparr>fs_ui = fd_openDialog fd_init, fs_pending = 0\<rparr>"
  have "fd_reachable ?p [] \<lparr>fs_ui = fd_init, fs_pending = 0\<rparr>" by (rule fd_reachable.init) simp
  moreover have "fd_step ?p [] \<lparr>fs_ui = fd_init, fs_pending = 0\<rparr> ?o"
    using fd_step.open_dialog [of ?p "[]" "\<lparr>fs_ui = fd_init, fs_pending = 0\<rparr>"]
    by (simp add: fd_view_def fd_trigger_def ClusterCreation_props_def)
  moreover have "fd_step ?p [] ?o ?t"
    using fd_step.array_change [of "''nodes''" ?p "[]" ?o vs]
    by (simp add: fd_view_def fd_dialog_def ClusterCreation_props_def fd_openDialog_def fd_field_def fd_array_field_def
      indexed_def fd_init_def)
  ultimately show ?thesis by (blast intro: fd_reachable.step)
qed

theorem cluster_form_posts_typed_nodes_witness:
  "ClusterCreation_handleSubmit (\<lambda>_. Inr (JObj [(''data'', JStr ''ok'')])) ''ns''
      (fd_formData [(''name'', ''c1''), (''replicas'', ''1''), (''password'', [])]
        (fd_handleArrayChange ''nodes'' [''127.0.0.1:6666''] (fd_openDialog fd_init))) =
    (Inr JUndef, [RouterPush ''/namespaces/ns/clusters/c1''])"
  using cluster_form_posts_typed_nodes [OF reach_cluster_nodes [of "[''127.0.0.1:6666'']"],
      of "[''127.0.0.1:6666'']" "''c1''" "''1''" "\<lambda>_. Inr (JObj [(''data'', JStr ''ok'')])" "''ns''" "[]"]
  by (simp add: fd_handleArrayChange_def obj_set_def fd_openDialog_def fd_init_def containsWhitespace_def is_ws_def
    finish_def createCluster_def create_call_def handleCreateResponse_def)

lemma validate_message: "validateFormData fd fs = Some m \<Longrightarrow> m \<noteq> []"
  by (induction fs) (auto split: jsval.splits if_splits)

lemma shard_nodes_message: "shard_nodes_check xs = Some m \<Longrightarrow> m \<noteq> []"
  by (induction xs) (auto split: if_splits)

definition settled :: "outcome \<Rightarrow> bool" where
  "settled out \<longleftrightarrow> (\<exists>v effs. out = (Inr v, effs) \<and> (v = JUndef \<and> effs = [Reload] \<or> truthy v \<and> effs = []))"

lemma settled_reply [simp]: "m \<noteq> [] \<Longrightarrow> settled (reply m)"
  by (auto simp: settled_def reply_def)

text \<open>
  The shard form always returns: for any form data and any behaviour of the server, either the
  call succeeded and the page reloads, or the dialog gets a message to show and nothing else happens.
\<close>
theorem shard_form_total:
  "settled (ShardCreation_handleSubmit ax ns c fd)"
proof -
  have call: "settled (case createShard ax ns c nodes pw of
       Inl e \<Rightarrow> (Inr (JStr (''Failed to create shard: '' @ error_message e)), [ConsoleError ''Error in shard creation:''])
     | Inr response \<Rightarrow> finish (Inr response) Reload ''Failed to create shard'')" for nodes pw
    using createShard_api.never_raises [of ax ns c nodes pw]
    by (auto simp: settled_def finish_def js_or_def strict_eq_str)
  show ?thesis
  proof (cases "validateFormData fd [''nodes''] = None \<and> truthy (formObj fd ''nodes'')")
    case True
    then show ?thesis
    proof (cases "JSON_parse_val (formObj fd ''nodes'')")
      case (Inr nodes)
      with True call shard_nodes_message show ?thesis
        by (cases nodes) (auto simp: ShardCreation_handleSubmit_def simp del: validateFormData.simps split: option.split)
    qed (simp add: ShardCreation_handleSubmit_def del: validateFormData.simps)
  next
    case False
    then show ?thesis
      by (cases "validateFormData fd [''nodes'']")
        (simp_all add: ShardCreation_handleSubmit_def validate_message del: validateFormData.simps)
  qed
qed

text \<open>
  The cluster form submitted before any node was entered raises instead of refusing: the field is
  missing from the form data, parsing it fails, and the dialog shows its generic message, not the
  message on empty node lists.
\<close>
theorem cluster_form_without_nodes:
  assumes "\<not> containsWhitespace name" "\<not> containsWhitespace replicas"
  shows "fd_errorMessage (fd_handleSubmit (\<lambda>fd. fst (ClusterCreation_handleSubmit ax ns fd))
      [(''name'', name), (''replicas'', replicas), (''password'', password)] fd_init) = JStr ''An unexpected error occurred''"
proof -
  have "\<exists>e. JSON_parse ''undefined'' = Inl e"
    by (simp add: JSON_parse_def eval_nat_numeral skip_ws_def is_json_ws_def parse_lit_def parse_num_def is_digit_def)
  then obtain e where "JSON_parse ''undefined'' = Inl e" by blast
  with assms show ?thesis
    by (simp add: fd_handleSubmit_def fd_submit_end_def ClusterCreation_handleSubmit_def fd_formData_def fd_init_def
      formData_get_def formObj_def JSON_parse_val_def Let_def)
qed

theorem cluster_form_without_nodes_witness:
  "fd_errorMessage (fd_handleSubmit (\<lambda>fd. fst (ClusterCreation_handleSubmit (\<lambda>_. Inr JNull) ''ns'' fd))
      [(''name'', ''c1''), (''replicas'', ''1''), (''password'', [])] fd_init) = JStr ''An unexpected error occurred''"
  by (rule cluster_form_without_nodes) (simp_all add: containsWhitespace_def is_ws_def)

end
