(* ===== verification/EndToEnd.thy ===== *)
theory EndToEnd
  imports Controller NamespacePage FormCreation
begin

text \<open>
  The web interface against the server: the requests that the client of \<^verbatim>\<open>webui/src/app/lib/api.ts\<close>
  sends are answered by the handlers of \<^verbatim>\<open>src/server\<close> over the store of \<^verbatim>\<open>src/store\<close>. Here the HTTP library
  between them is no longer any function: it hands each request to the server and returns its answer.
\<close>

section \<open>Addresses\<close>

definition url_name :: "string \<Rightarrow> bool" where
  \<comment> \<open>A name that is one segment of a path as it stands: the interface does not encode names.\<close>
  "url_name n \<longleftrightarrow> n \<noteq> [] \<and> list_all (\<lambda>c. c \<notin> set ''/?#%'' \<and> \<not> is_ws c) n"

lemma url_plain: "url_name n \<Longrightarrow> plain n"
  by (auto simp: url_name_def plain_def list_all_iff)

lemma api_path_join:
  assumes "\<forall>p\<in>set ps. plain p" "plain p0"
  shows "api_path (apiPrefix @ ''/'' @ p0 @ concat (map (\<lambda>p. ''/'' @ p) ps)) = p0 # ps"
proof -
  have "js_split CHR ''/'' (p0 @ concat (map (\<lambda>p. ''/'' @ p) ps)) = p0 # ps"
    using assms by (induction ps arbitrary: p0) (auto simp: plain_def js_split_no_sep js_split_append)
  moreover have "[] \<notin> set (p0 # ps)" using assms by (auto simp: plain_def)
  ultimately show ?thesis by (simp add: api_path_def startsWith_def)
qed

lemma plain_words: "plain ''namespaces''" "plain ''clusters''" "plain ''shards''" "plain ''nodes''" "plain ''migrate''" "plain (show_nat i)"
  using show_nat_digits [of "CHR ''/''" i] by (auto simp: plain_def is_digit_def)

lemma url_paths [api_simps]:
  assumes "plain ns" "plain n"
  shows "api_path namespaces_url = [''namespaces'']"
    "api_path (clusters_url ns) = [''namespaces'', ns, ''clusters'']"
    "api_path (cluster_url ns n) = [''namespaces'', ns, ''clusters'', n]"
    "api_path (shards_url ns n) = [''namespaces'', ns, ''clusters'', n, ''shards'']"
    "api_path (nodes_url ns n (show_nat i)) = [''namespaces'', ns, ''clusters'', n, ''shards'', show_nat i, ''nodes'']"
    "api_path (cluster_url ns n @ ''/migrate'') = [''namespaces'', ns, ''clusters'', n, ''migrate'']"
  using assms plain_words api_path_join [of "[]" "''namespaces''"] api_path_join [of "[ns, ''clusters'']" "''namespaces''"]
    api_path_join [of "[ns, ''clusters'', n]" "''namespaces''"] api_path_join [of "[ns, ''clusters'', n, ''shards'']" "''namespaces''"]
    api_path_join [of "[ns, ''clusters'', n, ''shards'', show_nat i, ''nodes'']" "''namespaces''"]
    api_path_join [of "[ns, ''clusters'', n, ''migrate'']" "''namespaces''"]
  by (simp_all add: url_defs)

section \<open>Reading\<close>

lemma answers_ok: "fst (serve req env s) = Reply 200 body \<Longrightarrow> answers env s req = Inr body"
  by (simp add: answers_def axios_result_def)

context server
begin

text \<open>The client reads what the store holds.\<close>

lemma fetchNamespaces_server:
  assumes "tidy (content (cs_e s))"
  obtains names where "fetchNamespaces (answers env s) = Inr (JArr (map JStr names))" "distinct names"
    "set names = rg_namespaces (store_abs content s) \<union> {ns. \<exists>n. rg_clusters (store_abs content s) (ns, n) \<noteq> None}"
proof -
  obtain names where n: "ListNamespace E s = Ok names" "distinct names"
    "set names = rg_namespaces (store_abs content s) \<union> {ns. \<exists>n. rg_clusters (store_abs content s) (ns, n) \<noteq> None}"
    using ListNamespace_reg [OF assms] by blast
  have "answers env s (GET namespaces_url) = Inr (JObj [(''data'', JObj [(''namespaces'', JArr (map JStr names))])])"
    using n(1) plain_words url_paths(1) [of "''nodes''" "''nodes''"]
    by (intro answers_ok) (simp add: serve_def serve_get_def Namespace_List_def env or_error_def ResponseOK_def data_body_def)
  with n(2,3) show ?thesis by (intro that [of names]) (simp_all add: fetchNamespaces_def list_call_def)
qed

lemma fetchClusters_server:
  assumes "tidy (content (cs_e s))" "plain ns" "ns \<in> rg_namespaces (store_abs content s)"
  obtains names where "fetchClusters (answers env s) ns = Inr (JArr (map JStr names))" "distinct names"
    "set names = {n. rg_clusters (store_abs content s) (ns, n) \<noteq> None}"
proof -
  obtain names where n: "ListCluster E s ns = Ok names" "distinct names" "set names = {n. rg_clusters (store_abs content s) (ns, n) \<noteq> None}"
    using ListCluster_reg [OF assms(1,2)] by blast
  have "answers env s (GET (clusters_url ns)) = Inr (JObj [(''data'', JObj [(''clusters'', JArr (map JStr names))])])"
    using n(1) url_paths(2) [OF assms(2,2)] assms(3)
    by (intro answers_ok) (simp add: serve_def serve_get_def RequiredNamespace_def ExistsNamespace_reg [OF assms(2)] Cluster_List_def env
      or_error_def ResponseOK_def data_body_def)
  with n(2,3) show ?thesis by (intro that [of names]) (simp_all add: fetchClusters_def list_call_def)
qed

lemma answers_cluster:
  assumes "plain ns" "plain n" "GetCluster E s ns n = Ok c"
  shows "answers env s (GET (cluster_url ns n)) = Inr (JObj [(''data'', JObj [(''cluster'', Cluster_MarshalJSON c)])])"
    "answers env s (GET (shards_url ns n)) = Inr (JObj [(''data'', JObj [(''shards'', JArr (map Shard_json (cl_Shards c)))])])"
  using url_paths(3,4) [OF assms(1,2)] assms(3)
  by (intro answers_ok, simp add: serve_def serve_get_def RequiredCluster_def Cluster_Get_def Shard_List_def env or_error_def ResponseOK_def data_body_def)+

lemma fetchCluster_server:
  "plain ns \<Longrightarrow> plain n \<Longrightarrow> GetCluster E s ns n = Ok c \<Longrightarrow> fetchCluster (answers env s) ns n = Inr (Cluster_MarshalJSON c)"
  by (simp add: fetchCluster_def object_call_def answers_cluster)

lemma listShards_server:
  "plain ns \<Longrightarrow> plain n \<Longrightarrow> GetCluster E s ns n = Ok c \<Longrightarrow> listShards (answers env s) ns n = Inr (JArr (map Shard_json (cl_Shards c)))"
  by (simp add: listShards_def list_call_def answers_cluster)

lemma listNodes_server:
  assumes "plain ns" "plain n" "GetCluster E s ns n = Ok c" "i < length (cl_Shards c)" "i < 2 ^ 63"
  shows "listNodes (answers env s) ns n (show_nat i) = Inr (JArr (map ClusterNode_MarshalJSON (shard_Nodes (cl_Shards c ! i))))"
proof -
  have "answers env s (GET (nodes_url ns n (show_nat i))) =
      Inr (JObj [(''data'', JObj [(''nodes'', JArr (map ClusterNode_MarshalJSON (shard_Nodes (cl_Shards c ! i))))])])"
    using url_paths(5) [OF assms(1,2), of i] assms(3-5)
    by (intro answers_ok) (simp add: serve_def serve_get_def RequiredClusterShard_def Node_List_def env or_error_def ResponseOK_def data_body_def
      Atoi_show_nat GetShard_def shard_in_range_def)
  then show ?thesis by (simp add: listNodes_def list_call_def)
qed

text \<open>The server serves the stored clusters of a namespace.\<close>

lemma serves_store:
  assumes "tidy (content (cs_e s))" "plain ns" "ns \<in> rg_namespaces (store_abs content s)"
    and "\<And>n c. rg_clusters (store_abs content s) (ns, n) = Some c \<Longrightarrow> length (cl_Shards c) < 2 ^ 63"
  obtains cs where "serves (answers env s) ns cs" "distinct (map cl_Name cs)"
    "\<And>c. c \<in> set cs \<longleftrightarrow> rg_clusters (store_abs content s) (ns, cl_Name c) = Some c"
proof -
  let ?R = "rg_clusters (store_abs content s)"
  obtain names where n: "fetchClusters (answers env s) ns = Inr (JArr (map JStr names))" "distinct names" "set names = {n. ?R (ns, n) \<noteq> None}"
    by (rule fetchClusters_server [OF assms(1-3)])
  define cs where "cs = map (\<lambda>n. the (?R (ns, n))) names"
  have name: "cl_Name c = n" "plain n" if "?R (ns, n) = Some c" for n c
    using tidy_registry(1,3) [OF assms(1)] that by (auto simp: store_abs_def)
  have map: "map cl_Name cs = names" unfolding cs_def map_map o_def using n(3) name(1) by (intro map_idI) auto
  have mem: "c \<in> set cs \<longleftrightarrow> ?R (ns, cl_Name c) = Some c" for c
  proof
    assume "c \<in> set cs"
    then obtain m where "m \<in> set names" "c = the (?R (ns, m))" by (auto simp: cs_def)
    with n(3) name(1) show "?R (ns, cl_Name c) = Some c" by force
  next
    assume c: "?R (ns, cl_Name c) = Some c"
    then have "cl_Name c \<in> set names" using n(3) by simp
    with c show "c \<in> set cs" unfolding cs_def set_map by (intro image_eqI [of _ _ "cl_Name c"]) simp_all
  qed
  have "fetchCluster (answers env s) ns (cl_Name c) = Inr (Cluster_MarshalJSON c)
      \<and> list_all (\<lambda>i. listNodes (answers env s) ns (cl_Name c) (show_nat i) = Inr (JArr (map ClusterNode_MarshalJSON (shard_Nodes (cl_Shards c ! i)))))
          [0..<length (cl_Shards c)]" if "c \<in> set cs" for c
  proof -
    have r: "?R (ns, cl_Name c) = Some c" using that mem by simp
    then have g: "GetCluster E s ns (cl_Name c) = Ok c" by (simp add: GetCluster_reg [OF assms(1)] reg_GetCluster_def)
    note l = listNodes_server [OF assms(2) name(2) [OF r] g]
    have "i < 2 ^ 63" if "i < length (cl_Shards c)" for i using assms(4) [OF r] that by simp
    then show ?thesis using fetchCluster_server [OF assms(2) name(2) [OF r] g] l by (auto simp: list_all_iff)
  qed
  moreover have "map JStr names = map (\<lambda>c. JStr (cl_Name c)) cs" unfolding map [symmetric] by simp
  ultimately show ?thesis using n(1,2) map mem by (intro that [of cs]) (simp_all add: serves_def list_all_iff)
qed

end

section \<open>The namespace page shows the store\<close>

text \<open>
  C7: The namespace page shows the store. When it reads its data from the server, it has one row for each
  cluster that the store holds in the namespace and no other, with the number of its shards and nodes, and
  its cards show how many clusters, shards and nodes there are. The names are segments of a path as they
  stand.
\<close>
theorem namespace_page_shows_store:
  assumes "server E content sortSlice env" "tidy (content (cs_e s))" "url_name ns" "ns \<in> rg_namespaces (store_abs content s)"
    and "\<And>n c. rg_clusters (store_abs content s) (ns, n) = Some c \<Longrightarrow> url_name n \<and> length (cl_Shards c) < 2 ^ 63"
  shows "\<exists>cs ds. distinct (map cl_Name cs) \<and> (\<forall>c. c \<in> set cs \<longleftrightarrow> rg_clusters (store_abs content s) (ns, cl_Name c) = Some c)
    \<and> list_all2 shows_cluster ds cs
    \<and> fst (nsp_fetchData nf (answers env s) ns p) = p\<lparr>nsp_clusterData := ds, nsp_loading := False,
        nsp_resourceCounts := \<lparr>nc_clusters = length cs, nc_shards = sum_list (map (\<lambda>c. length (cl_Shards c)) cs),
          nc_nodes = sum_list (map node_total cs)\<rparr>\<rparr>"
proof -
  obtain cs where cs: "serves (answers env s) ns cs" "distinct (map cl_Name cs)"
    "\<And>c. c \<in> set cs \<longleftrightarrow> rg_clusters (store_abs content s) (ns, cl_Name c) = Some c"
    using server.serves_store [OF assms(1,2) url_plain [OF assms(3)] assms(4)] assms(5) by metis
  obtain names where "fetchNamespaces (answers env s) = Inr (JArr (map JStr names))" "ns \<in> set names"
    using server.fetchNamespaces_server [OF assms(1,2)] assms(4) by (metis UnI1)
  moreover obtain ds where "nsp_load (answers env s) ns = Inr (ds, \<lparr>nc_clusters = length cs,
      nc_shards = sum_list (map (\<lambda>c. length (cl_Shards c)) cs), nc_nodes = sum_list (map node_total cs)\<rparr>, [])" "list_all2 shows_cluster ds cs"
    using nsp_load_served [OF cs(1)] by blast
  ultimately show ?thesis using cs(2,3)
    by (intro exI [of _ cs] exI [of _ ds]) (simp add: nsp_fetchData_def nsp_set_def)
qed

text \<open>The store after the requests of \<^const>\<open>sample_requests\<close>.\<close>

definition sample_store :: "mock ClusterStore" where
  "sample_store = \<lparr>cs_e = [(appendPrefix ''n'', Raw ''n''), (buildClusterKey ''n'' ''c'', Json (Cluster_MarshalJSON sample_topology))],
     cs_events = [namespace_event ''n'' CommandCreate, cluster_event ''n'' ''c'' CommandCreate]\<rparr>"

lemma sample_kept: "wf_cluster sample_topology" "storable sample_topology" "cl_Name sample_topology = ''c''"
proof -
  show w: "wf_cluster sample_topology" by (rule wf_NewCluster [OF sample_topology_new]) (simp add: sample_topology_def)
  show "storable sample_topology" by (rule wf_storable [OF w ints_NewCluster(1) [OF sample_topology_new]])
qed (simp add: sample_topology_def)

lemma sample_store_abs:
  "tidy (map_of (cs_e sample_store))"
  "rg_namespaces (store_abs map_of sample_store) = {''n''}"
  "rg_clusters (store_abs map_of sample_store) (ns, m) = (if (ns, m) = (''n'', ''c'') then Some sample_topology else None)"
proof -
  have k: "buildClusterKey ns m \<noteq> appendPrefix ''n''" for ns m using appendPrefix_not_cluster [OF sample_names(1)] by metis
  show t: "tidy (map_of (cs_e sample_store))"
    using k sample_names sample_kept by (auto simp: tidy_def sample_store_def split: if_splits)
  show "rg_clusters (store_abs map_of sample_store) (ns, m) = (if (ns, m) = (''n'', ''c'') then Some sample_topology else None)"
    using k buildClusterKey_inj [OF sample_names] sample_kept(2)
    by (auto simp: store_abs_def registry_of_def sample_store_def unmarshal_cluster_def)
  show "rg_namespaces (store_abs map_of sample_store) = {''n''}"
    using appendPrefix_not_cluster [of _ "''n''" "''c''"] sample_names
    by (auto simp: store_abs_def registry_of_def sample_store_def appendPrefix_inj split: if_splits)
qed

lemma sample_url_names: "url_name ''n''" "url_name ''c''"
  by (simp_all add: url_name_def is_ws_def)

lemma sample_server: "server Mock map_of (sort_key Start) sample_env"
  unfolding sample_env_def by (rule memory.server_axioms)

theorem namespace_page_shows_store_witness:
  "nsp_resourceCounts (fst (nsp_fetchData (Inr JUndef) (answers sample_env sample_store) ''n'' nsp_init)) = \<lparr>nc_clusters = 1, nc_shards = 2, nc_nodes = 2\<rparr>"
proof -
  have l: "length (cl_Shards sample_topology) = 2" "node_total sample_topology = 2" by (simp_all add: sample_topology_def node_total_def)
  have n: "''n'' \<in> rg_namespaces (store_abs map_of sample_store)" by (simp add: sample_store_abs(2))
  have b: "url_name m \<and> length (cl_Shards c) < 2 ^ 63" if "rg_clusters (store_abs map_of sample_store) (''n'', m) = Some c" for m c
    using that sample_url_names(2) l(1) by (simp add: sample_store_abs(3) split: if_splits)
  obtain cs ds where cs: "distinct (map cl_Name cs)" "\<forall>c. c \<in> set cs \<longleftrightarrow> rg_clusters (store_abs map_of sample_store) (''n'', cl_Name c) = Some c"
    "fst (nsp_fetchData (Inr JUndef) (answers sample_env sample_store) ''n'' nsp_init) = nsp_init\<lparr>nsp_clusterData := ds, nsp_loading := False,
        nsp_resourceCounts := \<lparr>nc_clusters = length cs, nc_shards = sum_list (map (\<lambda>c. length (cl_Shards c)) cs),
          nc_nodes = sum_list (map node_total cs)\<rparr>\<rparr>"
    using namespace_page_shows_store [OF sample_server sample_store_abs(1) sample_url_names(1) n b, of "Inr JUndef" nsp_init] by blast
  have "set cs = {sample_topology}" using cs(2) sample_kept(3) by (auto simp: sample_store_abs(3) split: if_splits)
  moreover have "distinct cs" using cs(1) by (simp add: distinct_map)
  ultimately have "cs = [sample_topology]" by (cases cs rule: remdups_adj.cases) auto
  then show ?thesis using cs(3) l by simp
qed

section \<open>A migration from the form to the store\<close>

lemma single_slot: "SlotRange_UnmarshalJSON (JStr (show_nat k)) = Ok \<lparr>Start = int k, Stop = int k\<rparr>" if "k \<le> 16383"
proof -
  have "valid_range \<lparr>Start = int k, Stop = int k\<rparr>" using that by (simp add: valid_range_def MinSlotID_def MaxSlotID_def)
  from ParseSlotRange_String [OF this] show ?thesis
    by (simp add: SlotRange_UnmarshalJSON_def json_string_def parse_range_def SlotRange_String_nat SlotRange_String_def)
qed

lemma migrate_body:
  assumes "k \<le> 16383" "t < 2 ^ 63"
  shows "migrate_slot_request (JObj [(''target'', JNum (num_of_nat t)), (''slot'', JStr (show_nat k)), (''slot_only'', JBool b)]) =
    Ok \<lparr>mr_Target = int t, mr_Slot = \<lparr>Start = int k, Stop = int k\<rparr>, mr_SlotOnly = b\<rparr>"
proof -
  have "\<lfloor>real t\<rfloor> = int t" by simp
  moreover have "int t < 2 ^ 63" using assms(2) by (metis of_nat_less_iff of_nat_numeral of_nat_power)
  ultimately show ?thesis using single_slot [OF assms(1)]
    by (simp add: migrate_slot_request_def bind_json_def json_struct_def json_field_def js_toLowerCase_def lower_char_def json_int_def
      json_bool_def num_of_nat_def)
qed

lemma owns_owner:
  assumes "wf_cluster c" "owns c i k" "owns c j k"
  shows "i = j"
proof -
  have "k \<in> {MinSlotID..MaxSlotID}" using owns_bounds [OF assms(1,2)] by simp
  then show ?thesis using assms unfolding wf_cluster_def by blast
qed

context server
begin

lemma migrate_stored:
  assumes "well_kept content s" "GetCluster E s ns n = Ok c" "k \<le> 16383" "t < length (cl_Shards c)" "t < 2 ^ 63" "\<not> owns c t (int k)"
  defines "req \<equiv> POST (cluster_url ns n @ ''/migrate'') (JObj [(''target'', JNum (num_of_nat t)), (''slot'', JStr (show_nat k)), (''slot_only'', JBool True)])"
  obtains c' where "answers env s req = Inr (JObj [(''data'', JObj [(''cluster'', Cluster_MarshalJSON c')])])"
    "GetCluster E (store_after env s req) ns n = Ok c'"
    "\<And>j q. owns c' j q \<longleftrightarrow> (if q = int k then j = t else owns c j q)"
proof -
  note g = kept_get [OF assms(1,2)]
  have t: "tidy (content (cs_e s))" using assms(1) by (simp add: well_kept_def)
  let ?r = "\<lparr>Start = int k, Stop = int k\<rparr>"
  have v: "valid_range ?r" using assms(3) by (simp add: valid_range_def MinSlotID_def MaxSlotID_def)
  have "int k \<in> {MinSlotID..MaxSlotID}" using assms(3) by (simp add: MinSlotID_def MaxSlotID_def)
  then obtain i where i: "owns c i (int k)" using g(1) unfolding wf_cluster_def by blast
  then have "findShardIndexBySlot ?r c = Ok i" unfolding found_shard_iff [OF g(1) v] by (simp add: slots_of_def)
  moreover have "i \<noteq> t" using i assms(6) by blast
  moreover have "shard_in_range (int t) c" using assms(4) by (simp add: shard_in_range_def)
  ultimately obtain d where d: "Cluster_MigrateSlot (env_kv env) sortSlice ?r (int t) True c = Ok d" by (simp add: Cluster_MigrateSlot_def Let_def)
  have w: "wf_cluster d" "ints d" "cl_Name d = n"
    using wf_MigrateSlot [OF g(1) v d] ints_MigrateSlot [OF g(2) _ d] g(3) assms(5) by (simp_all add: int64_def)
  have v': "cl_Version d = cl_Version c" using d by (auto simp: Cluster_MigrateSlot_def fail_def Let_def move_slots_def set_shard_def split: if_splits)
  define d' where "d' = d\<lparr>cl_Version := wrap64 (cl_Version c + 1)\<rparr>"
  have name: "cl_Name d = cl_Name c" using w(3) g(3) by simp
  obtain s' where u: "UpdateCluster E ns d s = Ok (s', d')" "GetCluster E s' ns n = Ok d'"
    using UpdateCluster_current [OF t assms(2) name v' wf_storable [OF w(1,2)]] unfolding d'_def by blast
  have srv: "serve req env s = (ResponseOK (JObj [(''cluster'', Cluster_MarshalJSON d')]), s')"
    using url_paths(6) [OF g(4,5)] migrate_body [OF assms(3,5), of True] assms(2) d u(1)
    by (simp add: req_def serve_def serve_post_def Cluster_MigrateSlot_handler_def update_cluster_def env or_error_def or_bad_def)
  have "owns d' j q \<longleftrightarrow> (if q = int k then j = t else owns c j q)" for j q
    using migrate_owns [OF g(1) v d, of j q] by (simp add: d'_def owns_def slots_of_def)
  then show ?thesis
    using srv u(2) by (intro that [of d']) (simp_all add: answers_def axios_result_def store_after_def ResponseOK_def data_body_def)
qed

end



section \<open>Creating a cluster\<close>

lemma create_body:
  assumes "r < 2 ^ 63"
  shows "create_cluster_request (JObj [(''name'', JStr name), (''nodes'', JArr (map JStr nodes)), (''replicas'', JNum (num_of_nat r)), (''password'', JStr pw)]) =
    Ok \<lparr>cr_Name = name, cr_Nodes = nodes, cr_Password = pw, cr_Replicas = int r\<rparr>"
proof -
  have "int r < 2 ^ 63" using assms by (metis of_nat_less_iff of_nat_numeral of_nat_power)
  moreover have "gmap (json_string into) (map JStr nodes) = Ok nodes" for into
    by (induction nodes) (simp_all add: json_string_def)
  ultimately show ?thesis
    by (simp add: create_cluster_request_def bind_json_def json_struct_def json_field_def js_toLowerCase_def lower_char_def json_int_def
      json_string_def json_strings_def json_list_def num_of_nat_def)
qed

lemma refused: "axios_result (ResponseError e) \<noteq> Inr body" "axios_result (ResponseBadRequest e) \<noteq> Inr body"
  by (simp_all add: axios_result_def ResponseError_def ResponseBadRequest_def error_status_def)

lemma password_addrs:
  "map cn_addr (GetNodes (Cluster_SetPassword pw c)) = map cn_addr (GetNodes c)"
  "n \<in> set (GetNodes (Cluster_SetPassword pw c)) \<Longrightarrow> cn_password n = pw"
  by (auto simp: GetNodes_def Cluster_SetPassword_def map_nodes_def SetPassword_def map_concat comp_def)

context server
begin

lemma create_served:
  fixes pw :: string and name :: string and nodes :: "string list"
  assumes "well_kept content s" "plain ns" "plain name" "ns \<in> rg_namespaces (store_abs content s)" "length nodes \<le> 16384" "r < 2 ^ 63"
  defines "req \<equiv> POST (clusters_url ns) (JObj [(''name'', JStr name), (''nodes'', JArr (map JStr nodes)),
      (''replicas'', JNum (num_of_nat r)), (''password'', JStr pw)])"
  shows "((\<exists>body. answers env s req = Inr body \<and> create_accepts body) \<longleftrightarrow>
      nodes \<noteq> [] \<and> length nodes mod max 1 r = 0 \<and> rg_clusters (store_abs content s) (ns, name) = None
      \<and> (\<forall>ns n c. rg_clusters (store_abs content s) (ns, n) = Some c \<longrightarrow> set (map cn_addr (GetNodes c)) \<inter> set nodes = {}))
    \<and> ((\<exists>body. answers env s req = Inr body) \<longrightarrow> (\<exists>c. GetCluster E (store_after env s req) ns name = Ok c
       \<and> wf_cluster c \<and> map cn_addr (GetNodes c) = nodes \<and> (\<forall>n\<in>set (GetNodes c). cn_password n = pw)))"
proof -
  have t: "tidy (content (cs_e s))" using assms(1) by (simp add: well_kept_def)
  note check = CheckNewNodes_reg [OF t, of nodes]
  have srv: "serve req env s = Cluster_Create ns [] (JObj [(''name'', JStr name), (''nodes'', JArr (map JStr nodes)),
      (''replicas'', JNum (num_of_nat r)), (''password'', JStr pw)]) env s"
    using url_paths(2) [OF assms(2,2)] assms(4)
    by (simp add: req_def serve_def serve_post_def RequiredNamespace_def env ExistsNamespace_reg [OF assms(2)] or_error_def)
  note unfolded = answers_def store_after_def srv Cluster_Create_def create_body [OF assms(6)] env or_bad_def
  have div: "int (length nodes) mod max 1 (int r) = 0 \<longleftrightarrow> length nodes mod max 1 r = 0"
  proof -
    have "max 1 (int r) = int (max 1 r)" by simp
    then show ?thesis by (simp only: of_nat_mod [symmetric] of_nat_eq_0_iff)
  qed
  consider e where "CheckNewNodes E s nodes = Fail e"
    | e where "CheckNewNodes E s nodes = Ok ()" "NewCluster (env_nw env) name nodes (int r) = Fail e"
    | c where "CheckNewNodes E s nodes = Ok ()" "NewCluster (env_nw env) name nodes (int r) = Ok c"
    using check(1) NewCluster_not_Panic [of "env_nw env" name nodes "int r"]
    by (cases "CheckNewNodes E s nodes"; cases "NewCluster (env_nw env) name nodes (int r)") auto
  then show ?thesis
  proof cases
    case 1
    then have "\<not> (\<exists>body. answers env s req = Inr body)" by (simp add: unfolded or_error_def refused)
    with 1 check(2) show ?thesis by auto
  next
    case 2
    then have "\<not> (\<exists>body. answers env s req = Inr body)" by (simp add: unfolded or_error_def refused)
    with 2 NewCluster_accepts [of "env_nw env" name nodes "int r"] div show ?thesis by auto
  next
    case (3 c0)
    define c where "c = Cluster_SetPassword pw c0"
    have "length (cl_Shards c0) \<le> 16384" using NewCluster_shards [OF 3(2)] assms(5) by simp
    then have c: "wf_cluster c" "ints c" "cl_Name c = name" "map cn_addr (GetNodes c) = nodes" "\<forall>n\<in>set (GetNodes c). cn_password n = pw"
      using wf_password [OF wf_NewCluster [OF 3(2)]] ints_password [OF ints_NewCluster(1) [OF 3(2)]] ints_NewCluster(2) [OF 3(2)]
        NewCluster_addrs [OF 3(2)]
      by (simp_all add: c_def password_shape password_addrs)
    note reg = CreateCluster_reg [OF t assms(2) _ wf_storable [OF c(1,2)], unfolded c(3), OF assms(3)]
    have acc: "nodes \<noteq> [] \<and> length nodes mod max 1 r = 0" using NewCluster_accepts [of "env_nw env" name nodes "int r"] 3(2) div by auto
    show ?thesis
    proof (cases "rg_clusters (store_abs content s) (ns, name)")
      case (Some old)
      then obtain e where "CreateCluster E ns c s = Fail e"
        using reg(1) by (cases "CreateCluster E ns c s") (auto simp: reg_CreateCluster_def c(3) wrap_def)
      then have "\<not> (\<exists>body. answers env s req = Inr body)"
        using 3 by (simp add: unfolded or_error_def refused c_def Let_def js_toLowerCase_def)
      with Some show ?thesis by auto
    next
      case None
      then obtain s' where s': "CreateCluster E ns c s = Ok s'" "store_abs content s' = reg_put ns c (store_abs content s)"
        using reg(1) by (cases "CreateCluster E ns c s") (auto simp: reg_CreateCluster_def c(3))
      then have "answers env s req = Inr (JObj [(''data'', JObj [(''cluster'', Cluster_MarshalJSON c)])])" "store_after env s req = s'"
        using 3 by (simp_all add: unfolded or_error_def c_def Let_def js_toLowerCase_def axios_result_def ResponseCreated_def data_body_def)
      moreover have "GetCluster E s' ns name = Ok c"
        using s'(2) by (simp add: GetCluster_reg [OF reg(2) [OF s'(1)]] reg_GetCluster_def reg_put_def c(3))
      ultimately show ?thesis using None acc c check(2) 3(1) by (auto simp: create_accepts_def)
    qed
  qed
qed

end

text \<open>
  C6: A cluster created in the browser is in the store. For a namespace in a well-kept store, creating a
  cluster through the client succeeds exactly when there are nodes, the replicas divide them, the name is
  new in the namespace, and no stored cluster has a node with one of the addresses. Then the store holds a
  well-formed cluster with these addresses in their order and the password at every node; its slots are
  spread over its shards.
\<close>
theorem client_creates_stored_cluster:
  assumes "server E content sortSlice env" "well_kept content s" "url_name ns" "plain name" "ns \<in> rg_namespaces (store_abs content s)"
    and "length nodes \<le> 16384" "r < 2 ^ 63"
  shows "(createCluster (answers env s) (JStr name) (JArr (map JStr nodes)) (num_of_nat r) (JStr pw) ns = Inr (JStr []) \<longleftrightarrow>
      nodes \<noteq> [] \<and> length nodes mod max 1 r = 0 \<and> rg_clusters (store_abs content s) (ns, name) = None
      \<and> (\<forall>ns n c. rg_clusters (store_abs content s) (ns, n) = Some c \<longrightarrow> set (map cn_addr (GetNodes c)) \<inter> set nodes = {}))
    \<and> (createCluster (answers env s) (JStr name) (JArr (map JStr nodes)) (num_of_nat r) (JStr pw) ns = Inr (JStr []) \<longrightarrow>
      (\<exists>c. GetCluster E (store_after env s (POST (clusters_url ns) (JObj [(''name'', JStr name), (''nodes'', JArr (map JStr nodes)),
          (''replicas'', JNum (num_of_nat r)), (''password'', JStr pw)]))) ns name = Ok c
        \<and> wf_cluster c \<and> map cn_addr (GetNodes c) = nodes \<and> (\<forall>n\<in>set (GetNodes c). cn_password n = pw)))"
  unfolding createCluster_api.succeeds_iff
  by (intro conjI impI server.create_served [OF assms(1,2) url_plain [OF assms(3)] assms(4-7), THEN conjunct1]
    server.create_served [OF assms(1,2) url_plain [OF assms(3)] assms(4-7), THEN conjunct2, THEN mp]) (elim exE conjE, rule exI)

theorem client_creates_stored_cluster_witness:
  "createCluster (answers sample_env sample_store) (JStr ''d'') (JArr (map JStr [''e'', ''f''])) (num_of_nat 1) (JStr []) ''n'' = Inr (JStr [])"
proof -
  have k: "well_kept map_of sample_store"
    using sample_store_abs sample_kept(1) by (simp add: well_kept_def split: if_splits)
  have n: "''n'' \<in> rg_namespaces (store_abs map_of sample_store)" "plain ''d''" by (simp_all add: sample_store_abs(2) plain_def)
  have "map cn_addr (GetNodes sample_topology) = [''a'', ''b'']" by (rule NewCluster_addrs [OF sample_topology_new])
  then have "\<forall>ns n c. rg_clusters (store_abs map_of sample_store) (ns, n) = Some c \<longrightarrow> set (map cn_addr (GetNodes c)) \<inter> set [''e'', ''f''] = {}"
    by (simp add: sample_store_abs(3) del: set_map)
  then show ?thesis
    using client_creates_stored_cluster [OF sample_server k sample_url_names(1) n(2,1), of "[''e'', ''f'']" 1 "[]"]
    by (simp add: sample_store_abs(3))
qed

end
