(* ===== verification/Utils.thy ===== *)
theory Utils
  imports JSValue
begin

text \<open>
  Formatting helpers, \<^verbatim>\<open>webui/src/app/utils.ts\<close>. The time is a parameter, in milliseconds as
  \<^verbatim>\<open>Date.now()\<close> gives it, and how the browser's locale prints a date is the parameter \<open>toLocaleString\<close>.
  \<^verbatim>\<open>formatBytes\<close>, which goes through floating-point logarithms, is not modelled.
\<close>

definition truncateText :: "string \<Rightarrow> nat \<Rightarrow> string" where
  "truncateText text maxLength =
     (if text = [] \<or> length text \<le> maxLength then text else take maxLength text @ ''...'')"

fun times_1000 :: "jsnum \<Rightarrow> jsnum" where
  "times_1000 (Fin r) = Fin (r * 1000)"
| "times_1000 x = x"

definition formatTimestamp :: "(jsnum \<Rightarrow> string) \<Rightarrow> jsnum \<Rightarrow> string" where
  "formatTimestamp toLocaleString timestamp = toLocaleString (times_1000 timestamp)"

definition calculateUptime :: "int \<Rightarrow> int \<Rightarrow> string" where
  "calculateUptime date_now timestamp =
     (let now = date_now div 1000; uptimeSeconds = now - timestamp in
      if uptimeSeconds < 60 then show_int uptimeSeconds @ '' seconds''
      else if uptimeSeconds < 3600 then show_int (uptimeSeconds div 60) @ '' minutes''
      else if uptimeSeconds < 86400 then show_int (uptimeSeconds div 3600) @ '' hours''
      else show_int (uptimeSeconds div 86400) @ '' days'')"

definition utils_formatSlotRanges :: "string list \<Rightarrow> string" where
  "utils_formatSlotRanges ranges =
     (if ranges = [] then ''None''
      else if length ranges \<le> 2 then js_join '', '' ranges
      else ranges ! 0 @ '', '' @ ranges ! 1 @ '', ... (+'' @ show_nat (length ranges - 2) @ '' more)'')"

section \<open>Facts\<close>

lemma length_truncateText: "length (truncateText text n) \<le> n + 3"
  by (simp add: truncateText_def)

lemma truncateText_id: "length text \<le> n \<Longrightarrow> truncateText text n = text"
  by (simp add: truncateText_def)

text \<open>The unit in which an uptime is shown, and how many of it have passed.\<close>

definition uptime_unit :: "int \<Rightarrow> int \<times> string" where
  "uptime_unit u = (if u < 60 then (1, '' seconds'') else if u < 3600 then (60, '' minutes'')
     else if u < 86400 then (3600, '' hours'') else (86400, '' days''))"

text \<open>
  The uptime shown is the number of whole units that have passed, in the largest unit of which at
  least one has: for a node created in the past, the number is never zero unless the uptime is, and
  stays below sixty seconds, sixty minutes or twenty-four hours.
\<close>
theorem uptime_correct:
  assumes "timestamp \<le> date_now div 1000"
  shows "\<exists>n d unit. uptime_unit (date_now div 1000 - timestamp) = (d, unit)
    \<and> calculateUptime date_now timestamp = show_nat n @ unit
    \<and> int n * d \<le> date_now div 1000 - timestamp \<and> date_now div 1000 - timestamp < (int n + 1) * d
    \<and> (n = 0 \<longrightarrow> date_now div 1000 = timestamp)
    \<and> (unit = '' seconds'' \<longrightarrow> n < 60) \<and> (unit = '' minutes'' \<longrightarrow> n < 60) \<and> (unit = '' hours'' \<longrightarrow> n < 24)"
proof -
  define u where "u = date_now div 1000 - timestamp"
  have u: "0 \<le> u" using assms by (simp add: u_def)
  obtain d unit where du: "uptime_unit u = (d, unit)" by fastforce
  then have d: "0 < d" by (auto simp: uptime_unit_def split: if_splits)
  define n where "n = nat (u div d)"
  have n: "int n = u div d" using u d by (simp add: n_def pos_imp_zdiv_nonneg_iff)
  have "calculateUptime date_now timestamp = show_int (u div d) @ unit"
    using du by (auto simp: calculateUptime_def uptime_unit_def u_def [symmetric] Let_def split: if_splits)
  then have "calculateUptime date_now timestamp = show_nat n @ unit" by (simp only: n [symmetric] show_int_nat)
  moreover have "int n * d \<le> u" "u < (int n + 1) * d"
  proof -
    have "(u div d) * d + u mod d = u" "0 \<le> u mod d" "u mod d < d" using d by simp_all
    then show "int n * d \<le> u" "u < (int n + 1) * d" unfolding n distrib_right by linarith+
  qed
  moreover have "n = 0 \<longrightarrow> u = 0" "unit = '' seconds'' \<longrightarrow> n < 60" "unit = '' minutes'' \<longrightarrow> n < 60" "unit = '' hours'' \<longrightarrow> n < 24"
    using du u calculation(2,3) by (auto simp: uptime_unit_def split: if_splits)
  ultimately show ?thesis using du by (auto simp: u_def)
qed

theorem uptime_correct_witness:
  "\<exists>n. calculateUptime 7200999 0 = show_nat n @ '' hours'' \<and> int n * 3600 \<le> 7200 \<and> 7200 < (int n + 1) * 3600"
  using uptime_correct [of 0 7200999] by (auto simp: uptime_unit_def)

end
