(* ===== verification/NodePage.thy ===== *)
theory NodePage
  imports View Api Utils
begin

text \<open>
  The page of a node,
  \<^verbatim>\<open>webui/src/app/namespaces/[namespace]/clusters/[cluster]/shards/[shard]/nodes/[node]/page.tsx\<close>: reading
  the nodes of the shard, choosing the node by its position, copying a field to the clipboard, and the
  view. How the browser's locale prints a date is the parameter \<open>toLocaleString\<close>.
\<close>

section \<open>State\<close>

record node_page =
  np_nodeData :: jsval
  np_loading :: bool
  np_copied :: "string option"

definition np_init :: node_page where
  "np_init = \<lparr>np_nodeData = JArr [], np_loading = True, np_copied = None\<rparr>"

section \<open>Handlers\<close>

definition np_fetch_end :: "string \<Rightarrow> jsval res \<Rightarrow> node_page \<Rightarrow> node_page \<times> effect list" where
  "np_fetch_end shard fetched s =
     (let (s', effs) = (case fetched of
          Inl e \<Rightarrow> (s, [ConsoleError ''Error fetching shard data:''])
        | Inr fetchedNodes \<Rightarrow>
            if \<not> truthy fetchedNodes then (s, [ConsoleError (''Shard '' @ shard @ '' not found''), RouterPush ''/404''])
            else (s\<lparr>np_nodeData := fetchedNodes\<rparr>, []))
      in (s'\<lparr>np_loading := False\<rparr>, effs))"

definition np_fetchData :: "axios \<Rightarrow> string \<Rightarrow> string \<Rightarrow> string \<Rightarrow> node_page \<Rightarrow> node_page \<times> effect list" where
  "np_fetchData ax namespace cluster shard s = np_fetch_end shard (listNodes ax namespace cluster shard) s"

definition copyToClipboard :: "jsval \<Rightarrow> string \<Rightarrow> node_page \<Rightarrow> node_page \<times> effect list" where
  \<comment> \<open>The call also starts a timer of two seconds that ends in \<open>copy_timeout\<close>.\<close>
  "copyToClipboard text type s = (s\<lparr>np_copied := Some type\<rparr>, [ClipboardWrite text])"

definition copy_timeout :: "node_page \<Rightarrow> node_page" where
  "copy_timeout s = s\<lparr>np_copied := None\<rparr>"

section \<open>View\<close>

definition js_at :: "jsval \<Rightarrow> jsnum \<Rightarrow> jsval" where
  \<comment> \<open>\<^verbatim>\<open>v[n]\<close> for a number: an element, a character, or a property under the number's name\<close>
  "js_at v n = (case (v, n) of
       (JArr xs, Fin r) \<Rightarrow> if 0 \<le> r \<and> of_int \<lfloor>r\<rfloor> = r then js_elem xs (nat \<lfloor>r\<rfloor>) else JUndef
     | (JStr s, Fin r) \<Rightarrow> if 0 \<le> r \<and> of_int \<lfloor>r\<rfloor> = r \<and> nat \<lfloor>r\<rfloor> < length s then JStr [s ! nat \<lfloor>r\<rfloor>] else JUndef
     | _ \<Rightarrow> js_prop v (show_num n))"

definition currentNode :: "string \<Rightarrow> node_page \<Rightarrow> jsval" where
  "currentNode node s = js_at (np_nodeData s) (parseInt node)"

definition formattedDate :: "(jsnum \<Rightarrow> string) \<Rightarrow> jsval \<Rightarrow> string" where
  "formattedDate toLocaleString current = toLocaleString (times_1000 (to_number (js_prop current ''created_at'')))"

datatype np_act = NpCopy jsval string

definition getRoleStyles_icon :: "jsval \<Rightarrow> string" where
  "getRoleStyles_icon role = (if role = JStr ''master'' then ''CheckCircleIcon'' else ''DeviceHubIcon'')"

definition number_after :: "string \<Rightarrow> jsval" where
  \<comment> \<open>\<^verbatim>\<open>parseInt(s) + 1\<close>\<close>
  "number_after s = JNum (js_add (parseInt s) (Fin 1))"

definition copy_button :: "jsval \<Rightarrow> string \<Rightarrow> string \<Rightarrow> string \<Rightarrow> node_page \<Rightarrow> np_act view" where
  "copy_button text type title icon s =
     El ''IconButton'' [On ''onClick'' (NpCopy text type), SA ''title'' title]
       [if np_copied s = Some type then El ''CheckCircleIcon'' [] [] else El icon [] []]"

definition np_header :: "string \<Rightarrow> string \<Rightarrow> string \<Rightarrow> string \<Rightarrow> jsval \<Rightarrow> np_act view" where
  "np_header namespace cluster shard node current =
     El ''div'' []
       [El ''div'' []
         [El ''Typography'' []
            [El ''div'' [] [El ''DeviceHubIcon'' [] []], Txt ''Node '', Ex (number_after node),
             El ''div'' []
               [El (getRoleStyles_icon (js_prop current ''role'')) [] [],
                El ''span'' [] [Ex (js_prop current ''role'')]]],
          El ''Typography'' []
            [Txt ''Shard '', Ex (number_after shard), Txt '' '', Glyph ''U+2022'', Txt '' '', Txt cluster, Txt '' cluster '',
             Glyph ''U+2022'', Txt '' '', Txt namespace, Txt '' '', Txt ''namespace'']]]"

definition np_identity :: "jsval \<Rightarrow> node_page \<Rightarrow> np_act view" where
  "np_identity current s =
     El ''Grid'' []
       [El ''div'' []
         [El ''div'' []
            [El ''Typography'' [] [El ''LinkIcon'' [] [], Txt ''Node ID''],
             El ''div'' []
               [El ''div'' [] [El ''Typography'' [] [Ex (js_prop current ''id'')]],
                copy_button (js_prop current ''id'') ''id'' ''Copy ID'' ''ContentCopyIcon'' s]],
          El ''div'' []
            [El ''Typography'' [] [El ''NetworkCheckIcon'' [] [], Txt ''Address''],
             El ''div'' []
               [El ''div'' [] [El ''Typography'' [] [Ex (js_prop current ''addr'')]],
                copy_button (js_prop current ''addr'') ''addr'' ''Copy Address'' ''ContentCopyIcon'' s]]]]"

definition np_password :: "jsval \<Rightarrow> node_page \<Rightarrow> np_act views" where
  \<comment> \<open>\<^verbatim>\<open>{currentNode.password && (...)}\<close>: a falsy password is the child itself\<close>
  "np_password current s =
     (let password = js_prop current ''password'' in
      if truthy password then
        [El ''div'' []
          [El ''Typography'' [] [El ''SecurityIcon'' [] [], Txt ''Authentication''],
           El ''div'' []
             [El ''div'' [] [El ''Typography'' []
                (if truthy password then replicate 8 (Glyph ''U+2022'') else [Txt ''No password set''])],
              El ''IconButton''
                [On ''onClick'' (NpCopy password ''pwd''), SA ''title'' ''Copy Password'', BA ''disabled'' (\<not> truthy password)]
                [if np_copied s = Some ''pwd'' then El ''CheckCircleIcon'' [] [] else El ''LockIcon'' [] []]]]]
      else [Ex password])"

definition np_status :: "(jsnum \<Rightarrow> string) \<Rightarrow> jsval \<Rightarrow> node_page \<Rightarrow> np_act view" where
  "np_status toLocaleString current s =
     El ''Grid'' []
       [El ''div'' []
         ([El ''div'' []
             [El ''Typography'' [] [El ''DeviceHubIcon'' [] [], Txt ''Role''],
              El ''div'' []
                [El (getRoleStyles_icon (js_prop current ''role'')) [] [],
                 El ''Typography'' [] [Ex (js_prop current ''role'')]]],
           El ''div'' []
             [El ''Typography'' [] [El ''AccessTimeIcon'' [] [], Txt ''Created At''],
              El ''div'' [] [El ''Typography'' [] [Txt (formattedDate toLocaleString current)]]]] @
          np_password current s)]"

definition np_shard_info :: "string \<Rightarrow> string \<Rightarrow> string \<Rightarrow> np_act view" where
  "np_shard_info namespace cluster shard =
     El ''Paper'' []
       [El ''div'' [] [El ''Typography'' [] [El ''DnsIcon'' [] [], Txt ''Shard Information'']],
        El ''div'' []
          [El ''Grid'' []
            [El ''Grid'' [] [El ''div'' []
               [El ''Typography'' [] [El ''DnsIcon'' [] [], Txt ''Shard''],
                El ''Typography'' [] [Txt ''Shard '', Ex (number_after shard)]]],
             El ''Grid'' [] [El ''div'' []
               [El ''Typography'' [] [El ''StorageIcon'' [] [], Txt ''Cluster''],
                El ''Typography'' [] [Txt cluster]]],
             El ''Grid'' [] [El ''div'' []
               [El ''Typography'' [] [El ''InfoIcon'' [] [], Txt ''Namespace''],
                El ''Typography'' [] [Txt namespace]]]]]]"

definition np_sidebar :: "string \<Rightarrow> string \<Rightarrow> string \<Rightarrow> np_act view" where
  "np_sidebar namespace cluster shard =
     El ''NodeSidebar'' [SA ''namespace'' namespace, SA ''cluster'' cluster, SA ''shard'' shard] []"

definition np_not_found :: "string \<Rightarrow> string \<Rightarrow> string \<Rightarrow> np_act views" where
  "np_not_found namespace cluster shard =
     [El ''div'' []
       [np_sidebar namespace cluster shard,
        El ''Box'' [] [El ''Alert'' [SA ''severity'' ''error''] [Txt ''Node not found'']]]]"

definition np_view ::
  "(jsnum \<Rightarrow> string) \<Rightarrow> string \<Rightarrow> string \<Rightarrow> string \<Rightarrow> string \<Rightarrow> node_page \<Rightarrow> np_act views" where
  "np_view toLocaleString namespace cluster shard node s =
     (if np_loading s then [El ''LoadingSpinner'' [] []]
      else let current = currentNode node s in
        if \<not> truthy current then np_not_found namespace cluster shard
        else
          [El ''div'' []
            [np_sidebar namespace cluster shard,
             El ''div'' []
               [El ''Box'' []
                 [np_header namespace cluster shard node current,
                  El ''Paper'' []
                    [El ''div'' [] [El ''Typography'' [] [El ''SettingsIcon'' [] [], Txt ''Node Configuration'']],
                     El ''div'' [] [El ''Grid'' [] [np_identity current s, np_status toLocaleString current s]]],
                  np_shard_info namespace cluster shard]]]])"

lemmas np_parts = np_header_def np_identity_def np_status_def np_shard_info_def np_sidebar_def copy_button_def np_not_found_def

section \<open>The mounted page\<close>

text \<open>
  The page with its clipboard, its running timers and the outstanding request. A copy happens when the
  user presses a button of the view.
\<close>

record np_sys =
  ps_page :: node_page
  ps_pending :: bool
  ps_timers :: nat
  ps_clipboard :: "jsval option"

fun written :: "effect list \<Rightarrow> jsval option \<Rightarrow> jsval option" where
  "written [] c = c"
| "written (ClipboardWrite v # es) c = written es (Some v)"
| "written (_ # es) c = written es c"

inductive np_step :: "(jsnum \<Rightarrow> string) \<Rightarrow> string \<Rightarrow> string \<Rightarrow> string \<Rightarrow> string \<Rightarrow> np_sys \<Rightarrow> np_sys \<Rightarrow> bool"
  for loc ns c sh node where
  fetched: "ps_pending s \<Longrightarrow>
    np_step loc ns c sh node s (s\<lparr>ps_page := fst (np_fetch_end sh r (ps_page s)), ps_pending := False\<rparr>)"
| copy: "NpCopy text type \<in> set (all_enabled (np_view loc ns c sh node (ps_page s))) \<Longrightarrow>
    copyToClipboard text type (ps_page s) = (p, effs) \<Longrightarrow>
    np_step loc ns c sh node s
      (s\<lparr>ps_page := p, ps_timers := ps_timers s + 1, ps_clipboard := written effs (ps_clipboard s)\<rparr>)"
| timeout: "ps_timers s = Suc n \<Longrightarrow>
    np_step loc ns c sh node s (s\<lparr>ps_page := copy_timeout (ps_page s), ps_timers := n\<rparr>)"

inductive np_reachable :: "(jsnum \<Rightarrow> string) \<Rightarrow> string \<Rightarrow> string \<Rightarrow> string \<Rightarrow> string \<Rightarrow> np_sys \<Rightarrow> bool"
  for loc ns c sh node where
  init: "np_reachable loc ns c sh node \<lparr>ps_page = np_init, ps_pending = True, ps_timers = 0, ps_clipboard = None\<rparr>"
| step: "np_reachable loc ns c sh node s \<Longrightarrow> np_step loc ns c sh node s t \<Longrightarrow> np_reachable loc ns c sh node t"

section \<open>Facts\<close>

lemma js_at_arr [simp]: "js_at (JArr xs) (num_of_nat i) = js_elem xs i"
  by (simp add: js_at_def num_of_nat_def)

lemma currentNode_arr: "np_nodeData s = JArr xs \<Longrightarrow> currentNode (show_nat i) s = js_elem xs i"
  by (simp add: currentNode_def)

lemma currentNode_copied [simp]: "currentNode node (s\<lparr>np_copied := m\<rparr>) = currentNode node s"
  by (simp add: currentNode_def)

text \<open>The fields of the node that have a button, with the mark the button sets.\<close>

definition copy_fields :: "jsval \<Rightarrow> (jsval \<times> string) list" where
  "copy_fields current =
     [(js_prop current ''id'', ''id''), (js_prop current ''addr'', ''addr'')] @
     (if truthy (js_prop current ''password'') then [(js_prop current ''password'', ''pwd'')] else [])"

lemma np_view_enabled:
  "all_enabled (np_view loc ns c sh node s) =
     (if np_loading s \<or> \<not> truthy (currentNode node s) then []
      else map (\<lambda>(text, type). NpCopy text type) (copy_fields (currentNode node s)))"
  by (simp add: np_view_def np_parts np_password_def Let_def copy_fields_def)

section \<open>The clipboard and the copied mark\<close>

definition np_inv :: "string \<Rightarrow> np_sys \<Rightarrow> bool" where
  "np_inv node s \<longleftrightarrow>
     (ps_pending s \<longleftrightarrow> np_loading (ps_page s))
     \<and> (ps_pending s \<longrightarrow> np_nodeData (ps_page s) = JArr [] \<and> ps_timers s = 0 \<and> ps_clipboard s = None)
     \<and> (\<forall>type. np_copied (ps_page s) = Some type \<longrightarrow> 0 < ps_timers s \<and> type \<in> snd ` set (copy_fields (currentNode node (ps_page s))))
     \<and> (\<forall>v. ps_clipboard s = Some v \<longrightarrow> v \<in> fst ` set (copy_fields (currentNode node (ps_page s))))"

lemma np_inv_step: "np_step loc ns c sh node s t \<Longrightarrow> np_inv node s \<Longrightarrow> np_inv node t"
proof (induction rule: np_step.induct)
  case (fetched s r)
  then have "np_copied (ps_page s) = None" "ps_clipboard s = None" "ps_timers s = 0"
    unfolding np_inv_def by (metis less_irrefl not_None_eq)+
  moreover have "\<not> np_loading (fst (np_fetch_end sh r (ps_page s)))"
    and "np_copied (fst (np_fetch_end sh r (ps_page s))) = np_copied (ps_page s)"
    by (auto simp: np_fetch_end_def Let_def split: sum.splits if_splits)
  ultimately show ?case by (simp add: np_inv_def)
next
  case (copy v k s p effs)
  from copy(1) have "\<not> np_loading (ps_page s)" and f: "(v, k) \<in> set (copy_fields (currentNode node (ps_page s)))"
    by (auto simp: np_view_enabled split: if_splits)
  from f have "v \<in> fst ` set (copy_fields (currentNode node (ps_page s)))" "k \<in> snd ` set (copy_fields (currentNode node (ps_page s)))"
    by force+
  with copy(2,3) \<open>\<not> np_loading (ps_page s)\<close> show ?case by (simp add: np_inv_def copyToClipboard_def prod_eq_iff) force
next
  case (timeout s n)
  then show ?case by (auto simp: np_inv_def copy_timeout_def)
qed

lemma np_reachable_inv: "np_reachable loc ns c sh node s \<Longrightarrow> np_inv node s"
proof (induction rule: np_reachable.induct)
  case init
  show ?case by (simp add: np_inv_def np_init_def)
qed (rule np_inv_step)

text \<open>
  Copying on the node page. In every reachable state, what the page wrote to the clipboard is the
  id, the address or the password of the node it shows; a check mark is on a button that the page has,
  and only while a timer runs that will remove it.
\<close>
theorem node_page_copies:
  assumes "np_reachable loc ns c sh node s"
  shows "(\<forall>v. ps_clipboard s = Some v \<longrightarrow> v \<in> fst ` set (copy_fields (currentNode node (ps_page s))))
    \<and> (\<forall>type. np_copied (ps_page s) = Some type \<longrightarrow>
         0 < ps_timers s \<and> type \<in> snd ` set (copy_fields (currentNode node (ps_page s))))
    \<and> (np_loading (ps_page s) \<longleftrightarrow> ps_pending s)"
  using np_reachable_inv [OF assms] by (auto simp: np_inv_def)

lemma np_copy_reachable:
  "\<exists>s. np_reachable loc ns c sh (show_nat 0) s \<and> ps_clipboard s = Some (JStr ''n1'') \<and> np_copied (ps_page s) = Some ''id''"
proof -
  let ?node = "JObj [(''id'', JStr ''n1'')]"
  let ?s0 = "\<lparr>ps_page = np_init, ps_pending = True, ps_timers = 0, ps_clipboard = None\<rparr>"
  let ?s1 = "?s0\<lparr>ps_page := fst (np_fetch_end sh (Inr (JArr [?node])) (ps_page ?s0)), ps_pending := False\<rparr>"
  have r1: "np_reachable loc ns c sh (show_nat 0) ?s1"
    by (rule np_reachable.step [OF np_reachable.init np_step.fetched]) simp
  have cur: "currentNode (show_nat 0) (ps_page ?s1) = ?node"
    using currentNode_arr [of "ps_page ?s1" "[?node]" 0] by (simp add: np_fetch_end_def js_elem_def)
  have "NpCopy (JStr ''n1'') ''id'' \<in> set (all_enabled (np_view loc ns c sh (show_nat 0) (ps_page ?s1)))"
    unfolding np_view_enabled cur by (simp add: np_fetch_end_def copy_fields_def)
  from np_reachable.step [OF r1 np_step.copy [OF this surjective_pairing]] show ?thesis
    by (rule_tac exI, rule_tac conjI, assumption) (simp add: copyToClipboard_def)
qed

theorem node_page_copies_witness:
  "\<exists>(s :: np_sys). ps_clipboard s = Some (JStr ''n1'') \<and> 0 < ps_timers s"
  using np_copy_reachable [of "\<lambda>_. []" "''ns''" "''c''" "''0''"] node_page_copies by blast

section \<open>The password stays hidden\<close>

definition same_but_password :: "jsval \<Rightarrow> jsval \<Rightarrow> bool" where
  "same_but_password a b \<longleftrightarrow>
     truthy a = truthy b \<and> (\<forall>k. k \<noteq> ''password'' \<longrightarrow> js_prop a k = js_prop b k)
     \<and> truthy (js_prop a ''password'') \<and> truthy (js_prop b ''password'')"

fun displayed :: "np_act \<Rightarrow> string" where
  \<comment> \<open>What is left of a handler when the text it copies is removed.\<close>
  "displayed (NpCopy text type) = type"

lemma js_elem_related:
  assumes "list_all2 R xs ys" "i < length xs"
  shows "R (js_elem xs i) (js_elem ys i)"
  using assms by (auto simp: js_elem_def list_all2_conv_all_nth)

lemma np_view_same:
  assumes "same_but_password a b" "js_prop a ''id'' = js_prop b ''id''" "js_prop a ''addr'' = js_prop b ''addr''"
    and "np_copied s = np_copied t"
  shows "map_view displayed (np_header ns c sh node a) = map_view displayed (np_header ns c sh node b)"
    and "map_view displayed (np_identity a s) = map_view displayed (np_identity b t)"
    and "map_view displayed (np_status loc a s) = map_view displayed (np_status loc b t)"
  using assms by (simp_all add: same_but_password_def np_parts np_password_def formattedDate_def Let_def)

text \<open>
  C33: The page never displays a password. Two pages whose nodes differ only in their passwords (set in
  both) show the same view for every node of the list, except for the text that the copy button of the
  password would write.
\<close>
theorem node_page_hides_password:
  assumes "np_nodeData s = JArr xs" "np_nodeData t = JArr ys" "list_all2 same_but_password xs ys"
    and "np_loading s = np_loading t" "np_copied s = np_copied t"
  shows "map (map_view displayed) (np_view loc ns c sh (show_nat i) s) = map (map_view displayed) (np_view loc ns c sh (show_nat i) t)"
proof (cases "i < length xs")
  case True
  let ?a = "js_elem xs i" and ?b = "js_elem ys i"
  have r: "same_but_password ?a ?b" by (rule js_elem_related [OF assms(3) True])
  then have "js_prop ?a ''id'' = js_prop ?b ''id''" "js_prop ?a ''addr'' = js_prop ?b ''addr''" "truthy ?a = truthy ?b"
    by (auto simp: same_but_password_def)
  then show ?thesis
    using assms(4) np_view_same [OF r _ _ assms(5)]
    by (simp add: np_view_def currentNode_arr [OF assms(1)] currentNode_arr [OF assms(2)] Let_def)
next
  case False
  then have "js_elem xs i = JUndef" "js_elem ys i = JUndef"
    using list_all2_lengthD [OF assms(3)] by (simp_all add: js_elem_def)
  then show ?thesis
    using assms(4) by (simp add: np_view_def currentNode_arr [OF assms(1)] currentNode_arr [OF assms(2)])
qed

theorem node_page_hides_password_witness:
  "let page = \<lambda>pw. \<lparr>np_nodeData = JArr [JObj [(''password'', JStr pw)]], np_loading = False, np_copied = None\<rparr> in
   map (map_view displayed) (np_view (\<lambda>_. []) ''ns'' ''c'' ''0'' (show_nat 0) (page ''secret''))
   = map (map_view displayed) (np_view (\<lambda>_. []) ''ns'' ''c'' ''0'' (show_nat 0) (page ''other''))"
  unfolding Let_def
  by (rule node_page_hides_password [where xs = "[JObj [(''password'', JStr ''secret'')]]" and ys = "[JObj [(''password'', JStr ''other'')]]"])
    (simp_all add: same_but_password_def)

end
