(* ===== verification/FailoverDialog.thy ===== *)
theory FailoverDialog
  imports AsyncDialog Api
begin

text \<open>
  The dialog that promotes a replica of a shard, \<^verbatim>\<open>webui/src/app/ui/failoverDialog.tsx\<close>: its
  handlers, its view and the step relation of one mounted dialog.
\<close>

section \<open>Props and state\<close>

record Node =
  nd_id :: string
  nd_addr :: string
  nd_role :: string
  nd_created_at :: int

record failover_dialog =
  fo_selectedNodeId :: string
  fo_loading :: bool
  fo_error :: jsval

definition fo_init :: failover_dialog where
  "fo_init = \<lparr>fo_selectedNodeId = ''auto'', fo_loading = False, fo_error = JStr []\<rparr>"

definition masterNode :: "Node list \<Rightarrow> Node option" where
  "masterNode nodes = find (\<lambda>node. nd_role node = ''master'') nodes"

definition slaveNodes :: "Node list \<Rightarrow> Node list" where
  "slaveNodes nodes = filter (\<lambda>node. nd_role node = ''slave'') nodes"

section \<open>Handlers\<close>

definition fo_failover_begin :: "failover_dialog \<Rightarrow> failover_dialog \<times> string option option" where
  \<comment> \<open>\<^verbatim>\<open>handleFailover\<close> up to the call of \<^verbatim>\<open>failoverShard\<close>, with its last argument\<close>
  "fo_failover_begin s =
     (s\<lparr>fo_loading := True, fo_error := JStr []\<rparr>,
      Some (if fo_selectedNodeId s = ''auto'' then None else Some (fo_selectedNodeId s)))"

definition fo_failover_end ::
  "failover_result res \<Rightarrow> failover_dialog \<Rightarrow> failover_dialog \<times> dialog_callback list" where
  "fo_failover_end result s =
     (let succeeded = (s\<lparr>fo_selectedNodeId := ''auto''\<rparr>, [OnSuccess, OnClose]);
          (s', calls) = (case result of
            Inr (FailoverError e) \<Rightarrow> if truthy e then (s\<lparr>fo_error := e\<rparr>, []) else succeeded
          | Inr (NewMaster _) \<Rightarrow> succeeded
          | Inl _ \<Rightarrow> (s\<lparr>fo_error := JStr ''An unexpected error occurred during failover''\<rparr>, []))
      in (s'\<lparr>fo_loading := False\<rparr>, calls))"

definition fo_handleFailover ::
  "axios \<Rightarrow> string \<Rightarrow> string \<Rightarrow> string \<Rightarrow> failover_dialog \<Rightarrow> failover_dialog \<times> dialog_callback list" where
  "fo_handleFailover ax namespace cluster shard s =
     (case fo_failover_begin s of
        (s', None) \<Rightarrow> (s', [])
      | (s', Some preferred) \<Rightarrow> fo_failover_end (failoverShard ax namespace cluster shard preferred) s')"

definition fo_handleClose :: "failover_dialog \<Rightarrow> failover_dialog \<times> dialog_callback list" where
  "fo_handleClose s =
     (if \<not> fo_loading s then (s\<lparr>fo_selectedNodeId := ''auto'', fo_error := JStr []\<rparr>, [OnClose]) else (s, []))"

definition fo_select :: "string \<Rightarrow> failover_dialog \<Rightarrow> failover_dialog" where
  "fo_select v s = s\<lparr>fo_selectedNodeId := v\<rparr>"

definition fo_dismiss :: "failover_dialog \<Rightarrow> failover_dialog" where
  "fo_dismiss s = s\<lparr>fo_error := JStr []\<rparr>"

definition truncateId :: "string \<Rightarrow> string" where
  "truncateId i = (if length i > 8 then take 8 i @ ''...'' else i)"

lemmas fo_handlers = fo_failover_begin_def fo_failover_end_def fo_handleClose_def fo_select_def fo_dismiss_def

section \<open>View\<close>

datatype fo_act = FoClose | FoSelect | FoFailover | FoDismiss

definition fo_title :: "fo_act view" where
  "fo_title = El ''DialogTitle'' []
     [El ''Box'' []
       [El ''SwapHorizIcon'' [] [],
        El ''Box'' []
          [El ''Typography'' [] [Txt ''Failover Shard Master''],
           El ''Typography'' [] [Txt ''Promote a replica node to master'']]]]"

definition fo_master :: "Node list \<Rightarrow> fo_act view" where
  "fo_master nodes =
     El ''Box'' []
       ([El ''Typography'' [] [Txt ''Current Master'']] @
        (case masterNode nodes of None \<Rightarrow> []
         | Some m \<Rightarrow>
           [El ''Box'' []
             [El ''Box'' []
               [El ''CheckCircleIcon'' [] [],
                El ''Box'' []
                  [El ''Typography'' [] [Txt (nd_addr m)],
                   El ''Typography'' [] [Txt ''ID: '', Txt (truncateId (nd_id m))]],
                El ''Chip'' [SA ''label'' ''Master''] []]]]))"

definition fo_candidate :: "Node \<Rightarrow> fo_act view" where
  "fo_candidate node =
     El ''FormControlLabel''
       [SA ''key'' (nd_id node), SA ''value'' (nd_id node), NA ''control'' (El ''Radio'' [] []),
        NA ''label'' (El ''Box'' []
          [El ''DeviceHubIcon'' [] [],
           El ''Box'' []
             [El ''Typography'' [] [Txt (nd_addr node)],
              El ''Typography'' [] [Txt ''ID: '', Txt (truncateId (nd_id node))]],
           El ''Chip'' [SA ''label'' ''Replica''] []])] []"

definition fo_candidates :: "Node list \<Rightarrow> failover_dialog \<Rightarrow> fo_act view" where
  "fo_candidates nodes s =
     (if length (slaveNodes nodes) > 0 then
        El ''Box'' []
          [El ''Typography'' [] [Txt ''Select New Master''],
           El ''FormControl'' []
             [El ''RadioGroup'' [SA ''value'' (fo_selectedNodeId s), On ''onChange'' FoSelect]
               ([El ''FormControlLabel''
                  [SA ''value'' ''auto'', NA ''control'' (El ''Radio'' [] []),
                   NA ''label'' (El ''Box'' []
                     [El ''Typography'' [] [Txt ''Automatic Selection''],
                      El ''Typography'' [] [Txt ''Let the controller choose the best replica'']])] []] @
                map fo_candidate (slaveNodes nodes))]]
      else
        El ''Alert'' [SA ''severity'' ''warning'']
          [Txt ''No replica nodes available for failover. At least one replica node is required.''])"

definition fo_actions :: "Node list \<Rightarrow> failover_dialog \<Rightarrow> fo_act view" where
  "fo_actions nodes s =
     El ''DialogActions'' []
       [El ''Button'' [On ''onClick'' FoClose, BA ''disabled'' (fo_loading s)] [Txt ''Cancel''],
        El ''Button''
          [On ''onClick'' FoFailover, BA ''disabled'' (fo_loading s \<or> length (slaveNodes nodes) = 0),
           NA ''startIcon'' (if fo_loading s then El ''CircularProgress'' [] [] else El ''SwapHorizIcon'' [] [])]
          [Txt (if fo_loading s then ''Processing...'' else ''Start Failover'')]]"

definition fo_view :: "bool \<Rightarrow> Node list \<Rightarrow> failover_dialog \<Rightarrow> fo_act views" where
  "fo_view opened nodes s =
     [El ''Dialog'' [BA ''open'' opened, On ''onClose'' FoClose]
        [fo_title, El ''DialogContent'' [] [fo_master nodes, fo_candidates nodes s], fo_actions nodes s],
      El ''Snackbar'' [BA ''open'' (truthy (fo_error s)), VA ''autoHideDuration'' (JNat 6000), On ''onClose'' FoDismiss]
        [El ''Alert'' [On ''onClose'' FoDismiss, SA ''severity'' ''error''] [Ex (fo_error s)]]]"

section \<open>One mounted dialog\<close>

interpretation failover: async_dialog fo_loading fo_failover_begin fo_failover_end fo_handleClose
  by unfold_locales (auto simp: fo_handlers Let_def split: if_splits sum.splits failover_result.splits)

record fo_sys =
  fv_ui :: failover_dialog
  fv_open :: bool
  fv_pending :: "string option list"

inductive fo_step :: "Node list \<Rightarrow> fo_sys \<Rightarrow> fo_sys \<Rightarrow> bool" for nodes where
  page_opens: "fo_step nodes s (s\<lparr>fv_open := True\<rparr>)"
| close: "FoClose \<in> set (all_enabled (fo_view (fv_open s) nodes (fv_ui s))) \<Longrightarrow> fo_handleClose (fv_ui s) = (u, calls) \<Longrightarrow>
    fo_step nodes s (s\<lparr>fv_ui := u, fv_open := still_open calls (fv_open s)\<rparr>)"
| select: "FoSelect \<in> set (all_enabled (fo_view (fv_open s) nodes (fv_ui s))) \<Longrightarrow>
    v \<in> set (all_radio_values (fo_view (fv_open s) nodes (fv_ui s))) \<Longrightarrow>
    fo_step nodes s (s\<lparr>fv_ui := fo_select v (fv_ui s)\<rparr>)"
| failover: "FoFailover \<in> set (all_enabled (fo_view (fv_open s) nodes (fv_ui s))) \<Longrightarrow> fo_failover_begin (fv_ui s) = (u, req) \<Longrightarrow>
    fo_step nodes s (s\<lparr>fv_ui := u, fv_pending := (case req of None \<Rightarrow> fv_pending s | Some m \<Rightarrow> fv_pending s @ [m])\<rparr>)"
| outcome: "fv_pending s = m # ms \<Longrightarrow> fo_failover_end r (fv_ui s) = (u, calls) \<Longrightarrow>
    fo_step nodes s (s\<lparr>fv_ui := u, fv_open := still_open calls (fv_open s), fv_pending := ms\<rparr>)"
| dismiss: "FoDismiss \<in> set (all_enabled (fo_view (fv_open s) nodes (fv_ui s))) \<Longrightarrow>
    fo_step nodes s (s\<lparr>fv_ui := fo_dismiss (fv_ui s)\<rparr>)"

inductive fo_reachable :: "Node list \<Rightarrow> fo_sys \<Rightarrow> bool" for nodes where
  init: "fo_reachable nodes \<lparr>fv_ui = fo_init, fv_open = False, fv_pending = []\<rparr>"
| step: "fo_reachable nodes s \<Longrightarrow> fo_step nodes s t \<Longrightarrow> fo_reachable nodes t"

definition candidate_ok :: "Node list \<Rightarrow> string \<Rightarrow> bool" where
  "candidate_ok nodes i \<longleftrightarrow> (\<exists>node\<in>set nodes. nd_role node = ''slave'' \<and> nd_id node = i)"

definition fo_inv :: "Node list \<Rightarrow> fo_sys \<Rightarrow> bool" where
  "fo_inv nodes s \<longleftrightarrow> failover.busy_inv (fv_ui s) (fv_open s) (fv_pending s)
     \<and> (fo_selectedNodeId (fv_ui s) = ''auto'' \<or> candidate_ok nodes (fo_selectedNodeId (fv_ui s)))
     \<and> list_all (\<lambda>preferred. \<forall>i. preferred = Some i \<longrightarrow> candidate_ok nodes i) (fv_pending s)"

lemma fo_radio_values: "set (all_radio_values (fo_view opened nodes s)) \<subseteq> {''auto''} \<union> {i. candidate_ok nodes i}"
  by (auto simp: fo_view_def fo_title_def fo_master_def fo_candidates_def fo_candidate_def fo_actions_def candidate_ok_def
    slaveNodes_def split: if_splits option.splits)

lemma fo_failover_enabled:
  assumes "FoFailover \<in> set (all_enabled (fo_view opened nodes s))"
  shows "\<not> fo_loading s \<and> opened \<and> slaveNodes nodes \<noteq> []"
  using assms
  by (auto simp: fo_view_def fo_title_def fo_master_def fo_candidates_def fo_candidate_def fo_actions_def
    split: if_splits option.splits)

lemma fo_inv_init: "fo_inv nodes \<lparr>fv_ui = fo_init, fv_open = False, fv_pending = []\<rparr>"
  by (simp add: fo_inv_def failover.busy_inv_def fo_init_def)

lemma fo_inv_step: "fo_step nodes s t \<Longrightarrow> fo_inv nodes s \<Longrightarrow> fo_inv nodes t"
proof (induction rule: fo_step.induct)
  case (page_opens s)
  then show ?case by (auto simp: fo_inv_def failover.busy_inv_def)
next
  case (close s u calls)
  then have "failover.busy_inv u (still_open calls (fv_open s)) (fv_pending s)"
    by (auto simp: fo_inv_def intro: failover.busy_close)
  with close show ?case by (auto simp: fo_inv_def fo_handleClose_def split: if_splits)
next
  case (select s v)
  then have "v \<in> {''auto''} \<union> {i. candidate_ok nodes i}" using fo_radio_values by blast
  with select show ?case by (auto simp: fo_inv_def fo_select_def elim: failover.busy_edit)
next
  case (failover s u req)
  note en = fo_failover_enabled [OF failover(1)]
  with failover have "failover.busy_inv u (fv_open s) (case req of None \<Rightarrow> fv_pending s | Some m \<Rightarrow> fv_pending s @ [m])"
    by (auto simp: fo_inv_def intro: failover.busy_start)
  with failover en show ?case by (auto simp: fo_inv_def fo_failover_begin_def split: if_splits)
next
  case (outcome s m ms r u calls)
  then have "failover.busy_inv u (still_open calls (fv_open s)) ms"
    by (auto simp: fo_inv_def intro: failover.busy_finish)
  with outcome show ?case
    by (auto simp: fo_inv_def fo_failover_end_def Let_def split: if_splits sum.splits failover_result.splits)
qed (auto simp: fo_inv_def fo_handlers elim: failover.busy_edit)

lemma fo_reachable_inv: "fo_reachable nodes s \<Longrightarrow> fo_inv nodes s"
  by (induction rule: fo_reachable.induct) (auto intro: fo_inv_init fo_inv_step)

text \<open>
  C37: In every reachable state of the failover dialog at most one failover is outstanding, the
  dialog stays open while one is, and a preferred node that was sent is a replica of the shard,
  never its master.
\<close>
theorem failover_dialog_safe:
  assumes "fo_reachable nodes s"
  shows "length (fv_pending s) \<le> 1 \<and> (fv_pending s \<noteq> [] \<longrightarrow> fv_open s)
    \<and> (\<forall>i. Some i \<in> set (fv_pending s) \<longrightarrow> candidate_ok nodes i)"
  using fo_reachable_inv [OF assms] by (auto simp: fo_inv_def list_all_iff dest: failover.busy_bound)

lemma fo_sent_reachable:
  fixes nodes
  defines "nodes \<equiv> [\<lparr>nd_id = ''a'', nd_addr = ''h:1'', nd_role = ''master'', nd_created_at = 0\<rparr>,
                    \<lparr>nd_id = ''b'', nd_addr = ''h:2'', nd_role = ''slave'', nd_created_at = 0\<rparr>]"
  shows "\<exists>s. fo_reachable nodes s \<and> fv_pending s = [Some ''b'']"
proof -
  let ?s0 = "\<lparr>fv_ui = fo_init, fv_open = False, fv_pending = []\<rparr>"
  let ?s1 = "?s0\<lparr>fv_open := True\<rparr>"
  let ?s2 = "?s1\<lparr>fv_ui := fo_select ''b'' (fv_ui ?s1)\<rparr>"
  note v = fo_view_def fo_title_def fo_master_def fo_candidates_def fo_candidate_def fo_actions_def slaveNodes_def
    masterNode_def nodes_def fo_init_def fo_handlers
  have "fo_step nodes ?s0 ?s1" by (rule fo_step.page_opens)
  moreover have "fo_step nodes ?s1 ?s2" by (rule fo_step.select) (simp_all add: v)
  ultimately have r: "fo_reachable nodes ?s2" by (blast intro: fo_reachable.intros)
  obtain u req where b: "fo_failover_begin (fv_ui ?s2) = (u, req)" by fastforce
  then have req: "req = Some (Some ''b'')" by (simp add: v)
  have "FoFailover \<in> set (all_enabled (fo_view (fv_open ?s2) nodes (fv_ui ?s2)))" by (simp add: v)
  from fo_step.failover [OF this b] r show ?thesis
    by (intro exI conjI) (erule fo_reachable.step, assumption, simp add: req)
qed

theorem failover_dialog_safe_witness:
  "\<exists>nodes (s :: fo_sys). fv_pending s = [Some ''b''] \<and> length (fv_pending s) \<le> 1 \<and> fv_open s \<and> candidate_ok nodes ''b''"
proof -
  from fo_sent_reachable obtain nodes :: "Node list" and s where r: "fo_reachable nodes s" and p: "fv_pending s = [Some ''b'']"
    by blast
  show ?thesis
    by (rule exI [of _ nodes], rule exI [of _ s]) (use failover_dialog_safe [OF r] p in simp)
qed

end
