(* ===== verification/ShardPage.thy ===== *)
theory ShardPage
  imports PageParts FailoverDialog Utils
begin

text \<open>
  The page of a shard, \<^verbatim>\<open>webui/src/app/namespaces/[namespace]/clusters/[cluster]/shards/[shard]/page.tsx\<close>:
  reading the shard, deleting a node, the filtered and sorted list of nodes and the view. The nodes of
  the response are read as the declared type of nodes when they are rendered; rendering raises on others.
\<close>

section \<open>State\<close>

record shard_page =
  sp_nodesData :: jsval
  sp_loading :: bool
  sp_deletingNodeIndex :: "nat option"
  sp_controls :: list_controls
  sp_failoverDialogOpen :: bool

definition sp_init :: shard_page where
  "sp_init = \<lparr>sp_nodesData = JNull, sp_loading = True, sp_deletingNodeIndex = None,
     sp_controls = lc_init ''all'' ''index-asc'', sp_failoverDialogOpen = False\<rparr>"

section \<open>Reading the shard\<close>

definition sp_fetch_end :: "string \<Rightarrow> jsval res \<Rightarrow> shard_page \<Rightarrow> shard_page \<times> effect list" where
  "sp_fetch_end shard fetched s =
     (let (s', effs) = (case fetched of
          Inl e \<Rightarrow> (s, [ConsoleError ''Error fetching shard data:''])
        | Inr fetchedNodes \<Rightarrow>
            if \<not> truthy fetchedNodes then (s, [ConsoleError (''Shard '' @ shard @ '' not found''), RouterPush ''/404''])
            else (s\<lparr>sp_nodesData := fetchedNodes\<rparr>, []))
      in (s'\<lparr>sp_loading := False\<rparr>, effs))"

definition sp_fetchData :: "axios \<Rightarrow> string \<Rightarrow> string \<Rightarrow> string \<Rightarrow> shard_page \<Rightarrow> shard_page \<times> effect list" where
  "sp_fetchData ax namespace cluster shard s = sp_fetch_end shard (fetchShard ax namespace cluster shard) s"

definition sp_refresh_begin :: "shard_page \<Rightarrow> shard_page" where
  "sp_refresh_begin s = s\<lparr>sp_loading := True\<rparr>"

definition sp_refresh_end :: "jsval res \<Rightarrow> shard_page \<Rightarrow> shard_page \<times> effect list" where
  "sp_refresh_end fetched s =
     (case fetched of
        Inr fetchedNodes \<Rightarrow> (s\<lparr>sp_nodesData := fetchedNodes, sp_loading := False\<rparr>, [])
      | Inl e \<Rightarrow> (s\<lparr>sp_loading := False\<rparr>, [ConsoleError ''Error refreshing shard data:'']))"

definition sp_refreshShardData :: "axios \<Rightarrow> string \<Rightarrow> string \<Rightarrow> string \<Rightarrow> shard_page \<Rightarrow> shard_page \<times> effect list" where
  "sp_refreshShardData ax namespace cluster shard s =
     sp_refresh_end (fetchShard ax namespace cluster shard) (sp_refresh_begin s)"

section \<open>Deleting a node\<close>

definition sp_delete_begin :: "nat \<Rightarrow> shard_page \<Rightarrow> shard_page" where
  "sp_delete_begin index s = s\<lparr>sp_deletingNodeIndex := Some index\<rparr>"

definition sp_delete_answered :: "jsval res \<Rightarrow> shard_page \<Rightarrow> (shard_page \<times> effect list) + shard_page" where
  \<comment> \<open>After the answer of \<^verbatim>\<open>deleteNode\<close>: the handler ends (Inl), or it reads the shard again (Inr).\<close>
  "sp_delete_answered deleted s =
     (case deleted of
        Inl e \<Rightarrow> Inl (s\<lparr>sp_deletingNodeIndex := None, sp_loading := False\<rparr>, [Alert (''Failed to delete node: '' @ error_string e)])
      | Inr r \<Rightarrow> if truthy r
          then Inl (s\<lparr>sp_deletingNodeIndex := None, sp_loading := False\<rparr>, [Alert (''Failed to delete node: '' @ js_to_string r)])
          else Inr (s\<lparr>sp_loading := True\<rparr>))"

definition sp_delete_refetched :: "jsval res \<Rightarrow> shard_page \<Rightarrow> shard_page \<times> effect list" where
  "sp_delete_refetched fetched s =
     (case fetched of
        Inr fetchedNodes \<Rightarrow> (s\<lparr>sp_nodesData := fetchedNodes, sp_deletingNodeIndex := None, sp_loading := False\<rparr>, [])
      | Inl e \<Rightarrow> (s\<lparr>sp_deletingNodeIndex := None, sp_loading := False\<rparr>, [Alert (''Failed to delete node: '' @ error_string e)]))"

definition sp_handleDelete ::
  "axios \<Rightarrow> string \<Rightarrow> string \<Rightarrow> string \<Rightarrow> bool \<Rightarrow> nat \<Rightarrow> Node \<Rightarrow> shard_page \<Rightarrow> shard_page \<times> effect list" where
  \<comment> \<open>The handler of a row's button, with the answer to \<^verbatim>\<open>confirm\<close>.\<close>
  "sp_handleDelete ax namespace cluster shard confirmed index node s =
     (if \<not> confirmed then (s, [])
      else (case sp_delete_answered (deleteNode ax namespace cluster shard (nd_id node)) (sp_delete_begin index s) of
          Inl ended \<Rightarrow> ended
        | Inr s' \<Rightarrow> sp_delete_refetched (fetchShard ax namespace cluster shard) s'))"

section \<open>The list\<close>

fun as_int :: "jsval \<Rightarrow> int res" where
  "as_int (JNum (Fin r)) = (if of_int \<lfloor>r\<rfloor> = r then Inr \<lfloor>r\<rfloor> else Inl (type_error ''not an integer''))"
| "as_int _ = Inl (type_error ''not an integer'')"

definition read_node :: "jsval \<Rightarrow> Node res" where
  "read_node v =
     rbind (get v ''id'') (\<lambda>i. rbind (as_string i) (\<lambda>nid.
     rbind (get v ''addr'') (\<lambda>a. rbind (as_string a) (\<lambda>addr.
     rbind (get v ''role'') (\<lambda>r. rbind (as_string r) (\<lambda>role.
     rbind (get v ''created_at'') (\<lambda>t. rbind (as_int t) (\<lambda>created.
       Inr \<lparr>nd_id = nid, nd_addr = addr, nd_role = role, nd_created_at = created\<rparr>))))))))"

definition sp_nodes :: "shard_page \<Rightarrow> Node list res" where
  \<comment> \<open>\<^verbatim>\<open>nodesData?.nodes || []\<close>\<close>
  "sp_nodes s = rbind (array_or_empty (oget (sp_nodesData s) ''nodes'')) (rmap read_node)"

definition hasReplicaNodes :: "jsval \<Rightarrow> bool res" where
  \<comment> \<open>\<^verbatim>\<open>nodesData?.nodes?.some(...) || false\<close>\<close>
  "hasReplicaNodes nodesData =
     (let nodes = oget nodesData ''nodes'' in
      if nullish nodes then Inr False else rbind (as_array ''nodes.some'' nodes)
        (js_some (\<lambda>node. rbind (get node ''role'') (\<lambda>role. Inr (role = JStr ''slave'')))))"

definition sp_calculateUptime :: "int \<Rightarrow> int \<Rightarrow> string" where
  "sp_calculateUptime date_now timestamp =
     (let now = date_now div 1000; uptimeSeconds = now - timestamp in
      if uptimeSeconds < 60 then show_int uptimeSeconds @ '' seconds''
      else if uptimeSeconds < 3600 then show_int (uptimeSeconds div 60) @ '' minutes''
      else if uptimeSeconds < 86400 then show_int (uptimeSeconds div 3600) @ '' hours''
      else show_int (uptimeSeconds div 86400) @ '' days'')"

definition sp_keep :: "list_controls \<Rightarrow> nat \<times> Node \<Rightarrow> bool" where
  "sp_keep c = (\<lambda>(idx, node).
     if \<not> js_includes (js_toLowerCase (''node '' @ show_nat (idx + 1))) (js_toLowerCase (lc_searchTerm c)) then False
     else if lc_filterOption c = ''master'' then nd_role node = ''master''
     else if lc_filterOption c = ''replica'' then nd_role node \<noteq> ''master''
     else True)"

definition node_index :: "Node \<Rightarrow> jsnum" where
  \<comment> \<open>\<^verbatim>\<open>node.index\<close> as an operand of a subtraction: nodes have no such field, and \<^verbatim>\<open>undefined\<close> is \<^verbatim>\<open>NaN\<close>.\<close>
  "node_index node = to_number JUndef"

definition sp_compare :: "list_controls \<Rightarrow> Node \<Rightarrow> Node \<Rightarrow> jsnum" where
  "sp_compare c a b =
     (if lc_sortOption c = ''index-asc'' then js_sub (node_index a) (node_index b)
      else if lc_sortOption c = ''index-desc'' then js_sub (node_index b) (node_index a)
      else if lc_sortOption c = ''uptime-desc'' then Fin (of_int (nd_created_at b - nd_created_at a))
      else if lc_sortOption c = ''uptime-asc'' then Fin (of_int (nd_created_at a - nd_created_at b))
      else Fin 0)"

definition sp_gt :: "list_controls \<Rightarrow> Node \<Rightarrow> Node \<Rightarrow> bool" where
  "sp_gt c a b \<longleftrightarrow> js_gt (sp_compare c a b) (Fin 0)"

definition filteredAndSortedNodes :: "list_controls \<Rightarrow> Node list \<Rightarrow> Node list" where
  "filteredAndSortedNodes c nodes = js_sort (sp_gt c) (map snd (filter (sp_keep c) (indexed nodes)))"

section \<open>View\<close>

datatype sp_act = SpCtl ctl_act | SpOpenFailover | SpCloseFailover | SpFailedOver | SpDelete nat Node

definition parse_plus_one :: "string \<Rightarrow> jsval" where
  \<comment> \<open>\<^verbatim>\<open>parseInt(s) + 1\<close>\<close>
  "parse_plus_one s = JNum (js_add (parseInt s) (Fin 1))"

definition sp_header :: "string \<Rightarrow> string \<Rightarrow> string \<Rightarrow> bool \<Rightarrow> shard_page \<Rightarrow> sp_act view" where
  "sp_header namespace cluster shard hasReplicas s =
     El ''div'' []
       [El ''div'' []
         [El ''Typography'' [] [El ''DnsIcon'' [] [], Txt ''Shard '', Ex (parse_plus_one shard)],
          El ''Typography'' [] [Txt ''Manage nodes in this shard'']],
        El ''div'' []
         [El ''div'' [] [search_box SpCtl ''div'' ''Search nodes...'' (sp_controls s)],
          El ''div'' []
            [El ''Button''
               [NA ''startIcon'' (El ''SwapHorizIcon'' [] []), BA ''disabled'' (\<not> hasReplicas), On ''onClick'' SpOpenFailover]
               [Txt ''Failover''],
             El ''NodeCreation''
               [SA ''position'' ''card'', SA ''namespace'' namespace, SA ''cluster'' cluster, SA ''shard'' shard]
               [El ''Button'' [NA ''startIcon'' (El ''AddIcon'' [] [])] [Txt ''Create Node'']]]]]"

definition span_option :: "string \<times> string \<Rightarrow> sp_act view" where
  "span_option = (\<lambda>(v, text).
     El ''div'' []
       [El ''FormControlLabel''
         [SA ''value'' v,
          NA ''control'' (El ''Radio'' [NA ''checkedIcon'' (El ''div'' [] [El ''CheckIcon'' [] []])] []),
          NA ''label'' (El ''span'' [] [Txt text])] []])"

definition sp_filter_popover :: "shard_page \<Rightarrow> sp_act view" where
  "sp_filter_popover s =
     filter_popover SpCtl ''Filter Nodes''
       (map span_option [(''all'', ''All nodes''), (''master'', ''Master nodes''), (''replica'', ''Replica nodes'')])
       (sp_controls s)"

definition sp_sort_popover :: "shard_page \<Rightarrow> sp_act view" where
  "sp_sort_popover s =
     sort_popover SpCtl ''Sort Nodes''
       (map span_option [(''index-asc'', ''Index 1-N''), (''index-desc'', ''Index N-1''),
         (''uptime-desc'', ''Newest''), (''uptime-asc'', ''Oldest'')])
       (sp_controls s)"

definition sp_row :: "int \<Rightarrow> string \<Rightarrow> string \<Rightarrow> string \<Rightarrow> shard_page \<Rightarrow> nat \<times> Node \<Rightarrow> sp_act view" where
  "sp_row date_now namespace cluster shard s = (\<lambda>(index, node).
     El ''div'' [VA ''key'' (JNat index)]
       [El ''Paper'' []
         [El ''div'' []
           [El ''div'' [] [El ''DeviceHubIcon'' [] []],
            El ''div'' []
              [El ''div'' []
                [El ''Link'' [SA ''href'' (node_href namespace cluster shard (show_nat index))]
                  [El ''div'' []
                     [El ''Typography'' [] [Txt ''Node '', Ex (JNat (index + 1))],
                      El ''div'' [] [El ''div'' [] [],
                        El ''span'' [] [Txt (if nd_role node = ''master'' then ''Master'' else ''Replica'')]]],
                   El ''div'' []
                     [El ''Typography'' [] [Txt ''ID:'', Txt '' '', El ''span'' [] [Txt (truncateText (nd_id node) 10)]],
                      El ''Typography'' [] [Txt ''Address:'', Txt '' '', El ''span'' [] [Txt (nd_addr node)]],
                      El ''Typography'' [] [El ''AlarmIcon'' [] [], Txt ''Uptime:'', Txt '' '',
                        Txt (sp_calculateUptime date_now (nd_created_at node))]]]]],
            El ''div'' []
              [El ''button'' [On ''onClick'' (SpDelete index node), BA ''disabled'' (sp_deletingNodeIndex s = Some index)]
                [El ''DeleteIcon'' [] []]]]]])"

definition sp_empty :: "shard_page \<Rightarrow> sp_act view" where
  "sp_empty s =
     El ''div'' []
       [El ''EmptyState''
         [SA ''title'' (if lc_filterOption (sp_controls s) \<noteq> ''all'' then ''No matching nodes'' else ''No nodes found''),
          SA ''description'' (if lc_filterOption (sp_controls s) \<noteq> ''all'' then ''Try changing your filter settings''
            else if lc_searchTerm (sp_controls s) \<noteq> [] then ''Try adjusting your search term''
            else ''Create a node to get started''),
          NA ''icon'' (El ''DeviceHubIcon'' [] [])] []]"

text \<open>The dialog's \<^verbatim>\<open>nodes\<close> are the page's nodes.\<close>

definition sp_view :: "int \<Rightarrow> string \<Rightarrow> string \<Rightarrow> string \<Rightarrow> shard_page \<Rightarrow> sp_act views res" where
  "sp_view date_now namespace cluster shard s =
     rbind (hasReplicaNodes (sp_nodesData s)) (\<lambda>hasReplicas.
      if sp_loading s then Inr [El ''LoadingSpinner'' [] []]
      else rbind (sp_nodes s) (\<lambda>nodes.
        let shown = filteredAndSortedNodes (sp_controls s) nodes in
        Inr
          [El ''div'' []
            [El ''ShardSidebar'' [SA ''namespace'' namespace, SA ''cluster'' cluster] [],
             El ''div'' []
               [El ''Box'' []
                  [sp_header namespace cluster shard hasReplicas s,
                   El ''Paper'' []
                     ([list_header SpCtl ''All Nodes'' (sp_controls s), sp_filter_popover s, sp_sort_popover s,
                       if length shown > 0
                       then El ''div'' [] (map (sp_row date_now namespace cluster shard s) (indexed shown))
                       else sp_empty s] @
                      when_view (length shown > 0)
                        [El ''div'' [] [El ''Typography'' []
                          [Txt ''Showing '', Ex (JNat (length shown)), Txt '' of'', Txt '' '', Ex (JNat (length nodes)), Txt '' nodes'']]])],
                El ''FailoverDialog''
                  [BA ''open'' (sp_failoverDialogOpen s), On ''onClose'' SpCloseFailover, SA ''namespace'' namespace,
                   SA ''cluster'' cluster, SA ''shard'' shard, On ''onSuccess'' SpFailedOver] []]]]))"

section \<open>The mounted page\<close>

text \<open>
  The page with its outstanding requests: the first reading of the shard, the readings that a
  successful failover starts, deletions, and the readings after a deletion. What the controller
  answers is arbitrary, and the answers arrive in any order with the user's steps.
\<close>

record sp_sys =
  ss_page :: shard_page
  ss_pending :: "page_request list"

definition sp_offers :: "int \<Rightarrow> string \<Rightarrow> string \<Rightarrow> string \<Rightarrow> sp_act \<Rightarrow> shard_page \<Rightarrow> bool" where
  "sp_offers t ns c sh a s \<longleftrightarrow> (case sp_view t ns c sh s of Inl e \<Rightarrow> False | Inr v \<Rightarrow> a \<in> set (all_enabled v))"

fun sp_answered :: "string \<Rightarrow> page_request \<Rightarrow> jsval res \<Rightarrow> shard_page \<Rightarrow> shard_page \<times> page_request list" where
  \<comment> \<open>The answer to a request, and the request that follows it.\<close>
  "sp_answered sh InitialFetch r s = (fst (sp_fetch_end sh r s), [])"
| "sp_answered sh Refresh r s = (fst (sp_refresh_end r s), [])"
| "sp_answered sh Deletion r s = (case sp_delete_answered r s of Inl ended \<Rightarrow> (fst ended, []) | Inr s' \<Rightarrow> (s', [Refetch]))"
| "sp_answered sh Refetch r s = (fst (sp_delete_refetched r s), [])"

inductive sp_step :: "string \<Rightarrow> string \<Rightarrow> string \<Rightarrow> sp_sys \<Rightarrow> sp_sys \<Rightarrow> bool" for ns c sh where
  answer: "ss_pending s = xs @ q # ys \<Longrightarrow> sp_answered sh q r (ss_page s) = (p, follow) \<Longrightarrow>
    sp_step ns c sh s \<lparr>ss_page = p, ss_pending = xs @ ys @ follow\<rparr>"
| failed_over: "sp_step ns c sh s (s\<lparr>ss_page := sp_refresh_begin (ss_page s), ss_pending := ss_pending s @ [Refresh]\<rparr>)"
| delete: "sp_offers t ns c sh (SpDelete i n) (ss_page s) \<Longrightarrow>
    sp_step ns c sh s (s\<lparr>ss_page := sp_delete_begin i (ss_page s), ss_pending := ss_pending s @ [Deletion]\<rparr>)"
| control: "sp_offers t ns c sh (SpCtl a) (ss_page s) \<Longrightarrow>
    sp_step ns c sh s (s\<lparr>ss_page := (ss_page s)\<lparr>sp_controls := lc_handle a v (sp_controls (ss_page s))\<rparr>\<rparr>)"
| open_failover: "sp_offers t ns c sh SpOpenFailover (ss_page s) \<Longrightarrow>
    sp_step ns c sh s (s\<lparr>ss_page := (ss_page s)\<lparr>sp_failoverDialogOpen := True\<rparr>\<rparr>)"
| close_failover: "sp_step ns c sh s (s\<lparr>ss_page := (ss_page s)\<lparr>sp_failoverDialogOpen := False\<rparr>\<rparr>)"

inductive sp_reachable :: "string \<Rightarrow> string \<Rightarrow> string \<Rightarrow> sp_sys \<Rightarrow> bool" for ns c sh where
  init: "sp_reachable ns c sh \<lparr>ss_page = sp_init, ss_pending = [InitialFetch]\<rparr>"
| step: "sp_reachable ns c sh s \<Longrightarrow> sp_step ns c sh s t \<Longrightarrow> sp_reachable ns c sh t"

section \<open>Facts\<close>

lemma uptime_equal: "sp_calculateUptime = calculateUptime"
  by (simp add: fun_eq_iff sp_calculateUptime_def calculateUptime_def)

lemma js_insert_map: "js_insert gt (f x) (map f ys) = map f (js_insert (\<lambda>a b. gt (f a) (f b)) x ys)"
  by (induction ys) auto

lemma js_sort_map: "js_sort gt (map f xs) = map f (js_sort (\<lambda>a b. gt (f a) (f b)) xs)"
  by (induction xs) (simp_all add: js_insert_map)

definition sp_row_gt :: "list_controls \<Rightarrow> nat \<times> Node \<Rightarrow> nat \<times> Node \<Rightarrow> bool" where
  "sp_row_gt c p q = sp_gt c (snd p) (snd q)"

interpretation node_list: list_page sp_keep sp_row_gt
  by unfold_locales (auto simp: js_comparator_def sp_row_gt_def sp_gt_def sp_compare_def node_index_def)

definition sp_listed :: "list_controls \<Rightarrow> Node list \<Rightarrow> (nat \<times> Node) list" where
  \<comment> \<open>The shown nodes with their positions in the shard, which the page forgets.\<close>
  "sp_listed c nodes = listed (sp_keep c) (sp_row_gt c) (indexed nodes)"

lemma filteredAndSortedNodes_listed: "filteredAndSortedNodes c nodes = map snd (sp_listed c nodes)"
  unfolding filteredAndSortedNodes_def sp_listed_def listed_def js_sort_map sp_row_gt_def [abs_def] ..

lemma sp_index_sorts:
  assumes "lc_sortOption c \<in> {''index-asc'', ''index-desc''}"
  shows "sp_listed c nodes = filter (sp_keep c) (indexed nodes)"
  unfolding sp_listed_def listed_def
  by (rule js_sort_never) (use assms in \<open>auto simp: sp_row_gt_def sp_gt_def sp_compare_def node_index_def\<close>)

section \<open>Settling\<close>

definition sp_deleting :: "shard_page \<Rightarrow> bool" where
  "sp_deleting s \<longleftrightarrow> sp_deletingNodeIndex s \<noteq> None"

lemma sp_answered_flags:
  "sp_answered sh q r s = (p, follow) \<Longrightarrow>
     (follow = [] \<or> q = Deletion \<and> follow = [Refetch])
     \<and> (sp_loading p \<longrightarrow> follow = [Refetch])
     \<and> (sp_deleting p \<longrightarrow> follow = [Refetch] \<or> (q \<in> {InitialFetch, Refresh} \<and> sp_deleting s))"
  by (cases q) (auto simp: sp_fetch_end_def sp_refresh_end_def sp_delete_answered_def sp_delete_refetched_def sp_deleting_def Let_def
    split: sum.splits if_splits)

interpretation shard_flags: settling_page sp_loading sp_deleting "sp_answered sh" for sh
  by unfold_locales (use sp_answered_flags in blast)+

lemma sp_deleting_frame [simp]:
  "sp_deleting (s\<lparr>sp_loading := b\<rparr>) = sp_deleting s" "sp_deleting (s\<lparr>sp_controls := c\<rparr>) = sp_deleting s"
  "sp_deleting (s\<lparr>sp_failoverDialogOpen := b\<rparr>) = sp_deleting s"
  by (simp_all add: sp_deleting_def)

lemma sp_step_flags:
  "sp_step ns c sh s t \<Longrightarrow> shard_flags.flags_ok (ss_page s) (ss_pending s) \<Longrightarrow> shard_flags.flags_ok (ss_page t) (ss_pending t)"
proof (induction rule: sp_step.induct)
  case (answer s xs q ys r p follow)
  then show ?case using shard_flags.flags_answer [of "ss_page s" xs q ys sh r p follow] by simp
qed (auto intro: shard_flags.flags_refresh shard_flags.flags_delete elim!: shard_flags.flags_edit
  simp: sp_refresh_begin_def sp_delete_begin_def)

lemma sp_reachable_flags: "sp_reachable ns c sh s \<Longrightarrow> shard_flags.flags_ok (ss_page s) (ss_pending s)"
proof (induction rule: sp_reachable.induct)
  case init
  have "\<not> sp_deleting sp_init" by (simp add: sp_init_def sp_deleting_def)
  then show ?case by (simp add: shard_flags.flags_start)
qed (rule sp_step_flags)

text \<open>
  C20: The shard page always comes to rest. From every reachable state, however the outstanding requests
  are answered and in whatever order, there are at most two answers per request, and when none is
  outstanding the page shows its list and not the spinner, and no row is marked as being deleted.
\<close>
theorem shard_page_settles:
  assumes "sp_reachable ns c sh s" "(answer_step (sp_answered sh) ^^ n) (ss_page s, ss_pending s) (t, pending)"
  shows "n \<le> 2 * length (ss_pending s)
    \<and> ((\<nexists>d. answer_step (sp_answered sh) (t, pending) d) \<longrightarrow> \<not> sp_loading t \<and> sp_deletingNodeIndex t = None)"
  using shard_flags.settles [OF sp_reachable_flags [OF assms(1)] assms(2)] by (simp add: sp_deleting_def)

theorem shard_page_settles_witness:
  "\<exists>t. (answer_step (sp_answered ''0'') ^^ 1) (sp_init, [InitialFetch]) (t, []) \<and> \<not> sp_loading t \<and> sp_nodesData t = JObj []"
proof -
  let ?t = "sp_init\<lparr>sp_nodesData := JObj [], sp_loading := False\<rparr>"
  have "sp_answered ''0'' InitialFetch (Inr (JObj [])) sp_init = (?t, [])" by (simp add: sp_fetch_end_def)
  then have "answer_step (sp_answered ''0'') (sp_init, [InitialFetch]) (?t, [])"
    unfolding answer_step_def by (intro exI [of _ "[]"] exI [of _ InitialFetch] exI conjI) simp_all
  then have a: "(answer_step (sp_answered ''0'') ^^ 1) (sp_init, [InitialFetch]) (?t, [])" by (simp only: relpowp_1)
  have r: "sp_reachable ''ns'' ''c'' ''0'' \<lparr>ss_page = sp_init, ss_pending = [InitialFetch]\<rparr>" by (rule sp_reachable.init)
  have "(\<nexists>d. answer_step (sp_answered ''0'') (?t, []) d) \<longrightarrow> \<not> sp_loading ?t"
    using shard_page_settles [OF r, unfolded sp_sys.select_convs, OF a] by blast
  with a show ?thesis by (intro exI [of _ ?t] conjI) (simp_all add: answer_step_possible)
qed

section \<open>The rows\<close>

lemma read_node_role: "read_node v = Inr n \<Longrightarrow> get v ''role'' = Inr (JStr (nd_role n))"
  by (auto simp: read_node_def elim!: as_string.elims)

lemma some_slave_nodes:
  "rmap read_node vs = Inr nodes \<Longrightarrow>
   js_some (\<lambda>node. rbind (get node ''role'') (\<lambda>role. Inr (role = JStr ''slave''))) vs = Inr (slaveNodes nodes \<noteq> [])"
  by (induction vs arbitrary: nodes) (auto simp: slaveNodes_def read_node_role)

lemma hasReplicaNodes_nodes:
  assumes "sp_nodes s = Inr nodes" "hasReplicaNodes (sp_nodesData s) = Inr b"
  shows "b \<longleftrightarrow> slaveNodes nodes \<noteq> []"
proof (cases "oget (sp_nodesData s) ''nodes''")
  case (JArr vs)
  with assms some_slave_nodes [of vs nodes] show ?thesis
    by (simp add: sp_nodes_def hasReplicaNodes_def as_array_def)
qed (use assms in \<open>auto simp: sp_nodes_def hasReplicaNodes_def as_array_def slaveNodes_def split: if_splits\<close>)

lemma sp_parts_hrefs [simp]:
  "hrefs (sp_header ns c sh b s) = []" "hrefs (span_option e) = []" "hrefs (sp_empty s) = []"
  "hrefs (sp_filter_popover s) = []" "hrefs (sp_sort_popover s) = []"
  "hrefs (sp_row t ns c sh s r) = [node_href ns c sh (show_nat (fst r))]"
  by (auto simp: sp_header_def span_option_def sp_empty_def sp_filter_popover_def sp_sort_popover_def sp_row_def split: prod.splits)

lemma sp_parts_deletes [simp]:
  "SpDelete i n \<notin> set (actions (sp_header ns c sh b s))" "SpDelete i n \<notin> set (actions (sp_empty s))"
  "SpDelete i n \<notin> set (actions (sp_filter_popover s))" "SpDelete i n \<notin> set (actions (sp_sort_popover s))"
  "SpDelete i n \<notin> set (actions (list_header SpCtl t' lc))"
  "SpDelete i n \<in> set (actions (sp_row t ns c sh s r)) \<longleftrightarrow> r = (i, n)"
  by (auto simp: sp_header_def span_option_def sp_empty_def sp_filter_popover_def sp_sort_popover_def sp_row_def part_defs when_view_def
    split: prod.splits)

lemma sp_parts_no_failover:
  "SpOpenFailover \<notin> set (actions (sp_empty s))" "SpOpenFailover \<notin> set (actions (list_header SpCtl t' lc))"
  "SpOpenFailover \<notin> set (actions (sp_filter_popover s))" "SpOpenFailover \<notin> set (actions (sp_sort_popover s))"
  "SpOpenFailover \<notin> set (actions (sp_row t ns c sh s r))"
  by (auto simp: span_option_def sp_empty_def sp_filter_popover_def sp_sort_popover_def sp_row_def part_defs when_view_def
    split: prod.splits)

lemmas sp_parts_failover [simp] = sp_parts_no_failover [THEN not_enabled]

lemma sp_header_failover [simp]: "SpOpenFailover \<in> set (enabled_actions (sp_header ns c sh b s)) \<longleftrightarrow> b"
  by (auto simp: sp_header_def search_box_def when_view_def)

lemma sp_view_rows:
  assumes "sp_view t ns c sh s = Inr v" "\<not> sp_loading s" "sp_nodes s = Inr nodes"
  shows "all_hrefs v = map (\<lambda>i. node_href ns c sh (show_nat i)) [0..<length (filteredAndSortedNodes (sp_controls s) nodes)]"
    and "SpDelete i n \<in> set (all_actions v) \<longleftrightarrow> (i, n) \<in> set (indexed (filteredAndSortedNodes (sp_controls s) nodes))"
    and "SpOpenFailover \<in> set (all_enabled v) \<longleftrightarrow> slaveNodes nodes \<noteq> []"
proof -
  obtain b where b: "hasReplicaNodes (sp_nodesData s) = Inr b" using assms(1) by (auto simp: sp_view_def rbind_eq_Inr)
  let ?shown = "filteredAndSortedNodes (sp_controls s) nodes"
  note v = assms(1) [unfolded sp_view_def b assms(3) rbind_simps(1) Let_def] assms(2)
  have "all_hrefs v = concat (map (\<lambda>r. [node_href ns c sh (show_nat (fst r))]) (indexed ?shown))"
    using v by (cases "?shown = []") (auto simp: comp_def)
  then show "all_hrefs v = map (\<lambda>i. node_href ns c sh (show_nat i)) [0..<length ?shown]"
    by (simp only: concat_map_fst_indexed [where f = "\<lambda>i. node_href ns c sh (show_nat i)"])
  show "SpDelete i n \<in> set (all_actions v) \<longleftrightarrow> (i, n) \<in> set (indexed ?shown)"
    using v by (cases "?shown = []") (auto simp: comp_def)
  have "SpOpenFailover \<in> set (all_enabled v) \<longleftrightarrow> b"
    using v by (cases "?shown = []") (auto simp: comp_def split: if_splits)
  then show "SpOpenFailover \<in> set (all_enabled v) \<longleftrightarrow> slaveNodes nodes \<noteq> []"
    using hasReplicaNodes_nodes [OF assms(3) b] by simp
qed

text \<open>A shard with a master and a replica, on a page filtered by an option.\<close>

definition two_nodes :: "Node list" where
  "two_nodes = [\<lparr>nd_id = ''m'', nd_addr = ''h:1'', nd_role = ''master'', nd_created_at = 0\<rparr>,
     \<lparr>nd_id = ''r'', nd_addr = ''h:2'', nd_role = ''slave'', nd_created_at = 0\<rparr>]"

definition node_json :: "Node \<Rightarrow> jsval" where
  "node_json n = JObj [(''id'', JStr (nd_id n)), (''addr'', JStr (nd_addr n)), (''role'', JStr (nd_role n)),
     (''created_at'', JNum (Fin (of_int (nd_created_at n))))]"

definition two_nodes_page :: "string \<Rightarrow> shard_page" where
  "two_nodes_page flt = sp_init\<lparr>sp_nodesData := JObj [(''nodes'', JArr (map node_json two_nodes))], sp_loading := False,
     sp_controls := lc_init flt ''index-asc''\<rparr>"

lemma read_node_json [simp]: "read_node (node_json n) = Inr n"
  by (simp add: read_node_def node_json_def get_def)

lemma two_nodes_page_nodes: "sp_nodes (two_nodes_page flt) = Inr two_nodes"
  by (simp add: sp_nodes_def two_nodes_page_def two_nodes_def)

lemma two_nodes_page_loaded [simp]: "\<not> sp_loading (two_nodes_page flt)"
  "lc_filterOption (sp_controls (two_nodes_page flt)) = flt" "lc_sortOption (sp_controls (two_nodes_page flt)) = ''index-asc''"
  by (simp_all add: two_nodes_page_def lc_init_def)

lemma two_nodes_page_view: obtains v where "sp_view t ns c sh (two_nodes_page flt) = Inr v"
proof -
  have "hasReplicaNodes (sp_nodesData (two_nodes_page flt)) = Inr True"
    by (simp add: hasReplicaNodes_def two_nodes_page_def two_nodes_def node_json_def get_def as_array_def)
  then show ?thesis by (intro that) (simp add: sp_view_def two_nodes_page_nodes Let_def)
qed

lemma two_nodes_replicas: "length (filteredAndSortedNodes (sp_controls (two_nodes_page ''replica'')) two_nodes) = 1"
  by (simp add: filteredAndSortedNodes_def two_nodes_page_def two_nodes_def indexed_def sp_keep_def lc_init_def js_toLowerCase_def)



text \<open>
  The shard page offers the failover dialog exactly when that dialog, once open, offers its start
  button: when the shard has a replica.
\<close>
theorem shard_page_failover_button:
  assumes "sp_view t ns c sh s = Inr v" "\<not> sp_loading s" "sp_nodes s = Inr nodes"
  shows "SpOpenFailover \<in> set (all_enabled v) \<longleftrightarrow> FoFailover \<in> set (all_enabled (fo_view True nodes fo_init))"
proof -
  have "FoFailover \<in> set (all_enabled (fo_view True nodes fo_init))" if "slaveNodes nodes \<noteq> []"
    using that by (auto simp: fo_view_def fo_actions_def fo_init_def)
  then show ?thesis using sp_view_rows(3) [OF assms] fo_failover_enabled [of True nodes fo_init] by blast
qed

theorem shard_page_failover_button_witness:
  "\<exists>v. sp_view 0 ''ns'' ''c'' ''0'' (two_nodes_page ''all'') = Inr v \<and> SpOpenFailover \<in> set (all_enabled v)"
proof -
  obtain v where v: "sp_view 0 ''ns'' ''c'' ''0'' (two_nodes_page ''all'') = Inr v" by (rule two_nodes_page_view)
  have "FoFailover \<in> set (all_enabled (fo_view True two_nodes fo_init))"
    by (simp add: fo_view_def fo_actions_def fo_init_def slaveNodes_def two_nodes_def)
  with shard_page_failover_button [OF v two_nodes_page_loaded(1) two_nodes_page_nodes] v show ?thesis by blast
qed

lemma sorted_wrt_indexed: "sorted_wrt (<) (map fst (filter P (indexed xs)))"
  unfolding sorted_wrt_map by (rule sorted_wrt_filter) (simp add: sorted_wrt_iff_nth_less)

lemma filter_indexed_position:
  assumes "i < length (filter P (indexed xs))" "\<And>j y. (j, y) \<in> set (filter P (indexed xs)) \<Longrightarrow> k \<le> j"
  shows "i + k \<le> fst (filter P (indexed xs) ! i)"
  using assms(1)
proof (induction i)
  case 0
  then show ?case using assms(2) [of "fst (filter P (indexed xs) ! 0)" "snd (filter P (indexed xs) ! 0)"] by (simp del: set_filter)
next
  case (Suc i)
  have "map fst (filter P (indexed xs)) ! i < map fst (filter P (indexed xs)) ! Suc i"
    using sorted_wrt_nth_less [OF sorted_wrt_indexed] Suc.prems by (metis length_map lessI)
  then show ?case using Suc by simp
qed

text \<open>
  A filtered list is numbered anew. When the shard's first node is its master and the page is
  filtered to the replicas, the i-th row is labelled and linked as node i although the node it shows
  has a later position in the shard.
\<close>
theorem shard_rows_misnumbered:
  assumes "sp_view t ns c sh s = Inr v" "\<not> sp_loading s" "sp_nodes s = Inr nodes"
    and "lc_filterOption (sp_controls s) = ''replica''" "lc_sortOption (sp_controls s) = ''index-asc''"
    and "nodes \<noteq> []" "nd_role (nodes ! 0) = ''master''"
    and "i < length (filteredAndSortedNodes (sp_controls s) nodes)"
  shows "all_hrefs v ! i = node_href ns c sh (show_nat i)
    \<and> (\<exists>j>i. j < length nodes \<and> filteredAndSortedNodes (sp_controls s) nodes ! i = nodes ! j)"
proof -
  let ?l = "filter (sp_keep (sp_controls s)) (indexed nodes)"
  have l: "sp_listed (sp_controls s) nodes = ?l" by (rule sp_index_sorts) (simp add: assms(5))
  have i: "i < length ?l" using assms(8) by (simp add: filteredAndSortedNodes_listed l)
  have pos: "(j, y) \<in> set ?l \<Longrightarrow> 1 \<le> j" for j y
    using assms(4,7) by (cases j) (auto simp: in_set_indexed sp_keep_def split: if_splits)
  have "i + 1 \<le> fst (?l ! i)" using i by (rule filter_indexed_position) (rule pos)
  then have "i < fst (?l ! i)" by simp
  moreover have "?l ! i \<in> set (indexed nodes)" using nth_mem [OF i] by simp
  ultimately have "\<exists>j>i. j < length nodes \<and> filteredAndSortedNodes (sp_controls s) nodes ! i = nodes ! j"
    using i by (cases "?l ! i") (auto simp: in_set_indexed filteredAndSortedNodes_listed l)
  moreover have "all_hrefs v ! i = node_href ns c sh (show_nat i)"
    using assms(8) by (simp add: sp_view_rows(1) [OF assms(1-3)])
  ultimately show ?thesis by blast
qed

theorem shard_rows_misnumbered_witness:
  "\<exists>v. sp_view 0 ''ns'' ''c'' ''0'' (two_nodes_page ''replica'') = Inr v
     \<and> all_hrefs v ! 0 = node_href ''ns'' ''c'' ''0'' (show_nat 0)
     \<and> filteredAndSortedNodes (sp_controls (two_nodes_page ''replica'')) two_nodes ! 0 = two_nodes ! 1"
proof -
  obtain v where v: "sp_view 0 ''ns'' ''c'' ''0'' (two_nodes_page ''replica'') = Inr v" by (rule two_nodes_page_view)
  have n: "two_nodes \<noteq> []" "nd_role (two_nodes ! 0) = ''master''" "length two_nodes = 2" by (simp_all add: two_nodes_def)
  have l: "0 < length (filteredAndSortedNodes (sp_controls (two_nodes_page ''replica'')) two_nodes)"
    by (simp only: two_nodes_replicas zero_less_one)
  obtain j where "j > 0" "j < length two_nodes" "all_hrefs v ! 0 = node_href ''ns'' ''c'' ''0'' (show_nat 0)"
    "filteredAndSortedNodes (sp_controls (two_nodes_page ''replica'')) two_nodes ! 0 = two_nodes ! j"
    using shard_rows_misnumbered [OF v two_nodes_page_loaded(1) two_nodes_page_nodes two_nodes_page_loaded(2,3) n(1,2) l] by blast
  moreover from this n(3) have "j = 1" by simp
  ultimately show ?thesis using v by blast
qed

text \<open>
  The two sort options by index do not order the nodes: nodes have no index, and both options
  leave the nodes in the order of the shard.
\<close>
theorem shard_index_sorts_ignored:
  "filteredAndSortedNodes (c\<lparr>lc_sortOption := ''index-desc''\<rparr>) nodes
   = filteredAndSortedNodes (c\<lparr>lc_sortOption := ''index-asc''\<rparr>) nodes
   \<and> filteredAndSortedNodes (c\<lparr>lc_sortOption := ''index-desc''\<rparr>) nodes
   = map snd (filter (sp_keep c) (indexed nodes))"
  by (simp add: filteredAndSortedNodes_listed sp_index_sorts sp_keep_def)

end
