(* ===== verification/NamespacesPage.thy ===== *)
theory NamespacesPage
  imports PageParts Api
begin

text \<open>
  The page with all namespaces, \<^verbatim>\<open>webui/src/app/namespaces/page.tsx\<close>: counting the clusters, shards and
  nodes of every namespace, deleting a namespace, the filtered and sorted list and the view. The handler
  of a deletion closes over the rows of the render in which its button was pressed; they are an argument
  of its model. The order of names is the parameter \<open>compare\<close>.
\<close>

section \<open>State\<close>

record NamespaceData =
  nsd_name :: jsval
  nsd_clusterCount :: nat
  nsd_shardCount :: nat
  nsd_nodeCount :: nat

record nss_counts =
  sc_namespaces :: int
  sc_clusters :: nat
  sc_shards :: nat
  sc_nodes :: nat

record namespaces_page =
  nss_namespacesData :: "NamespaceData list"
  nss_resourceCounts :: nss_counts
  nss_loading :: bool
  nss_deletingNamespace :: "string option"
  nss_controls :: list_controls

definition nss_init :: namespaces_page where
  "nss_init = \<lparr>nss_namespacesData = [], nss_resourceCounts = \<lparr>sc_namespaces = 0, sc_clusters = 0, sc_shards = 0, sc_nodes = 0\<rparr>,
     nss_loading = True, nss_deletingNamespace = None, nss_controls = lc_init ''all'' ''name-asc''\<rparr>"

section \<open>Counting\<close>

fun node_loop :: "axios \<Rightarrow> string \<Rightarrow> string \<Rightarrow> nat list \<Rightarrow> nat \<Rightarrow> nat \<Rightarrow> (nat \<times> nat) res" where
  \<comment> \<open>The loop over the shards of a cluster, with \<^verbatim>\<open>namespaceNodeCount\<close> and \<^verbatim>\<open>totalNodes\<close>.\<close>
  "node_loop ax namespace cluster [] nsNodes totalNodes = Inr (nsNodes, totalNodes)"
| "node_loop ax namespace cluster (i # is) nsNodes totalNodes =
     rbind (listNodes ax namespace cluster (show_nat i)) (\<lambda>nodes. case nodes of
         JArr xs \<Rightarrow> node_loop ax namespace cluster is (nsNodes + length xs) (totalNodes + length xs)
       | _ \<Rightarrow> node_loop ax namespace cluster is nsNodes totalNodes)"

fun cluster_loop :: "axios \<Rightarrow> string \<Rightarrow> jsval list \<Rightarrow> nat \<Rightarrow> nat \<Rightarrow> nat \<Rightarrow> nat \<Rightarrow> (nat \<times> nat \<times> nat \<times> nat) res" where
  \<comment> \<open>The loop over the clusters of a namespace, with \<^verbatim>\<open>namespaceShardCount\<close>, \<^verbatim>\<open>namespaceNodeCount\<close>,
      \<^verbatim>\<open>totalShards\<close> and \<^verbatim>\<open>totalNodes\<close>.\<close>
  "cluster_loop ax namespace [] nsShards nsNodes totalShards totalNodes = Inr (nsShards, nsNodes, totalShards, totalNodes)"
| "cluster_loop ax namespace (cluster # clusters) nsShards nsNodes totalShards totalNodes =
     (let name = js_to_string cluster in
      rbind (listShards ax namespace name) (\<lambda>shards. case shards of
          JArr xs \<Rightarrow> rbind (node_loop ax namespace name [0..<length xs] nsNodes totalNodes) (\<lambda>(nsNodes', totalNodes').
            cluster_loop ax namespace clusters (nsShards + length xs) nsNodes' (totalShards + length xs) totalNodes')
        | _ \<Rightarrow> cluster_loop ax namespace clusters nsShards nsNodes totalShards totalNodes))"

fun namespace_loop ::
  "axios \<Rightarrow> jsval list \<Rightarrow> nat \<Rightarrow> nat \<Rightarrow> nat \<Rightarrow> NamespaceData list \<Rightarrow> (NamespaceData list \<times> nat \<times> nat \<times> nat) res" where
  \<comment> \<open>The loop over the namespaces, with \<^verbatim>\<open>totalClusters\<close>, \<^verbatim>\<open>totalShards\<close>, \<^verbatim>\<open>totalNodes\<close> and \<^verbatim>\<open>nsData\<close>.\<close>
  "namespace_loop ax [] totalClusters totalShards totalNodes nsData = Inr (nsData, totalClusters, totalShards, totalNodes)"
| "namespace_loop ax (namespace # namespaces) totalClusters totalShards totalNodes nsData =
     rbind (fetchClusters ax (js_to_string namespace)) (\<lambda>clusters.
     rbind (iterate clusters) (\<lambda>cs.
     rbind (cluster_loop ax (js_to_string namespace) cs 0 0 totalShards totalNodes) (\<lambda>(nsShards, nsNodes, totalShards', totalNodes').
       namespace_loop ax namespaces (totalClusters + length cs) totalShards' totalNodes'
         (nsData @ [\<lparr>nsd_name = namespace, nsd_clusterCount = length cs, nsd_shardCount = nsShards, nsd_nodeCount = nsNodes\<rparr>]))))"

definition nss_load :: "axios \<Rightarrow> (NamespaceData list \<times> nss_counts) res" where
  "nss_load ax =
     rbind (fetchNamespaces ax) (\<lambda>fetchedNamespaces.
     rbind (iterate fetchedNamespaces) (\<lambda>namespaces.
     rbind (namespace_loop ax namespaces 0 0 0 []) (\<lambda>(nsData, totalClusters, totalShards, totalNodes).
       Inr (nsData, \<lparr>sc_namespaces = int (length namespaces), sc_clusters = totalClusters, sc_shards = totalShards,
         sc_nodes = totalNodes\<rparr>))))"

definition nss_fetchData :: "axios \<Rightarrow> namespaces_page \<Rightarrow> namespaces_page \<times> effect list" where
  "nss_fetchData ax s =
     (case nss_load ax of
        Inr (nsData, counts) \<Rightarrow> (s\<lparr>nss_namespacesData := nsData, nss_resourceCounts := counts, nss_loading := False\<rparr>, [])
      | Inl e \<Rightarrow> (s\<lparr>nss_loading := False\<rparr>, [ConsoleError ''Error fetching namespaces data:'']))"

section \<open>Deleting a namespace\<close>

definition nss_delete_begin :: "string \<Rightarrow> namespaces_page \<Rightarrow> namespaces_page" where
  "nss_delete_begin namespace s = s\<lparr>nss_deletingNamespace := Some namespace\<rparr>"

definition nss_delete_end :: "NamespaceData list \<Rightarrow> string \<Rightarrow> jsval res \<Rightarrow> namespaces_page \<Rightarrow> namespaces_page \<times> effect list" where
  \<comment> \<open>The first argument is \<^verbatim>\<open>namespacesData\<close> of the render in which the button was pressed.\<close>
  "nss_delete_end namespacesData namespace deleted s =
     (let (s', effs) = (case deleted of
          Inr _ \<Rightarrow>
            (s\<lparr>nss_namespacesData := filter (\<lambda>ns. \<not> strict_eq (nsd_name ns) (JStr namespace)) namespacesData,
               nss_resourceCounts := (nss_resourceCounts s)\<lparr>sc_namespaces := sc_namespaces (nss_resourceCounts s) - 1\<rparr>\<rparr>, [])
        | Inl e \<Rightarrow> (s, [ConsoleError (''Error deleting namespace '' @ namespace @ '':''),
                       Alert (''Failed to delete namespace: '' @ error_string e)]))
      in (s'\<lparr>nss_deletingNamespace := None\<rparr>, effs))"

definition handleDeleteNamespace :: "axios \<Rightarrow> bool \<Rightarrow> string \<Rightarrow> namespaces_page \<Rightarrow> namespaces_page \<times> effect list" where
  \<comment> \<open>The whole handler when nothing else happens in between.\<close>
  "handleDeleteNamespace ax confirmed namespace s =
     (if confirmed
      then nss_delete_end (nss_namespacesData s) namespace (deleteNamespace ax namespace) (nss_delete_begin namespace s)
      else (s, []))"

section \<open>The list\<close>

definition namespace_name :: "NamespaceData \<Rightarrow> string" where
  \<comment> \<open>The name where it is a string; the list raises on other names before it uses this.\<close>
  "namespace_name ns = (case nsd_name ns of JStr s \<Rightarrow> s | _ \<Rightarrow> [])"

definition nss_keep :: "list_controls \<Rightarrow> NamespaceData \<Rightarrow> bool" where
  "nss_keep c ns =
     (if \<not> js_includes (js_toLowerCase (namespace_name ns)) (js_toLowerCase (lc_searchTerm c)) then False
      else if lc_filterOption c = ''with-clusters'' then nsd_clusterCount ns > 0
      else if lc_filterOption c = ''no-clusters'' then nsd_clusterCount ns = 0
      else True)"

definition nss_compare :: "(string \<Rightarrow> string \<Rightarrow> int) \<Rightarrow> list_controls \<Rightarrow> NamespaceData \<Rightarrow> NamespaceData \<Rightarrow> int" where
  "nss_compare compare c a b =
     (if lc_sortOption c = ''name-asc'' then compare (namespace_name a) (namespace_name b)
      else if lc_sortOption c = ''name-desc'' then compare (namespace_name b) (namespace_name a)
      else if lc_sortOption c = ''clusters-desc'' then int (nsd_clusterCount b) - int (nsd_clusterCount a)
      else if lc_sortOption c = ''clusters-asc'' then int (nsd_clusterCount a) - int (nsd_clusterCount b)
      else if lc_sortOption c = ''nodes-desc'' then int (nsd_nodeCount b) - int (nsd_nodeCount a)
      else if lc_sortOption c = ''nodes-asc'' then int (nsd_nodeCount a) - int (nsd_nodeCount b)
      else 0)"

definition nss_gt :: "(string \<Rightarrow> string \<Rightarrow> int) \<Rightarrow> list_controls \<Rightarrow> NamespaceData \<Rightarrow> NamespaceData \<Rightarrow> bool" where
  "nss_gt compare c a b \<longleftrightarrow> nss_compare compare c a b > 0"

definition filteredAndSortedNamespaces :: "(string \<Rightarrow> string \<Rightarrow> int) \<Rightarrow> namespaces_page \<Rightarrow> NamespaceData list res" where
  "filteredAndSortedNamespaces compare s =
     rbind (rmap (\<lambda>ns. as_string (nsd_name ns)) (nss_namespacesData s)) (\<lambda>_.
       Inr (listed (nss_keep (nss_controls s)) (nss_gt compare (nss_controls s)) (nss_namespacesData s)))"

section \<open>View\<close>

datatype nss_act = NssCtl ctl_act | NssDelete string | NssClickCreate

definition nss_header :: "namespaces_page \<Rightarrow> nss_act view" where
  "nss_header s =
     El ''div'' []
       [El ''div'' []
         [El ''Typography'' [] [Txt ''Namespaces''],
          El ''Typography'' [] [Txt ''Manage your Kvrocks database namespaces'']],
        El ''div'' []
         [El ''div'' [] [search_box NssCtl ''div'' ''Search namespaces...'' (nss_controls s)],
          El ''div'' []
            [El ''NamespaceCreation'' [SA ''position'' ''page'']
               [El ''Button'' [NA ''startIcon'' (El ''AddIcon'' [] [])] [Txt ''Create Namespace'']]]]]"

definition nss_cards :: "namespaces_page \<Rightarrow> nss_act view" where
  "nss_cards s =
     (let n = nss_resourceCounts s in
      El ''div'' []
        [El ''Grid'' []
          [stat_card ''div'' ''FolderIcon'' (JNum (Fin (of_int (sc_namespaces n)))) ''Namespaces'',
           stat_card ''div'' ''StorageIcon'' (JNat (sc_clusters n)) ''Clusters'',
           stat_card ''div'' ''DnsIcon'' (JNat (sc_shards n)) ''Shards'',
           stat_card ''div'' ''DeviceHubIcon'' (JNat (sc_nodes n)) ''Nodes'']])"

definition nss_filter_popover :: "namespaces_page \<Rightarrow> nss_act view" where
  "nss_filter_popover s =
     (let d = nss_namespacesData s in
      filter_popover NssCtl ''Filter Namespaces''
        [filter_entry ''Box'' (''all'', ''All namespaces'', length d),
         filter_entry ''div'' (''with-clusters'', ''With clusters'', length (filter (\<lambda>ns. nsd_clusterCount ns > 0) d)),
         filter_entry ''Box'' (''no-clusters'', ''No clusters'', length (filter (\<lambda>ns. nsd_clusterCount ns = 0) d))]
        (nss_controls s))"

definition nss_sort_popover :: "namespaces_page \<Rightarrow> nss_act view" where
  "nss_sort_popover s =
     sort_popover NssCtl ''Sort By''
       [El ''div'' [] [Txt ''Name''],
        El ''div'' [] (map (sort_entry ''Box'')
          [(''name-asc'', ''ArrowUpwardIcon'', ''A to Z''), (''name-desc'', ''ArrowDownwardIcon'', ''Z to A'')]),
        El ''div'' [] [Txt ''Clusters''],
        El ''div'' [] (map (sort_entry ''Box'')
          [(''clusters-desc'', ''ArrowDownwardIcon'', ''Most clusters''), (''clusters-asc'', ''ArrowUpwardIcon'', ''Fewest clusters'')]),
        El ''div'' [] [Txt ''Nodes''],
        El ''div'' [] (map (sort_entry ''Box'')
          [(''nodes-desc'', ''ArrowDownwardIcon'', ''Most nodes''), (''nodes-asc'', ''ArrowUpwardIcon'', ''Fewest nodes'')])]
       (nss_controls s)"

definition nss_row :: "namespaces_page \<Rightarrow> NamespaceData \<Rightarrow> nss_act view" where
  "nss_row s ns =
     El ''div'' [VA ''key'' (nsd_name ns)]
       [El ''Paper'' []
         [El ''div'' []
           [El ''div'' [] [El ''FolderIcon'' [] []],
            El ''div'' []
              [El ''div'' []
                 [El ''Link'' [SA ''href'' (namespace_href (namespace_name ns))]
                   [El ''Typography'' [] [Ex (nsd_name ns)],
                    El ''Typography'' [] [El ''AccessTimeIcon'' [] [], Txt ''Created recently'']]],
               El ''div'' []
                 [El ''Chip'' [NA ''icon'' (El ''StorageIcon'' [] []), SA ''label'' (show_nat (nsd_clusterCount ns) @ '' clusters'')] [],
                  El ''Chip'' [NA ''icon'' (El ''DnsIcon'' [] []), SA ''label'' (show_nat (nsd_shardCount ns) @ '' shards'')] [],
                  El ''Chip'' [NA ''icon'' (El ''DeviceHubIcon'' [] []), SA ''label'' (show_nat (nsd_nodeCount ns) @ '' nodes'')] []],
               El ''div'' []
                 [El ''div'' [] [El ''Typography'' [] [Txt ''Clusters''], El ''Typography'' [] [Ex (JNat (nsd_clusterCount ns))]],
                  El ''div'' [] [El ''Typography'' [] [Txt ''Shards''], El ''Typography'' [] [Ex (JNat (nsd_shardCount ns))]],
                  El ''div'' [] [El ''Typography'' [] [Txt ''Nodes''], El ''Typography'' [] [Ex (JNat (nsd_nodeCount ns))]]],
               El ''div'' []
                 [El ''button''
                    [On ''onClick'' (NssDelete (namespace_name ns)),
                     BA ''disabled'' (nss_deletingNamespace s = Some (namespace_name ns))]
                    [El ''DeleteIcon'' [] []],
                  El ''Link'' [SA ''href'' (namespace_href (namespace_name ns))] [El ''ChevronRightIcon'' [] []]]]]]]"

definition nss_empty :: "namespaces_page \<Rightarrow> nss_act view" where
  "nss_empty s =
     El ''div'' []
       [El ''EmptyState''
          [SA ''title'' (if lc_filterOption (nss_controls s) \<noteq> ''all'' then ''No matching namespaces'' else ''No namespaces found''),
           SA ''description'' (if lc_filterOption (nss_controls s) \<noteq> ''all'' then ''Try changing your filter settings''
             else if lc_searchTerm (nss_controls s) \<noteq> [] then ''Try adjusting your search term''
             else ''Create a namespace to get started''),
           NA ''icon'' (El ''FolderOpenIcon'' [] []), SA ''action.label'' ''Create Namespace'', On ''action.onClick'' NssClickCreate] [],
        El ''div'' []
          [El ''NamespaceCreation'' [SA ''position'' ''page''] [El ''Button'' [SA ''id'' ''create-namespace-btn''] [Txt ''Create'']]]]"

definition nss_view :: "(string \<Rightarrow> string \<Rightarrow> int) \<Rightarrow> namespaces_page \<Rightarrow> nss_act views res" where
  \<comment> \<open>The list is computed before the test of \<^verbatim>\<open>loading\<close>.\<close>
  "nss_view compare s =
     rbind (filteredAndSortedNamespaces compare s) (\<lambda>shown.
       if nss_loading s then Inr [El ''LoadingSpinner'' [] []]
       else Inr
         [El ''div'' []
           [El ''div'' [] [El ''NamespaceSidebar'' [] []],
            El ''div'' []
              [El ''Box'' []
                [nss_header s,
                 nss_cards s,
                 El ''Paper'' []
                   ([list_header NssCtl ''All Namespaces'' (nss_controls s), nss_filter_popover s, nss_sort_popover s,
                     if length shown > 0 then El ''div'' [] (map (nss_row s) shown) else nss_empty s] @
                    when_view (length shown > 0)
                      [El ''div'' [] [El ''Typography'' []
                        ([Txt ''Showing '', Ex (JNat (length shown)), Txt '' of'', Txt '' '',
                          Ex (JNat (length (nss_namespacesData s))), Txt '' namespaces''] @
                         when_view (lc_filterOption (nss_controls s) \<noteq> ''all'') [Txt '' (filtered)''])]])]]]])"

section \<open>The mounted page\<close>

text \<open>
  The page with its first reading and its outstanding deletions, each with the rows its handler closes
  over. Answers arrive in any order with the user's steps.
\<close>

record nss_sys =
  nx_page :: namespaces_page
  nx_fetching :: bool
  nx_deletes :: "(string \<times> NamespaceData list) list"

definition nss_offers :: "(string \<Rightarrow> string \<Rightarrow> int) \<Rightarrow> nss_act \<Rightarrow> namespaces_page \<Rightarrow> bool" where
  "nss_offers compare a s \<longleftrightarrow> (case nss_view compare s of Inl e \<Rightarrow> False | Inr v \<Rightarrow> a \<in> set (all_enabled v))"

inductive nss_step :: "(string \<Rightarrow> string \<Rightarrow> int) \<Rightarrow> nss_sys \<Rightarrow> nss_sys \<Rightarrow> bool" for compare where
  fetched: "nx_fetching s \<Longrightarrow> nss_step compare s (s\<lparr>nx_page := fst (nss_fetchData ax (nx_page s)), nx_fetching := False\<rparr>)"
| delete: "nss_offers compare (NssDelete name) (nx_page s) \<Longrightarrow>
    nss_step compare s (s\<lparr>nx_page := nss_delete_begin name (nx_page s),
      nx_deletes := nx_deletes s @ [(name, nss_namespacesData (nx_page s))]\<rparr>)"
| deleted: "nx_deletes s = xs @ (name, captured) # ys \<Longrightarrow> deleteNamespace ax name = r \<Longrightarrow>
    nss_step compare s (s\<lparr>nx_page := fst (nss_delete_end captured name r (nx_page s)), nx_deletes := xs @ ys\<rparr>)"
| control: "nss_offers compare (NssCtl a) (nx_page s) \<Longrightarrow>
    nss_step compare s (s\<lparr>nx_page := (nx_page s)\<lparr>nss_controls := lc_handle a v (nss_controls (nx_page s))\<rparr>\<rparr>)"

inductive nss_reachable :: "(string \<Rightarrow> string \<Rightarrow> int) \<Rightarrow> nss_sys \<Rightarrow> bool" for compare where
  init: "nss_reachable compare \<lparr>nx_page = nss_init, nx_fetching = True, nx_deletes = []\<rparr>"
| step: "nss_reachable compare s \<Longrightarrow> nss_step compare s t \<Longrightarrow> nss_reachable compare t"

section \<open>The counts\<close>

lemma node_loop_counts: "node_loop ax ns c is a b = Inr (a', b') \<Longrightarrow> \<exists>n. a' = a + n \<and> b' = b + n"
proof (induction "is" arbitrary: a b)
  case (Cons i "is")
  then obtain nodes where l: "listNodes ax ns c (show_nat i) = Inr nodes" by auto
  show ?case
  proof (cases "\<exists>xs. nodes = JArr xs")
    case True
    then obtain xs :: "jsval list" where "node_loop ax ns c is (a + length xs) (b + length xs) = Inr (a', b')" using Cons.prems l by auto
    from Cons.IH [OF this] show ?thesis by (metis add.assoc)
  next
    case False
    then have "node_loop ax ns c is a b = Inr (a', b')" using Cons.prems l by (cases nodes) simp_all
    then show ?thesis by (rule Cons.IH)
  qed
qed simp

lemma cluster_loop_counts:
  "cluster_loop ax ns cs sh nd tsh tnd = Inr (sh', nd', tsh', tnd') \<Longrightarrow> \<exists>m n. sh' = sh + m \<and> tsh' = tsh + m \<and> nd' = nd + n \<and> tnd' = tnd + n"
proof (induction cs arbitrary: sh nd tsh tnd)
  case (Cons c cs)
  then obtain shards where l: "listShards ax ns (js_to_string c) = Inr shards" by (auto simp: Let_def)
  show ?case
  proof (cases "\<exists>xs. shards = JArr xs")
    case True
    then obtain xs :: "jsval list" and nd1 tnd1 where n: "node_loop ax ns (js_to_string c) [0..<length xs] nd tnd = Inr (nd1, tnd1)"
      and "cluster_loop ax ns cs (sh + length xs) nd1 (tsh + length xs) tnd1 = Inr (sh', nd', tsh', tnd')"
      using Cons.prems l by (auto simp: Let_def)
    with Cons.IH [OF this(2)] node_loop_counts [OF n] show ?thesis by fastforce
  next
    case False
    then have "cluster_loop ax ns cs sh nd tsh tnd = Inr (sh', nd', tsh', tnd')"
      using Cons.prems l by (cases shards) (auto simp: Let_def)
    then show ?thesis by (rule Cons.IH)
  qed
qed simp

lemma namespace_loop_counts:
  "namespace_loop ax nss a b c ds = Inr (ds', a', b', c') \<Longrightarrow>
   \<exists>new. ds' = ds @ new \<and> map nsd_name new = nss \<and> a' = a + sum_list (map nsd_clusterCount new)
     \<and> b' = b + sum_list (map nsd_shardCount new) \<and> c' = c + sum_list (map nsd_nodeCount new)"
proof (induction nss arbitrary: a b c ds)
  case (Cons ns nss)
  then obtain cs :: "jsval list" and sh nd b1 c1 where l: "cluster_loop ax (js_to_string ns) cs 0 0 b c = Inr (sh, nd, b1, c1)"
    and r: "namespace_loop ax nss (a + length cs) b1 c1
      (ds @ [\<lparr>nsd_name = ns, nsd_clusterCount = length cs, nsd_shardCount = sh, nsd_nodeCount = nd\<rparr>]) = Inr (ds', a', b', c')"
    by auto
  from Cons.IH [OF r] cluster_loop_counts [OF l] show ?case by force
qed simp

lemma namespace_loop_rows:
  "namespace_loop ax nss a b c ds = Inr (ds', r) \<Longrightarrow> d \<in> set ds' - set ds \<Longrightarrow>
   \<exists>v cs b1 c1 b2 c2. fetchClusters ax (js_to_string (nsd_name d)) = Inr v \<and> iterate v = Inr cs \<and> nsd_clusterCount d = length cs
     \<and> cluster_loop ax (js_to_string (nsd_name d)) cs 0 0 b1 c1 = Inr (nsd_shardCount d, nsd_nodeCount d, b2, c2)"
proof (induction nss arbitrary: a b c ds)
  case (Cons ns nss)
  then obtain v cs sh nd b1 c1 where f: "fetchClusters ax (js_to_string ns) = Inr v" "iterate v = Inr cs"
    and l: "cluster_loop ax (js_to_string ns) cs 0 0 b c = Inr (sh, nd, b1, c1)"
    and r: "namespace_loop ax nss (a + length cs) b1 c1
      (ds @ [\<lparr>nsd_name = ns, nsd_clusterCount = length cs, nsd_shardCount = sh, nsd_nodeCount = nd\<rparr>]) = Inr (ds', r)"
    by auto
  show ?case
  proof (cases "d = \<lparr>nsd_name = ns, nsd_clusterCount = length cs, nsd_shardCount = sh, nsd_nodeCount = nd\<rparr>")
    case True
    with f l show ?thesis by auto
  next
    case False
    with Cons.IH [OF r] Cons.prems(2) show ?thesis by simp
  qed
qed simp

text \<open>
  The cards of the namespaces page show the totals of its rows. Whatever the server answers, when
  reading succeeds there is one row per namespace, in order, and the running totals of the three nested
  loops are the sums of what the rows count.
\<close>
theorem namespaces_page_totals:
  assumes "nss_load ax = Inr (ds, n)"
  shows "sc_namespaces n = int (length ds) \<and> sc_clusters n = sum_list (map nsd_clusterCount ds)
    \<and> sc_shards n = sum_list (map nsd_shardCount ds) \<and> sc_nodes n = sum_list (map nsd_nodeCount ds)
    \<and> (\<forall>names. fetchNamespaces ax = Inr (JArr names) \<longrightarrow> map nsd_name ds = names)"
proof -
  obtain v names a b c where v: "fetchNamespaces ax = Inr v" "iterate v = Inr names"
    and l: "namespace_loop ax names 0 0 0 [] = Inr (ds, a, b, c)"
    and n: "n = \<lparr>sc_namespaces = int (length names), sc_clusters = a, sc_shards = b, sc_nodes = c\<rparr>"
    using assms by (auto simp: nss_load_def)
  from namespace_loop_counts [OF l] have d: "map nsd_name ds = names" "a = sum_list (map nsd_clusterCount ds)"
    "b = sum_list (map nsd_shardCount ds)" "c = sum_list (map nsd_nodeCount ds)" by auto
  from d(1) have "length names = length ds" by (metis length_map)
  with d v n show ?thesis by auto
qed

theorem namespaces_page_totals_witness:
  "\<exists>d. nss_load (\<lambda>req. if req = GET namespaces_url then Inr (JObj [(''data'', JObj [(''namespaces'', JArr [JStr ''n''])])])
       else Inr (JObj [(''data'', JObj [(''clusters'', JArr [])])]))
     = Inr ([d], \<lparr>sc_namespaces = 1, sc_clusters = 0, sc_shards = 0, sc_nodes = 0\<rparr>) \<and> nsd_name d = JStr ''n''"
proof -
  let ?ax = "\<lambda>req. if req = GET namespaces_url then Inr (JObj [(''data'', JObj [(''namespaces'', JArr [JStr ''n''])])])
       else Inr (JObj [(''data'', JObj [(''clusters'', JArr [])])])"
  let ?d = "\<lparr>nsd_name = JStr ''n'', nsd_clusterCount = 0, nsd_shardCount = 0, nsd_nodeCount = 0\<rparr>"
  have f: "fetchNamespaces ?ax = Inr (JArr [JStr ''n''])" by (simp add: api_simps)
  have c: "fetchClusters ?ax ''n'' = Inr (JArr [])" by (simp add: api_simps)
  have "nss_load ?ax = Inr ([?d], \<lparr>sc_namespaces = 1, sc_clusters = 0, sc_shards = 0, sc_nodes = 0\<rparr>)"
    by (simp add: nss_load_def f c)
  with namespaces_page_totals [OF this] f show ?thesis by (intro exI [of _ ?d]) simp
qed

section \<open>Deletions\<close>

text \<open>
  The namespaces page ignores the answer to a deletion. Whatever the controller answers, a refusal
  included, confirming a deletion removes the row and lowers the count of namespaces, without a message;
  the counts of clusters, shards and nodes stay as they were.
\<close>
theorem namespaces_delete_unconditional:
  "\<exists>t. handleDeleteNamespace ax True ns s = (t, [])
     \<and> nss_namespacesData t = filter (\<lambda>d. \<not> strict_eq (nsd_name d) (JStr ns)) (nss_namespacesData s)
     \<and> nss_resourceCounts t = (nss_resourceCounts s)\<lparr>sc_namespaces := sc_namespaces (nss_resourceCounts s) - 1\<rparr>
     \<and> nss_deletingNamespace t = None"
  using deleteNamespace_api.never_raises [of ax ns]
  by (auto simp: handleDeleteNamespace_def nss_delete_end_def nss_delete_begin_def)

definition nss_read :: "namespaces_page \<Rightarrow> (string \<times> NamespaceData list) list \<Rightarrow> bool" where
  \<comment> \<open>The rows, also those that a handler closes over, and the three other counts come from one reading.\<close>
  "nss_read s deletes \<longleftrightarrow> (\<exists>ds n. (ds, n) \<in> {([], nss_resourceCounts nss_init)} \<union> {l. \<exists>ax. nss_load ax = Inr l}
     \<and> set (nss_namespacesData s) \<subseteq> set ds \<and> (\<forall>(name, captured)\<in>set deletes. set captured \<subseteq> set ds)
     \<and> sc_clusters (nss_resourceCounts s) = sc_clusters n \<and> sc_shards (nss_resourceCounts s) = sc_shards n
     \<and> sc_nodes (nss_resourceCounts s) = sc_nodes n)"

definition nss_inv :: "nss_sys \<Rightarrow> bool" where
  "nss_inv s \<longleftrightarrow>
     (nss_loading (nx_page s) \<longleftrightarrow> nx_fetching s) \<and> (nx_fetching s \<longrightarrow> nx_deletes s = [])
     \<and> (nss_deletingNamespace (nx_page s) \<noteq> None \<longrightarrow> nx_deletes s \<noteq> []) \<and> nss_read (nx_page s) (nx_deletes s)"

lemma nss_view_loading: "nss_loading s \<Longrightarrow> \<not> nss_offers compare a s"
  by (auto simp: nss_offers_def nss_view_def split: sum.splits)

lemma nss_read_fetched:
  assumes "nss_read s []"
  shows "nss_read (fst (nss_fetchData ax s)) []"
proof (cases "nss_load ax")
  case (Inr l)
  then show ?thesis unfolding nss_read_def
    by (intro exI [of _ "fst l"] exI [of _ "snd l"]) (auto simp: nss_fetchData_def split: prod.splits)
qed (use assms in \<open>simp add: nss_read_def nss_fetchData_def\<close>)

lemma nss_read_deleted:
  assumes "nss_read s (xs @ (name, captured) # ys)"
  shows "nss_read (fst (nss_delete_end captured name r s)) (xs @ ys)"
proof -
  obtain ds n where d: "(ds, n) \<in> {([], nss_resourceCounts nss_init)} \<union> {l. \<exists>ax. nss_load ax = Inr l}"
    "set (nss_namespacesData s) \<subseteq> set ds" "\<forall>(name, captured)\<in>set (xs @ (name, captured) # ys). set captured \<subseteq> set ds"
    "sc_clusters (nss_resourceCounts s) = sc_clusters n" "sc_shards (nss_resourceCounts s) = sc_shards n"
    "sc_nodes (nss_resourceCounts s) = sc_nodes n"
    using assms unfolding nss_read_def by blast
  show ?thesis unfolding nss_read_def
    using d by (intro exI [of _ ds] exI [of _ n]) (auto simp: nss_delete_end_def Let_def split: sum.splits)
qed

lemma nss_inv_step: "nss_step compare s t \<Longrightarrow> nss_inv s \<Longrightarrow> nss_inv t"
proof (induction rule: nss_step.induct)
  case (fetched s ax)
  have "\<not> nss_loading (fst (nss_fetchData ax (nx_page s)))"
    "nss_deletingNamespace (fst (nss_fetchData ax (nx_page s))) = nss_deletingNamespace (nx_page s)"
    by (simp_all add: nss_fetchData_def split: sum.splits prod.splits)
  with fetched show ?case using nss_read_fetched [of "nx_page s" ax] by (auto simp: nss_inv_def)
next
  case (delete name s)
  then have "\<not> nss_loading (nx_page s)" using nss_view_loading by blast
  with delete show ?case by (auto simp: nss_inv_def nss_read_def nss_delete_begin_def)
next
  case (deleted s xs name captured ys ax r)
  have "nss_deletingNamespace (fst (nss_delete_end captured name r (nx_page s))) = None"
    "nss_loading (fst (nss_delete_end captured name r (nx_page s))) = nss_loading (nx_page s)"
    by (simp_all add: nss_delete_end_def Let_def split: sum.splits)
  with deleted show ?case using nss_read_deleted [of "nx_page s" xs name captured ys r] by (simp add: nss_inv_def)
next
  case (control a s v)
  then show ?case by (simp add: nss_inv_def nss_read_def)
qed

lemma nss_reachable_inv: "nss_reachable compare s \<Longrightarrow> nss_inv s"
proof (induction rule: nss_reachable.induct)
  case init
  have "nss_read nss_init []" unfolding nss_read_def by (intro exI [of _ "[]"] exI [of _ "nss_resourceCounts nss_init"]) (simp add: nss_init_def)
  then show ?case by (simp add: nss_inv_def nss_init_def)
qed (rule nss_inv_step)

text \<open>
  In every reachable state of the namespaces page: the spinner shows exactly while the first reading
  is outstanding, a row is marked as being deleted only while a deletion is, and the rows and the counts
  of clusters, shards and nodes are those of one reading, however deletions interleave.
\<close>
theorem namespaces_page_invariant:
  assumes "nss_reachable compare s"
  shows "(nss_loading (nx_page s) \<longleftrightarrow> nx_fetching s)
    \<and> (nss_deletingNamespace (nx_page s) \<noteq> None \<longrightarrow> nx_deletes s \<noteq> [])
    \<and> (nss_namespacesData (nx_page s) \<noteq> [] \<longrightarrow> (\<exists>ax ds n. nss_load ax = Inr (ds, n)
         \<and> set (nss_namespacesData (nx_page s)) \<subseteq> set ds \<and> sc_clusters (nss_resourceCounts (nx_page s)) = sc_clusters n
         \<and> sc_shards (nss_resourceCounts (nx_page s)) = sc_shards n \<and> sc_nodes (nss_resourceCounts (nx_page s)) = sc_nodes n))"
  using nss_reachable_inv [OF assms] by (auto simp: nss_inv_def nss_read_def)

text \<open>A server with two namespaces and nothing in them, which accepts every deletion.\<close>

definition two_namespaces :: axios where
  "two_namespaces req =
     (if req = GET namespaces_url then Inr (JObj [(''data'', JObj [(''namespaces'', JArr [JStr ''a'', JStr ''b''])])])
      else Inr (JObj [(''data'', JObj [(''clusters'', JArr [])])]))"

definition empty_row :: "string \<Rightarrow> NamespaceData" where
  "empty_row name = \<lparr>nsd_name = JStr name, nsd_clusterCount = 0, nsd_shardCount = 0, nsd_nodeCount = 0\<rparr>"

lemma two_namespaces_load:
  "nss_load two_namespaces = Inr ([empty_row ''a'', empty_row ''b''], \<lparr>sc_namespaces = 2, sc_clusters = 0, sc_shards = 0, sc_nodes = 0\<rparr>)"
proof -
  have "fetchNamespaces two_namespaces = Inr (JArr [JStr ''a'', JStr ''b''])"
    by (simp add: api_simps two_namespaces_def)
  moreover have "fetchClusters two_namespaces ''a'' = Inr (JArr [])" "fetchClusters two_namespaces ''b'' = Inr (JArr [])"
    by (simp_all add: api_simps two_namespaces_def)
  ultimately show ?thesis by (simp add: nss_load_def empty_row_def)
qed

definition two_rows :: namespaces_page where
  "two_rows = fst (nss_fetchData two_namespaces nss_init)"

lemma two_rows_simps [simp]:
  "nss_namespacesData two_rows = [empty_row ''a'', empty_row ''b'']" "\<not> nss_loading two_rows" "nss_deletingNamespace two_rows = None"
  "nss_controls two_rows = lc_init ''all'' ''name-asc''" "sc_namespaces (nss_resourceCounts two_rows) = 2"
  by (simp_all add: two_rows_def nss_fetchData_def two_namespaces_load nss_init_def)

lemma two_rows_reachable: "nss_reachable compare \<lparr>nx_page = two_rows, nx_fetching = False, nx_deletes = []\<rparr>"
  using nss_reachable.step [OF nss_reachable.init nss_step.fetched, of compare two_namespaces] by (simp add: two_rows_def)

theorem namespaces_page_invariant_witness:
  "\<exists>(s :: nss_sys) ax ds n. nss_namespacesData (nx_page s) \<noteq> [] \<and> nss_load ax = Inr (ds, n) \<and> set (nss_namespacesData (nx_page s)) \<subseteq> set ds"
  using namespaces_page_invariant [OF two_rows_reachable [of code_compare]]
  by (intro exI [of _ "\<lparr>nx_page = two_rows, nx_fetching = False, nx_deletes = []\<rparr>"]) auto

section \<open>The rows\<close>

lemma nss_comparator: "locale_compare compare \<Longrightarrow> js_comparator (nss_gt compare c)"
  by (rule locale_compare.comparator_of [where f = namespace_name and g = nsd_clusterCount and h = nsd_nodeCount], assumption)
    (simp add: fun_eq_iff nss_gt_def nss_compare_def)

sublocale locale_compare < namespace_rows: list_page nss_keep "nss_gt compare"
  by (intro list_page.intro nss_comparator locale_compare_axioms)

context locale_compare begin

lemma namespaces_listing: "listing_ok (nss_keep c) (nss_gt compare c) rows (listed (nss_keep c) (nss_gt compare c) rows)"
  by (rule namespace_rows.listing)

end

lemma nss_parts_hrefs [simp]:
  "hrefs (nss_header s) = []" "hrefs (nss_cards s) = []" "hrefs (nss_filter_popover s) = []" "hrefs (nss_sort_popover s) = []"
  "hrefs (nss_empty s) = []" "hrefs (nss_row s d) = [namespace_href (namespace_name d), namespace_href (namespace_name d)]"
  by (simp_all add: nss_header_def nss_cards_def nss_filter_popover_def nss_sort_popover_def nss_empty_def nss_row_def Let_def)

lemma nss_parts_deletes:
  "NssDelete n \<notin> set (actions (nss_header s))" "NssDelete n \<notin> set (actions (nss_cards s))"
  "NssDelete n \<notin> set (actions (nss_filter_popover s))" "NssDelete n \<notin> set (actions (nss_sort_popover s))"
  "NssDelete n \<notin> set (actions (nss_empty s))" "NssDelete n \<notin> set (actions (list_header NssCtl t lc))"
  by (simp_all add: nss_header_def nss_cards_def nss_filter_popover_def nss_sort_popover_def nss_empty_def part_defs when_view_def Let_def)

lemmas nss_parts_disabled = nss_parts_deletes [THEN not_enabled]

lemma enabled_nss_row [simp]:
  "enabled_actions (nss_row s d) = (if nss_deletingNamespace s = Some (namespace_name d) then [] else [NssDelete (namespace_name d)])"
  "actions (nss_row s d) = [NssDelete (namespace_name d)]"
  by (simp_all add: nss_row_def)

lemma nss_view_rows:
  assumes "nss_view compare s = Inr v" "\<not> nss_loading s" "filteredAndSortedNamespaces compare s = Inr shown"
  shows "all_hrefs v = concat (map (\<lambda>d. [namespace_href (namespace_name d), namespace_href (namespace_name d)]) shown)"
    and "NssDelete n \<in> set (all_actions v) \<longleftrightarrow> n \<in> namespace_name ` set shown"
    and "NssDelete n \<in> set (all_enabled v) \<longleftrightarrow> n \<in> namespace_name ` set shown \<and> nss_deletingNamespace s \<noteq> Some n"
proof -
  note v = assms(1) [unfolded nss_view_def assms(3) rbind_simps(1)] assms(2)
  show "all_hrefs v = concat (map (\<lambda>d. [namespace_href (namespace_name d), namespace_href (namespace_name d)]) shown)"
    using v by (cases "shown = []") (auto simp: comp_def when_view_def)
  show "NssDelete n \<in> set (all_actions v) \<longleftrightarrow> n \<in> namespace_name ` set shown"
    using v by (cases "shown = []") (auto simp: comp_def nss_parts_deletes when_view_def)
  show "NssDelete n \<in> set (all_enabled v) \<longleftrightarrow> n \<in> namespace_name ` set shown \<and> nss_deletingNamespace s \<noteq> Some n"
    using v by (cases "shown = []") (auto simp: comp_def nss_parts_disabled when_view_def split: if_splits)
qed


lemma two_rows_shown: "\<exists>shown. filteredAndSortedNamespaces code_compare two_rows = Inr shown \<and> namespace_name ` set shown = {''a'', ''b''}"
  by (auto simp: filteredAndSortedNamespaces_def listed_def nss_keep_def lc_init_def js_toLowerCase_def empty_row_def namespace_name_def)


section \<open>Overlapping deletions\<close>

lemma nss_offers_delete:
  assumes "filteredAndSortedNamespaces compare s = Inr shown" "\<not> nss_loading s"
  shows "nss_offers compare (NssDelete n) s \<longleftrightarrow> n \<in> namespace_name ` set shown \<and> nss_deletingNamespace s \<noteq> Some n"
proof -
  obtain v where v: "nss_view compare s = Inr v" using assms by (simp add: nss_view_def)
  show ?thesis using nss_view_rows(3) [OF v assms(2,1)] v by (simp add: nss_offers_def)
qed

lemma filteredAndSortedNamespaces_frame [simp]:
  "filteredAndSortedNamespaces compare (s\<lparr>nss_deletingNamespace := d\<rparr>) = filteredAndSortedNamespaces compare s"
  by (simp add: filteredAndSortedNamespaces_def)

lemma nss_offers_row:
  assumes "nss_offers compare (NssDelete n) s"
  obtains shown where "filteredAndSortedNamespaces compare s = Inr shown" "n \<in> namespace_name ` set shown" "\<not> nss_loading s"
proof -
  have l: "\<not> nss_loading s" using assms nss_view_loading by blast
  obtain v where "nss_view compare s = Inr v" using assms by (auto simp: nss_offers_def split: sum.splits)
  then obtain shown where f: "filteredAndSortedNamespaces compare s = Inr shown" by (auto simp: nss_view_def)
  show ?thesis using that [OF f _ l] nss_offers_delete [OF f l] assms by blast
qed

lemma deleteNamespace_answers: "\<exists>v. deleteNamespace ax n = Inr v"
  using deleteNamespace_api.never_raises [of ax n] by blast

text \<open>
  Overlapping deletions bring a row back. When the user deletes two namespaces and both requests are
  answered, in this order, the page shows the first one again, because the second handler writes the rows
  of the render in which its button was pressed; the count of namespaces has been lowered twice.
\<close>
theorem namespaces_row_returns:
  assumes "nss_reachable compare s" "nx_deletes s = []" "a \<noteq> b"
    and "nss_offers compare (NssDelete a) (nx_page s)" "nss_offers compare (NssDelete b) (nx_page s)"
  shows "\<exists>t. nss_reachable compare t \<and> nx_deletes t = []
    \<and> nss_namespacesData (nx_page t) = filter (\<lambda>d. \<not> strict_eq (nsd_name d) (JStr b)) (nss_namespacesData (nx_page s))
    \<and> sc_namespaces (nss_resourceCounts (nx_page t)) = sc_namespaces (nss_resourceCounts (nx_page s)) - 2"
proof -
  let ?rows = "nss_namespacesData (nx_page s)"
  define s1 where "s1 = s\<lparr>nx_page := nss_delete_begin a (nx_page s), nx_deletes := nx_deletes s @ [(a, ?rows)]\<rparr>"
  have r1: "nss_reachable compare s1"
    using nss_reachable.step [OF assms(1) nss_step.delete [OF assms(4)]] by (simp add: s1_def)
  obtain shown where "filteredAndSortedNamespaces compare (nx_page s) = Inr shown" "b \<in> namespace_name ` set shown" "\<not> nss_loading (nx_page s)"
    using nss_offers_row [OF assms(5)] by blast
  then have "nss_offers compare (NssDelete b) (nx_page s1)"
    using nss_offers_delete [of compare "nx_page s1" shown b] assms(3) by (simp add: s1_def nss_delete_begin_def)
  from nss_reachable.step [OF r1 nss_step.delete [OF this]] obtain s2 where r2: "nss_reachable compare s2"
    and s2: "nx_deletes s2 = [] @ (a, ?rows) # [(b, ?rows)]" "nss_resourceCounts (nx_page s2) = nss_resourceCounts (nx_page s)"
    by (simp add: s1_def nss_delete_begin_def assms(2))
  obtain v where v: "deleteNamespace two_namespaces a = Inr v" using deleteNamespace_answers by blast
  from nss_reachable.step [OF r2 nss_step.deleted [OF s2(1) v]] obtain s3 where r3: "nss_reachable compare s3"
    and s3: "nx_deletes s3 = [] @ (b, ?rows) # []"
    "sc_namespaces (nss_resourceCounts (nx_page s3)) = sc_namespaces (nss_resourceCounts (nx_page s)) - 1"
    by (simp add: nss_delete_end_def s2(2))
  obtain w where w: "deleteNamespace two_namespaces b = Inr w" using deleteNamespace_answers by blast
  from nss_reachable.step [OF r3 nss_step.deleted [OF s3(1) w]] show ?thesis
    by (intro exI conjI, assumption) (simp_all add: nss_delete_end_def s3(2))
qed

theorem namespaces_row_returns_witness:
  "\<exists>t :: nss_sys. nx_deletes t = [] \<and> nss_namespacesData (nx_page t) = [empty_row ''a''] \<and> sc_namespaces (nss_resourceCounts (nx_page t)) = 0"
proof -
  let ?s = "\<lparr>nx_page = two_rows, nx_fetching = False, nx_deletes = []\<rparr>"
  obtain shown where f: "filteredAndSortedNamespaces code_compare two_rows = Inr shown" "namespace_name ` set shown = {''a'', ''b''}"
    using two_rows_shown by blast
  then have o: "nss_offers code_compare (NssDelete ''a'') (nx_page ?s)" "nss_offers code_compare (NssDelete ''b'') (nx_page ?s)"
    using nss_offers_delete [OF f(1)] by simp_all
  have "''a'' \<noteq> ''b''" by simp
  from namespaces_row_returns [OF two_rows_reachable _ this o] show ?thesis by (auto simp: empty_row_def)
qed

end
