(* ===== verification/SidebarItem.thy ===== *)
theory SidebarItem
  imports View Api
begin

text \<open>
  One entry of a sidebar, \<^verbatim>\<open>webui/src/app/ui/sidebarItem.tsx\<close>: the menu, the confirmation dialog, the
  deletion it runs and the entry's view. The path of the current page is a parameter of the view.
\<close>

section \<open>Props and state\<close>

datatype item_props =
    NamespaceItem (item: string)
  | ClusterItem (item: string) string
  | ShardItem (item: string) string string
  | NodeItem (item: string) string string string string \<comment> \<open>namespace, cluster, shard, id\<close>

fun item_type :: "item_props \<Rightarrow> string" where
  "item_type (NamespaceItem _) = ''namespace''"
| "item_type (ClusterItem _ _) = ''cluster''"
| "item_type (ShardItem _ _ _) = ''shard''"
| "item_type (NodeItem _ _ _ _ _) = ''node''"

record sidebar_item =
  si_hover :: bool
  si_showMenu :: bool
  si_showDeleteConfirm :: bool
  si_errorMessage :: jsval

definition si_init :: sidebar_item where
  "si_init = \<lparr>si_hover = False, si_showMenu = False, si_showDeleteConfirm = False, si_errorMessage = JStr []\<rparr>"

section \<open>Handlers\<close>

definition si_openMenu :: "sidebar_item \<Rightarrow> sidebar_item" where
  "si_openMenu s = s\<lparr>si_showMenu := True\<rparr>"

definition si_closeMenu :: "sidebar_item \<Rightarrow> sidebar_item" where
  "si_closeMenu s = s\<lparr>si_showMenu := False, si_hover := False\<rparr>"

definition si_openDeleteConfirmDialog :: "sidebar_item \<Rightarrow> sidebar_item" where
  "si_openDeleteConfirmDialog s = si_closeMenu (s\<lparr>si_showDeleteConfirm := True\<rparr>)"

definition si_closeDeleteConfirmDialog :: "sidebar_item \<Rightarrow> sidebar_item" where
  "si_closeDeleteConfirmDialog s = s\<lparr>si_showDeleteConfirm := False\<rparr>"

definition si_mouseEnter :: "sidebar_item \<Rightarrow> sidebar_item" where
  "si_mouseEnter s = s\<lparr>si_hover := True\<rparr>"

definition si_mouseLeave :: "sidebar_item \<Rightarrow> sidebar_item" where
  "si_mouseLeave s = (if \<not> si_showMenu s then s\<lparr>si_hover := False\<rparr> else s)"

definition si_dismiss :: "sidebar_item \<Rightarrow> sidebar_item" where
  "si_dismiss s = s\<lparr>si_errorMessage := JStr []\<rparr>"

definition tab :: char where "tab = CHR 0x09"

definition second_part :: "string \<Rightarrow> string" where
  \<comment> \<open>\<^verbatim>\<open>String(s.split("\t")[1])\<close>\<close>
  "second_part s = (case js_split tab s of p # q # _ \<Rightarrow> q | _ \<Rightarrow> ''undefined'')"

definition shard_number :: "string \<Rightarrow> jsnum" where
  "shard_number s = js_sub (parseInt (second_part s)) (Fin 1)"

fun item_delete :: "axios \<Rightarrow> item_props \<Rightarrow> jsval res" where
  "item_delete ax (NamespaceItem i) = deleteNamespace ax i"
| "item_delete ax (ClusterItem i namespace) = deleteCluster ax namespace i"
| "item_delete ax (ShardItem i namespace cluster) = deleteShard ax namespace cluster (show_num (shard_number i))"
| "item_delete ax (NodeItem i namespace cluster shard nid) = deleteNode ax namespace cluster shard nid"

fun item_parent :: "item_props \<Rightarrow> string" where
  \<comment> \<open>Where a deletion that succeeded navigates.\<close>
  "item_parent (NamespaceItem i) = ''/namespaces''"
| "item_parent (ClusterItem i namespace) = namespace_href namespace"
| "item_parent (ShardItem i namespace cluster) = cluster_href namespace cluster"
| "item_parent (NodeItem i namespace cluster shard nid) =
     shard_href namespace cluster shard"

definition confirmDelete_end :: "item_props \<Rightarrow> jsval \<Rightarrow> sidebar_item \<Rightarrow> sidebar_item \<times> effect list" where
  "confirmDelete_end p response s =
     (si_closeMenu (s\<lparr>si_errorMessage := response\<rparr>),
      (if strict_eq response (JStr []) then [RouterPush (item_parent p)] else []) @ [RouterRefresh])"

definition confirmDelete :: "axios \<Rightarrow> item_props \<Rightarrow> sidebar_item \<Rightarrow> (sidebar_item \<times> effect list) res" where
  "confirmDelete ax p s = rbind (item_delete ax p) (\<lambda>response. Inr (confirmDelete_end p response s))"

section \<open>View\<close>

datatype si_act = SiEnter | SiLeave | SiOpenMenu | SiCloseMenu | SiAskDelete | SiCancelDelete | SiConfirmDelete | SiDismiss

fun getItemIcon :: "string \<Rightarrow> si_act views" where
  "getItemIcon t =
     (if t = ''namespace'' then [El ''FolderIcon'' [] []]
      else if t = ''cluster'' then [El ''StorageIcon'' [] []]
      else if t = ''shard'' then [El ''DnsIcon'' [] []]
      else if t = ''node'' then [El ''DeviceHubIcon'' [] []]
      else [])"

definition activeItem :: "string \<Rightarrow> string \<Rightarrow> string" where
  "activeItem pathname t =
     (let active = last (js_split CHR ''/'' pathname) in
      if t = ''shard'' then ''Shard'' @ tab # show_num (js_add (parseInt active) (Fin 1))
      else if t = ''node'' then ''Node'' @ tab # show_num (js_add (parseInt active) (Fin 1))
      else active)"

definition isActive :: "string \<Rightarrow> item_props \<Rightarrow> bool" where
  "isActive pathname p \<longleftrightarrow> item p = activeItem pathname (item_type p)"

definition displayName :: "string \<Rightarrow> string" where
  "displayName i = (if js_includes i [tab] then hd (js_split tab i) @ '' '' @ second_part i else i)"

definition si_confirm_dialog :: "item_props \<Rightarrow> sidebar_item \<Rightarrow> si_act view" where
  "si_confirm_dialog p s =
     El ''Dialog'' [BA ''open'' (si_showDeleteConfirm s), On ''onClose'' SiCancelDelete]
       [El ''DialogTitle'' [] [Txt ''Confirm Delete''],
        El ''DialogContent'' []
          [if item_type p = ''node'' \<or> item_type p = ''shard''
           then El ''DialogContentText'' [] [Txt ''Are you sure you want to delete '', Txt (displayName (item p)), Txt ''?'']
           else El ''DialogContentText'' []
             [Txt ''Are you sure you want to delete '', Txt (item_type p), Txt '' '', El ''span'' [] [Txt (item p)], Txt ''?'']],
        El ''DialogActions'' []
          [El ''Button'' [On ''onClick'' SiCancelDelete] [Txt ''Cancel''],
           El ''Button'' [On ''onClick'' SiConfirmDelete] [Txt ''Delete'']]]"

definition Item_view :: "string \<Rightarrow> item_props \<Rightarrow> sidebar_item \<Rightarrow> si_act view" where
  \<comment> \<open>The highlight of the active entry, a choice of class names, is the flag \<^verbatim>\<open>active\<close>.\<close>
  "Item_view pathname p s =
     El ''ListItem'' [On ''onMouseEnter'' SiEnter, On ''onMouseLeave'' SiLeave]
       [El ''ListItemButton'' [BA ''active'' (isActive pathname p)]
          ([El ''ListItemIcon'' [] [El ''div'' [] (getItemIcon (item_type p))],
            El ''ListItemText'' [SA ''primary'' (displayName (item p))] []] @
           when_view (si_hover s) [El ''IconButton'' [On ''onClick'' SiOpenMenu] [El ''MoreVertIcon'' [] []]]),
        El ''Menu'' [SA ''id'' (''menu-'' @ item p), BA ''open'' (si_showMenu s), On ''onClose'' SiCloseMenu]
          [El ''MenuItem'' [On ''onClick'' SiAskDelete] [El ''FontAwesomeIcon'' [SA ''icon'' ''faTrashCan''] [], Txt ''Delete'']],
        si_confirm_dialog p s,
        El ''Snackbar'' [BA ''open'' (truthy (si_errorMessage s)), VA ''autoHideDuration'' (JNat 5000), On ''onClose'' SiDismiss]
          [El ''Alert'' [On ''onClose'' SiDismiss, SA ''severity'' ''error''] [Ex (si_errorMessage s)]]]"

end
