(* ===== verification/Sidebar.thy ===== *)
theory Sidebar
  imports SidebarItem
begin

text \<open>
  The sidebars of the namespaces, clusters, shards and nodes, \<^verbatim>\<open>webui/src/app/ui/sidebar.tsx\<close>: what they
  fetch, how they open and close, and the links and entries they show. Rendering raises, as in the
  source, when the fetched value is not an array.
\<close>

section \<open>State and handlers\<close>

record sidebar =
  sb_items :: jsval
  sb_error :: "string option"
  sb_isOpen :: bool
  sb_sidebarWidth :: nat
  sb_isMobile :: bool

definition sb_init :: sidebar where
  "sb_init = \<lparr>sb_items = JArr [], sb_error = None, sb_isOpen = True, sb_sidebarWidth = 260, sb_isMobile = False\<rparr>"

definition checkMobile :: "nat \<Rightarrow> sidebar \<Rightarrow> sidebar" where
  "checkMobile innerWidth s = s\<lparr>sb_isMobile := (innerWidth < 768)\<rparr>"

definition toggleSidebar :: "sidebar \<Rightarrow> sidebar" where
  "toggleSidebar s =
     (let s' = (if sb_isMobile s then s\<lparr>sb_sidebarWidth := (if sb_isOpen s then 0 else 260)\<rparr> else s)
      in s'\<lparr>sb_isOpen := (\<not> sb_isOpen s)\<rparr>)"

definition sb_fetched :: "string \<Rightarrow> jsval res \<Rightarrow> sidebar \<Rightarrow> sidebar" where
  \<comment> \<open>The \<^verbatim>\<open>try\<close> and \<^verbatim>\<open>catch\<close> of the fetch effects.\<close>
  "sb_fetched failed r s = (case r of Inr v \<Rightarrow> s\<lparr>sb_items := v\<rparr> | Inl _ \<Rightarrow> s\<lparr>sb_error := Some failed\<rparr>)"

definition NamespaceSidebar_fetch :: "axios \<Rightarrow> sidebar \<Rightarrow> sidebar" where
  "NamespaceSidebar_fetch ax s = sb_fetched ''Failed to fetch namespaces'' (fetchNamespaces ax) s"

definition ClusterSidebar_fetch :: "axios \<Rightarrow> string \<Rightarrow> sidebar \<Rightarrow> sidebar" where
  "ClusterSidebar_fetch ax namespace s = sb_fetched ''Failed to fetch clusters'' (fetchClusters ax namespace) s"

definition shard_label :: "nat \<Rightarrow> string" where
  "shard_label index = ''Shard'' @ tab # show_nat (index + 1)"

definition ShardSidebar_fetch :: "axios \<Rightarrow> string \<Rightarrow> string \<Rightarrow> sidebar \<Rightarrow> sidebar" where
  "ShardSidebar_fetch ax namespace cluster s =
     sb_fetched ''Failed to fetch shards''
       (rbind (listShards ax namespace cluster) (\<lambda>fetchedShards.
          rbind (as_array ''map'' fetchedShards) (\<lambda>xs. Inr (JArr (map (\<lambda>(index, shard). JStr (shard_label index)) (indexed xs)))))) s"

definition NodeSidebar_fetch :: "axios \<Rightarrow> string \<Rightarrow> string \<Rightarrow> string \<Rightarrow> sidebar \<Rightarrow> sidebar" where
  "NodeSidebar_fetch ax namespace cluster shard s = sb_fetched ''Failed to fetch nodes'' (listNodes ax namespace cluster shard) s"

section \<open>Views\<close>

datatype sb_act = SbToggle

definition SidebarHeader :: "string \<Rightarrow> jsval \<Rightarrow> bool \<Rightarrow> string \<Rightarrow> sb_act view" where
  "SidebarHeader title cnt isOpen icon =
     El ''div'' [On ''onClick'' SbToggle]
       [El ''div'' []
          ([El ''div'' [] [El icon [] []], El ''Typography'' [] [Txt title]] @
           when_view (js_gt (to_number cnt) (Fin 0)) [El ''span'' [] [Ex cnt]]),
        El ''div'' [] [if isOpen then El ''ExpandMoreIcon'' [] [] else El ''ChevronRightIcon'' [] []]]"

definition sidebar_frame ::
  "sb_act view \<Rightarrow> string \<Rightarrow> string \<Rightarrow> jsval \<Rightarrow> sb_act views \<Rightarrow> sidebar \<Rightarrow> sb_act view" where
  \<comment> \<open>The frame that the four sidebars repeat: the form, the header and the list.\<close>
  "sidebar_frame creation title icon cnt links s =
     El ''Paper'' [VA ''width'' (JNat (sb_sidebarWidth s))]
       (when_view (sb_isMobile s) [El ''button'' [On ''onClick'' SbToggle] [El ''ChevronRightIcon'' [] []]] @
        [El ''div'' []
          [El ''Box'' [] [creation],
           El ''Box'' [] [SidebarHeader title cnt (sb_isOpen s) icon],
           El ''Collapse'' [BA ''in'' (sb_isOpen s)]
             [El ''div'' []
               [El ''div'' []
                 ((case sb_error s of None \<Rightarrow> [] | Some e \<Rightarrow> when_view (e \<noteq> []) [El ''div'' [] [Txt e]]) @
                  [El ''List'' [] links])]]]])"

definition sidebar_render ::
  "sb_act view \<Rightarrow> string \<Rightarrow> string \<Rightarrow> (nat \<times> jsval \<Rightarrow> sb_act view res) \<Rightarrow> sidebar \<Rightarrow> sb_act view res" where
  \<comment> \<open>\<^verbatim>\<open>items.length\<close> for the header, then \<^verbatim>\<open>items.map\<close> for the list.\<close>
  "sidebar_render creation title icon link s =
     rbind (js_length (sb_items s)) (\<lambda>cnt. rbind (as_array ''map'' (sb_items s)) (\<lambda>xs.
       rbind (rmap link (indexed xs)) (\<lambda>links. Inr (sidebar_frame creation title icon cnt links s))))"

definition NamespaceSidebar_view :: "sidebar \<Rightarrow> sb_act view res" where
  "NamespaceSidebar_view s =
     sidebar_render (El ''NamespaceCreation'' [SA ''position'' ''sidebar''] []) ''Namespaces'' ''FolderIcon''
       (\<lambda>(index, namespace). Inr (El ''Link''
          [SA ''href'' (namespace_href (js_to_string namespace)), VA ''key'' namespace]
          [El ''Item'' [SA ''type'' ''namespace'', VA ''item'' namespace] []])) s"

definition ClusterSidebar_view :: "string \<Rightarrow> sidebar \<Rightarrow> sb_act view res" where
  "ClusterSidebar_view namespace s =
     sidebar_render (El ''ClusterCreation'' [SA ''namespace'' namespace, SA ''position'' ''sidebar''] []) ''Clusters'' ''StorageIcon''
       (\<lambda>(index, cluster). Inr (El ''Link''
          [SA ''href'' (cluster_href namespace (js_to_string cluster)), VA ''key'' cluster]
          [El ''Item'' [SA ''type'' ''cluster'', VA ''item'' cluster, SA ''namespace'' namespace] []])) s"

definition ShardSidebar_view :: "string \<Rightarrow> string \<Rightarrow> sidebar \<Rightarrow> sb_act view res" where
  "ShardSidebar_view namespace cluster s =
     sidebar_render (El ''ShardCreation'' [SA ''namespace'' namespace, SA ''cluster'' cluster, SA ''position'' ''sidebar''] [])
       ''Shards'' ''DnsIcon''
       (\<lambda>(index, shard). Inr (El ''Link''
          [SA ''href'' (shard_href namespace cluster (show_nat index)), VA ''key'' (JNat index)]
          [El ''Item'' [SA ''type'' ''shard'', VA ''item'' shard, SA ''namespace'' namespace, SA ''cluster'' cluster] []])) s"

definition NodeSidebar_view :: "string \<Rightarrow> string \<Rightarrow> string \<Rightarrow> sidebar \<Rightarrow> sb_act view res" where
  "NodeSidebar_view namespace cluster shard s =
     sidebar_render
       (El ''NodeCreation'' [SA ''namespace'' namespace, SA ''cluster'' cluster, SA ''shard'' shard, SA ''position'' ''sidebar''] [])
       ''Nodes'' ''DeviceHubIcon''
       (\<lambda>(index, node). rbind (get node ''id'') (\<lambda>nid. Inr (El ''Link''
          [SA ''href'' (node_href namespace cluster shard (show_nat index)),
           VA ''key'' (JNat index)]
          [El ''Item'' [SA ''type'' ''node'', SA ''item'' (''Node'' @ tab # show_nat (index + 1)), VA ''id'' nid,
             SA ''namespace'' namespace, SA ''cluster'' cluster, SA ''shard'' shard] []]))) s"

section \<open>Facts\<close>

lemma split_shard_label: "js_split tab (shard_label i) = [''Shard'', show_nat (Suc i)]"
proof -
  have a: "tab \<notin> set ''Shard''" by (simp add: tab_def)
  have b: "tab \<notin> set (show_nat (Suc i))" using show_nat_digits [of tab "Suc i"] by (auto simp: tab_def)
  show ?thesis
    using js_split_append [OF a, of "show_nat (Suc i)"] js_split_no_sep [OF b] by (simp only: shard_label_def Suc_eq_plus1)
qed

lemma shard_number_label: "shard_number (shard_label i) = num_of_nat i"
  by (simp add: shard_number_def second_part_def split_shard_label) (simp add: num_of_nat_def)

lemma toggle_twice: "sb_isOpen (toggleSidebar (toggleSidebar s)) = sb_isOpen s"
  by (simp add: toggleSidebar_def Let_def)

section \<open>Properties\<close>

text \<open>
  For every shard the controller lists, the sidebar shows one link, to that shard's page in the
  order of the list, and confirming the deletion of its entry asks the controller to delete that very
  shard: the one-based label on the entry and the zero-based index in the link and in the request
  agree.
\<close>
theorem shard_sidebar_entries:
  assumes "listShards ax ns c = Inr (JArr shards)"
  shows "\<exists>v. ShardSidebar_view ns c (ShardSidebar_fetch ax ns c sb_init) = Inr v
      \<and> hrefs v = map (\<lambda>i. shard_href ns c (show_nat i)) [0..<length shards]
      \<and> sb_items (ShardSidebar_fetch ax ns c sb_init) = JArr (map (\<lambda>i. JStr (shard_label i)) [0..<length shards])
      \<and> (\<forall>i. item_delete ax (ShardItem (shard_label i) ns c) = deleteShard ax ns c (show_nat i))"
proof -
  have items: "sb_items (ShardSidebar_fetch ax ns c sb_init) = JArr (map (\<lambda>i. JStr (shard_label i)) [0..<length shards])"
    using assms by (simp add: ShardSidebar_fetch_def sb_fetched_def case_prod_unfold
      map_indexed_fst [where f = "\<lambda>i. JStr (shard_label i)"])
  have err: "sb_error (ShardSidebar_fetch ax ns c sb_init) = None"
    using assms by (simp add: ShardSidebar_fetch_def sb_fetched_def as_array_def sb_init_def)
  show ?thesis
    by (simp add: ShardSidebar_view_def sidebar_render_def items js_length_def rmap_Inr case_prod_unfold
      sidebar_frame_def err SidebarHeader_def when_view_def shard_number_label comp_def
      concat_map_fst_indexed [where f = "\<lambda>i. shard_href ns c (show_nat i)"] del: concat_map_singleton)
qed

theorem shard_sidebar_entries_witness:
  "let ax = (\<lambda>_. Inr (JObj [(''data'', JObj [(''shards'', JArr [JObj [], JObj []])])])) in
   \<exists>v. ShardSidebar_view ''ns'' ''c'' (ShardSidebar_fetch ax ''ns'' ''c'' sb_init) = Inr v
      \<and> hrefs v = [shard_href ''ns'' ''c'' (show_nat 0), shard_href ''ns'' ''c'' (show_nat 1)]"
  using shard_sidebar_entries [of "\<lambda>_. Inr (JObj [(''data'', JObj [(''shards'', JArr [JObj [], JObj []])])])" "''ns''" "''c''"
      "[JObj [], JObj []]"]
  by (auto simp: api_simps js_or_def)

lemma item_delete_returns: "\<exists>v. item_delete ax p = Inr v \<and> (v = JStr [] \<or> truthy v)"
  using deleteNamespace_api.never_raises deleteCluster_api.never_raises deleteShard_api.never_raises deleteNode_api.never_raises
  by (cases p) simp_all

text \<open>
  Confirming a deletion in the sidebar always returns: it navigates to the parent of the deleted
  object exactly when the call succeeded, and otherwise shows the message of the failure.
\<close>
theorem sidebar_delete:
  "\<exists>t effs. confirmDelete ax p s = Inr (t, effs)
     \<and> (RouterPush (item_parent p) \<in> set effs \<longleftrightarrow> item_delete ax p = Inr (JStr []))
     \<and> (truthy (si_errorMessage t) \<longleftrightarrow> item_delete ax p \<noteq> Inr (JStr []))"
proof -
  obtain v where "item_delete ax p = Inr v" "v = JStr [] \<or> truthy v" using item_delete_returns by blast
  then show ?thesis
    by (cases "v = JStr []") (simp_all add: confirmDelete_def confirmDelete_end_def strict_eq_str si_closeMenu_def)
qed

text \<open>
  The error lines of the namespace, cluster and node sidebars are never shown: the calls they
  guard never raise, so a controller that does not answer looks like an empty list.
\<close>
theorem sidebar_errors_unreachable:
  "sb_error (NamespaceSidebar_fetch ax sb_init) = None \<and> sb_error (ClusterSidebar_fetch ax ns sb_init) = None
   \<and> sb_error (NodeSidebar_fetch ax ns c sh sb_init) = None
   \<and> NamespaceSidebar_fetch (\<lambda>_. Inl e) sb_init = sb_init"
  using fetchNamespaces_api.fetch_total [of ax] fetchClusters_api.fetch_total [of ax ns] listNodes_api.fetch_total [of ax ns c sh]
    fetchNamespaces_api.fetch_fail [of "\<lambda>_. Inl e" e]
  by (auto simp: NamespaceSidebar_fetch_def ClusterSidebar_fetch_def NodeSidebar_fetch_def sb_fetched_def sb_init_def)

end
