(* ===== verification/Breadcrumb.thy ===== *)
theory Breadcrumb
  imports View
begin

text \<open>
  The breadcrumb trail, \<^verbatim>\<open>webui/src/app/ui/breadcrumb.tsx\<close>: the items computed from the path of the
  page and the links shown for them.
\<close>

section \<open>Items\<close>

record BreadcrumbItem =
  bc_name :: string
  bc_displayName :: string
  bc_url :: string
  bc_icon :: "string option"
  bc_isNumeric :: bool
  bc_isLast :: bool

record breadcrumb =
  bc_breadcrumbItems :: "BreadcrumbItem list"
  bc_loading :: bool

definition bc_init :: breadcrumb where
  "bc_init = \<lparr>bc_breadcrumbItems = [], bc_loading = False\<rparr>"

definition pathSegments :: "string \<Rightarrow> string list" where
  "pathSegments pathname = filter (\<lambda>s. s \<noteq> []) (js_split CHR ''/'' pathname)"

definition crumb :: "string list \<Rightarrow> nat \<Rightarrow> BreadcrumbItem" where
  \<comment> \<open>One iteration of the loop of \<^verbatim>\<open>generateBreadcrumbs\<close>.\<close>
  "crumb segs index =
     (let segment = segs ! index;
          prevSegment = (if index = 0 then None else Some (segs ! (index - 1)));
          isNumeric = (js_Number segment \<noteq> NaN);
          (icon, displayName) =
            (if index = 0 \<and> segment = ''namespaces'' then (Some ''FolderIcon'', ''Namespaces'')
             else if segment = ''clusters'' then (Some ''StorageIcon'', ''Clusters'')
             else if segment = ''shards'' then (Some ''DnsIcon'', ''Shards'')
             else if segment = ''nodes'' then (Some ''DeviceHubIcon'', ''Nodes'')
             else if isNumeric then
               (None,
                if prevSegment = Some ''shards'' then ''Shard '' @ show_num (js_add (parseInt segment) (Fin 1))
                else if prevSegment = Some ''nodes'' then ''Node '' @ show_num (js_add (parseInt segment) (Fin 1))
                else ''ID: '' @ segment)
             else (None, js_capitalize segment))
      in \<lparr>bc_name = segment, bc_displayName = displayName,
          bc_url = ''/'' @ js_join ''/'' (take (index + 1) segs),
          bc_icon = icon, bc_isNumeric = isNumeric, bc_isLast = (index = length segs - 1)\<rparr>)"

definition generateBreadcrumbs :: "string \<Rightarrow> breadcrumb \<Rightarrow> breadcrumb" where
  "generateBreadcrumbs pathname s =
     (let segs = pathSegments pathname in
      if segs = [] then s\<lparr>bc_breadcrumbItems := [], bc_loading := False\<rparr>
      else s\<lparr>bc_breadcrumbItems := map (crumb segs) [0..<length segs], bc_loading := False\<rparr>)"

definition breadcrumb_effect :: "string \<Rightarrow> breadcrumb \<Rightarrow> breadcrumb" where
  "breadcrumb_effect pathname s =
     (if pathname = ''/'' then s\<lparr>bc_breadcrumbItems := [], bc_loading := False\<rparr>
      else generateBreadcrumbs pathname s)"

section \<open>View\<close>

definition crumb_icon :: "BreadcrumbItem \<Rightarrow> unit views" where
  "crumb_icon it = (case bc_icon it of None \<Rightarrow> [] | Some i \<Rightarrow> [El ''span'' [] [El i [] []]])"

definition crumb_view :: "nat \<times> BreadcrumbItem \<Rightarrow> unit view" where
  "crumb_view = (\<lambda>(index, it).
     El ''Box'' [VA ''key'' (JNat index)]
       [El ''ChevronRightIcon'' [] [],
        if bc_isLast it then
          El ''Box'' [] (crumb_icon it @
            [if bc_isNumeric it then El ''Chip'' [SA ''label'' (bc_displayName it)] []
             else El ''Typography'' [] [Txt (bc_displayName it)]])
        else if bc_name it = ''clusters'' \<or> bc_name it = ''shards'' \<or> bc_name it = ''nodes'' then
          El ''Box'' [] (crumb_icon it @ [El ''Typography'' [] [Txt (bc_displayName it)]])
        else
          El ''Link'' [SA ''href'' (bc_url it)] (crumb_icon it @ [El ''Typography'' [] [Txt (bc_displayName it)]])])"

definition Breadcrumb_view :: "string \<Rightarrow> breadcrumb \<Rightarrow> unit views" where
  "Breadcrumb_view pathname s =
     (if pathname = ''/'' \<or> bc_breadcrumbItems s = [] then []
      else
        [El ''Paper'' []
          [El ''Box'' []
            ([El ''Link'' [SA ''href'' ''/''] [El ''HomeIcon'' [] [], El ''Typography'' [] [Txt ''Home'']]] @
             map crumb_view (indexed (bc_breadcrumbItems s)))]])"

section \<open>Facts\<close>

lemma hrefs_crumb_view:
  "hrefs (crumb_view (i, it)) =
    (if bc_isLast it \<or> bc_name it \<in> {''clusters'', ''shards'', ''nodes''} then [] else [bc_url it])"
  by (auto simp: crumb_view_def crumb_icon_def split: option.splits)

lemma crumb_simps [simp]:
  "bc_name (crumb segs i) = segs ! i" "bc_isLast (crumb segs i) \<longleftrightarrow> i = length segs - 1"
  "bc_url (crumb segs i) = ''/'' @ js_join ''/'' (take (i + 1) segs)"
  by (simp_all add: crumb_def Let_def split: prod.splits)

definition url_path :: "string list \<Rightarrow> string" where
  \<comment> \<open>The path made of the given segments.\<close>
  "url_path segs = concat (map (\<lambda>s. CHR ''/'' # s) segs)"

lemma url_path_simps [simp]: "url_path [] = []" "url_path (s # segs) = CHR ''/'' # s @ url_path segs"
  by (simp_all add: url_path_def)

lemma split_path: "\<forall>s\<in>set segs. CHR ''/'' \<notin> set s \<Longrightarrow> js_split CHR ''/'' (url_path segs) = [] # segs"
proof (induction segs)
  case (Cons s segs)
  then have IH: "js_split CHR ''/'' (url_path segs) = [] # segs" by simp
  show ?case
  proof (cases segs)
    case Nil
    then show ?thesis using Cons.prems by (simp add: js_split_no_sep)
  next
    case (Cons t ts)
    with IH have "js_split CHR ''/'' (t @ url_path ts) = segs" by simp
    with Cons show ?thesis using Cons.prems by (simp add: js_split_append)
  qed
qed simp

lemma pathSegments_path:
  assumes "\<forall>s\<in>set segs. CHR ''/'' \<notin> set s \<and> s \<noteq> []"
  shows "pathSegments (url_path segs) = segs"
  using assms by (simp add: pathSegments_def split_path)

lemma join_path: "segs \<noteq> [] \<Longrightarrow> CHR ''/'' # js_join ''/'' segs = url_path segs"
proof (induction segs)
  case (Cons s segs)
  then show ?case by (cases segs) simp_all
qed simp

section \<open>Properties\<close>

definition is_heading :: "string \<Rightarrow> bool" where
  \<comment> \<open>The segments that only name a level of the hierarchy and have no page of their own.\<close>
  "is_heading seg \<longleftrightarrow> seg \<in> {''clusters'', ''shards'', ''nodes''}"

text \<open>
  On the page of any path, the breadcrumb links home and to every proper prefix of the path that
  ends in the list of namespaces or in the name or number of an object, in order, and to nothing else:
  not to the page itself and not to the levels without a page.
\<close>
theorem breadcrumb_links:
  assumes "segs \<noteq> []" "\<forall>s\<in>set segs. CHR ''/'' \<notin> set s \<and> s \<noteq> []"
  shows "all_hrefs (Breadcrumb_view (url_path segs) (breadcrumb_effect (url_path segs) bc_init)) =
    ''/'' # map (\<lambda>i. url_path (take (Suc i) segs))
      (filter (\<lambda>i. \<not> is_heading (segs ! i)) [0..<length segs - 1])"
proof -
  have ps: "pathSegments (url_path segs) = segs" by (rule pathSegments_path [OF assms(2)])
  have not_root: "url_path segs \<noteq> ''/''" using assms by (cases segs) auto
  let ?n = "length segs"
  have items: "bc_breadcrumbItems (breadcrumb_effect (url_path segs) bc_init) = map (crumb segs) [0..<?n]"
    using assms(1) not_root by (simp add: breadcrumb_effect_def generateBreadcrumbs_def ps Let_def)
  have url: "CHR ''/'' # js_join ''/'' (take (Suc i) segs) = url_path (take (Suc i) segs)" for i
    by (rule join_path) (use assms(1) in simp)
  have row: "hrefs (crumb_view (i, crumb segs i)) =
      (if i = ?n - 1 \<or> is_heading (segs ! i) then [] else [url_path (take (Suc i) segs)])" for i
    using url by (simp add: hrefs_crumb_view is_heading_def)
  have "indexed (map (crumb segs) [0..<?n]) = map (\<lambda>i. (i, crumb segs i)) [0..<?n]"
    by (rule nth_equalityI) (simp_all add: nth_indexed)
  then have "concat (map (\<lambda>p. hrefs (crumb_view p)) (indexed (map (crumb segs) [0..<?n]))) =
      concat (map (\<lambda>i. if i = ?n - 1 \<or> is_heading (segs ! i) then [] else [url_path (take (Suc i) segs)]) [0..<?n])"
    by (simp add: row comp_def)
  also have "concat (map (\<lambda>i. if i = ?n - 1 \<or> is_heading (segs ! i) then [] else [url_path (take (Suc i) segs)]) [0..<?n]) =
      map (\<lambda>i. url_path (take (Suc i) segs)) (filter (\<lambda>i. \<not> is_heading (segs ! i)) [0..<?n - 1])"
  proof -
    have upt: "[0..<?n] = [0..<?n - 1] @ [?n - 1]"
      using assms(1) by (metis One_nat_def Suc_pred length_greater_0_conv upt_Suc_append zero_le)
    have "concat (map (\<lambda>i. if i = m \<or> Q i then [] else [g i]) xs) = map g (filter (\<lambda>i. \<not> Q i) xs)"
      if "m \<notin> set xs" for m :: nat and Q g xs using that by (induction xs) auto
    from this [of "?n - 1" "[0..<?n - 1]" "\<lambda>i. is_heading (segs ! i)" "\<lambda>i. url_path (take (Suc i) segs)"] show ?thesis by (simp add: upt)
  qed
  finally show ?thesis
    using not_root assms(1) by (simp add: Breadcrumb_view_def items comp_def)
qed

theorem breadcrumb_links_witness:
  "let segs = [''namespaces'', ''ns'', ''clusters'', ''c'', ''shards'', ''0'', ''nodes'', ''1''] in
   all_hrefs (Breadcrumb_view (url_path segs) (breadcrumb_effect (url_path segs) bc_init)) =
     [''/'', ''/namespaces'', namespace_href ''ns'', cluster_href ''ns'' ''c'', shard_href ''ns'' ''c'' ''0'']"
  using breadcrumb_links [of "[''namespaces'', ''ns'', ''clusters'', ''c'', ''shards'', ''0'', ''nodes'', ''1'']"]
  by (simp add: is_heading_def href_defs upt_rec)

end
