(* ===== verification/Shell.thy ===== *)
theory Shell
  imports View
begin

text \<open>
  The frame around every page: the theme (\<^verbatim>\<open>webui/src/app/theme-provider.tsx\<close>), the navigation links
  and the banner (\<^verbatim>\<open>ui/nav-links.tsx\<close>, \<^verbatim>\<open>ui/banner.tsx\<close>), the footer (\<^verbatim>\<open>ui/footer.tsx\<close> with
  \<^verbatim>\<open>webui/config.ts\<close>), the layouts, and the small views that pages share (\<^verbatim>\<open>ui/emptyState.tsx\<close>,
  \<^verbatim>\<open>ui/loadingSpinner.tsx\<close>, \<^verbatim>\<open>ui/createCard.tsx\<close>, \<^verbatim>\<open>not-found.tsx\<close>). The part of the browser that the
  theme reads and writes is a record.
\<close>

section \<open>Theme\<close>

record theme_world =
  tw_theme :: "string option"         \<comment> \<open>\<^verbatim>\<open>localStorage\<close> under \<^verbatim>\<open>theme\<close>\<close>
  tw_prefersDark :: bool              \<comment> \<open>the media query\<close>
  tw_htmlDark :: bool                 \<comment> \<open>class \<^verbatim>\<open>dark\<close> of the document's element\<close>
  tw_navbar :: "bool option"          \<comment> \<open>class \<^verbatim>\<open>navbar-dark-mode\<close> of the element \<^verbatim>\<open>navbar\<close>, if there is one\<close>

record theme_provider =
  tp_isDarkMode :: bool
  tp_mounted :: bool

definition tp_init :: theme_provider where
  "tp_init = \<lparr>tp_isDarkMode = False, tp_mounted = False\<rparr>"

definition shouldBeDark :: "theme_world \<Rightarrow> bool" where
  "shouldBeDark w \<longleftrightarrow> tw_theme w = Some ''dark'' \<or> (tw_theme w \<in> {None, Some []} \<and> tw_prefersDark w)"

definition apply_classes :: "bool \<Rightarrow> theme_world \<Rightarrow> theme_world" where
  "apply_classes dark w = w\<lparr>tw_htmlDark := dark, tw_navbar := map_option (\<lambda>_. dark) (tw_navbar w)\<rparr>"

definition theme_mount :: "theme_provider \<times> theme_world \<Rightarrow> theme_provider \<times> theme_world" where
  \<comment> \<open>The effect of \<^verbatim>\<open>ThemeProvider\<close>.\<close>
  "theme_mount = (\<lambda>(p, w).
     (p\<lparr>tp_isDarkMode := shouldBeDark w, tp_mounted := True\<rparr>, apply_classes (shouldBeDark w) w))"

definition toggleTheme :: "theme_provider \<times> theme_world \<Rightarrow> theme_provider \<times> theme_world" where
  "toggleTheme = (\<lambda>(p, w).
     let newMode = \<not> tp_isDarkMode p in
     (p\<lparr>tp_isDarkMode := newMode\<rparr>,
      (apply_classes newMode w)\<lparr>tw_theme := Some (if newMode then ''dark'' else ''light'')\<rparr>))"

definition theme_palette :: "bool \<Rightarrow> string \<times> string \<times> string" where
  \<comment> \<open>What the theme of the component library gets that depends on the mode: mode and backgrounds.\<close>
  "theme_palette isDarkMode =
     (if isDarkMode then ''dark'' else ''light'', if isDarkMode then ''#121212'' else ''#fafafa'',
      if isDarkMode then ''#1e1e1e'' else ''#ffffff'')"

section \<open>Navigation\<close>

record nav_link =
  nl_url :: string
  nl_title :: string
  nl_icon :: "string option"
  nl_blank :: bool

definition nav_isActive :: "string \<Rightarrow> string \<Rightarrow> bool" where
  "nav_isActive pathname url \<longleftrightarrow> pathname = url \<or> (url \<noteq> ''/'' \<and> startsWith pathname url)"

datatype shell_act = ShToggleTheme | ShScrollTop | ShBack | ShAction string

definition NavLinks :: "string \<Rightarrow> nav_link list \<Rightarrow> shell_act views" where
  \<comment> \<open>The flag \<^verbatim>\<open>isActive\<close> only styles the button; it is kept as a flag of it.\<close>
  "NavLinks pathname links = map (\<lambda>link.
     El ''Link''
       ([SA ''key'' (nl_url link), SA ''href'' (nl_url link)] @
        (if nl_blank link then [SA ''target'' ''_blank'', SA ''rel'' ''noopener noreferrer''] else []))
       [El ''Button''
         ([BA ''isActive'' (nav_isActive pathname (nl_url link))] @
          (case nl_icon link of None \<Rightarrow> [] | Some i \<Rightarrow> [NA ''startIcon'' (El i [] [])]))
         [Txt (nl_title link)]]) links"

definition banner_links :: "nav_link list" where
  "banner_links =
     [\<lparr>nl_url = ''/'', nl_title = ''Home'', nl_icon = Some ''HomeIcon'', nl_blank = False\<rparr>,
      \<lparr>nl_url = ''/namespaces'', nl_title = ''Namespaces'', nl_icon = Some ''FolderIcon'', nl_blank = False\<rparr>,
      \<lparr>nl_url = ''https://kvrocks.apache.org'', nl_title = ''Documentation'', nl_icon = Some ''MenuBookIcon'', nl_blank = True\<rparr>]"

section \<open>Banner\<close>

definition banner_mount :: "theme_world \<Rightarrow> theme_world" where
  \<comment> \<open>The effect of \<^verbatim>\<open>Banner\<close> on the document.\<close>
  "banner_mount w = (if shouldBeDark w then w\<lparr>tw_navbar := map_option (\<lambda>_. True) (tw_navbar w)\<rparr> else w)"

definition banner_handleScroll :: "rat \<Rightarrow> bool" where
  \<comment> \<open>The value \<^verbatim>\<open>scrolled\<close> gets for the offset of the window.\<close>
  "banner_handleScroll scrollY = (if scrollY > 10 then True else False)"

definition Banner :: "string \<Rightarrow> bool \<Rightarrow> shell_act view" where
  "Banner pathname isDarkMode =
     El ''AppBar'' [SA ''id'' ''navbar'']
       [El ''Container'' []
         [El ''Toolbar'' []
           [El ''Link'' [SA ''href'' ''/'']
              [El ''Box'' []
                [El ''Image'' [SA ''src'' ''/logo.svg'', SA ''alt'' ''Apache Kvrocks''] [],
                 El ''Box'' []
                   [El ''Typography'' [] [Txt ''Apache Kvrocks''], El ''Typography'' [] [Txt ''Controller'']]]],
            El ''Box'' [] [],
            El ''Box'' [] (NavLinks pathname banner_links),
            El ''Box'' []
              [El ''Tooltip'' [SA ''title'' ''Toggle dark mode'']
                 [El ''IconButton'' [On ''onClick'' ShToggleTheme]
                   [if isDarkMode then El ''Brightness7Icon'' [] [] else El ''Brightness4Icon'' [] []]],
               El ''Tooltip'' [SA ''title'' ''GitHub Repository'']
                 [El ''IconButton'' [SA ''href'' ''https://github.com/apache/kvrocks-controller'', SA ''target'' ''_blank'']
                   [El ''GitHubIcon'' [] []]]]]]]"

section \<open>Footer\<close>

record footerColumnItem =
  fi_label :: string
  fi_to :: "string option"
  fi_href :: "string option"

record footerColumn =
  fc_title :: string
  fc_items :: "footerColumnItem list"

record footerLogo =
  fg_height :: nat
  fg_width :: nat
  fg_alt :: string
  fg_src :: string
  fg_href :: string

definition footer_links :: "footerColumn list" where
  "footer_links =
     [\<lparr>fc_title = ''Docs'', fc_items =
        [\<lparr>fi_label = ''Getting started'', fi_to = Some ''/docs/getting-started'', fi_href = None\<rparr>,
         \<lparr>fi_label = ''Supported commands'', fi_to = Some ''/docs/supported-commands'', fi_href = None\<rparr>,
         \<lparr>fi_label = ''How to contribute'', fi_to = Some ''/community/contributing'', fi_href = None\<rparr>]\<rparr>,
      \<lparr>fc_title = ''Community'', fc_items =
        [\<lparr>fi_label = ''Zulip'', fi_to = None, fi_href = Some ''https://kvrocks.zulipchat.com/''\<rparr>,
         \<lparr>fi_label = ''Issue Tracker'', fi_to = None, fi_href = Some ''https://github.com/apache/kvrocks-controller/issues''\<rparr>,
         \<lparr>fi_label = ''Mailing list'', fi_to = None, fi_href = Some ''https://lists.apache.org/list.html?dev@kvrocks.apache.org''\<rparr>]\<rparr>,
      \<lparr>fc_title = ''Repositories'', fc_items =
        [\<lparr>fi_label = ''Kvrocks'', fi_to = None, fi_href = Some ''https://github.com/apache/kvrocks''\<rparr>,
         \<lparr>fi_label = ''Website'', fi_to = None, fi_href = Some ''https://github.com/apache/kvrocks-website''\<rparr>,
         \<lparr>fi_label = ''Controller'', fi_to = None, fi_href = Some ''https://github.com/apache/kvrocks-controller''\<rparr>]\<rparr>]"

definition footer_logo :: footerLogo where
  "footer_logo = \<lparr>fg_height = 128, fg_width = 320, fg_alt = ''Apache logo'', fg_src = ''/asf_logo.svg'', fg_href = ''https://www.apache.org/''\<rparr>"

definition footer_copyright :: string where
  "footer_copyright = ''The Apache Software Foundation. Apache Kvrocks, Kvrocks, and its feather logo are trademarks of The Apache Software Foundation. Redis and its cube logo are registered trademarks of Redis Ltd.''"

definition item_target :: "footerColumnItem \<Rightarrow> string" where
  \<comment> \<open>\<^verbatim>\<open>item.href || item.to || "/"\<close>\<close>
  "item_target item =
     (case fi_href item of Some (c # cs) \<Rightarrow> c # cs
      | _ \<Rightarrow> (case fi_to item of Some (c # cs) \<Rightarrow> c # cs | _ \<Rightarrow> ''/''))"

definition item_external :: "footerColumnItem \<Rightarrow> bool" where
  "item_external item \<longleftrightarrow> fi_href item \<notin> {None, Some []}"

definition FooterLink :: "footerColumnItem \<Rightarrow> shell_act view" where
  "FooterLink item =
     El ''li'' []
       [El ''Link''
         ([SA ''href'' (item_target item)] @
          (if item_external item then [SA ''target'' ''_blank'', SA ''rel'' ''noopener noreferrer''] else []))
         ([El ''span'' [] [Txt (fi_label item), El ''span'' [] []]] @ when_view (item_external item) [El ''LaunchIcon'' [] []])]"

definition FooterColumn :: "footerColumn \<Rightarrow> shell_act view" where
  "FooterColumn column =
     El ''div'' []
       [El ''Typography'' [] [Txt (fc_title column), El ''div'' [] []],
        El ''ul'' [] (map FooterLink (fc_items column))]"

definition socialLinks :: "(string \<times> string \<times> string) list" where
  "socialLinks =
     [(''GitHubIcon'', ''https://github.com/apache'', ''GitHub''), (''TwitterIcon'', ''https://x.com/TheASF'', ''Twitter''),
      (''LinkedInIcon'', ''https://www.linkedin.com/company/the-apache-software-foundation/'', ''LinkedIn'')]"

definition footer_backdrop :: "shell_act view" where
  "footer_backdrop =
     El ''div'' []
       [El ''div'' [] [],
        El ''div'' []
          [El ''svg'' []
            [El ''defs'' [] [El ''pattern'' [SA ''id'' ''footerGrid''] [El ''path'' [SA ''d'' ''M 32 0 L 0 0 0 32''] []]],
             El ''rect'' [SA ''fill'' ''url(#footerGrid)''] []]],
        El ''div'' [] [], El ''div'' [] []]"

definition footer_intro :: "shell_act view" where
  "footer_intro =
     El ''div'' []
       [El ''Link'' [SA ''href'' ''/'']
          [El ''div'' [] [El ''Image'' [SA ''src'' ''/logo.svg'', SA ''alt'' ''Apache Kvrocks''] [], El ''div'' [] []],
           El ''div'' [] [El ''Typography'' [] [Txt ''Apache Kvrocks''], El ''Typography'' [] [Txt ''Controller'']]],
        El ''Typography'' []
          [Txt ''A distributed key-value NoSQL database that uses RocksDB as storage engine and is compatible with Redis protocol.''],
        El ''div'' [] (map (\<lambda>(index, icon, href, label).
          El ''IconButton''
            [VA ''key'' (JNat index), SA ''href'' href, SA ''target'' ''_blank'', SA ''rel'' ''noopener noreferrer'', SA ''aria-label'' label]
            [El icon [] []]) (indexed socialLinks))]"

definition footer_bottom :: "nat \<Rightarrow> shell_act view" where
  "footer_bottom fullYear =
     El ''div'' []
       [El ''div'' []
         [El ''Link'' [SA ''href'' (fg_href footer_logo), SA ''target'' ''_blank'', SA ''rel'' ''noopener noreferrer'']
            [El ''Image'' [SA ''src'' (fg_src footer_logo), SA ''alt'' (fg_alt footer_logo)] [],
             El ''Typography'' [] [Txt ''An Apache Software Foundation Project'']],
          El ''div'' []
            [El ''Typography'' [] [Txt ''Copyright '', Glyph ''U+00A9'', Txt ('' '' @ show_nat fullYear @ '' '' @ footer_copyright)],
             El ''IconButton'' [On ''onClick'' ShScrollTop, SA ''aria-label'' ''Scroll to top''] [El ''ArrowUpwardIcon'' [] []]]]]"

definition Footer :: "nat \<Rightarrow> shell_act view" where
  \<comment> \<open>The argument is \<^verbatim>\<open>new Date().getFullYear()\<close>.\<close>
  "Footer fullYear =
     El ''footer'' []
       [footer_backdrop,
        El ''div'' []
          [El ''Container'' []
            [El ''div'' []
               [El ''Grid'' []
                 [El ''Grid'' [] [footer_intro],
                  El ''Grid'' []
                    [El ''Grid'' [] (map (\<lambda>column. El ''Grid'' [SA ''key'' (fc_title column)] [FooterColumn column]) footer_links)]]],
             footer_bottom fullYear]]]"

lemmas footer_views [view_simps] = Footer_def footer_backdrop_def footer_intro_def footer_bottom_def FooterColumn_def FooterLink_def
  footer_links_def item_target_def item_external_def footer_logo_def socialLinks_def

section \<open>Layouts\<close>

definition RootLayout :: "shell_act views \<Rightarrow> shell_act view" where
  "RootLayout children =
     El ''html'' [SA ''lang'' ''en'']
       [El ''body'' []
         [El ''ThemeProvider'' []
           [El ''Banner'' [] [],
            El ''Container'' [] ([El ''Breadcrumb'' [] []] @ children @ [El ''Footer'' [] []])]]]"

definition Layout :: "shell_act views \<Rightarrow> shell_act views" where
  "Layout children = children"

section \<open>Shared views\<close>

definition EmptyState ::
  "string \<Rightarrow> string \<Rightarrow> 'a view option \<Rightarrow> (string \<times> 'a) option \<Rightarrow> 'a view" where
  "EmptyState title description icon action =
     El ''Paper'' []
       ((case icon of None \<Rightarrow> [] | Some i \<Rightarrow> [El ''Box'' [] [i]]) @
        [El ''Typography'' [] [Txt title], El ''Typography'' [] [Txt description]] @
        (case action of None \<Rightarrow> [] | Some (label, onClick) \<Rightarrow> [El ''Button'' [On ''onClick'' onClick] [Txt label]]))"

datatype spinner_size = Small | Medium | Large

fun spinnerSize :: "spinner_size \<Rightarrow> nat" where
  "spinnerSize Small = 24"
| "spinnerSize Medium = 40"
| "spinnerSize Large = 60"

definition LoadingSpinner :: "string \<Rightarrow> spinner_size \<Rightarrow> bool \<Rightarrow> 'a view" where
  "LoadingSpinner message sz fullScreen =
     El ''Fade'' [BA ''in'' True]
       [El ''Box'' [SA ''height'' (if fullScreen then ''100vh'' else ''100%''), SA ''minHeight'' (if fullScreen then ''100vh'' else ''300px'')]
         ([El ''CircularProgress'' [VA ''size'' (JNat (spinnerSize sz))] []] @
          when_view (message \<noteq> []) [El ''Typography'' [] [Txt message]])]"

definition CreateCard :: "'a views \<Rightarrow> 'a view" where
  "CreateCard children = El ''Box'' [] [El ''Paper'' [] children]"

definition AddClusterCard :: "string \<Rightarrow> 'a view" where
  "AddClusterCard namespace =
     CreateCard
       [El ''div'' []
         [El ''FontAwesomeIcon'' [SA ''icon'' ''faCirclePlus''] [],
          El ''div'' []
            [El ''div'' [] [El ''ClusterCreation'' [SA ''position'' ''card'', SA ''namespace'' namespace] []],
             El ''div'' [] [El ''ImportCluster'' [SA ''position'' ''card'', SA ''namespace'' namespace] []]]]]"

definition AddShardCard :: "string \<Rightarrow> string \<Rightarrow> 'a view" where
  "AddShardCard namespace cluster =
     CreateCard
       [El ''div'' []
         [El ''FontAwesomeIcon'' [SA ''icon'' ''faCirclePlus''] [],
          El ''div'' []
            [El ''ShardCreation'' [SA ''position'' ''card'', SA ''namespace'' namespace, SA ''cluster'' cluster] [],
             El ''MigrateSlot'' [SA ''position'' ''card'', SA ''namespace'' namespace, SA ''cluster'' cluster] []]]]"

definition AddNodeCard :: "string \<Rightarrow> string \<Rightarrow> string \<Rightarrow> 'a view" where
  "AddNodeCard namespace cluster shard =
     CreateCard
       [El ''div'' []
         [El ''FontAwesomeIcon'' [SA ''icon'' ''faCirclePlus''] [],
          El ''div'' []
            [El ''NodeCreation''
              [SA ''position'' ''card'', SA ''namespace'' namespace, SA ''cluster'' cluster, SA ''shard'' shard] []]]]"

definition ResourceCard :: "string \<Rightarrow> string option \<Rightarrow> string list option \<Rightarrow> 'a views \<Rightarrow> 'a view" where
  \<comment> \<open>Of a tag only its label; its colour is styling.\<close>
  "ResourceCard title description tags children =
     CreateCard
       [El ''div'' []
         ([El ''div'' [] [Txt title]] @
          (case description of Some (c # cs) \<Rightarrow> [El ''div'' [] [Txt (c # cs)]] | _ \<Rightarrow> []) @
          [El ''div'' [] children] @
          (case tags of Some (t # ts) \<Rightarrow>
               [El ''div'' [] (map (\<lambda>(i, label). El ''Chip'' [VA ''key'' (JNat i), SA ''label'' label] []) (indexed (t # ts)))]
             | _ \<Rightarrow> []))]"

definition NotFound :: "shell_act view" where
  "NotFound =
     El ''div'' []
       [El ''Box'' []
         [El ''ErrorOutlineIcon'' [] [],
          El ''Typography'' [] [Txt ''Page Not Found''],
          El ''Typography'' []
            [Txt (''We couldn'' @ [CHR 0x27] @ ''t find the page you'' @ [CHR 0x27] @
              ''re looking for. It might have been moved, deleted, or never existed.'')],
          El ''div'' []
            [El ''Button'' [NA ''startIcon'' (El ''HomeIcon'' [] []), SA ''component'' ''Link'', SA ''href'' ''/''] [Txt ''Go to Home''],
             El ''Button'' [NA ''startIcon'' (El ''ArrowBackIcon'' [] []), On ''onClick'' ShBack] [Txt ''Go Back'']]]]"

section \<open>The theme is consistent\<close>

text \<open>
  The mounted frame. The browser starts a page without the classes, with whatever it has stored and
  prefers; the effects run once in either order, the user toggles the theme, the preference of the
  system may change, and the page may be loaded again.
\<close>

record theme_sys =
  ts_provider :: theme_provider
  ts_world :: theme_world
  ts_bannerMounted :: bool

definition fresh_page :: "theme_world \<Rightarrow> theme_sys" where
  "fresh_page w = \<lparr>ts_provider = tp_init, ts_world = w\<lparr>tw_htmlDark := False, tw_navbar := Some False\<rparr>, ts_bannerMounted = False\<rparr>"

inductive theme_step :: "theme_sys \<Rightarrow> theme_sys \<Rightarrow> bool" where
  mount: "\<not> tp_mounted (ts_provider s) \<Longrightarrow> theme_mount (ts_provider s, ts_world s) = (p, w) \<Longrightarrow>
    theme_step s (s\<lparr>ts_provider := p, ts_world := w\<rparr>)"
| banner: "\<not> ts_bannerMounted s \<Longrightarrow> \<not> tp_mounted (ts_provider s) \<Longrightarrow>
    theme_step s (s\<lparr>ts_world := banner_mount (ts_world s), ts_bannerMounted := True\<rparr>)"
| toggle: "tp_mounted (ts_provider s) \<Longrightarrow> toggleTheme (ts_provider s, ts_world s) = (p, w) \<Longrightarrow>
    theme_step s (s\<lparr>ts_provider := p, ts_world := w\<rparr>)"
| preference: "tp_mounted (ts_provider s) \<Longrightarrow> theme_step s (s\<lparr>ts_world := (ts_world s)\<lparr>tw_prefersDark := b\<rparr>\<rparr>)"
| reload: "theme_step s (fresh_page (ts_world s))"

inductive theme_reachable :: "theme_sys \<Rightarrow> bool" where
  init: "theme_reachable (fresh_page w)"
| step: "theme_reachable s \<Longrightarrow> theme_step s t \<Longrightarrow> theme_reachable t"

definition theme_inv :: "theme_sys \<Rightarrow> bool" where
  "theme_inv s \<longleftrightarrow> tw_navbar (ts_world s) \<noteq> None \<and>
     (tp_mounted (ts_provider s) \<longrightarrow>
       tw_htmlDark (ts_world s) = tp_isDarkMode (ts_provider s) \<and> tw_navbar (ts_world s) = Some (tp_isDarkMode (ts_provider s)))"

lemma theme_inv_step: "theme_step s t \<Longrightarrow> theme_inv s \<Longrightarrow> theme_inv t"
  by (induction rule: theme_step.induct)
    (auto simp: theme_inv_def theme_mount_def toggleTheme_def apply_classes_def banner_mount_def fresh_page_def tp_init_def Let_def)

lemma theme_reachable_inv: "theme_reachable s \<Longrightarrow> theme_inv s"
proof (induction rule: theme_reachable.induct)
  case (init w)
  show ?case by (simp add: theme_inv_def fresh_page_def tp_init_def)
qed (rule theme_inv_step)



section \<open>Navigation\<close>

text \<open>
  On every address of the application at most one link of the banner is shown as active, and it is the
  link of the section the address is in.
\<close>
theorem banner_one_active:
  assumes "startsWith pathname ''/''"
  shows "filter (\<lambda>l. nav_isActive pathname (nl_url l)) banner_links =
     filter (\<lambda>l. (nl_title l = ''Home'' \<and> pathname = ''/'') \<or> (nl_title l = ''Namespaces'' \<and> startsWith pathname ''/namespaces'')) banner_links
   \<and> length (filter (\<lambda>l. nav_isActive pathname (nl_url l)) banner_links) \<le> 1"
proof -
  obtain rest where p: "pathname = CHR ''/'' # rest" using assms by (cases pathname) (auto simp: startsWith_def)
  then have "\<not> nav_isActive pathname ''https://kvrocks.apache.org''" by (simp add: nav_isActive_def startsWith_def)
  moreover have "nav_isActive pathname ''/namespaces'' \<longleftrightarrow> startsWith pathname ''/namespaces''"
    by (auto simp: nav_isActive_def startsWith_def)
  moreover have "nav_isActive pathname ''/'' \<longleftrightarrow> pathname = ''/''" by (simp add: nav_isActive_def)
  moreover have "\<not> (pathname = ''/'' \<and> startsWith pathname ''/namespaces'')" by (auto simp: startsWith_def)
  ultimately show ?thesis by (cases "pathname = ''/''") (auto simp: banner_links_def nav_isActive_def startsWith_def)
qed

theorem banner_one_active_witness:
  "map nl_title (filter (\<lambda>l. nav_isActive ''/namespaces/a'' (nl_url l)) banner_links) = [''Namespaces'']"
  using banner_one_active [of "''/namespaces/a''"] by (simp add: startsWith_def banner_links_def)

end
