(* ===== verification/Home.thy ===== *)
theory Home
  imports View "HOL-Library.Sublist"
begin

text \<open>
  The start page, \<^verbatim>\<open>webui/src/app/page.tsx\<close>: the terminal that types its lines character by character,
  the offset of the page, the blinking cursor and the view.
\<close>

section \<open>Data\<close>

definition terminalLines :: "string list" where
  "terminalLines =
     [''$ redis-cli -p 6666'', ''127.0.0.1:6666> SET mykey \"Hello Kvrocks\"'', ''OK'', ''127.0.0.1:6666> GET mykey'',
      ''\"Hello Kvrocks\"'', ''127.0.0.1:6666> INFO'', ''# Server'', ''kvrocks_version:unstable'', ''kvrocks_git_sha1:fffffff'']"

definition features :: "(string \<times> string \<times> string) list" where
  \<comment> \<open>Title, description and icon.\<close>
  "features =
     [(''Namespace'', ''Similar to Redis SELECT but equipped with token per namespace'', ''StorageIcon''),
      (''Replication'', ''Async replication using binlog like MySQL'', ''SyncIcon''),
      (''High Availability'', ''Support Redis sentinel to failover when master or replica was failed'', ''SecurityIcon''),
      (''Cluster'', ''Centralized management but accessible via any Redis cluster client'', ''HubIcon'')]"

definition resources :: "(string \<times> string \<times> string \<times> string) list" where
  \<comment> \<open>Title, description, icon and address.\<close>
  "resources =
     [(''Documentation'', ''Learn how to use Kvrocks Controller'', ''MenuBookIcon'', ''https://kvrocks.apache.org/docs/''),
      (''GitHub Repository'', ''View the source code on GitHub'', ''GitHubIcon'', ''https://github.com/apache/kvrocks-controller'')]"

definition benefits :: "(string \<times> string \<times> string) list" where
  "benefits =
     [(''Enterprise-grade reliability'', ''Built to handle mission-critical workloads with fault tolerance'', ''SecurityIcon''),
      (''High performance data access'', ''Optimized for speed with RocksDB as the storage engine'', ''SpeedIcon''),
      (''Simplified cluster management'', ''Intuitive UI for managing your distributed database infrastructure'', ''HubIcon''),
      (''Seamless Redis compatibility'', ''Works with existing Redis clients and tools'', ''CloudIcon'')]"

section \<open>State and effects\<close>

record home_page =
  hm_scrollY :: rat
  hm_prevScrollY :: rat
  hm_cursorPosition :: "nat \<times> nat"
  hm_cursorVisible :: bool
  hm_lineIndex :: nat
  hm_charIndex :: nat

definition hm_init :: home_page where
  "hm_init = \<lparr>hm_scrollY = 0, hm_prevScrollY = 0, hm_cursorPosition = (0, 0), hm_cursorVisible = True, hm_lineIndex = 0, hm_charIndex = 0\<rparr>"

definition hm_handleScroll :: "rat \<Rightarrow> home_page \<Rightarrow> home_page" where
  \<comment> \<open>One animation frame, with \<^verbatim>\<open>window.scrollY\<close>.\<close>
  "hm_handleScroll y s = (if abs (y - hm_prevScrollY s) > 5 then s\<lparr>hm_scrollY := y, hm_prevScrollY := y\<rparr> else s)"

definition hm_blink :: "home_page \<Rightarrow> home_page" where
  "hm_blink s = s\<lparr>hm_cursorVisible := \<not> hm_cursorVisible s\<rparr>"

definition typeNextChar :: "home_page \<Rightarrow> home_page" where
  "typeNextChar s =
     (let lineIndex = hm_lineIndex s; charIndex = hm_charIndex s in
      if lineIndex < length terminalLines then
        (if charIndex \<le> length (terminalLines ! lineIndex)
         then s\<lparr>hm_cursorPosition := (charIndex, lineIndex), hm_charIndex := charIndex + 1\<rparr>
         else s\<lparr>hm_lineIndex := lineIndex + 1, hm_charIndex := 0\<rparr>)
      else s)"

definition hm_handleGetStarted :: "effect list" where
  "hm_handleGetStarted = [RouterPush ''/namespaces'']"

section \<open>View\<close>

datatype hm_act = HmGetStarted

definition typed_text :: "nat \<times> nat \<Rightarrow> nat \<Rightarrow> string \<Rightarrow> string" where
  \<comment> \<open>What the terminal shows of a line for the position of the cursor.\<close>
  "typed_text = (\<lambda>(x, y) index text. if index < y then text else if index = y then take x text else [])"

definition hm_terminal :: "home_page \<Rightarrow> hm_act view" where
  "hm_terminal s =
     El ''div'' []
       [El ''div'' []
          [El ''div'' [] [El ''div'' [] [], El ''div'' [] [], El ''div'' [] []],
           El ''div'' [] [El ''TerminalIcon'' [] [], Txt ''redis-cli'']],
        El ''div'' [] (map (\<lambda>(index, text).
          El ''div'' [VA ''key'' (JNat index)]
            ([Txt (typed_text (hm_cursorPosition s) index text)] @
             when_view (index = snd (hm_cursorPosition s) \<and> hm_cursorVisible s \<and> fst (hm_cursorPosition s) \<le> length text)
               [El ''span'' [] []])) (indexed terminalLines))]"

definition hm_hero_backdrop :: "hm_act view" where
  "hm_hero_backdrop =
     El ''div'' []
       [El ''div'' [] [],
        El ''div'' []
          [El ''div'' []
            [El ''svg'' []
              [El ''defs'' [] [El ''pattern'' [SA ''id'' ''grid''] [El ''path'' [SA ''d'' ''M 40 0 L 0 0 0 40''] []]],
               El ''rect'' [SA ''fill'' ''url(#grid)''] []]]],
        El ''div'' [] [], El ''div'' [] []]"

definition hm_hero_text :: "hm_act view" where
  "hm_hero_text =
     El ''Grid'' []
       [El ''Box'' []
         [El ''div'' [] [El ''span'' [] [Txt ''Apache Software Foundation''], El ''span'' [] []],
          El ''Typography'' [] [Txt ''Apache Kvrocks'', Glyph ''U+2122'', Txt '' '', El ''span'' [] [Txt ''Controller'']],
          El ''Typography'' []
            [Txt ''A distributed key-value NoSQL database that uses RocksDB as storage engine and is compatible with Redis protocol.''],
          El ''div'' []
            [El ''Button'' [On ''onClick'' HmGetStarted, NA ''endIcon'' (El ''ArrowForwardIcon'' [] [])] [Txt ''Get Started''],
             El ''Button'' [SA ''href'' ''https://github.com/apache/kvrocks'', SA ''target'' ''_blank'', NA ''startIcon'' (El ''GitHubIcon'' [] [])]
               [Txt ''GitHub'']],
          El ''div'' []
            [El ''div'' []
              [El ''div'' [] [], El ''div'' [] [], El ''div'' [] [], El ''Typography'' [] [Txt ''Compatible with Redis protocol'']]]]]"

definition hm_hero :: "home_page \<Rightarrow> hm_act view" where
  "hm_hero s =
     El ''section'' []
       [hm_hero_backdrop,
        El ''Container'' []
          [El ''Grid'' []
             [hm_hero_text,
              El ''Grid'' []
                [El ''Box'' []
                  [El ''div'' [] [],
                   El ''div'' []
                     [hm_terminal s,
                      El ''div'' [] [El ''Image'' [SA ''src'' ''mainImage'', SA ''alt'' ''Kvrocks Logo''] []]]]]],
           El ''div'' []
             [El ''div'' []
               [El ''Typography'' [] [Txt ''Scroll to explore''],
                El ''svg'' [] [El ''path'' [SA ''d'' ''M12 5V19M12 19L19 12M12 19L5 12''] []]]]]]"

definition hm_features :: "hm_act view" where
  "hm_features =
     El ''section'' []
       [El ''div'' [] [El ''div'' [] []],
        El ''Container'' []
          [El ''Box'' []
             [El ''div'' [] [Txt ''Powerful Features''],
              El ''Typography'' [] [Txt ''Why Choose Kvrocks?''],
              El ''div'' [] [El ''Typography'' []
                [Txt ''Apache Kvrocks offers powerful capabilities that make it an excellent choice for your database needs'']]],
           El ''Grid'' [] (map (\<lambda>(index, title, description, icon).
             El ''Grid'' [VA ''key'' (JNat index)]
               [El ''Card'' []
                 [El ''CardContent'' []
                   [El ''div'' [] [El icon [] []], El ''Typography'' [] [Txt title], El ''Typography'' [] [Txt description]]]])
             (indexed features))]]"

definition hm_benefits :: "hm_act view" where
  "hm_benefits =
     El ''Grid'' []
       [El ''Box'' []
         [El ''Typography'' [] [Txt ''Simplified Management''],
          El ''div'' [] [],
          El ''Typography'' []
            [Txt ''Kvrocks Controller provides a web management interface for Apache Kvrocks clusters, enabling efficient distribution, monitoring, and maintenance of your Redis compatible database infrastructure.''],
          El ''div'' [] [],
          El ''div'' [] (map (\<lambda>(index, title, description, icon).
            El ''div'' [VA ''key'' (JNat index)]
              [El ''div'' [] [El icon [] []],
               El ''div'' [] [El ''Typography'' [] [Txt title], El ''Typography'' [] [Txt description]]]) (indexed benefits))]]"

definition hm_session :: "string list" where
  \<comment> \<open>The lines of the fixed terminal.\<close>
  "hm_session =
     [''$ redis-cli -p 6666'', ''127.0.0.1:6666> SET mykey \"Hello Kvrocks\"'', ''OK'', ''127.0.0.1:6666> GET mykey'',
      ''\"Hello Kvrocks\"'', ''127.0.0.1:6666> INFO'', ''# Server'', ''redis_version:6.0.0'', ''kvrocks_version:2.0.0'',
      ''127.0.0.1:6666> KEYS *'', ''1) \"mykey\"'', ''127.0.0.1:6666> _'']"

definition hm_about :: "hm_act view" where
  "hm_about =
     El ''section'' []
       [El ''div'' []
          [El ''svg'' []
            [El ''defs'' [] [El ''pattern'' [SA ''id'' ''circlePattern''] [El ''circle'' [] []]],
             El ''rect'' [SA ''fill'' ''url(#circlePattern)''] []]],
        El ''Container'' []
          [El ''Box'' [] [El ''div'' [] [Txt ''Powerful Management''], El ''Typography'' [] [Txt ''About Kvrocks Controller'']],
           El ''Card'' []
             [El ''CardContent'' []
               [El ''Grid'' []
                 [hm_benefits,
                  El ''Grid'' []
                    [El ''Box'' []
                      [El ''div'' []
                         [El ''div'' [] [El ''div'' [] [], El ''div'' [] [], El ''div'' [] []],
                          El ''div'' [] [El ''TerminalIcon'' [] [], Txt ''Terminal'']],
                       El ''div'' [] [El ''div'' [] (map (\<lambda>line. El ''div'' [] [Txt line]) hm_session), El ''div'' [] []],
                       El ''div'' []
                         [El ''Typography'' [] [Txt ''Compatible with Redis protocol''],
                          El ''Chip'' [NA ''icon'' (El ''CheckCircleOutlineIcon'' [] []), SA ''label'' ''Ready''] []]]]]]]]]"

definition hm_resources :: "hm_act view" where
  "hm_resources =
     El ''section'' []
       [El ''div'' [] [El ''div'' [] []],
        El ''Container'' []
          [El ''Box'' []
             [El ''Typography'' [] [Txt ''Resources''],
              El ''div'' [] [El ''Typography'' []
                [Txt ''Explore documentation and source code to get the most out of Kvrocks Controller'']]],
           El ''Grid'' [] (map (\<lambda>(index, title, description, icon, url).
             El ''Grid'' [VA ''key'' (JNat index)]
               [El ''Link'' [SA ''href'' url, SA ''target'' ''_blank'', SA ''rel'' ''noopener noreferrer'']
                 [El ''Card'' []
                   [El ''CardContent'' []
                     [El ''div'' [] [El icon [] []],
                      El ''Typography'' [] [Txt title, El ''LaunchIcon'' [] []],
                      El ''Typography'' [] [Txt description]]]]]) (indexed resources))]]"

definition hm_call :: "hm_act view" where
  "hm_call =
     El ''section'' []
       [El ''div'' [] [El ''div'' [] [], El ''div'' [] [], El ''div'' [] []],
        El ''Container'' []
          [El ''Card'' []
            [El ''CardContent'' []
              [El ''Typography'' [] [Txt ''Ready to experience the power of Apache Kvrocks?''],
               El ''div'' [] [El ''Typography'' []
                 [Txt ''Start managing your distributed database infrastructure with our intuitive and powerful controller interface.'']],
               El ''Button'' [On ''onClick'' HmGetStarted, NA ''endIcon'' (El ''ArrowForwardIcon'' [] [])] [Txt ''Get Started Now'']]]]]"

definition hm_view :: "home_page \<Rightarrow> hm_act view" where
  "hm_view s = El ''div'' [] [hm_hero s, hm_features, hm_about, hm_resources, hm_call]"

section \<open>The terminal\<close>

text \<open>
  After \<open>n\<close> ticks of the interval. The remaining ticks of a state, and the position of the cursor that
  belongs to what has been typed.
\<close>

definition typed :: "nat \<Rightarrow> home_page" where
  "typed n = (typeNextChar ^^ n) hm_init"

definition line_ticks :: "string \<Rightarrow> nat" where
  "line_ticks text = length text + 2"

definition typing_ticks :: nat where
  "typing_ticks = sum_list (map line_ticks terminalLines)"

definition ticks_left :: "home_page \<Rightarrow> nat" where
  "ticks_left s = sum_list (map line_ticks (drop (hm_lineIndex s) terminalLines)) - hm_charIndex s"

definition typing_inv :: "home_page \<Rightarrow> bool" where
  "typing_inv s \<longleftrightarrow>
     hm_lineIndex s \<le> length terminalLines
     \<and> (hm_lineIndex s < length terminalLines \<longrightarrow> hm_charIndex s \<le> length (terminalLines ! hm_lineIndex s) + 1)
     \<and> (hm_lineIndex s = length terminalLines \<longrightarrow> hm_charIndex s = 0)
     \<and> hm_cursorPosition s =
         (if 0 < hm_charIndex s then (hm_charIndex s - 1, hm_lineIndex s)
          else if 0 < hm_lineIndex s then (length (terminalLines ! (hm_lineIndex s - 1)), hm_lineIndex s - 1)
          else (0, 0))"

lemma typing_inv_init: "typing_inv hm_init"
  by (simp add: typing_inv_def hm_init_def terminalLines_def)

lemma typing_inv_step: "typing_inv s \<Longrightarrow> typing_inv (typeNextChar s)"
  by (auto simp: typing_inv_def typeNextChar_def Let_def)

lemma typed_inv: "typing_inv (typed n)"
  unfolding typed_def by (induction n) (simp_all add: typing_inv_init typing_inv_step)

lemma ticks_left_step:
  assumes "typing_inv s"
  shows "ticks_left (typeNextChar s) = ticks_left s - 1"
proof (cases "hm_lineIndex s < length terminalLines")
  case True
  then have d: "drop (hm_lineIndex s) terminalLines = terminalLines ! hm_lineIndex s # drop (Suc (hm_lineIndex s)) terminalLines"
    by (simp add: Cons_nth_drop_Suc)
  show ?thesis
    using True assms by (auto simp: typeNextChar_def ticks_left_def d line_ticks_def typing_inv_def Let_def)
qed (use assms in \<open>simp add: typeNextChar_def ticks_left_def typing_inv_def\<close>)

lemma ticks_left_typed: "ticks_left (typed n) = typing_ticks - n"
proof (induction n)
  case 0
  show ?case by (simp add: typed_def hm_init_def ticks_left_def typing_ticks_def)
next
  case (Suc n)
  then show ?case using ticks_left_step [OF typed_inv [of n]] by (simp add: typed_def)
qed

lemma ticks_left_zero:
  assumes "typing_inv s"
  shows "ticks_left s = 0 \<longleftrightarrow> hm_lineIndex s = length terminalLines"
proof (cases "hm_lineIndex s < length terminalLines")
  case True
  then have d: "drop (hm_lineIndex s) terminalLines = terminalLines ! hm_lineIndex s # drop (Suc (hm_lineIndex s)) terminalLines"
    by (simp add: Cons_nth_drop_Suc)
  show ?thesis using True assms by (auto simp: ticks_left_def d line_ticks_def typing_inv_def)
qed (use assms in \<open>auto simp: ticks_left_def typing_inv_def\<close>)

definition screen :: "home_page \<Rightarrow> string list" where
  \<comment> \<open>The lines the terminal shows.\<close>
  "screen s = map (\<lambda>(index, text). typed_text (hm_cursorPosition s) index text) (indexed terminalLines)"

text \<open>
  The terminal of the start page types all its lines and then rests. At every tick the cursor is
  within a line and every line of the screen is a prefix of its text; after the number of ticks that the
  lines take, and at no earlier one, the last line is done, and from then on the screen shows all the lines.
\<close>
theorem terminal_types_all:
  "(let (x, y) = hm_cursorPosition (typed n) in y < length terminalLines \<and> x \<le> length (terminalLines ! y))
   \<and> list_all2 prefix (screen (typed n)) terminalLines
   \<and> (hm_lineIndex (typed n) = length terminalLines \<longleftrightarrow> typing_ticks \<le> n)
   \<and> (typing_ticks \<le> n \<longrightarrow> screen (typed n) = terminalLines)"
proof -
  have inv: "typing_inv (typed n)" by (rule typed_inv)
  have len: "0 < length terminalLines" by (simp add: terminalLines_def)
  obtain x y where c: "hm_cursorPosition (typed n) = (x, y)" by fastforce
  have bounds: "y < length terminalLines \<and> x \<le> length (terminalLines ! y)"
    using inv c len by (auto simp: typing_inv_def split: if_splits)
  have done_iff: "hm_lineIndex (typed n) = length terminalLines \<longleftrightarrow> typing_ticks \<le> n"
    using ticks_left_zero [OF inv] ticks_left_typed [of n] by simp
  have "list_all2 prefix (screen (typed n)) terminalLines"
    by (auto simp: screen_def list_all2_conv_all_nth typed_text_def c take_is_prefix)
  moreover have "screen (typed n) = terminalLines" if "typing_ticks \<le> n"
  proof (rule nth_equalityI)
    have "(x, y) = (length (terminalLines ! (length terminalLines - 1)), length terminalLines - 1)"
      using inv c len that done_iff by (simp add: typing_inv_def)
    then show "i < length (screen (typed n)) \<Longrightarrow> screen (typed n) ! i = terminalLines ! i" for i
      by (auto simp: screen_def typed_text_def c)
  qed (simp add: screen_def)
  ultimately show ?thesis using bounds done_iff by (simp add: c)
qed

theorem terminal_types_all_witness: "screen (typed typing_ticks) = terminalLines"
  using terminal_types_all [of typing_ticks] by simp

lemma scroll_follows:
  assumes "hm_prevScrollY s = hm_scrollY s"
  shows "hm_prevScrollY (hm_handleScroll y s) = hm_scrollY (hm_handleScroll y s) \<and> abs (y - hm_scrollY (hm_handleScroll y s)) \<le> 5"
  using assms by (simp add: hm_handleScroll_def)

end
