(* ===== verification/Spec2Isabelle.thy ===== *)
theory Spec2Isabelle
  imports EndToEnd NodePage ShardPage NamespacePage NamespacesPage Sidebar Breadcrumb Shell Home
begin

text \<open>
  Verification of the controller of kvrocks clusters: its web interface (\<^verbatim>\<open>src/webui\<close>, TypeScript and React)
  and the server that it talks to (\<^verbatim>\<open>src/store\<close>, \<^verbatim>\<open>src/server\<close> and \<^verbatim>\<open>src/controller\<close>, Go).

  \<^bold>\<open>The program.\<close> A cluster is a list of shards; a shard has nodes, one of them the master, and owns ranges of
  the 16384 slots. The store keeps namespaces and clusters as keys and values of a storage engine. The HTTP
  server reads and changes them on request. For each cluster the leader runs a checker, which probes the
  nodes, promotes a new master when one does not answer, and follows the migrations of slots. The web
  interface is a set of pages and dialogs over a client of the HTTP server.

  \<^bold>\<open>The language.\<close> \<open>Prelude\<close> holds the rule collections and the laws of stable sorting; \<open>JSString\<close>, \<open>JSValue\<close>
  and \<open>JSONText\<close> the strings, numbers, dynamically typed values and JSON texts of JavaScript; \<open>View\<close> the
  rendered views. Of Go, \<open>Nodes\<close> holds results with errors and panics (\<open>go\<close>), wrapping of 64-bit integers,
  number parsing and the decoding of JSON into structs.

  \<^bold>\<open>The controller.\<close>
  \<^item> \<open>SlotStore\<close> (\<^verbatim>\<open>store/slot.go\<close>): slot ranges. Adding and removing a range are exact on the sets of slots and
    keep the ranges ascending with gaps; the texts parse back.
  \<^item> \<open>Nodes\<close> (\<^verbatim>\<open>store/cluster_node.go\<close>): nodes, the commands they get and the parsing of their answers, which are
    the parameter \<open>kvrocks\<close>.
  \<^item> \<open>Topology\<close> (\<^verbatim>\<open>store/cluster_shard.go\<close>, \<^verbatim>\<open>store/cluster.go\<close>): every operation on shards and clusters. \<open>Partition\<close>
    holds its theorems: each slot has exactly one owner and each shard one master through every operation, which
    migrations are accepted and what they change, which replica a failover promotes, what a new cluster is.
  \<^item> \<open>Store\<close> (\<^verbatim>\<open>store/store.go\<close>, \<^verbatim>\<open>helper.go\<close>, \<^verbatim>\<open>event.go\<close>, \<^verbatim>\<open>engine/\<close>): the store over the locale \<open>engine_contract\<close>, which the
    engine in memory satisfies. It refines a set of namespaces and a map of clusters, and no update is lost
    however readers and writers interleave.
  \<^item> \<open>Server\<close> (\<^verbatim>\<open>server/\<close>): responses, middleware, handlers and routes; \<open>serve\<close> takes a request and a state of the
    store to the answer and the next state. Every request keeps the stored clusters well formed.
  \<^item> \<open>Checker\<close> (\<^verbatim>\<open>controller/cluster.go\<close>) and \<open>Controller\<close> (\<^verbatim>\<open>controller/controller.go\<close>): probes, failovers, migrations,
    and which checkers run. \<open>system\<close> interleaves requests with the steps of checkers that hold stale copies;
    \<open>term_step\<close> interleaves changes of the store with changes of the leader.

  \<^bold>\<open>The web interface.\<close> Each component has a record for its state, one function per handler, and a function to
  its view. A handler that awaits an answer is split there: the part before the request, and the part that gets
  the answer. A step relation interleaves them with the user's clicks on what the view shows; its invariants
  are proved by rule induction.
  \<^item> \<open>Api\<close> (\<^verbatim>\<open>lib/api.ts\<close>): the client. The HTTP library is the parameter \<open>ax\<close>.
  \<^item> \<open>FormDialog\<close> and \<open>FormCreation\<close> (\<^verbatim>\<open>ui/formDialog.tsx\<close>, \<^verbatim>\<open>ui/formCreation.tsx\<close>), \<open>AsyncDialog\<close> with \<open>MigrationDialog\<close> and
    \<open>FailoverDialog\<close>: the forms and dialogs. At most one request is outstanding, and what is sent is what was typed.
  \<^item> \<open>PageParts\<close>, \<open>ClusterPage\<close>, \<open>ShardPage\<close>, \<open>NodePage\<close>, \<open>NamespacePage\<close>, \<open>NamespacesPage\<close>, \<open>Home\<close>: the pages. Their rows
    are the matching entries in the chosen order, their cards count them, and they come to rest.
  \<^item> \<open>SidebarItem\<close>, \<open>Sidebar\<close>, \<open>Breadcrumb\<close>, \<open>Shell\<close>, \<open>Utils\<close>: navigation, theme, layouts and formatting.

  \<^bold>\<open>Together.\<close> \<open>EndToEnd\<close> replaces the parameter \<open>ax\<close> by the model of the server over a store: the namespace page
  shows what the store holds, the migration form moves the slot in the store, and a cluster created in the
  browser is the cluster in the store. This theory relates the pages with one another: which addresses their
  links lead to, that a sidebar leads to the page of the right node, and that two pages count alike.

  \<^bold>\<open>Interfaces.\<close> The locales are interpreted on the model's own definitions: \<open>engine_contract\<close> on the engine in
  memory, \<open>server\<close> on the server over it, \<open>slice_sorting\<close> on a sort by the first slot, \<open>api_mutation\<close> and \<open>api_fetch\<close> on
  every function of the client, \<open>js_comparator\<close> and \<open>list_page\<close> on the list pages, \<open>async_dialog\<close> on the two dialogs,
  \<open>settling_page\<close> on the pages with outstanding requests.

  \<^bold>\<open>Parameters.\<close> What is not in the repository is an argument: the HTTP library (outside \<open>EndToEnd\<close>), the answers
  of the nodes, the engine, random numbers and time for new nodes, the comparison of strings by locale, the
  sort of the Go library (any that sorts), \<^verbatim>\<open>notFound\<close> of the framework, the locale printing of dates.

  \<^bold>\<open>Bounds.\<close> All functions are total. The JSON parser has fuel, twice the length of the text plus two; it is
  shown to be enough for every printed text. \<open>slot_loop\<close>, which expands a range, ends by a measure. The
  version of a cluster and the other integers of the server wrap at 64 bits. Numbers of the web interface are
  rationals with the infinities and NaN; the source computes with integers below \<open>2 ^ 53\<close>.

  \<^bold>\<open>Concurrency.\<close> A handler of the server and an operation of the store are one step each. The store holds a lock
  per cluster during its operations. A handler reads, changes and writes without one; that two of them cannot
  overwrite one another is \<open>no_lost_update\<close>, whose steps are the single reads and writes. Probes of one round run
  one after the other in any order.

  \<^bold>\<open>Not modelled.\<close> The engines etcd, ZooKeeper, Consul and Raft only call third-party clients. The command-line
  client, process start, configuration, logging and metrics are I/O of the Go processes. Profiling and the
  administration of Raft peers do not touch clusters. \<^verbatim>\<open>formatBytes\<close> goes through floating-point logarithms. The
  configuration of the build tools has no behaviour, and attributes that only style an element are left out of
  the views.
\<close>

section \<open>Links\<close>

definition is_route :: "string \<Rightarrow> bool" where
  \<comment> \<open>The addresses that have a page: the directories under \<^verbatim>\<open>webui/src/app\<close> with a \<^verbatim>\<open>page.tsx\<close>.\<close>
  "is_route path \<longleftrightarrow> startsWith path ''/'' \<and>
     (case pathSegments path of
        [] \<Rightarrow> True
      | [a] \<Rightarrow> a = ''namespaces''
      | [a, _] \<Rightarrow> a = ''namespaces''
      | [a, _, b, _] \<Rightarrow> a = ''namespaces'' \<and> b = ''clusters''
      | [a, _, b, _, d, _] \<Rightarrow> a = ''namespaces'' \<and> b = ''clusters'' \<and> d = ''shards''
      | [a, _, b, _, d, _, e, _] \<Rightarrow> a = ''namespaces'' \<and> b = ''clusters'' \<and> d = ''shards'' \<and> e = ''nodes''
      | _ \<Rightarrow> False)"

definition name_ok :: "string \<Rightarrow> bool" where
  "name_ok s \<longleftrightarrow> s \<noteq> [] \<and> CHR ''/'' \<notin> set s"

lemma name_ok_number [simp]: "name_ok (show_nat n)"
  using show_nat_digits [of "CHR ''/''" n] by (auto simp: name_ok_def is_digit_def)

lemma is_route_url_path:
  assumes "\<forall>s\<in>set segs. name_ok s" "segs \<noteq> []"
  shows "pathSegments (url_path segs) = segs" "startsWith (url_path segs) ''/''"
proof -
  show "pathSegments (url_path segs) = segs" by (rule pathSegments_path) (use assms in \<open>auto simp: name_ok_def\<close>)
  show "startsWith (url_path segs) ''/''" using assms(2) by (cases segs) (simp_all add: startsWith_def)
qed

lemma hrefs_are_routes:
  assumes "name_ok ns"
  shows "is_route (namespace_href ns)"
    and "name_ok c \<Longrightarrow> is_route (cluster_href ns c)"
    and "name_ok c \<Longrightarrow> name_ok sh \<Longrightarrow> is_route (shard_href ns c sh)"
    and "name_ok c \<Longrightarrow> name_ok sh \<Longrightarrow> name_ok n \<Longrightarrow> is_route (node_href ns c sh n)"
proof -
  have ok: "name_ok ''namespaces''" "name_ok ''clusters''" "name_ok ''shards''" "name_ok ''nodes''" by (simp_all add: name_ok_def)
  have "namespace_href ns = url_path [''namespaces'', ns]" by (simp add: href_defs)
  then show "is_route (namespace_href ns)"
    using is_route_url_path [of "[''namespaces'', ns]"] assms ok by (simp add: is_route_def del: url_path_simps)
  show "is_route (cluster_href ns c)" if "name_ok c"
  proof -
    have "cluster_href ns c = url_path [''namespaces'', ns, ''clusters'', c]" by (simp add: href_defs)
    then show ?thesis
      using is_route_url_path [of "[''namespaces'', ns, ''clusters'', c]"] assms ok that by (simp add: is_route_def del: url_path_simps)
  qed
  show "is_route (shard_href ns c sh)" if "name_ok c" "name_ok sh"
  proof -
    have "shard_href ns c sh = url_path [''namespaces'', ns, ''clusters'', c, ''shards'', sh]" by (simp add: href_defs)
    then show ?thesis
      using is_route_url_path [of "[''namespaces'', ns, ''clusters'', c, ''shards'', sh]"] assms ok that
      by (simp add: is_route_def del: url_path_simps)
  qed
  show "is_route (node_href ns c sh n)" if "name_ok c" "name_ok sh" "name_ok n"
  proof -
    have "node_href ns c sh n = url_path [''namespaces'', ns, ''clusters'', c, ''shards'', sh, ''nodes'', n]" by (simp add: href_defs)
    then show ?thesis
      using is_route_url_path [of "[''namespaces'', ns, ''clusters'', c, ''shards'', sh, ''nodes'', n]"] assms ok that
      by (simp add: is_route_def del: url_path_simps)
  qed
qed

lemma loading_hrefs:
  "nss_view compare a = Inr v \<Longrightarrow> nss_loading a \<Longrightarrow> all_hrefs v = []"
  "nsp_view compare ns b = Inr w \<Longrightarrow> nsp_loading b \<Longrightarrow> all_hrefs w = []"
  "cp_view ns c d = Some x \<Longrightarrow> cp_loading d \<Longrightarrow> all_hrefs x = []"
  "sp_view t ns c sh e = Inr y \<Longrightarrow> sp_loading e \<Longrightarrow> all_hrefs y = []"
  by (auto simp: nss_view_def nsp_view_def cp_view_def sp_view_def)

lemma namespaces_page_routes:
  assumes "nss_view compare s = Inr v" "\<forall>d\<in>set (nss_namespacesData s). name_ok (namespace_name d)" "h \<in> set (all_hrefs v)"
  shows "is_route h"
proof (cases "nss_loading s")
  case False
  obtain shown where f: "filteredAndSortedNamespaces compare s = Inr shown" using assms(1) by (auto simp: nss_view_def rbind_eq_Inr)
  then have "set shown \<subseteq> set (nss_namespacesData s)" by (auto simp: filteredAndSortedNamespaces_def listed_def)
  then show ?thesis using assms nss_view_rows(1) [OF assms(1) False f] hrefs_are_routes(1) by auto
qed (use assms loading_hrefs(1) in fastforce)

lemma namespace_page_routes:
  assumes "nsp_view compare ns s = Inr v" "name_ok ns" "\<forall>d\<in>set (nsp_clusterData s). name_ok (cluster_name d)" "h \<in> set (all_hrefs v)"
  shows "is_route h"
proof (cases "nsp_loading s")
  case False
  obtain shown where f: "filteredAndSortedClusters compare s = Inr shown" using assms(1) by (auto simp: nsp_view_def rbind_eq_Inr)
  then have "set shown \<subseteq> set (nsp_clusterData s)" by (auto simp: filteredAndSortedClusters_def listed_def)
  then show ?thesis using assms nsp_view_rows(1) [OF assms(1) False f] hrefs_are_routes(2) by auto
qed (use assms loading_hrefs(2) in fastforce)

lemma cluster_page_routes:
  assumes "cp_view ns c s = Some v" "name_ok ns" "name_ok c" "h \<in> set (all_hrefs v)"
  shows "is_route h"
proof (cases "cp_loading s")
  case False
  then show ?thesis using assms cp_view_hrefs [OF assms(1) False] hrefs_are_routes(3) by auto
qed (use assms loading_hrefs(3) in fastforce)

lemma shard_page_routes:
  assumes "sp_view t ns c sh s = Inr v" "name_ok ns" "name_ok c" "name_ok sh" "h \<in> set (all_hrefs v)"
  shows "is_route h"
proof (cases "sp_loading s")
  case False
  then obtain nodes where n: "sp_nodes s = Inr nodes" using assms(1) by (auto simp: sp_view_def rbind_eq_Inr)
  show ?thesis using assms sp_view_rows(1) [OF assms(1) False n] hrefs_are_routes(4) by auto
qed (use assms loading_hrefs(4) in fastforce)



text \<open>The links of the footer that stay on the site do not lead to pages.\<close>

theorem footer_links_dead:
  "filter (\<lambda>h. startsWith h ''/'' \<and> \<not> is_route h) (hrefs (Footer y)) =
     [''/docs/getting-started'', ''/docs/supported-commands'', ''/community/contributing'']"
  by (simp add: view_simps indexed_def upt_rec startsWith_def is_route_def pathSegments_def)

section \<open>From a list to a node\<close>

lemma rmap_hrefs:
  assumes "\<And>x. x \<in> set xs \<Longrightarrow> \<exists>y. f x = Inr y \<and> hrefs y = [g x]"
  shows "\<exists>ys. rmap f xs = Inr ys \<and> concat (map hrefs ys) = map g xs"
  using assms by (induction xs) fastforce+

lemma sidebar_render_hrefs:
  assumes "sb_items s = JArr xs" "hrefs creation = []"
    and "\<And>i x. x \<in> set xs \<Longrightarrow> \<exists>y. link (i, x) = Inr y \<and> hrefs y = [g i]"
  shows "\<exists>v. sidebar_render creation title icon link s = Inr v \<and> hrefs v = map g [0..<length xs]"
proof -
  obtain links where "rmap link (indexed xs) = Inr links" "concat (map hrefs links) = map (\<lambda>p. g (fst p)) (indexed xs)"
    using rmap_hrefs [of "indexed xs" link "\<lambda>p. g (fst p)"] assms(3) by (force simp: in_set_indexed)
  then show ?thesis
    using assms(1,2) by (auto simp: sidebar_render_def js_length_def sidebar_frame_def SidebarHeader_def when_view_def
      map_indexed_fst [where f = g] split: option.splits)
qed

lemma NodeSidebar_links:
  assumes "sb_items s = JArr nodes" "\<forall>n\<in>set nodes. truthy n"
  shows "\<exists>v. NodeSidebar_view ns c sh s = Inr v \<and> hrefs v = map (\<lambda>i. node_href ns c sh (show_nat i)) [0..<length nodes]"
proof -
  have "get n k = Inr (js_prop n k)" if "n \<in> set nodes" for n k using assms(2) that by (cases n) (auto simp: get_def)
  then show ?thesis unfolding NodeSidebar_view_def by (intro sidebar_render_hrefs assms(1)) simp_all
qed

text \<open>
  C31: The entries of the node sidebar lead to the nodes they name. When the server answers with the nodes
  of the shard, the sidebar has one link per node, in order, and the page that the i-th link leads to
  shows the i-th node, with a button that copies its id.
\<close>
theorem node_sidebar_leads_to_nodes:
  assumes "listNodes ax ns c sh = Inr (JArr nodes)" "\<forall>n\<in>set nodes. truthy n"
  shows "\<exists>v. NodeSidebar_view ns c sh (NodeSidebar_fetch ax ns c sh sb_init) = Inr v
      \<and> hrefs v = map (\<lambda>i. node_href ns c sh (show_nat i)) [0..<length nodes]
      \<and> (\<forall>i<length nodes. currentNode (show_nat i) (fst (np_fetchData ax ns c sh np_init)) = nodes ! i
          \<and> NpCopy (js_prop (nodes ! i) ''id'') ''id'' \<in> set (all_enabled (np_view loc ns c sh (show_nat i) (fst (np_fetchData ax ns c sh np_init)))))"
proof -
  have items: "sb_items (NodeSidebar_fetch ax ns c sh sb_init) = JArr nodes"
    using assms(1) by (simp add: NodeSidebar_fetch_def sb_fetched_def sb_init_def)
  have page: "fst (np_fetchData ax ns c sh np_init) = np_init\<lparr>np_nodeData := JArr nodes, np_loading := False\<rparr>"
    using assms(1) by (simp add: np_fetchData_def np_fetch_end_def)
  have cur: "currentNode (show_nat i) (fst (np_fetchData ax ns c sh np_init)) = nodes ! i" if "i < length nodes" for i
    using that currentNode_arr [of "fst (np_fetchData ax ns c sh np_init)" nodes i] by (simp add: page js_elem_def)
  have copy: "NpCopy (js_prop (nodes ! i) ''id'') ''id'' \<in> set (all_enabled (np_view loc ns c sh (show_nat i) (fst (np_fetchData ax ns c sh np_init))))"
    if "i < length nodes" for i
    unfolding np_view_enabled cur [OF that] using assms(2) that by (simp add: page copy_fields_def)
  show ?thesis using NodeSidebar_links [OF items assms(2)] cur copy by blast
qed

theorem node_sidebar_leads_to_nodes_witness:
  "let ax = (\<lambda>_. Inr (JObj [(''data'', JObj [(''nodes'', JArr [JObj [(''id'', JStr ''x'')]])])])) in
   \<exists>v. NodeSidebar_view ''n'' ''c'' ''0'' (NodeSidebar_fetch ax ''n'' ''c'' ''0'' sb_init) = Inr v
     \<and> hrefs v = [node_href ''n'' ''c'' ''0'' (show_nat 0)]"
  using node_sidebar_leads_to_nodes [of "\<lambda>_. Inr (JObj [(''data'', JObj [(''nodes'', JArr [JObj [(''id'', JStr ''x'')]])])])" "''n''" "''c''" "''0''"
      "[JObj [(''id'', JStr ''x'')]]"]
  by (auto simp: api_simps js_or_def)

section \<open>Two pages, one count\<close>

lemma node_loop_served:
  "list_all (\<lambda>i. listNodes ax ns name (show_nat i) = Inr (JArr (f i))) is \<Longrightarrow>
   node_loop ax ns name is a b = Inr (a + sum_list (map (\<lambda>i. length (f i)) is), b + sum_list (map (\<lambda>i. length (f i)) is))"
  by (induction "is" arbitrary: a b) auto

lemma cluster_loop_served:
  assumes "list_all (\<lambda>c. listShards ax ns (cl_Name c) = Inr (JArr (map Shard_json (cl_Shards c)))) cs"
    and "list_all (\<lambda>c. list_all (\<lambda>i. listNodes ax ns (cl_Name c) (show_nat i) = Inr (JArr (map ClusterNode_MarshalJSON (shard_Nodes (cl_Shards c ! i))))) [0..<length (cl_Shards c)]) cs"
  shows "\<exists>b2 c2. cluster_loop ax ns (map (\<lambda>c. JStr (cl_Name c)) cs) sh nd b c =
    Inr (sh + sum_list (map (\<lambda>c. length (cl_Shards c)) cs), nd + sum_list (map node_total cs), b2, c2)"
  using assms
proof (induction cs arbitrary: sh nd b c)
  case (Cons k cs)
  have "map (\<lambda>i. length (shard_Nodes (cl_Shards k ! i))) [0..<length (cl_Shards k)] = map (\<lambda>sh. length (shard_Nodes sh)) (cl_Shards k)"
    by (rule nth_equalityI) simp_all
  then have "node_loop ax ns (cl_Name k) [0..<length (cl_Shards k)] nd c = Inr (nd + node_total k, c + node_total k)"
    using node_loop_served [of ax ns "cl_Name k" "\<lambda>i. map ClusterNode_MarshalJSON (shard_Nodes (cl_Shards k ! i))"] Cons.prems by (simp add: node_total_def)
  then show ?case
    using Cons.prems Cons.IH [of "sh + length (cl_Shards k)" "nd + node_total k" "b + length (cl_Shards k)" "c + node_total k"]
    by (simp add: Let_def add.assoc)
qed simp

text \<open>
  C22: The namespaces page and the namespace page count the same. They compute the numbers of clusters,
  shards and nodes of a namespace in different ways, one with running totals over the lists of shards, the
  other from the cluster objects; when the server answers both with the same clusters, the row of the
  namespace shows what the cards of its page show.
\<close>
theorem namespace_counts_agree:
  assumes "serves ax ns cs" "list_all (\<lambda>c. listShards ax ns (cl_Name c) = Inr (JArr (map Shard_json (cl_Shards c)))) cs"
    and "nss_load ax = Inr (ds, n)" "d \<in> set ds" "nsd_name d = JStr ns"
  shows "\<exists>rows effs. nsp_load ax ns =
    Inr (rows, \<lparr>nc_clusters = nsd_clusterCount d, nc_shards = nsd_shardCount d, nc_nodes = nsd_nodeCount d\<rparr>, effs)"
proof -
  obtain names a b c where "namespace_loop ax names 0 0 0 [] = Inr (ds, a, b, c)"
    using assms(3) by (auto simp: nss_load_def)
  from namespace_loop_rows [OF this, of d] assms(4,5) obtain v xs b1 c1 b2 c2
    where v: "fetchClusters ax ns = Inr v" "iterate v = Inr xs" "nsd_clusterCount d = length xs"
      and l: "cluster_loop ax ns xs 0 0 b1 c1 = Inr (nsd_shardCount d, nsd_nodeCount d, b2, c2)"
    by auto
  have xs: "xs = map (\<lambda>c. JStr (cl_Name c)) cs" using assms(1) v by (simp add: serves_def)
  have "list_all (\<lambda>c. list_all (\<lambda>i. listNodes ax ns (cl_Name c) (show_nat i) = Inr (JArr (map ClusterNode_MarshalJSON (shard_Nodes (cl_Shards c ! i))))) [0..<length (cl_Shards c)]) cs"
    using assms(1) by (auto simp: serves_def list_all_iff)
  from cluster_loop_served [OF assms(2) this, of 0 0 b1 c1] l
  have "nsd_shardCount d = sum_list (map (\<lambda>c. length (cl_Shards c)) cs)" "nsd_nodeCount d = sum_list (map node_total cs)"
    unfolding xs by auto
  moreover have "nsd_clusterCount d = length cs" using v(3) by (simp add: xs)
  ultimately show ?thesis using nsp_load_served [OF assms(1)] by auto
qed

theorem namespace_counts_agree_witness:
  "\<exists>d n rows effs. nss_load sample_server = Inr ([d], n) \<and> nsp_load sample_server ''n'' =
     Inr (rows, \<lparr>nc_clusters = nsd_clusterCount d, nc_shards = nsd_shardCount d, nc_nodes = nsd_nodeCount d\<rparr>, effs)"
proof -
  have c: "fetchClusters sample_server ''n'' = Inr (JArr [JStr ''c''])"
    using sample_server_serves(1) by (simp add: serves_def sample_cluster_def)
  have n: "listNodes sample_server ''n'' ''c'' (show_nat 0) = Inr (JArr [ClusterNode_MarshalJSON sample_node])"
    using sample_server_serves(1) by (simp add: serves_def sample_cluster_def)
  have "listShards sample_server ''n'' ''c'' = Inr (JArr (map Shard_json (cl_Shards sample_cluster)))"
    by (simp add: sample_server_def api_simps Let_def)
  then have s: "list_all (\<lambda>c. listShards sample_server ''n'' (cl_Name c) = Inr (JArr (map Shard_json (cl_Shards c)))) [sample_cluster]"
    and s1: "listShards sample_server ''n'' ''c'' = Inr (JArr (map Shard_json (cl_Shards sample_cluster)))"
    by (simp_all add: sample_cluster_def)
  obtain d m where d: "nss_load sample_server = Inr ([d], m)" "nsd_name d = JStr ''n''"
    by (simp add: nss_load_def sample_server_serves(2) c s1 sample_cluster_def n)
  from namespace_counts_agree [OF sample_server_serves(1) s d(1) _ d(2)] d(1) show ?thesis by auto
qed

end
